(* ===== verification/Prelude.thy ===== *)
theory Prelude
  imports Main "HOL-Library.Word"
begin

text \<open>
  The shared base of the development: the result of a Rust call (a value, an error
  returned with \<open>?\<close>, or a panic), programs over a state with the combinators the
  translation uses, the rules that carry frame conditions, invariants and freedom from
  panics through those combinators, decimal printing, and lemmas on lists and
  association lists that several components use.
\<close>

named_theorems unch \<open>programs that leave an observation of the state unchanged\<close>
named_theorems keeps \<open>programs that keep an invariant of the state\<close>
named_theorems okays \<open>programs that keep an invariant on success and panic only as allowed\<close>
named_theorems prog_eval \<open>evaluation of the program combinators on a state\<close>

section \<open>Results and programs\<close>

text \<open>
  \<open>Ok\<close> and \<open>Err\<close> are the two sides of the source's \<open>Result\<close>, an error being its
  message. \<open>Panic\<close> is a call of \<open>panic!\<close>, \<open>unreachable!\<close>, \<open>assert!\<close> or a failed
  \<open>expect\<close>: it ends the process and no caller handles it.
\<close>

datatype 'a res = Ok 'a | Err string | Panic string

fun bind_res :: "'a res \<Rightarrow> ('a \<Rightarrow> 'b res) \<Rightarrow> 'b res" where
  "bind_res (Ok x) f = f x"
| "bind_res (Err e) f = Err e"
| "bind_res (Panic p) f = Panic p"

fun map_err :: "(string \<Rightarrow> string) \<Rightarrow> string + 'a \<Rightarrow> 'a res" where
  "map_err g (Inl e) = Err (g e)"
| "map_err g (Inr x) = Ok x"

fun unwrap_or_else :: "'a res \<Rightarrow> (string \<Rightarrow> 'a) \<Rightarrow> 'a res" where
  "unwrap_or_else (Ok x) g = Ok x"
| "unwrap_or_else (Err e) g = Ok (g e)"
| "unwrap_or_else (Panic p) g = Panic p"

fun is_panic :: "'a res \<Rightarrow> bool" where
  "is_panic (Panic p) = True"
| "is_panic (Ok x) = False"
| "is_panic (Err e) = False"

fun is_ok :: "'a res \<Rightarrow> bool" where
  "is_ok (Ok x) = True"
| "is_ok (Err e) = False"
| "is_ok (Panic p) = False"

lemma bind_res_Ok_iff: "bind_res r f = Ok y \<longleftrightarrow> (\<exists>x. r = Ok x \<and> f x = Ok y)"
  by (cases r) auto

lemma bind_res_Panic_iff:
  "bind_res r f = Panic p \<longleftrightarrow> r = Panic p \<or> (\<exists>x. r = Ok x \<and> f x = Panic p)"
  by (cases r) auto

lemma map_err_Ok_iff [simp]: "map_err g r = Ok y \<longleftrightarrow> r = Inr y"
  by (cases r) auto

lemma is_panic_map_err [simp]: "\<not> is_panic (map_err g r)"
  by (cases r) auto

lemma unwrap_or_else_Ok_iff:
  "unwrap_or_else r g = Ok y \<longleftrightarrow> r = Ok y \<or> (\<exists>e. r = Err e \<and> y = g e)"
  by (cases r) auto

text \<open>
  A program over the state \<open>'s\<close>. An error keeps the state reached so far, as an early
  return through \<open>?\<close> keeps the mutations made before it.
\<close>

type_synonym ('s, 'a) prog = "'s \<Rightarrow> 'a res \<times> 's"

definition ret :: "'a \<Rightarrow> ('s, 'a) prog" where
  "ret x s = (Ok x, s)"

definition fail :: "string \<Rightarrow> ('s, 'a) prog" where
  "fail e s = (Err e, s)"

definition panic :: "string \<Rightarrow> ('s, 'a) prog" where
  "panic p s = (Panic p, s)"

definition bindP :: "('s, 'a) prog \<Rightarrow> ('a \<Rightarrow> ('s, 'b) prog) \<Rightarrow> ('s, 'b) prog" where
  "bindP m f s = (case m s of
      (Ok x, t) \<Rightarrow> f x t
    | (Err e, t) \<Rightarrow> (Err e, t)
    | (Panic p, t) \<Rightarrow> (Panic p, t))"

definition thenP :: "('s, 'a) prog \<Rightarrow> ('s, 'b) prog \<Rightarrow> ('s, 'b) prog" where
  "thenP m n = bindP m (\<lambda>_. n)"

text \<open>\<open>attempt\<close> hands the \<open>Result\<close> of a call to its caller instead of returning early.\<close>

definition attempt :: "('s, 'a) prog \<Rightarrow> ('s, string + 'a) prog" where
  "attempt m s = (case m s of
      (Ok x, t) \<Rightarrow> (Ok (Inr x), t)
    | (Err e, t) \<Rightarrow> (Ok (Inl e), t)
    | (Panic p, t) \<Rightarrow> (Panic p, t))"

definition gets :: "('s \<Rightarrow> 'a) \<Rightarrow> ('s, 'a) prog" where
  "gets f s = (Ok (f s), s)"

definition modify :: "('s \<Rightarrow> 's) \<Rightarrow> ('s, unit) prog" where
  "modify f s = (Ok (), f s)"

definition lift_res :: "'a res \<Rightarrow> ('s, 'a) prog" where
  "lift_res r s = (r, s)"

definition expect :: "string \<Rightarrow> 'a option \<Rightarrow> ('s, 'a) prog" where
  "expect p x = (case x of Some y \<Rightarrow> ret y | None \<Rightarrow> panic p)"

definition guardP :: "bool \<Rightarrow> string \<Rightarrow> ('s, unit) prog" where
  "guardP b p = (if b then ret () else panic p)"

definition whenP :: "bool \<Rightarrow> ('s, unit) prog \<Rightarrow> ('s, unit) prog" where
  "whenP b m = (if b then m else ret ())"

fun forP :: "'a list \<Rightarrow> ('a \<Rightarrow> ('s, unit) prog) \<Rightarrow> ('s, unit) prog" where
  "forP [] f = ret ()"
| "forP (x # xs) f = thenP (f x) (forP xs f)"

text \<open>A loop that collects one value per element, for the \<open>Vec::push\<close> loops of the source.\<close>

fun collectP :: "'a list \<Rightarrow> ('a \<Rightarrow> ('s, 'b) prog) \<Rightarrow> ('s, 'b list) prog" where
  "collectP [] f = ret []"
| "collectP (x # xs) f =
     bindP (f x) (\<lambda>y. bindP (collectP xs f) (\<lambda>ys. ret (y # ys)))"

lemmas prog_defs =
  ret_def fail_def panic_def bindP_def thenP_def attempt_def gets_def modify_def
  lift_res_def expect_def guardP_def whenP_def

lemma run_ret [prog_eval]: "ret x s = (Ok x, s)"
  by (simp add: ret_def)

lemma run_fail [prog_eval]: "fail e s = (Err e, s)"
  by (simp add: fail_def)

lemma run_panic [prog_eval]: "panic p s = (Panic p, s)"
  by (simp add: panic_def)

lemma run_gets [prog_eval]: "gets f s = (Ok (f s), s)"
  by (simp add: gets_def)

lemma run_modify [prog_eval]: "modify f s = (Ok (), f s)"
  by (simp add: modify_def)

lemma run_lift_res [prog_eval]: "lift_res r s = (r, s)"
  by (simp add: lift_res_def)

lemma run_expect_Some [prog_eval]: "expect p (Some y) = ret y"
  by (simp add: expect_def)

lemma run_guardP_True [prog_eval]: "guardP True p = ret ()"
  by (simp add: guardP_def)

lemma bindP_ret [prog_eval]: "bindP (ret x) f = f x"
  by (rule ext) (simp add: bindP_def ret_def)

lemma thenP_ret [prog_eval]: "thenP (ret x) m = m"
  by (rule ext) (simp add: thenP_def bindP_def ret_def)

lemma bindP_gets [prog_eval]: "bindP (gets f) g s = g (f s) s"
  by (simp add: bindP_def gets_def)

lemma thenP_modify [prog_eval]: "thenP (modify f) m s = m (f s)"
  by (simp add: thenP_def bindP_def modify_def)

lemma bindP_lift_res [prog_eval]:
  "bindP (lift_res r) f s = (case r of Ok x \<Rightarrow> f x s | Err e \<Rightarrow> (Err e, s) | Panic p \<Rightarrow> (Panic p, s))"
  by (simp add: bindP_def lift_res_def split: res.splits)

lemma thenP_whenP_False [prog_eval]: "thenP (whenP False m) n = n"
  by (simp add: whenP_def thenP_ret)

lemma bindP_Ok_iff:
  "bindP m f s = (Ok y, u) \<longleftrightarrow> (\<exists>x t. m s = (Ok x, t) \<and> f x t = (Ok y, u))"
  by (auto simp: bindP_def split: prod.splits res.splits)

lemma thenP_Ok_iff:
  "thenP m n s = (Ok y, u) \<longleftrightarrow> (\<exists>x t. m s = (Ok x, t) \<and> n t = (Ok y, u))"
  by (simp add: thenP_def bindP_Ok_iff)

lemma expect_Ok_iff: "expect p v s = (Ok y, t) \<longleftrightarrow> v = Some y \<and> t = s"
  by (cases v) (auto simp: expect_def prog_eval)

lemma whenP_Ok_iff: "whenP b m s = (Ok y, t) \<longleftrightarrow> (if b then m s = (Ok y, t) else t = s)"
  by (auto simp: whenP_def prog_eval)

text \<open>What a successful run says: each step succeeded, with the states in between.\<close>

lemmas prog_Ok =
  bindP_Ok_iff thenP_Ok_iff expect_Ok_iff whenP_Ok_iff
  run_ret run_fail run_panic run_gets run_modify run_lift_res

section \<open>Frames, invariants and freedom from panics\<close>

text \<open>\<open>unchanged f m\<close>: whatever the outcome of \<open>m\<close>, the observation \<open>f\<close> is as before.\<close>

definition unchanged :: "('s \<Rightarrow> 'b) \<Rightarrow> ('s, 'a) prog \<Rightarrow> bool" where
  "unchanged f m \<longleftrightarrow> (\<forall>s. f (snd (m s)) = f s)"

lemma unchangedI: "(\<And>s. f (snd (m s)) = f s) \<Longrightarrow> unchanged f m"
  by (simp add: unchanged_def)

lemma unchangedD: "unchanged f m \<Longrightarrow> m s = (r, t) \<Longrightarrow> f t = f s"
  by (metis unchanged_def snd_conv)

lemma unchanged_pure [unch]:
  "unchanged f (ret x)" "unchanged f (fail e)" "unchanged f (panic p)"
  "unchanged f (gets g)" "unchanged f (lift_res r)"
  by (simp_all add: unchanged_def prog_eval)

lemma unchanged_expect [unch]: "unchanged f (expect p x)"
  by (cases x) (simp_all add: expect_def unch)

lemma unchanged_guardP [unch]: "unchanged f (guardP b p)"
  by (simp add: guardP_def unch)

lemma unchanged_modify [unch]: "(\<And>s. f (g s) = f s) \<Longrightarrow> unchanged f (modify g)"
  by (simp add: unchanged_def prog_eval)

lemma unchanged_bindP [unch]:
  "unchanged f m \<Longrightarrow> (\<And>x. unchanged f (g x)) \<Longrightarrow> unchanged f (bindP m g)"
  by (auto simp: unchanged_def bindP_def split: prod.splits res.splits) (metis snd_conv)+

lemma unchanged_thenP [unch]: "unchanged f m \<Longrightarrow> unchanged f n \<Longrightarrow> unchanged f (thenP m n)"
  by (simp add: thenP_def unchanged_bindP)

lemma unchanged_attempt [unch]: "unchanged f m \<Longrightarrow> unchanged f (attempt m)"
  by (auto simp: unchanged_def attempt_def split: prod.splits res.splits) (metis snd_conv)+

lemma unchanged_whenP [unch]: "(b \<Longrightarrow> unchanged f m) \<Longrightarrow> unchanged f (whenP b m)"
  by (simp add: whenP_def unch)

lemma unchanged_forP [unch]: "(\<And>x. unchanged f (g x)) \<Longrightarrow> unchanged f (forP xs g)"
  by (induction xs) (simp_all add: unch)

lemma unchanged_collectP [unch]: "(\<And>x. unchanged f (g x)) \<Longrightarrow> unchanged f (collectP xs g)"
  by (induction xs) (simp_all add: unch)

lemma unchanged_if [unch]:
  "(b \<Longrightarrow> unchanged f m) \<Longrightarrow> (\<not> b \<Longrightarrow> unchanged f n) \<Longrightarrow> unchanged f (if b then m else n)"
  by simp

lemma unchanged_case_option [unch]:
  "unchanged f m \<Longrightarrow> (\<And>x. unchanged f (n x)) \<Longrightarrow>
     unchanged f (case v of None \<Rightarrow> m | Some x \<Rightarrow> n x)"
  by (cases v) simp_all

lemma unchanged_case_sum [unch]:
  "(\<And>x. unchanged f (m x)) \<Longrightarrow> (\<And>x. unchanged f (n x)) \<Longrightarrow>
     unchanged f (case v of Inl x \<Rightarrow> m x | Inr x \<Rightarrow> n x)"
  by (cases v) simp_all

lemma unchanged_case_prod [unch]:
  "(\<And>x y. unchanged f (m x y)) \<Longrightarrow> unchanged f (case v of (x, y) \<Rightarrow> m x y)"
  by (cases v) simp_all

text \<open>\<open>preserves P m\<close>: \<open>m\<close> keeps the invariant \<open>P\<close>, whatever its outcome.\<close>

definition preserves :: "('s \<Rightarrow> bool) \<Rightarrow> ('s, 'a) prog \<Rightarrow> bool" where
  "preserves P m \<longleftrightarrow> (\<forall>s. P s \<longrightarrow> P (snd (m s)))"

lemma preservesD: "preserves P m \<Longrightarrow> P s \<Longrightarrow> m s = (r, t) \<Longrightarrow> P t"
  by (metis preserves_def snd_conv)

lemma preserves_pure [keeps]:
  "preserves P (ret x)" "preserves P (fail e)" "preserves P (panic p)"
  "preserves P (gets g)" "preserves P (lift_res r)"
  by (simp_all add: preserves_def prog_eval)

lemma preserves_expect [keeps]: "preserves P (expect p x)"
  by (cases x) (simp_all add: expect_def keeps)

lemma preserves_guardP [keeps]: "preserves P (guardP b p)"
  by (simp add: guardP_def keeps)

lemma preserves_modify [keeps]: "(\<And>s. P s \<Longrightarrow> P (g s)) \<Longrightarrow> preserves P (modify g)"
  by (simp add: preserves_def prog_eval)

lemma preserves_bindP [keeps]:
  "preserves P m \<Longrightarrow> (\<And>x. preserves P (g x)) \<Longrightarrow> preserves P (bindP m g)"
  by (auto simp: preserves_def bindP_def split: prod.splits res.splits)

lemma preserves_thenP [keeps]: "preserves P m \<Longrightarrow> preserves P n \<Longrightarrow> preserves P (thenP m n)"
  by (simp add: thenP_def preserves_bindP)

lemma preserves_attempt [keeps]: "preserves P m \<Longrightarrow> preserves P (attempt m)"
  by (auto simp: preserves_def attempt_def split: prod.splits res.splits)

lemma preserves_whenP [keeps]: "(b \<Longrightarrow> preserves P m) \<Longrightarrow> preserves P (whenP b m)"
  by (simp add: whenP_def keeps)

lemma preserves_forP [keeps]: "(\<And>x. preserves P (g x)) \<Longrightarrow> preserves P (forP xs g)"
  by (induction xs) (simp_all add: keeps)

lemma preserves_unchanged:
  "unchanged f m \<Longrightarrow> (\<And>s t. f t = f s \<Longrightarrow> P s \<Longrightarrow> P t) \<Longrightarrow> preserves P m"
  by (simp add: preserves_def unchanged_def)

text \<open>
  \<open>okay I P m\<close>: run from a state with the invariant \<open>I\<close>, \<open>m\<close> keeps \<open>I\<close> if it
  succeeds, and any panic satisfies \<open>P\<close>. An error ends the command and its state is
  dropped, so nothing is asked of it.
\<close>

definition okay :: "('s \<Rightarrow> bool) \<Rightarrow> (string \<Rightarrow> bool) \<Rightarrow> ('s, 'a) prog \<Rightarrow> bool" where
  "okay I P m \<longleftrightarrow> (\<forall>s. I s \<longrightarrow> (case m s of
     (Ok x, t) \<Rightarrow> I t
   | (Err e, t) \<Rightarrow> True
   | (Panic p, t) \<Rightarrow> P p))"

lemma okayI:
  "(\<And>s x t. I s \<Longrightarrow> m s = (Ok x, t) \<Longrightarrow> I t) \<Longrightarrow>
   (\<And>s p t. I s \<Longrightarrow> m s = (Panic p, t) \<Longrightarrow> P p) \<Longrightarrow> okay I P m"
  by (fastforce simp: okay_def split: prod.splits res.splits)

lemma okay_Ok: "okay I P m \<Longrightarrow> I s \<Longrightarrow> m s = (Ok x, t) \<Longrightarrow> I t"
  by (fastforce simp: okay_def)

lemma okay_Panic: "okay I P m \<Longrightarrow> I s \<Longrightarrow> m s = (Panic p, t) \<Longrightarrow> P p"
  by (fastforce simp: okay_def)

lemma okay_pure [okays]:
  "okay I P (ret x)" "okay I P (fail e)" "okay I P (gets g)"
  by (simp_all add: okay_def prog_eval)

lemma okay_panic [okays]: "P p \<Longrightarrow> okay I P (panic p)"
  by (simp add: okay_def prog_eval)

lemma okay_lift_res [okays]: "(\<And>p. r = Panic p \<Longrightarrow> P p) \<Longrightarrow> okay I P (lift_res r)"
  by (auto simp: okay_def prog_eval split: res.splits)

lemma okay_expect [okays]: "P p \<Longrightarrow> okay I P (expect p x)"
  by (cases x) (simp_all add: expect_def okays)

lemma okay_guardP [okays]: "P p \<Longrightarrow> okay I P (guardP b p)"
  by (simp add: guardP_def okays)

lemma okay_modify [okays]: "(\<And>s. I s \<Longrightarrow> I (g s)) \<Longrightarrow> okay I P (modify g)"
  by (simp add: okay_def prog_eval)

lemma okay_bindP [okays]:
  assumes "okay I P m" and "\<And>x. okay I P (g x)"
  shows "okay I P (bindP m g)"
proof (rule okayI)
  fix s y u assume "I s" "bindP m g s = (Ok y, u)"
  then obtain x t where "m s = (Ok x, t)" "g x t = (Ok y, u)" by (auto simp: bindP_Ok_iff)
  with \<open>I s\<close> show "I u" using assms okay_Ok by metis
next
  fix s p u assume "I s" and b: "bindP m g s = (Panic p, u)"
  obtain r t where m: "m s = (r, t)" by (cases "m s")
  show "P p"
  proof (cases r)
    case (Ok x)
    from okay_Ok [OF assms(1) \<open>I s\<close>] m Ok have "I t" by simp
    moreover from b m Ok have "g x t = (Panic p, u)" by (simp add: bindP_def)
    ultimately show ?thesis by (rule okay_Panic [OF assms(2)])
  next
    case (Err e)
    with b m show ?thesis by (simp add: bindP_def)
  next
    case (Panic q)
    with b m have "m s = (Panic p, t)" by (simp add: bindP_def)
    then show ?thesis by (rule okay_Panic [OF assms(1) \<open>I s\<close>])
  qed
qed

lemma okay_thenP [okays]: "okay I P m \<Longrightarrow> okay I P n \<Longrightarrow> okay I P (thenP m n)"
  by (simp add: thenP_def okay_bindP)

lemma okay_whenP [okays]: "(b \<Longrightarrow> okay I P m) \<Longrightarrow> okay I P (whenP b m)"
  by (simp add: whenP_def okays)

lemma okay_if [okays]:
  "(b \<Longrightarrow> okay I P m) \<Longrightarrow> (\<not> b \<Longrightarrow> okay I P n) \<Longrightarrow> okay I P (if b then m else n)"
  by simp

lemma okay_case_option [okays]:
  "okay I P m \<Longrightarrow> (\<And>x. okay I P (n x)) \<Longrightarrow>
     okay I P (case v of None \<Rightarrow> m | Some x \<Rightarrow> n x)"
  by (cases v) simp_all

lemma okay_case_prod [okays]:
  "(\<And>x y. okay I P (m x y)) \<Longrightarrow> okay I P (case v of (x, y) \<Rightarrow> m x y)"
  by (cases v) simp_all

lemma okay_forP [okays]: "(\<And>x. x \<in> set xs \<Longrightarrow> okay I P (g x)) \<Longrightarrow> okay I P (forP xs g)"
  by (induction xs) (simp_all add: okays)

lemma okay_unchanged:
  assumes "unchanged f m" and "\<And>s t. f t = f s \<Longrightarrow> I s \<Longrightarrow> I t"
    and "\<And>s p t. I s \<Longrightarrow> m s = (Panic p, t) \<Longrightarrow> P p"
  shows "okay I P m"
  using assms by (intro okayI) (blast dest: unchangedD)+

lemma okay_attempt [okays]: "okay I P m \<Longrightarrow> (\<And>s e t. I s \<Longrightarrow> m s = (Err e, t) \<Longrightarrow> I t) \<Longrightarrow> okay I P (attempt m)"
  by (fastforce simp: okay_def attempt_def split: prod.splits res.splits)

lemma okay_case_sum [okays]:
  "(\<And>x. okay I P (m x)) \<Longrightarrow> (\<And>x. okay I P (n x)) \<Longrightarrow>
     okay I P (case v of Inl x \<Rightarrow> m x | Inr x \<Rightarrow> n x)"
  by (cases v) simp_all

lemma okay_collectP [okays]:
  "(\<And>x. x \<in> set xs \<Longrightarrow> okay I P (g x)) \<Longrightarrow> okay I P (collectP xs g)"
  by (induction xs) (simp_all add: okays)

text \<open>
  Relations that hold between the states before and after every step of a program: the
  file system only grows, a counter only increases. A reflexive and transitive relation
  passes through the combinators.
\<close>

definition steps :: "('s \<Rightarrow> 's \<Rightarrow> bool) \<Rightarrow> ('s, 'a) prog \<Rightarrow> bool" where
  "steps R m \<longleftrightarrow> (\<forall>s. R s (snd (m s)))"

lemma stepsD: "steps R m \<Longrightarrow> m s = (r, t) \<Longrightarrow> R s t"
  by (metis steps_def snd_conv)

locale step_frame =
  fixes R :: "'s \<Rightarrow> 's \<Rightarrow> bool"
  assumes R_refl: "R s s"
    and R_trans: "R s t \<Longrightarrow> R t u \<Longrightarrow> R s u"
begin

lemma steps_pure:
  "steps R (ret x)" "steps R (fail e)" "steps R (panic p)" "steps R (gets g)"
  "steps R (lift_res r)"
  by (simp_all add: steps_def prog_eval R_refl)

lemma steps_expect: "steps R (expect p x)"
  by (cases x) (simp_all add: expect_def steps_pure)

lemma steps_modify: "(\<And>s. R s (g s)) \<Longrightarrow> steps R (modify g)"
  by (simp add: steps_def prog_eval)

lemma steps_bindP:
  assumes "steps R m" and "\<And>x. steps R (g x)"
  shows "steps R (bindP m g)"
  unfolding steps_def
proof
  fix s
  obtain r t where m: "m s = (r, t)" by (cases "m s")
  with assms(1) have st: "R s t" by (rule stepsD)
  have "R t (snd (g x t))" for x using assms(2) by (simp add: steps_def)
  then have su: "R s (snd (g x t))" for x by (rule R_trans [OF st])
  from m show "R s (snd (bindP m g s))" by (cases r) (simp_all add: bindP_def st su)
qed

lemma steps_thenP: "steps R m \<Longrightarrow> steps R n \<Longrightarrow> steps R (thenP m n)"
  by (simp add: thenP_def steps_bindP)

lemma steps_whenP: "(b \<Longrightarrow> steps R m) \<Longrightarrow> steps R (whenP b m)"
  by (simp add: whenP_def steps_pure)

lemma steps_if: "steps R m \<Longrightarrow> steps R n \<Longrightarrow> steps R (if b then m else n)"
  by simp

lemma steps_case_option:
  "steps R m \<Longrightarrow> (\<And>x. steps R (n x)) \<Longrightarrow> steps R (case v of None \<Rightarrow> m | Some x \<Rightarrow> n x)"
  by (cases v) simp_all

lemma steps_case_prod:
  "(\<And>x y. steps R (m x y)) \<Longrightarrow> steps R (case v of (x, y) \<Rightarrow> m x y)"
  by (cases v) simp_all

lemma steps_unchanged:
  "unchanged f m \<Longrightarrow> (\<And>s t. f t = f s \<Longrightarrow> R s t) \<Longrightarrow> steps R m"
  by (simp add: unchanged_def steps_def)

lemmas steps_intros =
  steps_pure steps_expect steps_bindP steps_thenP steps_whenP steps_if
  steps_case_option steps_case_prod

end

section \<open>Lists and association lists\<close>

lemma map_of_filter_fst:
  "map_of (filter (\<lambda>(k, v). P k) xs) k = (if P k then map_of xs k else None)"
  by (induction xs) auto

lemma forP_append: "forP (xs @ ys) f = thenP (forP xs f) (forP ys f)"
  by (induction xs) (auto simp: prog_defs fun_eq_iff split: prod.splits res.splits)

lemma collectP_Ok_length: "collectP xs f s = (Ok ys, t) \<Longrightarrow> length ys = length xs"
  by (induction xs arbitrary: s ys) (auto simp: bindP_Ok_iff prog_eval)

text \<open>
  A collecting loop whose body leaves the state alone is a list of independent calls.
\<close>

lemma collectP_pure:
  "(\<And>x u. f x u = (g x, u)) \<Longrightarrow>
     collectP xs f s = (Ok ys, t) \<longleftrightarrow> t = s \<and> map g xs = map Ok ys"
proof (induction xs arbitrary: ys t)
  case Nil
  then show ?case by (auto simp: prog_eval)
next
  case (Cons x xs)
  then show ?case by (cases "g x"; cases ys) (auto simp: bindP_Ok_iff prog_eval)
qed

text \<open>A \<open>HashMap\<close> kept as pairs: insertion replaces, removal drops the key.\<close>

definition hm_remove :: "'k \<Rightarrow> ('k \<times> 'v) list \<Rightarrow> ('k \<times> 'v) list" where
  "hm_remove k m = filter (\<lambda>p. fst p \<noteq> k) m"

definition hm_insert :: "'k \<Rightarrow> 'v \<Rightarrow> ('k \<times> 'v) list \<Rightarrow> ('k \<times> 'v) list" where
  "hm_insert k v m = (k, v) # hm_remove k m"

lemma map_of_hm_remove [simp]: "map_of (hm_remove k m) = (map_of m)(k := None)"
  unfolding hm_remove_def by (induction m) (auto simp: fun_eq_iff)

lemma map_of_hm_insert [simp]: "map_of (hm_insert k v m) = (map_of m)(k \<mapsto> v)"
  by (simp add: hm_insert_def)

lemma hm_remove_absent: "map_of m k = None \<Longrightarrow> hm_remove k m = m"
  unfolding hm_remove_def by (induction m) (auto split: if_splits)

lemma set_hm_remove: "set (hm_remove k m) = {p \<in> set m. fst p \<noteq> k}"
  by (auto simp: hm_remove_def)

section \<open>Printing numbers and flags\<close>

fun show_nat :: "nat \<Rightarrow> string" where
  "show_nat n = (if n < 10 then [char_of (48 + n)] else show_nat (n div 10) @ [char_of (48 + n mod 10)])"

declare show_nat.simps [simp del]

text \<open>Left padding with zeros, as the format \<open>{:05}\<close> does.\<close>

definition zero_pad :: "nat \<Rightarrow> string \<Rightarrow> string" where
  "zero_pad w s = replicate (w - length s) (CHR ''0'') @ s"

definition show_bool :: "bool \<Rightarrow> string" where
  "show_bool b = (if b then ''true'' else ''false'')"

end
