(* ===== verification/Domain_Api.thy ===== *)
theory Domain_Api
  imports Prelude
begin

text \<open>
  What the sources use of the \<open>domain\<close>, \<open>domain-kmip\<close>, \<open>url\<close> and \<open>serde_json\<close>
  crates. Data the sources build or take apart by pattern matching (roll types and
  states, actions, key types, resource records) are datatypes with the constructors the
  sources name. Operations of those crates are the fields of the record \<open>ext\<close>, an
  argument of every definition that calls one: nothing is assumed about them except where
  a theorem names the assumption. \<open>'ks\<close> is the crate's \<open>KeySet\<close>.

  Times and durations are counted in nanoseconds, as \<open>std::time::Duration\<close> does.
  A \<open>HashMap\<close> that the sources iterate over is a list of pairs in iteration order.
\<close>

section \<open>Scalars\<close>

type_synonym time = nat
type_synonym duration = nat
type_synonym u16 = "16 word"
type_synonym u32 = "32 word"
type_synonym name = string
type_synonym addr = string

definition nanos :: nat where
  "nanos = 1000000000"

definition from_secs :: "nat \<Rightarrow> duration" where
  "from_secs n = n * nanos"

definition as_secs :: "duration \<Rightarrow> nat" where
  "as_secs d = d div nanos"

text \<open>A TTL is a \<open>u32\<close> number of seconds.\<close>

type_synonym ttl = u32

definition ttl_duration :: "ttl \<Rightarrow> duration" where
  "ttl_duration t = from_secs (unat t)"

lemma nanos_pos [simp]: "0 < nanos"
  by (simp add: nanos_def)

lemma as_secs_from_secs [simp]: "as_secs (from_secs n) = n"
  by (simp add: as_secs_def from_secs_def)

lemma as_secs_mono: "d \<le> e \<Longrightarrow> as_secs d \<le> as_secs e"
  by (simp add: as_secs_def div_le_mono)

lemma as_secs_add_from_secs [simp]: "as_secs (d + from_secs n) = as_secs d + n"
  by (simp add: as_secs_def from_secs_def)

section \<open>Key rolls and keys\<close>

datatype roll_type =
  KskRoll | KskDoubleDsRoll | ZskRoll | ZskDoubleSignatureRoll | CskRoll | AlgorithmRoll

datatype roll_state =
  Propagation1 | CacheExpire1 ttl | Propagation2 | CacheExpire2 ttl | Done

datatype action =
  UpdateDnskeyRrset | CreateCdsRrset | RemoveCdsRrset | UpdateDsRrset | UpdateRrsig
| ReportDnskeyPropagated | ReportDsPropagated | ReportRrsigPropagated
| WaitDnskeyPropagated | WaitDsPropagated | WaitRrsigPropagated

text \<open>The observers of \<open>KeyState\<close> that the sources call.\<close>

record key_state =
  stale :: bool
  signer :: bool
  present :: bool
  at_parent :: bool

datatype key_type =
  Ksk key_state | Zsk key_state | Csk key_state key_state | Include key_state

record timestamps =
  creation :: "time option"
  published :: "time option"
  visible :: "time option"
  ds_visible :: "time option"
  rrsig_visible :: "time option"
  withdrawn :: "time option"

record key =
  privref :: "string option"
  decoupled :: bool
  keytype :: key_type
  algorithm :: nat
  key_tag :: u16
  key_times :: timestamps

text \<open>\<open>keyset::Error\<close>: the only variant the sources match on is \<open>Wait\<close>.\<close>

datatype ks_error = KsWait duration | KsError string

datatype generate_params =
  GenRsaSha256 u32 | GenRsaSha512 u32 | GenEcdsaP256Sha256 | GenEcdsaP384Sha384
| GenEd25519 | GenEd448

datatype digest_algorithm = SHA1 | SHA256 | SHA384

section \<open>Resource records\<close>

datatype rtype =
  RT_A | RT_AAAA | RT_NS | RT_SOA | RT_DS | RT_RRSIG | RT_NSEC | RT_NSEC3 | RT_DNSKEY
| RT_CDS | RT_CDNSKEY | RT_AXFR | RT_OTHER nat

datatype dnskey =
  DnskeyData (dk_flags: u16) (dk_protocol: nat) (dk_algorithm: nat) (dk_public_key: string)

datatype ds =
  DsData (ds_key_tag: u16) (ds_algorithm: nat) (ds_digest_type: digest_algorithm)
    (ds_digest: string)

datatype rrsig =
  RrsigData (sig_type_covered: rtype) (sig_algorithm: nat) (sig_key_tag: u16)
    (sig_inception: u32) (sig_expiration: u32) (sig_signature: string)

datatype soa = SoaData (soa_mname: name) (soa_serial: u32)

datatype rdata =
  Dnskey dnskey | Cdnskey dnskey | Cds ds | Ds ds | Rrsig rrsig | Soa soa | Ns name
| OtherData rtype string

datatype rr = RR (rr_owner: name) (rr_class: nat) (rr_ttl: ttl) (rr_data: rdata)

definition class_IN :: nat where
  "class_IN = 1"

fun rtype_of :: "rdata \<Rightarrow> rtype" where
  "rtype_of (Dnskey _) = RT_DNSKEY"
| "rtype_of (Cdnskey _) = RT_CDNSKEY"
| "rtype_of (Cds _) = RT_CDS"
| "rtype_of (Ds _) = RT_DS"
| "rtype_of (Rrsig _) = RT_RRSIG"
| "rtype_of (Soa _) = RT_SOA"
| "rtype_of (Ns _) = RT_NS"
| "rtype_of (OtherData t _) = t"

text \<open>A DNSKEY record as \<open>parse_from_bind\<close> returns it.\<close>

datatype dnskey_rr =
  DnskeyRR (kr_owner: name) (kr_class: nat) (kr_ttl: ttl) (kr_data: dnskey)

definition dnskey_record :: "dnskey_rr \<Rightarrow> rr" where
  "dnskey_record r = RR (kr_owner r) (kr_class r) (kr_ttl r) (Dnskey (kr_data r))"

text \<open>An entry of a zonefile: a record or an \<open>$INCLUDE\<close>.\<close>

datatype entry = EntryRecord rr | EntryInclude

section \<open>URLs, key pairs and messages\<close>

datatype url = Url (url_scheme: string) (url_path: string) (url_text: string)

datatype kmip_url = KmipUrl (ku_server_id: string) (ku_key_id: string) (ku_flags: u16)

datatype signing_key =
  SigningKey (sk_owner: name) (sk_flags: u16) (sk_pair: string)

record message =
  opt_rcode :: nat
  answer :: "string + (string + rr) list"
  authority :: "string + (string + rr) list"

text \<open>TSIG keys of the \<open>domain\<close> crate.\<close>

datatype tsig_algorithm = TsigSha1 | TsigSha256 | TsigSha384 | TsigSha512

datatype tsig_key =
  TsigKey (tk_algorithm: tsig_algorithm) (tk_secret: string) (tk_name: name)

text \<open>KMIP connection settings (\<open>domain_kmip::ConnectionSettings\<close>) and the HSM's key pairs.\<close>

record conn_settings =
  cs_host :: string
  cs_port :: u16
  cs_username :: "string option"
  cs_password :: "string option"
  cs_insecure :: bool
  cs_client_cert :: "(string \<times> string) option"
  cs_server_cert :: "string option"
  cs_ca_cert :: "string option"
  cs_connect_timeout :: duration
  cs_read_timeout :: duration
  cs_write_timeout :: duration
  cs_max_response_bytes :: u32

type_synonym pool = string

datatype kmip_pair =
  KmipPair (kp_public_url: url) (kp_private_url: url) (kp_public_id: string)
    (kp_private_id: string) (kp_algorithm: nat) (kp_dnskey: dnskey)

section \<open>The operations of the crates\<close>

record 'ks keyset_api =
  ks_new :: "name \<Rightarrow> 'ks"
  ks_name :: "'ks \<Rightarrow> name"
  ks_keys :: "'ks \<Rightarrow> (string \<times> key) list"
  ks_rollstates :: "'ks \<Rightarrow> (roll_type \<times> roll_state) list"
  ks_actions :: "'ks \<Rightarrow> roll_type \<Rightarrow> action list"
  ks_start_roll :: "roll_type \<Rightarrow> string list \<Rightarrow> string list \<Rightarrow> 'ks \<Rightarrow> (ks_error + action list) \<times> 'ks"
  ks_propagation1_complete :: "roll_type \<Rightarrow> u32 \<Rightarrow> 'ks \<Rightarrow> (ks_error + action list) \<times> 'ks"
  ks_cache_expired1 :: "roll_type \<Rightarrow> 'ks \<Rightarrow> (ks_error + action list) \<times> 'ks"
  ks_propagation2_complete :: "roll_type \<Rightarrow> u32 \<Rightarrow> 'ks \<Rightarrow> (ks_error + action list) \<times> 'ks"
  ks_cache_expired2 :: "roll_type \<Rightarrow> 'ks \<Rightarrow> (ks_error + action list) \<times> 'ks"
  ks_roll_done :: "roll_type \<Rightarrow> 'ks \<Rightarrow> (ks_error + action list) \<times> 'ks"
  ks_add_key_ksk :: "string \<Rightarrow> string option \<Rightarrow> nat \<Rightarrow> u16 \<Rightarrow> time \<Rightarrow> 'ks \<Rightarrow> (ks_error + unit) \<times> 'ks"
  ks_add_key_zsk :: "string \<Rightarrow> string option \<Rightarrow> nat \<Rightarrow> u16 \<Rightarrow> time \<Rightarrow> 'ks \<Rightarrow> (ks_error + unit) \<times> 'ks"
  ks_add_key_csk :: "string \<Rightarrow> string option \<Rightarrow> nat \<Rightarrow> u16 \<Rightarrow> time \<Rightarrow> 'ks \<Rightarrow> (ks_error + unit) \<times> 'ks"
  ks_add_public_key :: "string \<Rightarrow> nat \<Rightarrow> u16 \<Rightarrow> time \<Rightarrow> 'ks \<Rightarrow> (ks_error + unit) \<times> 'ks"
  ks_delete_key :: "string \<Rightarrow> 'ks \<Rightarrow> (ks_error + unit) \<times> 'ks"
  ks_set_present :: "string \<Rightarrow> bool \<Rightarrow> 'ks \<Rightarrow> (ks_error + unit) \<times> 'ks"
  ks_set_visible :: "string \<Rightarrow> time \<Rightarrow> 'ks \<Rightarrow> (ks_error + unit) \<times> 'ks"
  ks_set_signer :: "string \<Rightarrow> bool \<Rightarrow> 'ks \<Rightarrow> (ks_error + unit) \<times> 'ks"
  ks_set_decoupled :: "string \<Rightarrow> bool \<Rightarrow> 'ks \<Rightarrow> (ks_error + unit) \<times> 'ks"
  ks_set_at_parent :: "string \<Rightarrow> bool \<Rightarrow> 'ks \<Rightarrow> (ks_error + unit) \<times> 'ks"
  ks_set_ds_visible :: "string \<Rightarrow> time \<Rightarrow> 'ks \<Rightarrow> (ks_error + unit) \<times> 'ks"
  ks_set_rrsig_visible :: "string \<Rightarrow> time \<Rightarrow> 'ks \<Rightarrow> (ks_error + unit) \<times> 'ks"
  ks_set_stale :: "string \<Rightarrow> 'ks \<Rightarrow> (ks_error + unit) \<times> 'ks"
  ks_show_error :: "ks_error \<Rightarrow> string"

record 'ks crypto_api = "'ks keyset_api" +
  url_parse :: "string \<Rightarrow> string + url"
  parse_from_bind :: "string \<Rightarrow> string + dnskey_rr"
  secret_parse_from_bind :: "string \<Rightarrow> string + string"
  keypair_from_bytes :: "string \<Rightarrow> dnskey \<Rightarrow> string + string"
  generate_key :: "nat \<Rightarrow> generate_params \<Rightarrow> u16 \<Rightarrow> string + (string \<times> dnskey)"
  params_algorithm :: "generate_params \<Rightarrow> nat"
  secret_display_as_bind :: "string \<Rightarrow> string"
  display_as_bind :: "dnskey_rr \<Rightarrow> string"
  dnskey_key_tag :: "dnskey \<Rightarrow> u16"
  dnskey_digest :: "dnskey \<Rightarrow> name \<Rightarrow> digest_algorithm \<Rightarrow> string + string"
  rrset_new :: "rr list \<Rightarrow> string + unit"
  sign_rrset :: "signing_key \<Rightarrow> rr list \<Rightarrow> u32 \<Rightarrow> u32 \<Rightarrow> string + rr"
  display_zonefile :: "rr \<Rightarrow> string"
  zonefile_entries :: "string \<Rightarrow> (string + entry) list"
  timestamp_to_system_time :: "u32 \<Rightarrow> time \<Rightarrow> time"
  name_from_str :: "string \<Rightarrow> string + name"
  name_ends_with :: "name \<Rightarrow> name \<Rightarrow> bool"
  name_fmt_with_dot :: "name \<Rightarrow> string"
  name_parent :: "name \<Rightarrow> name option"
  serial_lt :: "u32 \<Rightarrow> u32 \<Rightarrow> bool"
  kmip_key_url :: "url \<Rightarrow> string + kmip_url"
  kmip_create_pool :: "string \<Rightarrow> conn_settings \<Rightarrow> string + pool"
  kmip_public_key :: "kmip_url \<Rightarrow> pool \<Rightarrow> string + (u16 \<Rightarrow> dnskey)"
  kmip_key_pair :: "kmip_url \<Rightarrow> kmip_url \<Rightarrow> pool \<Rightarrow> string + string"
  kmip_pair_from_metadata :: "nat \<Rightarrow> u16 \<Rightarrow> string \<Rightarrow> string \<Rightarrow> pool \<Rightarrow> string + kmip_pair"
  kmip_connect :: "pool \<Rightarrow> string + unit"
  kmip_destroy_key :: "pool \<Rightarrow> string \<Rightarrow> string + unit"
  kmip_generate :: "nat \<Rightarrow> generate_params \<Rightarrow> u16 \<Rightarrow> pool \<Rightarrow> string + kmip_pair"
  kmip_rename_key :: "pool \<Rightarrow> string \<Rightarrow> string \<Rightarrow> string + unit"
  name_shorten :: "string \<Rightarrow> nat \<Rightarrow> string option"
  parse_credentials :: "string \<Rightarrow> string + (string \<times> string \<times> string option) list"
  show_credentials :: "(string \<times> string \<times> string option) list \<Rightarrow> string"

record 'ks ext = "'ks crypto_api" +
  resolver_query :: "name \<Rightarrow> rtype \<Rightarrow> string + message"
  lookup_host :: "name \<Rightarrow> string + addr list"
  query_at :: "addr \<Rightarrow> name \<Rightarrow> rtype \<Rightarrow> string + message"
  tcp_connect :: "addr \<Rightarrow> string + unit"
  axfr_replies :: "addr \<Rightarrow> tsig_key option \<Rightarrow> name \<Rightarrow> (string + message) list"
  show_rcode :: "nat \<Rightarrow> string"
  show_serial :: "u32 \<Rightarrow> string"
  show_debug_sigs :: "(nat \<times> u16) list \<Rightarrow> string"
  show_rr :: "rr \<Rightarrow> string"
  show_rtype :: "rtype \<Rightarrow> string"
  name_less :: "name \<Rightarrow> name \<Rightarrow> bool"

end
