(* ===== verification/Config.thy ===== *)
theory Config
  imports Domain_Api
begin

text \<open>
  The configuration of \<open>dnst keyset\<close> (src/commands/keyset/cmd.rs): key parameters, DS
  digest, roll variants, automation flags, nameservers with their TSIG key names, the
  TSIG key store of src/commands/keyset/tsig.rs, and the parsers and printers of those
  values. Parsers of the standard library and of \<open>jiff\<close> that do not decide anything for
  keyset (socket addresses, durations) are arguments.
\<close>

section \<open>Key parameters and digests\<close>

datatype key_parameters =
  RsaSha256 nat | RsaSha512 nat | EcdsaP256Sha256 | EcdsaP384Sha384 | Ed25519 | Ed448

definition key_parameters_new :: "string \<Rightarrow> nat option \<Rightarrow> key_parameters res" where
  "key_parameters_new alg bits =
    (if alg = ''RSASHA256'' then
       (case bits of None \<Rightarrow> Err ''bits option expected'' | Some b \<Rightarrow> Ok (RsaSha256 b))
     else if alg = ''RSASHA512'' then
       (case bits of None \<Rightarrow> Err ''bits option expected'' | Some b \<Rightarrow> Ok (RsaSha512 b))
     else if alg = ''ECDSAP256SHA256'' then Ok EcdsaP256Sha256
     else if alg = ''ECDSAP384SHA384'' then Ok EcdsaP384Sha384
     else if alg = ''ED25519'' then Ok Ed25519
     else if alg = ''ED448'' then Ok Ed448
     else Err (''unknown algorithm '' @ alg))"

text \<open>The size is a \<open>usize\<close>; the conversion to the \<open>u32\<close> of \<open>GenerateParams\<close> is an \<open>expect\<close>.\<close>

definition usize_to_u32 :: "nat \<Rightarrow> u32 res" where
  "usize_to_u32 n = (if n < 2 ^ 32 then Ok (of_nat n) else Panic ''should not fail'')"

fun to_generate_params :: "key_parameters \<Rightarrow> generate_params res" where
  "to_generate_params (RsaSha256 bits) = bind_res (usize_to_u32 bits) (\<lambda>b. Ok (GenRsaSha256 b))"
| "to_generate_params (RsaSha512 bits) = bind_res (usize_to_u32 bits) (\<lambda>b. Ok (GenRsaSha512 b))"
| "to_generate_params EcdsaP256Sha256 = Ok GenEcdsaP256Sha256"
| "to_generate_params EcdsaP384Sha384 = Ok GenEcdsaP384Sha384"
| "to_generate_params Ed25519 = Ok GenEd25519"
| "to_generate_params Ed448 = Ok GenEd448"

fun key_parameters_display :: "key_parameters \<Rightarrow> string" where
  "key_parameters_display (RsaSha256 bits) = ''RSASHA256 '' @ show_nat bits @ '' bits''"
| "key_parameters_display (RsaSha512 bits) = ''RSASHA512 '' @ show_nat bits @ '' bits''"
| "key_parameters_display EcdsaP256Sha256 = ''ECDSAP256SHA256''"
| "key_parameters_display EcdsaP384Sha384 = ''ECDSAP384SHA384''"
| "key_parameters_display Ed25519 = ''ED25519''"
| "key_parameters_display Ed448 = ''ED448''"

datatype ds_algorithm = DsSha256 | DsSha384

definition ds_algorithm_new :: "string \<Rightarrow> ds_algorithm res" where
  "ds_algorithm_new digest =
    (if digest = ''SHA-256'' then Ok DsSha256
     else if digest = ''SHA-384'' then Ok DsSha384
     else Err (''unknown digest '' @ digest))"

fun to_digest_algorithm :: "ds_algorithm \<Rightarrow> digest_algorithm" where
  "to_digest_algorithm DsSha256 = SHA256"
| "to_digest_algorithm DsSha384 = SHA384"

fun ds_algorithm_display :: "ds_algorithm \<Rightarrow> string" where
  "ds_algorithm_display DsSha256 = ''SHA-256''"
| "ds_algorithm_display DsSha384 = ''SHA-384''"

section \<open>Roll types\<close>

datatype ksk_roll_type = DoubleSignatureKskRoll | DoubleDsKskRoll

definition ksk_roll_type_new :: "string \<Rightarrow> ksk_roll_type res" where
  "ksk_roll_type_new roll =
    (if roll = ''double-signature-ksk-roll'' then Ok DoubleSignatureKskRoll
     else if roll = ''double-ds-ksk-roll'' then Ok DoubleDsKskRoll
     else Err (''unknown roll name '' @ roll))"

fun ksk_roll_type_display :: "ksk_roll_type \<Rightarrow> string" where
  "ksk_roll_type_display DoubleSignatureKskRoll = ''double-signature-ksk-roll''"
| "ksk_roll_type_display DoubleDsKskRoll = ''double-ds-ksk-roll''"

datatype zsk_roll_type = PrePublishZskRoll | DoubleSignatureZskRoll

definition zsk_roll_type_new :: "string \<Rightarrow> zsk_roll_type res" where
  "zsk_roll_type_new roll =
    (if roll = ''pre-publish-zsk-roll'' then Ok PrePublishZskRoll
     else if roll = ''double-signature-zsk-roll'' then Ok DoubleSignatureZskRoll
     else Err (''unknown roll name '' @ roll))"

fun zsk_roll_type_display :: "zsk_roll_type \<Rightarrow> string" where
  "zsk_roll_type_display PrePublishZskRoll = ''pre-publish-zsk-roll''"
| "zsk_roll_type_display DoubleSignatureZskRoll = ''double-signature-zsk-roll''"

section \<open>Nameservers and the TSIG key store\<close>

record nameserver =
  ns_addr :: addr
  ns_tsig_key_name :: "name option"

text \<open>\<open>str::split\<close> on one character: always at least one piece.\<close>

fun split_on :: "char \<Rightarrow> string \<Rightarrow> string list" where
  "split_on c [] = [[]]"
| "split_on c (x # xs) =
     (if x = c then [] # split_on c xs
      else (case split_on c xs of [] \<Rightarrow> [[x]] | p # ps \<Rightarrow> (x # p) # ps))"

text \<open>
  \<open>from_str\<close> of \<open>NameserverConnectionDetails\<close>: \<open>address:port\<close>, optionally followed by
  \<open>^\<close> and the name of a TSIG key. What follows a second \<open>^\<close> is not looked at.
\<close>

definition nameserver_from_str ::
  "(string \<Rightarrow> string + addr) \<Rightarrow> (string \<Rightarrow> string + name) \<Rightarrow> string \<Rightarrow> nameserver res" where
  "nameserver_from_str parse_addr parse_name s =
    (case split_on (CHR ''^'') s of
       [] \<Rightarrow> Err ''Address expected''
     | addr_port # rest \<Rightarrow>
         bind_res (map_err (\<lambda>e. ''unable to parse address '' @ addr_port @ '': '' @ e) (parse_addr addr_port))
           (\<lambda>a. bind_res
              (case rest of
                 [] \<Rightarrow> Ok None
               | n # _ \<Rightarrow> bind_res (map_err (\<lambda>e. ''Invalid TSIG key name '' @ n @ '': '' @ e) (parse_name n))
                    (\<lambda>k. Ok (Some k)))
              (\<lambda>k. Ok \<lparr>ns_addr = a, ns_tsig_key_name = k\<rparr>)))"

definition nameserver_from_ip :: "addr \<Rightarrow> nameserver" where
  "nameserver_from_ip ip = \<lparr>ns_addr = ip @ '':53'', ns_tsig_key_name = None\<rparr>"

datatype alg_spec = HmacSha1 | HmacSha256 | HmacSha384 | HmacSha512

datatype key_spec = KeySpec (spec_alg: alg_spec) (spec_data: string)

text \<open>The TSIG store: names to key details. \<open>get\<close> builds the crate's key from them.\<close>

type_synonym tsig_store = "(name \<times> key_spec) list"

definition tsig_store_new :: tsig_store where
  "tsig_store_new = []"

fun alg_spec_to_domain :: "alg_spec \<Rightarrow> tsig_algorithm" where
  "alg_spec_to_domain HmacSha1 = TsigSha1"
| "alg_spec_to_domain HmacSha256 = TsigSha256"
| "alg_spec_to_domain HmacSha384 = TsigSha384"
| "alg_spec_to_domain HmacSha512 = TsigSha512"

definition tsig_store_get :: "tsig_store \<Rightarrow> name \<Rightarrow> tsig_key option" where
  "tsig_store_get store n =
    (case map_of store n of
       Some k \<Rightarrow> Some (TsigKey (alg_spec_to_domain (spec_alg k)) (spec_data k) n)
     | None \<Rightarrow> None)"

section \<open>The configuration\<close>

record auto_config =
  auto_start_flag :: bool
  auto_report_flag :: bool
  auto_expire_flag :: bool
  auto_done_flag :: bool

definition auto_default :: auto_config where
  "auto_default = \<lparr>auto_start_flag = False, auto_report_flag = False,
     auto_expire_flag = False, auto_done_flag = False\<rparr>"

record keyset_config =
  state_file :: string
  keys_dir :: string
  use_csk :: bool
  config_algorithm :: key_parameters
  ksk_roll_type :: ksk_roll_type
  zsk_roll_type :: zsk_roll_type
  ksk_validity :: "duration option"
  zsk_validity :: "duration option"
  csk_validity :: "duration option"
  auto_ksk :: auto_config
  auto_zsk :: auto_config
  auto_csk :: auto_config
  auto_algorithm :: auto_config
  dnskey_inception_offset :: duration
  dnskey_signature_lifetime :: duration
  dnskey_remain_time :: duration
  cds_inception_offset :: duration
  cds_signature_lifetime :: duration
  cds_remain_time :: duration
  ds_algorithm :: ds_algorithm
  default_ttl :: ttl
  autoremove :: bool
  autoremove_delay :: duration
  update_ds_command :: "string list"
  faketime :: "time option"
  tsig_store_path :: "string option"
  nameservers :: "nameserver list"

definition DEFAULT_WAIT :: duration where
  "DEFAULT_WAIT = from_secs (10 * 60)"

definition DEFAULT_TTL :: ttl where
  "DEFAULT_TTL = 3600"

definition DEFAULT_AUTOREMOVE_DELAY :: duration where
  "DEFAULT_AUTOREMOVE_DELAY = from_secs (7 * 24 * 3600)"

definition MAX_KEY_TAG_TRIES :: nat where
  "MAX_KEY_TAG_TRIES = 10"

definition MAX_FILE_LOCK_TRIES :: nat where
  "MAX_FILE_LOCK_TRIES = 10"

definition APEX_REMOVE :: "rtype list" where
  "APEX_REMOVE = [RT_DNSKEY, RT_CDS, RT_CDNSKEY]"

datatype roll_variant = VariantKsk | VariantZsk | VariantCsk | VariantAlgorithm

fun roll_variant_to_roll :: "roll_variant \<Rightarrow> keyset_config \<Rightarrow> roll_type" where
  "roll_variant_to_roll VariantKsk c = (case ksk_roll_type c of
      DoubleSignatureKskRoll \<Rightarrow> KskRoll
    | DoubleDsKskRoll \<Rightarrow> KskDoubleDsRoll)"
| "roll_variant_to_roll VariantZsk c = (case zsk_roll_type c of
      PrePublishZskRoll \<Rightarrow> ZskRoll
    | DoubleSignatureZskRoll \<Rightarrow> ZskDoubleSignatureRoll)"
| "roll_variant_to_roll VariantCsk c = CskRoll"
| "roll_variant_to_roll VariantAlgorithm c = AlgorithmRoll"

section \<open>Optional values on the command line\<close>

text \<open>\<open>parse_opt_duration\<close>, \<open>parse_opt_unixtime\<close> and \<open>parse_opt_pathbuf\<close>: \<open>off\<close> is no value.\<close>

definition parse_opt_duration :: "(string \<Rightarrow> string + duration) \<Rightarrow> string \<Rightarrow> duration option res" where
  "parse_opt_duration parse_duration value =
    (if value = ''off'' then Ok None
     else bind_res (map_err id (parse_duration value)) (\<lambda>d. Ok (Some d)))"

definition parse_opt_unixtime :: "(string \<Rightarrow> string + time) \<Rightarrow> string \<Rightarrow> time option res" where
  "parse_opt_unixtime parse_timestamp value =
    (if value = ''off'' then Ok None
     else bind_res (map_err (\<lambda>e. ''unable to parse Unix time '' @ value @ '': '' @ e) (parse_timestamp value))
       (\<lambda>t. Ok (Some t)))"

definition parse_opt_pathbuf :: "string \<Rightarrow> string option res" where
  "parse_opt_pathbuf value = (if value = ''off'' then Ok None else Ok (Some value))"

end
