(* ===== verification/World.thy ===== *)
theory World
  imports Config
begin

text \<open>
  What a run of the program reads and changes outside its own memory: the file system,
  the clock, the source of fresh key pairs, standard output and the commands it starts.
  Paths are absolute. A path may refuse to be created, replaced or removed
  (\<open>w_denied\<close>), and a write to a path may stop after some bytes (\<open>w_write_fails\<close>), so
  that every I/O error branch of the sources can be taken. The clock is read as a
  constant during one run.
\<close>

record world =
  w_files :: "string \<rightharpoonup> string"
  w_denied :: "string \<Rightarrow> bool"
  w_write_fails :: "string \<Rightarrow> nat option"
  w_clock :: time
  w_generated :: nat
  w_stdout :: "string list"
  w_commands :: "string list list"

definition ENOENT :: string where "ENOENT = ''No such file or directory''"
definition EACCES :: string where "EACCES = ''Permission denied''"
definition EEXIST :: string where "EEXIST = ''File exists''"
definition ENOSPC :: string where "ENOSPC = ''No space left on device''"
definition EBADF :: string where "EBADF = ''Bad file descriptor''"

text \<open>\<open>std::fs::read_to_string\<close> and \<open>File::open\<close> followed by a read.\<close>

definition fs_read :: "world \<Rightarrow> string \<Rightarrow> string + string" where
  "fs_read w p = (case w_files w p of None \<Rightarrow> Inl ENOENT | Some c \<Rightarrow> Inr c)"

text \<open>\<open>open\<close> with \<open>create_new\<close>.\<close>

definition fs_create_new :: "string \<Rightarrow> world \<Rightarrow> (string + unit) \<times> world" where
  "fs_create_new p w =
    (if w_files w p \<noteq> None then (Inl EEXIST, w)
     else if w_denied w p then (Inl EACCES, w)
     else (Inr (), w\<lparr>w_files := (w_files w)(p \<mapsto> [])\<rparr>))"

text \<open>\<open>open\<close> with \<open>create\<close> and \<open>truncate\<close>.\<close>

definition fs_create_truncate :: "string \<Rightarrow> world \<Rightarrow> (string + unit) \<times> world" where
  "fs_create_truncate p w =
    (if w_denied w p then (Inl EACCES, w)
     else (Inr (), w\<lparr>w_files := (w_files w)(p \<mapsto> [])\<rparr>))"

text \<open>\<open>write_all\<close> from the start of an open file that is empty or is truncated afterwards.\<close>

definition fs_write_all :: "string \<Rightarrow> string \<Rightarrow> world \<Rightarrow> (string + unit) \<times> world" where
  "fs_write_all p d w =
    (case w_write_fails w p of
       Some n \<Rightarrow> (Inl ENOSPC, w\<lparr>w_files := (w_files w)(p \<mapsto> take n d)\<rparr>)
     | None \<Rightarrow> (Inr (), w\<lparr>w_files := (w_files w)(p \<mapsto> d)\<rparr>))"

definition fs_rename :: "string \<Rightarrow> string \<Rightarrow> world \<Rightarrow> (string + unit) \<times> world" where
  "fs_rename old new w =
    (case w_files w old of
       None \<Rightarrow> (Inl ENOENT, w)
     | Some c \<Rightarrow> if w_denied w new then (Inl EACCES, w)
         else (Inr (), w\<lparr>w_files := ((w_files w)(old := None))(new \<mapsto> c)\<rparr>))"

definition fs_remove :: "string \<Rightarrow> world \<Rightarrow> (string + unit) \<times> world" where
  "fs_remove p w =
    (if w_files w p = None then (Inl ENOENT, w)
     else if w_denied w p then (Inl EACCES, w)
     else (Inr (), w\<lparr>w_files := (w_files w)(p := None)\<rparr>))"

lemmas fs_defs =
  fs_read_def fs_create_new_def fs_create_truncate_def fs_write_all_def fs_rename_def
  fs_remove_def

definition println :: "string \<Rightarrow> world \<Rightarrow> world" where
  "println l w = w\<lparr>w_stdout := w_stdout w @ [l]\<rparr>"

lemma println_files [simp]: "w_files (println l w) = w_files w"
  by (simp add: println_def)

text \<open>A system call followed by \<open>map_err\<close> and \<open>?\<close>.\<close>

definition io :: "(world \<Rightarrow> (string + 'a) \<times> world) \<Rightarrow> (string \<Rightarrow> string) \<Rightarrow> (world, 'a) prog" where
  "io f g w = (case f w of (r, w') \<Rightarrow> (map_err g r, w'))"

definition read_file :: "string \<Rightarrow> (string \<Rightarrow> string) \<Rightarrow> (world, string) prog" where
  "read_file p g w = (map_err g (fs_read w p), w)"

lemma unchanged_read_file [unch]: "unchanged f (read_file p g)"
  by (simp add: unchanged_def read_file_def)

text \<open>
  The fixed part of the environment: which paths refuse, and the time. No operation of
  the program changes it.
\<close>

definition w_fixed :: "world \<Rightarrow> (string \<Rightarrow> bool) \<times> (string \<Rightarrow> nat option) \<times> time" where
  "w_fixed w = (w_denied w, w_write_fails w, w_clock w)"

lemma fs_fixed [simp]:
  "w_fixed (snd (fs_create_new p w)) = w_fixed w"
  "w_fixed (snd (fs_create_truncate p w)) = w_fixed w"
  "w_fixed (snd (fs_write_all p d w)) = w_fixed w"
  "w_fixed (snd (fs_rename p q w)) = w_fixed w"
  "w_fixed (snd (fs_remove p w)) = w_fixed w"
  by (auto simp: fs_defs w_fixed_def split: option.splits)

end
