(* ===== verification/Kmip.thy ===== *)
theory Kmip
  imports World
begin

text \<open>
  The KMIP side of keyset (src/commands/keyset/kmip.rs): the configured servers, the
  credentials file, the connection settings loaded from disk, the pools opened so far,
  adding and removing a server, and the labels given to keys created on a server.
\<close>

section \<open>Configuration of a server\<close>

record key_label_config =
  max_label_bytes :: "8 word"
  supports_relabeling :: bool
  label_prefix :: string

record kmip_cert_verification =
  verify_certificate :: bool
  server_cert_path :: "string option"
  ca_cert_path :: "string option"

record kmip_client_limits =
  connect_timeout :: duration
  read_timeout :: duration
  write_timeout :: duration
  max_response_bytes :: u32

record kmip_server_config =
  server_addr :: string
  server_port :: u16
  server_cert_verification :: kmip_cert_verification
  client_credentials_path :: "string option"
  client_cert_auth :: "(string \<times> string) option"
  client_limits :: kmip_client_limits
  key_label_config :: key_label_config

record kmip_state =
  kmip_servers :: "(string \<times> kmip_server_config) list"
  default_server_id :: "string option"

definition kmip_state_default :: kmip_state where
  "kmip_state_default = \<lparr>kmip_servers = [], default_server_id = None\<rparr>"

section \<open>The credentials file\<close>

type_synonym credentials = "(string \<times> string \<times> string option) list"

datatype cred_mode = ReadOnly | ReadWrite | CreateReadWrite

fun cred_mode_display :: "cred_mode \<Rightarrow> string" where
  "cred_mode_display ReadOnly = ''read-only''"
| "cred_mode_display ReadWrite = ''read-write''"
| "cred_mode_display CreateReadWrite = ''create-read-write''"

record cred_file =
  cf_path :: string
  cf_credentials :: credentials
  cf_mode :: cred_mode

definition cred_open :: "string \<Rightarrow> cred_mode \<Rightarrow> (world, unit) prog" where
  "cred_open path mode = io (\<lambda>w. case w_files w path of
       None \<Rightarrow> if mode = CreateReadWrite then fs_create_new path w else (Inl ENOENT, w)
     | Some _ \<Rightarrow> if mode \<noteq> ReadOnly \<and> w_denied w path then (Inl EACCES, w) else (Inr (), w))
     (\<lambda>e. ''unable to open KMIP credentials file '' @ path @ '' in '' @ cred_mode_display mode @ '' mode: '' @ e)"

definition cred_file_new :: "'ks ext \<Rightarrow> string \<Rightarrow> cred_mode \<Rightarrow> (world, cred_file) prog" where
  "cred_file_new E path mode =
     thenP (cred_open path mode)
    (bindP (read_file path id) (\<lambda>content.
     bindP (if content \<noteq> []
            then lift_res (map_err (\<lambda>e. ''error loading KMIP credentials file '' @ path @ '': '' @ e)
                   (parse_credentials E content))
            else ret []) (\<lambda>creds.
     ret \<lparr>cf_path = path, cf_credentials = creds, cf_mode = mode\<rparr>)))"

text \<open>
  \<open>save\<close> seeks to the start, writes, and truncates to the length written; a file opened
  read-only cannot be written.
\<close>

definition cred_file_save :: "'ks ext \<Rightarrow> cred_file \<Rightarrow> (world, unit) prog" where
  "cred_file_save E f =
     io (\<lambda>w. if cf_mode f = ReadOnly then (Inl EBADF, w)
             else fs_write_all (cf_path f) (show_credentials E (cf_credentials f)) w)
        (\<lambda>e. ''error writing KMIP credentials file '' @ cf_path f @ '': '' @ e)"

definition cred_file_contains :: "cred_file \<Rightarrow> string \<Rightarrow> bool" where
  "cred_file_contains f server_id \<longleftrightarrow> map_of (cf_credentials f) server_id \<noteq> None"

definition cred_file_insert ::
  "string \<Rightarrow> string \<times> string option \<Rightarrow> cred_file \<Rightarrow> (string \<times> string option) option \<times> cred_file" where
  "cred_file_insert server_id c f =
     (map_of (cf_credentials f) server_id,
      f\<lparr>cf_credentials := hm_insert server_id c (cf_credentials f)\<rparr>)"

definition cred_file_remove ::
  "string \<Rightarrow> cred_file \<Rightarrow> (string \<times> string option) option \<times> cred_file" where
  "cred_file_remove server_id f =
     (map_of (cf_credentials f) server_id,
      f\<lparr>cf_credentials := hm_remove server_id (cf_credentials f)\<rparr>)"

section \<open>Connection settings and pools\<close>

definition load_binary_file :: "string \<Rightarrow> (world, string) prog" where
  "load_binary_file path = read_file path (\<lambda>e. ''unable to open '' @ path @ '': '' @ e)"

definition load_optional :: "string option \<Rightarrow> (world, string option) prog" where
  "load_optional p = (case p of
     Some p' \<Rightarrow> bindP (load_binary_file p') (\<lambda>c. ret (Some c))
   | None \<Rightarrow> ret None)"

definition load_client_cert :: "kmip_server_config \<Rightarrow> (world, (string \<times> string) option) prog" where
  "load_client_cert c = (case client_cert_auth c of
     Some (cert_path, private_key_path) \<Rightarrow>
       bindP (load_binary_file cert_path) (\<lambda>cert.
       bindP (load_binary_file private_key_path) (\<lambda>k. ret (Some (cert, k))))
   | None \<Rightarrow> ret None)"

definition load_server_cert :: "kmip_server_config \<Rightarrow> (world, string option) prog" where
  "load_server_cert c = load_optional (server_cert_path (server_cert_verification c))"

definition load_ca_cert :: "kmip_server_config \<Rightarrow> (world, string option) prog" where
  "load_ca_cert c = load_optional (ca_cert_path (server_cert_verification c))"

definition load_credentials ::
  "'ks ext \<Rightarrow> kmip_server_config \<Rightarrow> string \<Rightarrow> (world, string option \<times> string option) prog" where
  "load_credentials E c server_id = (case client_credentials_path c of
     Some p \<Rightarrow> bindP (cred_file_new E p ReadOnly) (\<lambda>f.
       (case cred_file_remove server_id f of
          (Some (username, password), _) \<Rightarrow> ret (Some username, password)
        | (None, _) \<Rightarrow> ret (None, None)))
   | None \<Rightarrow> ret (None, None))"

definition kmip_server_load ::
  "'ks ext \<Rightarrow> kmip_server_config \<Rightarrow> string \<Rightarrow> (world, conn_settings) prog" where
  "kmip_server_load E c server_id =
     bindP (load_client_cert c) (\<lambda>client_cert.
     bindP (load_server_cert c) (\<lambda>server_cert.
     bindP (load_ca_cert c) (\<lambda>ca_cert.
     bindP (load_credentials E c server_id) (\<lambda>(username, password).
     ret \<lparr>cs_host = server_addr c, cs_port = server_port c,
          cs_username = username, cs_password = password,
          cs_insecure = (\<not> verify_certificate (server_cert_verification c)),
          cs_client_cert = client_cert, cs_server_cert = server_cert, cs_ca_cert = ca_cert,
          cs_connect_timeout = connect_timeout (client_limits c),
          cs_read_timeout = read_timeout (client_limits c),
          cs_write_timeout = write_timeout (client_limits c),
          cs_max_response_bytes = max_response_bytes (client_limits c)\<rparr>))))"

type_synonym pools = "string \<rightharpoonup> pool"

text \<open>The pools are a \<open>&mut\<close> argument of \<open>get_pool\<close>: the state is the pools and the world.\<close>

definition get_pool :: "'ks ext \<Rightarrow> kmip_state \<Rightarrow> string \<Rightarrow> (pools \<times> world, pool) prog" where
  "get_pool E k i = (\<lambda>(ps, w). case ps i of
     Some pool \<Rightarrow> (Ok pool, (ps, w))
   | None \<Rightarrow>
      (case map_of (kmip_servers k) i of
         None \<Rightarrow> (Err (''No KMIP server config exists for server '' @ i), (ps, w))
       | Some srv \<Rightarrow>
          (case kmip_server_load E srv i w of
             (Err e, w') \<Rightarrow> (Err (''Unable to prepare KMIP connection settings for server '' @ i @ '': '' @ e), (ps, w'))
           | (Panic p, w') \<Rightarrow> (Panic p, (ps, w'))
           | (Ok settings, w') \<Rightarrow>
              (case kmip_create_pool E i settings of
                 Inl e \<Rightarrow> (Err (''Failed to create KMIP connection pool: '' @ e), (ps, w'))
               | Inr pool \<Rightarrow> (Ok pool, (ps(i \<mapsto> pool), w'))))))"

definition get_default_pool :: "'ks ext \<Rightarrow> kmip_state \<Rightarrow> (pools \<times> world, pool option) prog" where
  "get_default_pool E k = (case default_server_id k of
     Some i \<Rightarrow> bindP (get_pool E k i) (\<lambda>p. ret (Some p))
   | None \<Rightarrow> ret None)"

section \<open>Adding and removing servers\<close>

definition add_kmip_credentials ::
  "'ks ext \<Rightarrow> string \<Rightarrow> string \<Rightarrow> (string \<times> string option) option \<Rightarrow> (world, unit) prog" where
  "add_kmip_credentials E server_id path credentials =
     bindP (cred_file_new E path CreateReadWrite) (\<lambda>f.
       (case credentials of
          Some c \<Rightarrow>
            (case cred_file_insert server_id c f of
               (Some _, _) \<Rightarrow> fail (''unable to add KMIP credentials to file '' @ path @ '': server '' @ server_id @ '' already exists.'')
             | (None, f') \<Rightarrow> cred_file_save E f')
        | None \<Rightarrow>
            (if \<not> cred_file_contains f server_id
             then fail (''unable to add KMIP server '' @ server_id @ '': credentials for server not found in '' @ path)
             else ret ())))"

definition add_kmip_server ::
  "'ks ext \<Rightarrow> string \<Rightarrow> bool \<Rightarrow> (string \<times> (string \<times> string option) option) option \<Rightarrow>
     kmip_server_config \<Rightarrow> kmip_state \<Rightarrow> (world, kmip_state) prog" where
  "add_kmip_server E server_id pending credentials settings k =
     (if map_of (kmip_servers k) server_id \<noteq> None
      then fail (''unable to add KMIP server '' @ server_id @ '': server already exists!'')
      else
       bindP (case credentials of
          None \<Rightarrow> ret None
        | Some (path, c) \<Rightarrow> thenP (add_kmip_credentials E server_id path c) (ret (Some path))) (\<lambda>path.
       let srv = settings\<lparr>client_credentials_path := path\<rparr>;
           servers = hm_insert server_id srv (kmip_servers k)
       in ret (k\<lparr>kmip_servers := servers,
             default_server_id := (if \<not> pending \<and> length servers = 1 then Some server_id
                                   else default_server_id k)\<rparr>)))"

definition remove_kmip_client_credentials ::
  "'ks ext \<Rightarrow> string \<Rightarrow> string \<Rightarrow> (world, string \<times> string option) prog" where
  "remove_kmip_client_credentials E server_id path =
     bindP (cred_file_new E path ReadWrite) (\<lambda>f.
       (case cred_file_remove server_id f of
          (None, _) \<Rightarrow> fail (''unable to remove credentials for KMIP server '' @ server_id @ '' from credentials file '' @ path @ '': server id does not exist in the file'')
        | (Some c, f') \<Rightarrow>
            thenP (cred_file_save E f')
           (thenP (if cf_credentials f' = []
                   then io (fs_remove path) (\<lambda>e. ''unable to remove empty credentials file '' @ path @ '' for KMIP server '' @ server_id @ '': '' @ e)
                   else ret ())
            (ret c))))"

definition key_on_server :: "'ks ext \<Rightarrow> string \<Rightarrow> string \<Rightarrow> bool" where
  "key_on_server E server_id key_url_str =
     (case url_parse E key_url_str of
        Inl _ \<Rightarrow> False
      | Inr u \<Rightarrow> (case kmip_key_url E u of Inl _ \<Rightarrow> False | Inr k \<Rightarrow> ku_server_id k = server_id))"

definition remove_kmip_server ::
  "'ks ext \<Rightarrow> 'ks \<Rightarrow> string \<Rightarrow> kmip_state \<Rightarrow> (world, kmip_state) prog" where
  "remove_kmip_server E keyset server_id k =
     (if default_server_id k = Some server_id
      then fail (''KMIP server '' @ server_id @ '' cannot be removed as it is the current default. Use kmip disable first.'')
      else if list_ex (\<lambda>(u, _). key_on_server E server_id u) (ks_keys E keyset)
      then fail (''KMIP server '' @ server_id @ '' cannot be removed as there are still keys using it.'')
      else
        let k' = k\<lparr>kmip_servers := hm_remove server_id (kmip_servers k)\<rparr> in
        (case map_of (kmip_servers k) server_id of
           Some srv \<Rightarrow>
            (case client_credentials_path srv of
               Some path \<Rightarrow> thenP (remove_kmip_client_credentials E server_id path) (ret k')
             | None \<Rightarrow> ret k')
         | None \<Rightarrow> ret k'))"

section \<open>Key labels\<close>

text \<open>
  \<open>name_shorten\<close> is the candidate that \<open>NameBuilder\<close> builds from the labels of a name
  (none when the text is not a name of three labels, or no label fits); the candidate is
  used only if it fits, otherwise the text is cut.
\<close>

definition truncate_zone_name :: "'ks ext \<Rightarrow> string \<Rightarrow> nat \<Rightarrow> string" where
  "truncate_zone_name E zone_name max_zone_name_len =
     (if length zone_name \<le> max_zone_name_len then zone_name
      else if max_zone_name_len > 0 then
        (case name_shorten E zone_name max_zone_name_len of
           Some short \<Rightarrow> if length short \<le> max_zone_name_len then short
                         else take max_zone_name_len zone_name
         | None \<Rightarrow> take max_zone_name_len zone_name)
      else take max_zone_name_len zone_name)"

definition format_key_label ::
  "'ks ext \<Rightarrow> string \<Rightarrow> string \<Rightarrow> string \<Rightarrow> string \<Rightarrow> string \<Rightarrow> nat \<Rightarrow> string res" where
  "format_key_label E pre zone_name tag typ suff max_bytes =
     (let label = (\<lambda>z. pre @ z @ ''-'' @ tag @ ''-'' @ typ @ suff) in
      if length (label zone_name) > max_bytes then
        let diff = length (label zone_name) - max_bytes;
            max_zone_name_len = length zone_name - diff in
        if max_zone_name_len < 8
        then Err (''Insufficient space to include a useful (partial) zone name in generated KMIP key label: '' @ show_nat max_zone_name_len @ '' < 8'')
        else Ok (label (truncate_zone_name E zone_name max_zone_name_len))
      else Ok (label zone_name))"

lemma truncate_zone_name_length: "length (truncate_zone_name E z n) \<le> n"
  by (auto simp: truncate_zone_name_def split: option.splits)

text \<open>
  A key label never exceeds the configured maximum, and the function fails
  exactly when the full label is too long and fewer than eight bytes would be left for
  the zone name.
\<close>

theorem format_key_label_bounds:
  "case format_key_label E pre z tag typ suff n of
     Ok l \<Rightarrow> length l \<le> n
   | Err e \<Rightarrow> length (pre @ z @ ''-'' @ tag @ ''-'' @ typ @ suff) > n
       \<and> length z < 8 + (length (pre @ z @ ''-'' @ tag @ ''-'' @ typ @ suff) - n)
   | Panic p \<Rightarrow> False"
proof (cases "length (pre @ z @ ''-'' @ tag @ ''-'' @ typ @ suff) > n")
  case True
  let ?L = "length (pre @ z @ ''-'' @ tag @ ''-'' @ typ @ suff)"
  let ?k = "length z - (?L - n)"
  show ?thesis
  proof (cases "?k < 8")
    case True
    with \<open>?L > n\<close> show ?thesis by (simp add: format_key_label_def Let_def)
  next
    case False
    have "length (truncate_zone_name E z ?k) \<le> ?k" by (rule truncate_zone_name_length)
    with False \<open>?L > n\<close> show ?thesis by (simp add: format_key_label_def Let_def)
  qed
next
  case False
  then show ?thesis by (simp add: format_key_label_def Let_def)
qed

end
