(* ===== verification/Workspace.thy ===== *)
theory Workspace
  imports Kmip
begin

text \<open>
  The state a \<open>dnst keyset\<close> command works on (\<open>WorkSpace\<close> and \<open>KeySetState\<close> of
  src/commands/keyset/cmd.rs, together with the world), the access to its parts, and the
  operations on key files and HSM keys: \<open>public_key_from_url\<close>, \<open>new_keys\<close>,
  \<open>new_csk_or_ksk_zsk\<close> and \<open>remove_key\<close>.
\<close>

section \<open>State\<close>

datatype auto_report_result = AReport ttl | AWait time string

datatype auto_rrsig_result =
  RReport ttl
| RWait time string
| RWaitSoa time u32 ttl ttl string
| RWaitRecord time name rtype ttl string
| RWaitNextSerial time u32 ttl string

record report_state =
  rep_dnskey :: "auto_report_result option"
  rep_ds :: "auto_report_result option"
  rep_rrsig :: "auto_rrsig_result option"

definition report_state_default :: report_state where
  "report_state_default = \<lparr>rep_dnskey = None, rep_ds = None, rep_rrsig = None\<rparr>"

record roll_state_reports =
  rsr_propagation1 :: report_state
  rsr_propagation2 :: report_state
  rsr_done :: report_state

definition roll_state_reports_default :: roll_state_reports where
  "roll_state_reports_default = \<lparr>rsr_propagation1 = report_state_default,
     rsr_propagation2 = report_state_default, rsr_done = report_state_default\<rparr>"

record 'ks kss =
  st_keyset :: 'ks
  st_dnskey_rrset :: "string list"
  st_ds_rrset :: "string list"
  st_cds_rrset :: "string list"
  st_ns_rrset :: "string list"
  st_apex_remove :: "rtype list"
  st_apex_extra :: "string list"
  st_cron_next :: "time option"
  st_kmip :: kmip_state
  st_internal :: "roll_type \<rightharpoonup> roll_state_reports"

record 'ks ws =
  ws_config :: keyset_config
  ws_state :: "'ks kss"
  ws_config_changed :: bool
  ws_state_changed :: bool
  ws_run_update_ds_command :: bool
  ws_cascade :: bool
  ws_verbose :: bool
  ws_pools :: pools
  ws_tsig_store :: tsig_store
  ws_world :: world

abbreviation ws_keyset :: "'ks ws \<Rightarrow> 'ks" where
  "ws_keyset s \<equiv> st_keyset (ws_state s)"

abbreviation ws_files :: "'ks ws \<Rightarrow> string \<rightharpoonup> string" where
  "ws_files s \<equiv> w_files (ws_world s)"

definition upd_state :: "('ks kss \<Rightarrow> 'ks kss) \<Rightarrow> 'ks ws \<Rightarrow> 'ks ws" where
  "upd_state f s = s\<lparr>ws_state := f (ws_state s)\<rparr>"

definition set_state_changed :: "'ks ws \<Rightarrow> 'ks ws" where
  "set_state_changed s = s\<lparr>ws_state_changed := True\<rparr>"

text \<open>\<open>faketime_or_now\<close>.\<close>

definition faketime_or_now :: "'ks ws \<Rightarrow> time" where
  "faketime_or_now s = (case faketime (ws_config s) of Some t \<Rightarrow> t | None \<Rightarrow> w_clock (ws_world s))"

section \<open>Access to the parts of the state\<close>

definition in_world :: "(world, 'a) prog \<Rightarrow> ('ks ws, 'a) prog" where
  "in_world m s = (case m (ws_world s) of (r, w) \<Rightarrow> (r, s\<lparr>ws_world := w\<rparr>))"

definition in_pools :: "(pools \<times> world, 'a) prog \<Rightarrow> ('ks ws, 'a) prog" where
  "in_pools m s = (case m (ws_pools s, ws_world s) of
     (r, p, w) \<Rightarrow> (r, s\<lparr>ws_pools := p, ws_world := w\<rparr>))"

text \<open>A call of a \<open>KeySet\<close> method: its result as a value, the keyset replaced.\<close>

definition ks_call :: "('ks \<Rightarrow> (ks_error + 'a) \<times> 'ks) \<Rightarrow> ('ks ws, ks_error + 'a) prog" where
  "ks_call f s = (case f (ws_keyset s) of
     (r, k) \<Rightarrow> (Ok r, upd_state (\<lambda>st. st\<lparr>st_keyset := k\<rparr>) s))"

text \<open>The same followed by \<open>map_err\<close> and \<open>?\<close>, and by \<open>expect\<close>.\<close>

definition ks_try ::
  "'ks ext \<Rightarrow> (string \<Rightarrow> string) \<Rightarrow> ('ks \<Rightarrow> (ks_error + 'a) \<times> 'ks) \<Rightarrow> ('ks ws, 'a) prog" where
  "ks_try E g f = bindP (ks_call f) (\<lambda>r. case r of
     Inl e \<Rightarrow> fail (g (ks_show_error E e))
   | Inr x \<Rightarrow> ret x)"

definition ks_expect :: "string \<Rightarrow> ('ks \<Rightarrow> (ks_error + 'a) \<times> 'ks) \<Rightarrow> ('ks ws, 'a) prog" where
  "ks_expect p f = bindP (ks_call f) (\<lambda>r. case r of
     Inl e \<Rightarrow> panic p
   | Inr x \<Rightarrow> ret x)"

definition try_res :: "(string \<Rightarrow> string) \<Rightarrow> string + 'a \<Rightarrow> ('s, 'a) prog" where
  "try_res g r = lift_res (map_err g r)"

definition print_line :: "string \<Rightarrow> ('ks ws, unit) prog" where
  "print_line l = in_world (modify (println l))"

definition get_kmip_pool :: "'ks ext \<Rightarrow> string \<Rightarrow> ('ks ws, pool) prog" where
  "get_kmip_pool E i = bindP (gets (\<lambda>s. st_kmip (ws_state s))) (\<lambda>k. in_pools (get_pool E k i))"

definition get_kmip_default_pool :: "'ks ext \<Rightarrow> ('ks ws, pool option) prog" where
  "get_kmip_default_pool E =
     bindP (gets (\<lambda>s. st_kmip (ws_state s))) (\<lambda>k. in_pools (get_default_pool E k))"

lemma unchanged_try [unch]: "unchanged f (try_res g r)"
  by (simp add: try_res_def unch)

lemma preserves_try [keeps]: "preserves P (try_res g r)"
  by (simp add: try_res_def keeps)

section \<open>Keys by URL\<close>

definition public_key_from_url :: "'ks ext \<Rightarrow> url \<Rightarrow> ('ks ws, dnskey_rr) prog" where
  "public_key_from_url E u =
    (if url_scheme u = ''file'' then
       bindP (in_world (read_file (url_path u) (\<lambda>e. ''unable read from file '' @ url_path u @ '': '' @ e))) (\<lambda>data.
       bindP (try_res (\<lambda>e. ''unable to parse public key file '' @ url_path u @ '': '' @ e) (parse_from_bind E data)) (\<lambda>r.
       bindP (gets (\<lambda>s. default_ttl (ws_config s))) (\<lambda>t.
       ret (DnskeyRR (kr_owner r) (kr_class r) t (kr_data r)))))
     else if url_scheme u = ''kmip'' then
       bindP (try_res id (kmip_key_url E u)) (\<lambda>ku.
       bindP (get_kmip_pool E (ku_server_id ku)) (\<lambda>pool.
       bindP (try_res (\<lambda>e. ''Failed to fetch public key for KMIP key URL: '' @ e) (kmip_public_key E ku pool)) (\<lambda>pk.
       bindP (gets (\<lambda>s. (ks_name E (ws_keyset s), default_ttl (ws_config s)))) (\<lambda>(owner, t).
       ret (DnskeyRR owner class_IN t (pk (ku_flags ku)))))))
     else panic (''unsupported scheme in '' @ url_text u))"

definition remove_key :: "'ks ext \<Rightarrow> url \<Rightarrow> ('ks ws, unit) prog" where
  "remove_key E u =
    (if url_scheme u = ''file'' then
       in_world (io (fs_remove (url_path u)) (\<lambda>e. ''unable to remove key file '' @ url_path u @ '': '' @ e))
     else if url_scheme u = ''kmip'' then
       bindP (try_res id (kmip_key_url E u)) (\<lambda>ku.
       bindP (get_kmip_pool E (ku_server_id ku)) (\<lambda>pool.
       thenP (try_res id (kmip_connect E pool))
        (try_res (\<lambda>e. ''unable to remove key '' @ url_text u @ '': '' @ e) (kmip_destroy_key E pool (ku_key_id ku)))))
     else panic (''Unsupported URL scheme while removing key '' @ url_text u))"

section \<open>Creating keys\<close>

text \<open>
  One attempt of the generation loop: the key pair, unless a key of the keyset has its
  key tag.
\<close>

definition generate_once ::
  "'ks ext \<Rightarrow> generate_params \<Rightarrow> u16 \<Rightarrow> u16 list \<Rightarrow> ('ks ws, (string \<times> dnskey) option) prog" where
  "generate_once E params flags tags =
     bindP (in_world (\<lambda>w. (Ok (w_generated w), w\<lparr>w_generated := Suc (w_generated w)\<rparr>))) (\<lambda>n.
     bindP (try_res (\<lambda>e. ''key generation failed: '' @ e) (generate_key E n params flags)) (\<lambda>(secret, pk).
     ret (if dnskey_key_tag E pk \<in> set tags then None else Some (secret, pk))))"

text \<open>Re-labelling a fresh HSM key pair once its key tag is known.\<close>

definition relabel_server :: "string \<Rightarrow> 'ks kss \<Rightarrow> 'ks kss" where
  "relabel_server i st = st\<lparr>st_kmip := (st_kmip st)\<lparr>kmip_servers :=
     map (\<lambda>(j, c). (j, if j = i then c\<lparr>key_label_config := (key_label_config c)\<lparr>supports_relabeling := False\<rparr>\<rparr> else c))
       (kmip_servers (st_kmip st))\<rparr>\<rparr>"

definition relabel_keys ::
  "'ks ext \<Rightarrow> string \<Rightarrow> key_label_config \<Rightarrow> bool \<Rightarrow> pool \<Rightarrow> kmip_pair \<Rightarrow> ('ks ws, unit) prog" where
  "relabel_keys E i cfg make_ksk pool kp =
    bindP (gets (\<lambda>s. ks_name E (ws_keyset s))) (\<lambda>zone_name.
    let typ = (if make_ksk then ''ksk'' else ''zsk'');
        tag = show_nat (unat (dnskey_key_tag E (kp_dnskey kp)));
        label = (\<lambda>suff. format_key_label E (label_prefix cfg) zone_name tag typ suff (unat (max_label_bytes cfg)))
    in (case (label ''-pub'', label ''-pri'') of
        (Ok pub, Ok pri) \<Rightarrow>
          thenP (try_res id (kmip_connect E pool))
           (case kmip_rename_key E pool (kp_public_id kp) pub of
              Inr _ \<Rightarrow> try_res (\<lambda>e. ''KMIP key generation failed: failed to re-label private key with id '' @ kp_private_id kp @ '': '' @ e)
                          (kmip_rename_key E pool (kp_private_id kp) pri)
            | Inl _ \<Rightarrow> modify (upd_state (relabel_server i)))
      | _ \<Rightarrow> ret ()))"

definition kmip_generate_once ::
  "'ks ext \<Rightarrow> generate_params \<Rightarrow> u16 \<Rightarrow> u16 list \<Rightarrow> bool \<Rightarrow> string \<Rightarrow> pool \<Rightarrow> ('ks ws, kmip_pair option) prog" where
  "kmip_generate_once E params flags tags make_ksk i pool =
     bindP (gets (\<lambda>s. map_of (kmip_servers (st_kmip (ws_state s))) i)) (\<lambda>srv.
     bindP (expect ''called Option::unwrap on a None value'' srv) (\<lambda>srv.
     bindP (in_world (\<lambda>w. (Ok (w_generated w), w\<lparr>w_generated := Suc (w_generated w)\<rparr>))) (\<lambda>n.
     bindP (try_res (\<lambda>e. ''KMIP key generation failed: '' @ e) (kmip_generate E n params flags pool)) (\<lambda>kp.
     if dnskey_key_tag E (kp_dnskey kp) \<in> set tags then ret None
     else thenP (whenP (supports_relabeling (key_label_config srv))
                   (relabel_keys E i (key_label_config srv) make_ksk pool kp))
           (ret (Some kp))))))"

text \<open>The loop of both back ends: stop at a fresh key tag, give up when \<open>retries \<le> 1\<close>.\<close>

fun retry_unique :: "nat \<Rightarrow> ('s, 'a option) prog \<Rightarrow> ('s, 'a) prog" where
  "retry_unique 0 once = bindP once (\<lambda>r. case r of
      Some x \<Rightarrow> ret x
    | None \<Rightarrow> fail ''unable to generate key with unique key tag'')"
| "retry_unique (Suc n) once = bindP once (\<lambda>r. case r of
      Some x \<Rightarrow> ret x
    | None \<Rightarrow> if Suc n \<le> 1 then fail ''unable to generate key with unique key tag''
              else retry_unique n once)"

definition path_join :: "string \<Rightarrow> string \<Rightarrow> string" where
  "path_join dir file = (if dir = [] \<or> last dir = CHR ''/'' then dir @ file else dir @ ''/'' @ file)"

definition key_base :: "'ks ext \<Rightarrow> name \<Rightarrow> dnskey \<Rightarrow> string" where
  "key_base E n pk = ''K'' @ name_fmt_with_dot E n @ ''+'' @ zero_pad 3 (show_nat (dk_algorithm pk))
     @ ''+'' @ zero_pad 5 (show_nat (unat (dnskey_key_tag E pk)))"

text \<open>\<open>create_new_file\<close> of src/util.rs.\<close>

definition create_new_file :: "string \<Rightarrow> (world, unit) prog" where
  "create_new_file path = io (fs_create_new path) (\<lambda>e. ''cannot create '' @ path @ '': '' @ e)"

text \<open>The files of a fresh key pair: both are created before either is written.\<close>

definition write_key_files :: "string \<Rightarrow> string \<Rightarrow> string \<Rightarrow> string \<Rightarrow> string \<Rightarrow> (world, unit) prog" where
  "write_key_files base secret_path public_path secret_text public_text =
     thenP (create_new_file secret_path)
    (thenP (create_new_file public_path)
    (thenP (io (fs_write_all secret_path secret_text)
              (\<lambda>e. ''error while writing private key file '' @ base @ ''.private: '' @ e))
           (io (fs_write_all public_path public_text)
              (\<lambda>e. ''error while writing public key file '' @ base @ ''.key: '' @ e))))"

definition new_file_keys ::
  "'ks ext \<Rightarrow> generate_params \<Rightarrow> u16 \<Rightarrow> u16 list \<Rightarrow> ('ks ws, url \<times> url \<times> nat \<times> u16) prog" where
  "new_file_keys E params flags tags =
     bindP (retry_unique MAX_KEY_TAG_TRIES (generate_once E params flags tags)) (\<lambda>(secret, pk).
     bindP (gets (\<lambda>s. (ks_name E (ws_keyset s), keys_dir (ws_config s)))) (\<lambda>(n, dir).
     let base = key_base E n pk;
         secret_path = path_join dir (base @ ''.private'');
         public_path = path_join dir (base @ ''.key'')
     in thenP (in_world (write_key_files base secret_path public_path
                 (secret_display_as_bind E secret)
                 (display_as_bind E (DnskeyRR n class_IN 0 pk))))
       (bindP (try_res (\<lambda>e. ''unable to parse file://'' @ secret_path @ '' as URL: '' @ e) (url_parse E (''file://'' @ secret_path))) (\<lambda>secret_url.
        bindP (try_res (\<lambda>e. ''unable to parse file://'' @ public_path @ '' as URL: '' @ e) (url_parse E (''file://'' @ public_path))) (\<lambda>public_url.
        ret (public_url, secret_url, dk_algorithm pk, dnskey_key_tag E pk))))))"

definition new_kmip_keys ::
  "'ks ext \<Rightarrow> generate_params \<Rightarrow> u16 \<Rightarrow> u16 list \<Rightarrow> bool \<Rightarrow> pool \<Rightarrow> ('ks ws, url \<times> url \<times> nat \<times> u16) prog" where
  "new_kmip_keys E params flags tags make_ksk pool =
     bindP (gets (\<lambda>s. default_server_id (st_kmip (ws_state s)))) (\<lambda>i.
     bindP (retry_unique MAX_KEY_TAG_TRIES (kmip_generate_once E params flags tags make_ksk (case i of Some x \<Rightarrow> x | None \<Rightarrow> []) pool)) (\<lambda>kp.
     ret (kp_public_url kp, kp_private_url kp, kp_algorithm kp, dnskey_key_tag E (kp_dnskey kp))))"

definition new_keys :: "'ks ext \<Rightarrow> bool \<Rightarrow> ('ks ws, url \<times> url \<times> nat \<times> u16) prog" where
  "new_keys E make_ksk =
     bindP (gets (\<lambda>s. to_generate_params (config_algorithm (ws_config s)))) (\<lambda>p.
     bindP (lift_res p) (\<lambda>params.
     bindP (gets (\<lambda>s. map (\<lambda>(_, k). key_tag k) (ks_keys E (ws_keyset s)))) (\<lambda>tags.
     let flags = (if make_ksk then 257 else 256) in
     bindP (get_kmip_default_pool E) (\<lambda>dflt. case dflt of
        Some pool \<Rightarrow> new_kmip_keys E params flags tags make_ksk pool
      | None \<Rightarrow> new_file_keys E params flags tags))))"

definition add_new_key ::
  "'ks ext \<Rightarrow> (string \<Rightarrow> string option \<Rightarrow> nat \<Rightarrow> u16 \<Rightarrow> time \<Rightarrow> 'ks \<Rightarrow> (ks_error + unit) \<times> 'ks) \<Rightarrow>
     string \<Rightarrow> time \<Rightarrow> url \<times> url \<times> nat \<times> u16 \<Rightarrow> ('ks ws, unit) prog" where
  "add_new_key E add kind now = (\<lambda>(pub_url, priv_url, alg, tag).
     ks_try E (\<lambda>e. ''unable to add '' @ kind @ '' '' @ url_text pub_url @ '': '' @ e)
       (add (url_text pub_url) (Some (url_text priv_url)) alg tag now))"

definition new_csk_or_ksk_zsk :: "'ks ext \<Rightarrow> ('ks ws, url list \<times> url list) prog" where
  "new_csk_or_ksk_zsk E =
    bindP (gets faketime_or_now) (\<lambda>now.
    bindP (gets (\<lambda>s. use_csk (ws_config s))) (\<lambda>csk.
    if csk then
      bindP (new_keys E True) (\<lambda>(pub, priv, alg, tag).
      thenP (add_new_key E (ks_add_key_csk E) ''CSK'' now (pub, priv, alg, tag))
       (ret ([pub], [priv, pub])))
    else
      bindP (new_keys E True) (\<lambda>(kpub, kpriv, kalg, ktag).
      thenP (add_new_key E (ks_add_key_ksk E) ''KSK'' now (kpub, kpriv, kalg, ktag))
     (bindP (new_keys E False) (\<lambda>(zpub, zpriv, zalg, ztag).
      thenP (add_new_key E (ks_add_key_zsk E) ''ZSK'' now (zpub, zpriv, zalg, ztag))
       (ret ([kpub, zpub], [kpriv, kpub, zpriv, zpub])))))))"

end
