(* ===== verification/Demo.thy ===== *)
theory Demo
  imports Workspace
begin

text \<open>
  A concrete instance of the crates' operations, small enough to compute with. The
  witnesses of the development run the model on it, which shows that the hypotheses of the
  theorems can hold. A demo keyset is a list of keys and a list of rolls; a demo key file
  holds the public key itself, and the key tag is the length of the public key.
\<close>

record demo_ks =
  dm_name :: name
  dm_keys :: "(string \<times> key) list"
  dm_rolls :: "(roll_type \<times> roll_state) list"

definition demo_key :: "key_type \<Rightarrow> string option \<Rightarrow> nat \<Rightarrow> u16 \<Rightarrow> time \<Rightarrow> key" where
  "demo_key ty priv alg tag now = \<lparr>privref = priv, decoupled = False, keytype = ty,
     algorithm = alg, key_tag = tag,
     key_times = \<lparr>creation = Some now, published = None, visible = None, ds_visible = None,
       rrsig_visible = None, withdrawn = None\<rparr>\<rparr>"

definition demo_idle :: key_state where
  "demo_idle = \<lparr>stale = False, signer = False, present = False, at_parent = False\<rparr>"

definition demo_active :: key_state where
  "demo_active = \<lparr>stale = False, signer = True, present = True, at_parent = True\<rparr>"

definition demo_stale :: key_state where
  "demo_stale = \<lparr>stale = True, signer = False, present = False, at_parent = False\<rparr>"

definition demo_add :: "key_type \<Rightarrow> string \<Rightarrow> string option \<Rightarrow> nat \<Rightarrow> u16 \<Rightarrow> time \<Rightarrow> demo_ks \<Rightarrow> (ks_error + unit) \<times> demo_ks" where
  "demo_add ty u priv alg tag now k = (Inr (), k\<lparr>dm_keys := dm_keys k @ [(u, demo_key ty priv alg tag now)]\<rparr>)"

definition demo_upd_key :: "string \<Rightarrow> (key_state \<Rightarrow> key_state) \<Rightarrow> demo_ks \<Rightarrow> (ks_error + unit) \<times> demo_ks" where
  "demo_upd_key u f k =
    (let upd = (\<lambda>ty. case ty of Ksk st \<Rightarrow> Ksk (f st) | Zsk st \<Rightarrow> Zsk (f st)
        | Csk a b \<Rightarrow> Csk (f a) (f b) | Include st \<Rightarrow> Include (f st))
     in if u \<in> fst ` set (dm_keys k)
        then (Inr (), k\<lparr>dm_keys := map (\<lambda>(v, x). (v, if v = u then x\<lparr>keytype := upd (keytype x)\<rparr> else x)) (dm_keys k)\<rparr>)
        else (Inl (KsError ''key not found''), k))"

definition demo_start :: "roll_type \<Rightarrow> string list \<Rightarrow> string list \<Rightarrow> demo_ks \<Rightarrow> (ks_error + action list) \<times> demo_ks" where
  "demo_start r old new k =
    (if r \<in> fst ` set (dm_rolls k) then (Inl (KsError ''roll in progress''), k)
     else (Inr [UpdateDnskeyRrset, ReportDnskeyPropagated], k\<lparr>dm_rolls := dm_rolls k @ [(r, Propagation1)]\<rparr>))"

definition demo_step :: "(roll_state \<Rightarrow> (roll_state \<times> action list) option) \<Rightarrow> roll_type \<Rightarrow> demo_ks \<Rightarrow> (ks_error + action list) \<times> demo_ks" where
  "demo_step f r k = (case map_of (dm_rolls k) r of
      None \<Rightarrow> (Inl (KsError ''no such roll''), k)
    | Some st \<Rightarrow> (case f st of
         None \<Rightarrow> (Inl (KsError ''wrong state''), k)
       | Some (st', acts) \<Rightarrow>
           (Inr acts, k\<lparr>dm_rolls := map (\<lambda>(q, x). (q, if q = r then st' else x)) (dm_rolls k)\<rparr>)))"

definition demo_done :: "roll_type \<Rightarrow> demo_ks \<Rightarrow> (ks_error + action list) \<times> demo_ks" where
  "demo_done r k = (case map_of (dm_rolls k) r of
      Some Done \<Rightarrow> (Inr [], k\<lparr>dm_rolls := filter (\<lambda>(q, x). q \<noteq> r) (dm_rolls k)\<rparr>)
    | _ \<Rightarrow> (Inl (KsError ''wrong state''), k))"

definition demo_actions :: "demo_ks \<Rightarrow> roll_type \<Rightarrow> action list" where
  "demo_actions k r = (case map_of (dm_rolls k) r of
      Some Propagation1 \<Rightarrow> [ReportDnskeyPropagated]
    | Some Propagation2 \<Rightarrow> [ReportDnskeyPropagated, ReportRrsigPropagated]
    | Some Done \<Rightarrow> [WaitDnskeyPropagated]
    | _ \<Rightarrow> [])"

fun demo_url :: "string \<Rightarrow> string + url" where
  "demo_url s = (if take 7 s = ''file://'' then Inr (Url ''file'' (drop 7 s) s)
     else if take 7 s = ''kmip://'' then Inr (Url ''kmip'' (drop 7 s) s)
     else Inl ''relative URL without a base'')"

definition demo_public :: "nat \<Rightarrow> u16 \<Rightarrow> dnskey" where
  "demo_public n flags = DnskeyData flags 3 15 (replicate (Suc n) (CHR ''k''))"

definition demo_parse :: "string \<Rightarrow> string + dnskey_rr" where
  "demo_parse s = (if s = [] then Inl ''empty''
     else Inr (DnskeyRR ''example'' class_IN 0 (DnskeyData 257 3 15 s)))"

definition demo_sign :: "signing_key \<Rightarrow> rr list \<Rightarrow> u32 \<Rightarrow> u32 \<Rightarrow> string + rr" where
  "demo_sign sk rrs inception expiration = (case rrs of
      [] \<Rightarrow> Inl ''empty RRset''
    | r # _ \<Rightarrow> Inr (RR (rr_owner r) class_IN (rr_ttl r)
        (Rrsig (RrsigData (rtype_of (rr_data r)) 15 1 inception expiration (sk_pair sk)))))"

definition demo_show :: "rr \<Rightarrow> string" where
  "demo_show r = rr_owner r @ (case rr_data r of
      Dnskey d \<Rightarrow> '' DNSKEY '' @ dk_public_key d
    | Rrsig s \<Rightarrow> '' RRSIG '' @ sig_signature s
    | Ds d \<Rightarrow> '' DS '' @ ds_digest d
    | Cds d \<Rightarrow> '' CDS '' @ ds_digest d
    | Cdnskey d \<Rightarrow> '' CDNSKEY '' @ dk_public_key d
    | _ \<Rightarrow> '' OTHER'')"

definition demo_message :: message where
  "demo_message = \<lparr>opt_rcode = 0, answer = Inr [], authority = Inr []\<rparr>"

definition demo_suffix :: "string \<Rightarrow> string \<Rightarrow> bool" where
  "demo_suffix n z = (drop (length n - length z) n = z \<and> length z \<le> length n)"

definition demo_pair :: "nat \<Rightarrow> u16 \<Rightarrow> kmip_pair" where
  "demo_pair n flags = KmipPair (Url ''kmip'' ''pub'' ''kmip://pub'') (Url ''kmip'' ''pri'' ''kmip://pri'')
     ''pub'' ''pri'' 15 (demo_public n flags)"

definition demo :: "demo_ks ext" where
  "demo = \<lparr>
    ks_new = (\<lambda>n. \<lparr>dm_name = n, dm_keys = [], dm_rolls = []\<rparr>),
    ks_name = (dm_name),
    ks_keys = (dm_keys),
    ks_rollstates = (dm_rolls),
    ks_actions = (demo_actions),
    ks_start_roll = (demo_start),
    ks_propagation1_complete = (\<lambda>r t. demo_step (\<lambda>st. if st = Propagation1 then Some (CacheExpire1 t, []) else None) r),
    ks_cache_expired1 = (demo_step (\<lambda>st. case st of CacheExpire1 _ \<Rightarrow> Some (Propagation2, [UpdateDnskeyRrset]) | _ \<Rightarrow> None)),
    ks_propagation2_complete = (\<lambda>r t. demo_step (\<lambda>st. if st = Propagation2 then Some (CacheExpire2 t, []) else None) r),
    ks_cache_expired2 = (demo_step (\<lambda>st. case st of CacheExpire2 _ \<Rightarrow> Some (Done, [UpdateDnskeyRrset]) | _ \<Rightarrow> None)),
    ks_roll_done = (demo_done),
    ks_add_key_ksk = (demo_add (Ksk demo_idle)),
    ks_add_key_zsk = (demo_add (Zsk demo_idle)),
    ks_add_key_csk = (demo_add (Csk demo_idle demo_idle)),
    ks_add_public_key = (\<lambda>u. demo_add (Include demo_idle) u None),
    ks_delete_key = (\<lambda>u k. (Inr (), k\<lparr>dm_keys := filter (\<lambda>(v, x). v \<noteq> u) (dm_keys k)\<rparr>)),
    ks_set_present = (\<lambda>u b. demo_upd_key u (\<lambda>st. st\<lparr>present := b\<rparr>)),
    ks_set_visible = (\<lambda>u t. demo_upd_key u id),
    ks_set_signer = (\<lambda>u b. demo_upd_key u (\<lambda>st. st\<lparr>signer := b\<rparr>)),
    ks_set_decoupled = (\<lambda>u b. demo_upd_key u id),
    ks_set_at_parent = (\<lambda>u b. demo_upd_key u (\<lambda>st. st\<lparr>at_parent := b\<rparr>)),
    ks_set_ds_visible = (\<lambda>u t. demo_upd_key u id),
    ks_set_rrsig_visible = (\<lambda>u t. demo_upd_key u id),
    ks_set_stale = (\<lambda>u. demo_upd_key u (\<lambda>_. demo_stale)),
    ks_show_error = (\<lambda>e. case e of KsWait d \<Rightarrow> ''wait'' | KsError s \<Rightarrow> s),
    url_parse = (demo_url),
    parse_from_bind = (demo_parse),
    secret_parse_from_bind = (Inr),
    keypair_from_bytes = (\<lambda>secret pk. Inr secret),
    generate_key = (\<lambda>n p flags. Inr (''s'', demo_public n flags)),
    params_algorithm = (\<lambda>p. 15),
    secret_display_as_bind = (id),
    display_as_bind = (\<lambda>r. dk_public_key (kr_data r)),
    dnskey_key_tag = (\<lambda>d. of_nat (length (dk_public_key d))),
    dnskey_digest = (\<lambda>d n a. Inr (''digest of '' @ dk_public_key d)),
    rrset_new = (\<lambda>rrs. if rrs = [] then Inl ''empty RRset'' else Inr ()),
    sign_rrset = (demo_sign),
    display_zonefile = (demo_show),
    zonefile_entries = (\<lambda>s. []),
    timestamp_to_system_time = (\<lambda>u now. from_secs (unat u)),
    name_from_str = (Inr),
    name_ends_with = (demo_suffix),
    name_fmt_with_dot = (\<lambda>n. n @ ''.''),
    name_parent = (\<lambda>n. if n = [] then None else Some (drop 1 (dropWhile (\<lambda>c. c \<noteq> CHR ''.'') n))),
    serial_lt = (\<lambda>a b. a < b),
    kmip_key_url = (\<lambda>u. Inr (KmipUrl ''hsm'' (url_path u) 257)),
    kmip_create_pool = (\<lambda>i c. Inr i),
    kmip_public_key = (\<lambda>u p. Inr (\<lambda>flags. demo_public 0 flags)),
    kmip_key_pair = (\<lambda>u v p. Inr ''hsm-pair''),
    kmip_pair_from_metadata = (\<lambda>alg flags pub pri p. Inr (demo_pair 0 flags)),
    kmip_connect = (\<lambda>p. Inr ()),
    kmip_destroy_key = (\<lambda>p k. Inr ()),
    kmip_generate = (\<lambda>n p flags pool. Inr (demo_pair n flags)),
    kmip_rename_key = (\<lambda>p k l. Inr ()),
    name_shorten = (\<lambda>n m. Some (take m n)),
    parse_credentials = (\<lambda>s. Inr []),
    show_credentials = (\<lambda>l. []),
    resolver_query = (\<lambda>n t. Inr demo_message),
    lookup_host = (\<lambda>n. Inr [''192.0.2.1'']),
    query_at = (\<lambda>a n t. Inr demo_message),
    tcp_connect = (\<lambda>a. Inr ()),
    axfr_replies = (\<lambda>a k n. []),
    show_rcode = (\<lambda>n. show_nat n),
    show_serial = (\<lambda>n. show_nat (unat n)),
    show_debug_sigs = (\<lambda>l. []),
    show_rr = (demo_show),
    show_rtype = (\<lambda>t. ''TYPE''),
    name_less = (\<lambda>a b. length a < length b)\<rparr>"

lemma demo_sel [simp]:
  "ks_new demo = (\<lambda>n. \<lparr>dm_name = n, dm_keys = [], dm_rolls = []\<rparr>)"
  "ks_name demo = (dm_name)"
  "ks_keys demo = (dm_keys)"
  "ks_rollstates demo = (dm_rolls)"
  "ks_actions demo = (demo_actions)"
  "ks_start_roll demo = (demo_start)"
  "ks_propagation1_complete demo = (\<lambda>r t. demo_step (\<lambda>st. if st = Propagation1 then Some (CacheExpire1 t, []) else None) r)"
  "ks_cache_expired1 demo = (demo_step (\<lambda>st. case st of CacheExpire1 _ \<Rightarrow> Some (Propagation2, [UpdateDnskeyRrset]) | _ \<Rightarrow> None))"
  "ks_propagation2_complete demo = (\<lambda>r t. demo_step (\<lambda>st. if st = Propagation2 then Some (CacheExpire2 t, []) else None) r)"
  "ks_cache_expired2 demo = (demo_step (\<lambda>st. case st of CacheExpire2 _ \<Rightarrow> Some (Done, [UpdateDnskeyRrset]) | _ \<Rightarrow> None))"
  "ks_roll_done demo = (demo_done)"
  "ks_add_key_ksk demo = (demo_add (Ksk demo_idle))"
  "ks_add_key_zsk demo = (demo_add (Zsk demo_idle))"
  "ks_add_key_csk demo = (demo_add (Csk demo_idle demo_idle))"
  "ks_add_public_key demo = (\<lambda>u. demo_add (Include demo_idle) u None)"
  "ks_delete_key demo = (\<lambda>u k. (Inr (), k\<lparr>dm_keys := filter (\<lambda>(v, x). v \<noteq> u) (dm_keys k)\<rparr>))"
  "ks_set_present demo = (\<lambda>u b. demo_upd_key u (\<lambda>st. st\<lparr>present := b\<rparr>))"
  "ks_set_visible demo = (\<lambda>u t. demo_upd_key u id)"
  "ks_set_signer demo = (\<lambda>u b. demo_upd_key u (\<lambda>st. st\<lparr>signer := b\<rparr>))"
  "ks_set_decoupled demo = (\<lambda>u b. demo_upd_key u id)"
  "ks_set_at_parent demo = (\<lambda>u b. demo_upd_key u (\<lambda>st. st\<lparr>at_parent := b\<rparr>))"
  "ks_set_ds_visible demo = (\<lambda>u t. demo_upd_key u id)"
  "ks_set_rrsig_visible demo = (\<lambda>u t. demo_upd_key u id)"
  "ks_set_stale demo = (\<lambda>u. demo_upd_key u (\<lambda>_. demo_stale))"
  "ks_show_error demo = (\<lambda>e. case e of KsWait d \<Rightarrow> ''wait'' | KsError s \<Rightarrow> s)"
  "url_parse demo = (demo_url)"
  "parse_from_bind demo = (demo_parse)"
  "secret_parse_from_bind demo = (Inr)"
  "keypair_from_bytes demo = (\<lambda>secret pk. Inr secret)"
  "generate_key demo = (\<lambda>n p flags. Inr (''s'', demo_public n flags))"
  "params_algorithm demo = (\<lambda>p. 15)"
  "secret_display_as_bind demo = (id)"
  "display_as_bind demo = (\<lambda>r. dk_public_key (kr_data r))"
  "dnskey_key_tag demo = (\<lambda>d. of_nat (length (dk_public_key d)))"
  "dnskey_digest demo = (\<lambda>d n a. Inr (''digest of '' @ dk_public_key d))"
  "rrset_new demo = (\<lambda>rrs. if rrs = [] then Inl ''empty RRset'' else Inr ())"
  "sign_rrset demo = (demo_sign)"
  "display_zonefile demo = (demo_show)"
  "zonefile_entries demo = (\<lambda>s. [])"
  "timestamp_to_system_time demo = (\<lambda>u now. from_secs (unat u))"
  "name_from_str demo = (Inr)"
  "name_ends_with demo = (demo_suffix)"
  "name_fmt_with_dot demo = (\<lambda>n. n @ ''.'')"
  "name_parent demo = (\<lambda>n. if n = [] then None else Some (drop 1 (dropWhile (\<lambda>c. c \<noteq> CHR ''.'') n)))"
  "serial_lt demo = (\<lambda>a b. a < b)"
  "kmip_key_url demo = (\<lambda>u. Inr (KmipUrl ''hsm'' (url_path u) 257))"
  "kmip_create_pool demo = (\<lambda>i c. Inr i)"
  "kmip_public_key demo = (\<lambda>u p. Inr (\<lambda>flags. demo_public 0 flags))"
  "kmip_key_pair demo = (\<lambda>u v p. Inr ''hsm-pair'')"
  "kmip_pair_from_metadata demo = (\<lambda>alg flags pub pri p. Inr (demo_pair 0 flags))"
  "kmip_connect demo = (\<lambda>p. Inr ())"
  "kmip_destroy_key demo = (\<lambda>p k. Inr ())"
  "kmip_generate demo = (\<lambda>n p flags pool. Inr (demo_pair n flags))"
  "kmip_rename_key demo = (\<lambda>p k l. Inr ())"
  "name_shorten demo = (\<lambda>n m. Some (take m n))"
  "parse_credentials demo = (\<lambda>s. Inr [])"
  "show_credentials demo = (\<lambda>l. [])"
  "resolver_query demo = (\<lambda>n t. Inr demo_message)"
  "lookup_host demo = (\<lambda>n. Inr [''192.0.2.1''])"
  "query_at demo = (\<lambda>a n t. Inr demo_message)"
  "tcp_connect demo = (\<lambda>a. Inr ())"
  "axfr_replies demo = (\<lambda>a k n. [])"
  "show_rcode demo = (\<lambda>n. show_nat n)"
  "show_serial demo = (\<lambda>n. show_nat (unat n))"
  "show_debug_sigs demo = (\<lambda>l. [])"
  "show_rr demo = (demo_show)"
  "show_rtype demo = (\<lambda>t. ''TYPE'')"
  "name_less demo = (\<lambda>a b. length a < length b)"
  by (simp_all add: demo_def)

section \<open>A demo workspace\<close>

definition demo_config :: keyset_config where
  "demo_config = \<lparr>state_file = ''/s/example.state'', keys_dir = ''/k'', use_csk = False,
    config_algorithm = EcdsaP256Sha256, ksk_roll_type = DoubleSignatureKskRoll,
    zsk_roll_type = PrePublishZskRoll,
    ksk_validity = Some (from_secs 100), zsk_validity = Some (from_secs 100), csk_validity = None,
    auto_ksk = auto_default, auto_zsk = auto_default, auto_csk = auto_default, auto_algorithm = auto_default,
    dnskey_inception_offset = from_secs 10, dnskey_signature_lifetime = from_secs 1000,
    dnskey_remain_time = from_secs 500, cds_inception_offset = from_secs 10,
    cds_signature_lifetime = from_secs 1000, cds_remain_time = from_secs 500,
    ds_algorithm = DsSha256, default_ttl = 3600, autoremove = True,
    autoremove_delay = from_secs 60, update_ds_command = [], faketime = Some (from_secs 5000),
    tsig_store_path = None, nameservers = []\<rparr>"

definition demo_kmip :: kmip_state where
  "demo_kmip = kmip_state_default"

definition demo_world :: world where
  "demo_world = \<lparr>w_files = [''/k/pub1'' \<mapsto> ''kkkkk'', ''/k/pri1'' \<mapsto> ''secret''], w_denied = (\<lambda>p. False),
    w_write_fails = (\<lambda>p. None), w_clock = from_secs 5000, w_generated = 0, w_stdout = [], w_commands = []\<rparr>"

definition demo_keyset :: demo_ks where
  "demo_keyset = \<lparr>dm_name = ''example'',
     dm_keys = [(''file:///k/pub1'', demo_key (Ksk demo_active) (Some ''file:///k/pri1'') 15 5 (from_secs 1000))],
     dm_rolls = []\<rparr>"

definition demo_state :: "demo_ks kss" where
  "demo_state = \<lparr>st_keyset = demo_keyset, st_dnskey_rrset = [], st_ds_rrset = [], st_cds_rrset = [],
     st_ns_rrset = [], st_apex_remove = APEX_REMOVE, st_apex_extra = [], st_cron_next = None,
     st_kmip = demo_kmip, st_internal = Map.empty\<rparr>"

definition demo_ws :: "demo_ks ws" where
  "demo_ws = \<lparr>ws_config = demo_config, ws_state = demo_state, ws_config_changed = False,
     ws_state_changed = False, ws_run_update_ds_command = False, ws_cascade = False, ws_verbose = False,
     ws_pools = Map.empty, ws_tsig_store = [], ws_world = demo_world\<rparr>"

lemma demo_config_sel [simp]:
  "state_file demo_config = (''/s/example.state'')"
  "keys_dir demo_config = (''/k'')"
  "use_csk demo_config = (False)"
  "config_algorithm demo_config = (EcdsaP256Sha256)"
  "ksk_roll_type demo_config = (DoubleSignatureKskRoll)"
  "zsk_roll_type demo_config = (PrePublishZskRoll)"
  "ksk_validity demo_config = (Some (from_secs 100))"
  "zsk_validity demo_config = (Some (from_secs 100))"
  "csk_validity demo_config = (None)"
  "auto_ksk demo_config = (auto_default)"
  "auto_zsk demo_config = (auto_default)"
  "auto_csk demo_config = (auto_default)"
  "auto_algorithm demo_config = (auto_default)"
  "dnskey_inception_offset demo_config = (from_secs 10)"
  "dnskey_signature_lifetime demo_config = (from_secs 1000)"
  "dnskey_remain_time demo_config = (from_secs 500)"
  "cds_inception_offset demo_config = (from_secs 10)"
  "cds_signature_lifetime demo_config = (from_secs 1000)"
  "cds_remain_time demo_config = (from_secs 500)"
  "ds_algorithm demo_config = (DsSha256)"
  "default_ttl demo_config = (3600)"
  "autoremove demo_config = (True)"
  "autoremove_delay demo_config = (from_secs 60)"
  "update_ds_command demo_config = ([])"
  "faketime demo_config = (Some (from_secs 5000))"
  "tsig_store_path demo_config = (None)"
  "nameservers demo_config = ([])"
  by (simp_all add: demo_config_def)

lemma demo_world_sel [simp]:
  "w_files demo_world = ([''/k/pub1'' \<mapsto> ''kkkkk'', ''/k/pri1'' \<mapsto> ''secret''])"
  "w_denied demo_world = ((\<lambda>p. False))"
  "w_write_fails demo_world = ((\<lambda>p. None))"
  "w_clock demo_world = (from_secs 5000)"
  "w_generated demo_world = (0)"
  "w_stdout demo_world = ([])"
  "w_commands demo_world = ([])"
  by (simp_all add: demo_world_def)

lemma demo_state_sel [simp]:
  "st_keyset demo_state = (demo_keyset)"
  "st_dnskey_rrset demo_state = ([])"
  "st_ds_rrset demo_state = ([])"
  "st_cds_rrset demo_state = ([])"
  "st_ns_rrset demo_state = ([])"
  "st_apex_remove demo_state = (APEX_REMOVE)"
  "st_apex_extra demo_state = ([])"
  "st_cron_next demo_state = (None)"
  "st_kmip demo_state = (demo_kmip)"
  "st_internal demo_state = (Map.empty)"
  by (simp_all add: demo_state_def)

lemma demo_ws_sel [simp]:
  "ws_config demo_ws = (demo_config)"
  "ws_state demo_ws = (demo_state)"
  "ws_config_changed demo_ws = (False)"
  "ws_state_changed demo_ws = (False)"
  "ws_run_update_ds_command demo_ws = (False)"
  "ws_cascade demo_ws = (False)"
  "ws_verbose demo_ws = (False)"
  "ws_pools demo_ws = (Map.empty)"
  "ws_tsig_store demo_ws = ([])"
  "ws_world demo_ws = (demo_world)"
  by (simp_all add: demo_ws_def)

lemma demo_keyset_sel [simp]:
  "dm_name demo_keyset = ''example''" "dm_rolls demo_keyset = []"
  "dm_keys demo_keyset = [(''file:///k/pub1'', demo_key (Ksk demo_active) (Some ''file:///k/pri1'') 15 5 (from_secs 1000))]"
  by (simp_all add: demo_keyset_def)

lemma demo_key_sel [simp]:
  "privref (demo_key ty p a t n) = p" "keytype (demo_key ty p a t n) = ty"
  "key_tag (demo_key ty p a t n) = t" "algorithm (demo_key ty p a t n) = a"
  by (simp_all add: demo_key_def)

lemma demo_kmip_sel [simp]: "kmip_servers demo_kmip = []" "default_server_id demo_kmip = None"
  by (simp_all add: demo_kmip_def kmip_state_default_def)

section \<open>Generating a key in the demo workspace\<close>

lemma retry_unique_10: "retry_unique 10 once = bindP once (\<lambda>r. case r of
      Some x \<Rightarrow> ret x | None \<Rightarrow> retry_unique 9 once)"
  using retry_unique.simps(2) [of 9 once] by simp

lemma demo_pool: "get_kmip_default_pool demo demo_ws = (Ok None, demo_ws)"
  by (simp add: get_kmip_default_pool_def get_default_pool_def prog_eval in_pools_def demo_ws_def)

lemma demo_generate:
  "generate_once demo GenEcdsaP256Sha256 257 [5] demo_ws =
     (Ok (Some (''s'', demo_public 0 257)), demo_ws\<lparr>ws_world := demo_world\<lparr>w_generated := 1\<rparr>\<rparr>)"
  by (simp add: generate_once_def prog_eval in_world_def bindP_def try_res_def demo_public_def)

lemma demo_base: "key_base demo ''example'' (demo_public 0 257) = ''Kexample.+015+00001''"
proof -
  have "zero_pad 3 (show_nat 15) = ''015''" "zero_pad 5 (show_nat 1) = ''00001''" by code_simp+
  then show ?thesis by (simp add: key_base_def demo_public_def)
qed

definition demo_new :: "url \<times> url \<times> nat \<times> u16" where
  "demo_new = (Url ''file'' ''/k/Kexample.+015+00001.key'' ''file:///k/Kexample.+015+00001.key'',
     Url ''file'' ''/k/Kexample.+015+00001.private'' ''file:///k/Kexample.+015+00001.private'', 15, 1)"

definition demo_ws2 :: "demo_ks ws" where
  "demo_ws2 = demo_ws\<lparr>ws_world := demo_world\<lparr>w_generated := 1,
     w_files := (w_files demo_world)(''/k/Kexample.+015+00001.private'' \<mapsto> ''s'',
       ''/k/Kexample.+015+00001.key'' \<mapsto> ''k'')\<rparr>\<rparr>"

lemma demo_new_file_keys:
  "new_file_keys demo GenEcdsaP256Sha256 257 [5] demo_ws = (Ok demo_new, demo_ws2)"
  apply (simp add: new_file_keys_def MAX_KEY_TAG_TRIES_def retry_unique_10 bindP_def demo_generate prog_eval)
  apply (simp add: demo_base path_join_def Let_def)
  apply (simp add: thenP_def bindP_def try_res_def lift_res_def in_world_def)
  apply (simp add: write_key_files_def create_new_file_def io_def fs_defs thenP_def bindP_def)
  apply (simp add: bindP_def lift_res_def)
  apply (simp add: demo_public_def ret_def demo_new_def demo_ws2_def)
  done

lemma demo_new_keys: "new_keys demo True demo_ws = (Ok demo_new, demo_ws2)"
  by (simp add: new_keys_def prog_eval bindP_def demo_pool demo_new_file_keys)

end
