(* ===== verification/Key_Files.thy ===== *)
theory Key_Files
  imports Demo
begin

text \<open>
  Properties of the creation and removal of keys: fresh key tags, the bound on the number
  of attempts, and what happens to the files on disk on every outcome.
\<close>

section \<open>Frames of the access combinators\<close>

lemma snd_in_world: "snd (in_world m s) = s\<lparr>ws_world := snd (m (ws_world s))\<rparr>"
  by (simp add: in_world_def split: prod.splits)

lemma unchanged_in_world [unch]:
  "(\<And>s w. f (s\<lparr>ws_world := w\<rparr>) = f s) \<Longrightarrow> unchanged f (in_world m)"
  by (simp add: unchanged_def snd_in_world)

lemma unchanged_in_pools [unch]:
  "(\<And>s p w. f (s\<lparr>ws_pools := p, ws_world := w\<rparr>) = f s) \<Longrightarrow> unchanged f (in_pools m)"
  by (auto simp: unchanged_def in_pools_def split: prod.splits)

lemma unchanged_in_world_files: "unchanged w_files m \<Longrightarrow> unchanged ws_files (in_world m)"
  by (simp add: unchanged_def snd_in_world)

lemma unchanged_ks_call [unch]:
  "(\<And>s k. f (upd_state (\<lambda>st. st\<lparr>st_keyset := k\<rparr>) s) = f s) \<Longrightarrow> unchanged f (ks_call g)"
  by (auto simp: unchanged_def ks_call_def split: prod.splits)

lemma unchanged_ks_try [unch]:
  "(\<And>s k. f (upd_state (\<lambda>st. st\<lparr>st_keyset := k\<rparr>) s) = f s) \<Longrightarrow> unchanged f (ks_try E h g)"
  unfolding ks_try_def by (intro unch) auto

lemma unchanged_ks_expect [unch]:
  "(\<And>s k. f (upd_state (\<lambda>st. st\<lparr>st_keyset := k\<rparr>) s) = f s) \<Longrightarrow> unchanged f (ks_expect p g)"
  unfolding ks_expect_def by (intro unch) auto

lemma upd_state_simps [simp]:
  "ws_state (upd_state f s) = f (ws_state s)"
  "ws_config (upd_state f s) = ws_config s"
  "ws_config_changed (upd_state f s) = ws_config_changed s"
  "ws_state_changed (upd_state f s) = ws_state_changed s"
  "ws_run_update_ds_command (upd_state f s) = ws_run_update_ds_command s"
  "ws_cascade (upd_state f s) = ws_cascade s"
  "ws_verbose (upd_state f s) = ws_verbose s"
  "ws_pools (upd_state f s) = ws_pools s"
  "ws_tsig_store (upd_state f s) = ws_tsig_store s"
  "ws_world (upd_state f s) = ws_world s"
  by (simp_all add: upd_state_def)

text \<open>The KMIP configuration is loaded by reading files only: the world stays as it is.\<close>

lemma unchanged_comp: "unchanged f m \<Longrightarrow> unchanged (\<lambda>s. g (f s)) m"
  by (simp add: unchanged_def)

lemma cred_file_new_readonly: "unchanged f (cred_file_new E p ReadOnly)"
proof -
  have "unchanged f (cred_open p ReadOnly)"
    by (auto simp: unchanged_def cred_open_def io_def split: option.splits)
  then show ?thesis unfolding cred_file_new_def by (intro unch)
qed

lemma kmip_server_load_unchanged: "unchanged f (kmip_server_load E c i)"
  unfolding kmip_server_load_def load_client_cert_def load_server_cert_def load_ca_cert_def
    load_optional_def load_binary_file_def load_credentials_def
  by (intro unch cred_file_new_readonly)

lemma get_pool_world: "unchanged snd (get_pool E k i)"
proof (rule unchangedI)
  fix s :: "pools \<times> world"
  obtain ps w where s: "s = (ps, w)" by (cases s)
  have load: "kmip_server_load E c i w = (r, w') \<Longrightarrow> w' = w" for c r w'
    using unchangedD [OF kmip_server_load_unchanged [of "\<lambda>w. w"]] by blast
  show "snd (snd (get_pool E k i s)) = snd s"
    by (auto simp: s get_pool_def dest: load split: option.splits res.splits prod.splits sum.splits)
qed

text \<open>Opening a pool changes the pools and nothing else.\<close>

lemma in_pools_frame:
  fixes f :: "'ks ws \<Rightarrow> 'b"
  assumes "unchanged snd m" and "\<And>s p. f (s\<lparr>ws_pools := p\<rparr>) = f s"
  shows "unchanged f (in_pools m)"
proof (rule unchangedI)
  fix s :: "'ks ws"
  obtain r p w where m: "m (ws_pools s, ws_world s) = (r, p, w)" by (metis prod_cases3)
  with unchangedD [OF assms(1) this] have "w = ws_world s" by simp
  then have "s\<lparr>ws_pools := p, ws_world := w\<rparr> = s\<lparr>ws_pools := p\<rparr>" by simp
  with m show "f (snd (in_pools m s)) = f s"
    by (simp add: in_pools_def assms(2))
qed

lemma get_kmip_pool_frame [unch]:
  "(\<And>s p. f (s\<lparr>ws_pools := p\<rparr>) = f s) \<Longrightarrow> unchanged f (get_kmip_pool E i)"
  unfolding get_kmip_pool_def by (intro unch in_pools_frame get_pool_world)

lemma get_kmip_default_pool_frame [unch]:
  "(\<And>s p. f (s\<lparr>ws_pools := p\<rparr>) = f s) \<Longrightarrow> unchanged f (get_kmip_default_pool E)"
  unfolding get_kmip_default_pool_def get_default_pool_def
  by (intro unch in_pools_frame get_pool_world) auto

lemma read_file_in_world [unch]: "unchanged f (in_world (read_file p g))"
  by (simp add: unchanged_def in_world_def read_file_def)

lemma public_key_from_url_frame [unch]:
  "(\<And>s p. f (s\<lparr>ws_pools := p\<rparr>) = f s) \<Longrightarrow> unchanged f (public_key_from_url E u)"
  unfolding public_key_from_url_def by (intro unch)

section \<open>Fresh key tags\<close>

lemma retry_unique_result:
  assumes "retry_unique n once s = (Ok x, t)"
    and "\<And>u v. once u = (Ok (Some x), v) \<Longrightarrow> P"
  shows P
  using assms(1)
proof (induction n arbitrary: s)
  case 0
  then show ?case by (auto simp: prog_Ok split: option.splits intro: assms(2))
next
  case (Suc n)
  then show ?case
    by (auto simp: prog_Ok split: option.splits if_splits intro: assms(2))
qed

lemma generate_once_fresh:
  "generate_once E params flags tags s = (Ok (Some (secret, pk)), t) \<Longrightarrow>
     dnskey_key_tag E pk \<notin> set tags"
  by (auto simp: generate_once_def prog_Ok split: if_splits)

lemma kmip_generate_once_fresh:
  "kmip_generate_once E params flags tags b i pool s = (Ok (Some kp), t) \<Longrightarrow>
     dnskey_key_tag E (kp_dnskey kp) \<notin> set tags"
  by (auto simp: kmip_generate_once_def prog_Ok split: if_splits)

text \<open>
  Property C15. A key pair that \<open>new_keys\<close> returns, from a file or from an HSM, has a key
  tag that no key of the keyset has.
\<close>

theorem new_keys_fresh_tag:
  assumes "new_keys E make_ksk s = (Ok (pub, priv, alg, tag), t)"
  shows "tag \<notin> (\<lambda>(u, k). key_tag k) ` set (ks_keys E (ws_keyset s))"
proof -
  let ?tags = "map (\<lambda>(_, k). key_tag k) (ks_keys E (ws_keyset s))"
  let ?flags = "if make_ksk then 257 else 256 :: u16"
  from assms obtain params dflt u where run:
    "(case dflt of Some pool \<Rightarrow> new_kmip_keys E params ?flags ?tags make_ksk pool
      | None \<Rightarrow> new_file_keys E params ?flags ?tags) u = (Ok (pub, priv, alg, tag), t)"
    by (auto simp: new_keys_def prog_Ok Let_def)
  have "tag \<notin> set ?tags"
  proof (cases dflt)
    case None
    with run show ?thesis
      by (auto simp: new_file_keys_def prog_Ok Let_def
          elim!: retry_unique_result dest!: generate_once_fresh)
  next
    case (Some pool)
    with run show ?thesis
      by (auto simp: new_kmip_keys_def prog_Ok
          elim!: retry_unique_result dest!: kmip_generate_once_fresh)
  qed
  then show ?thesis by simp
qed

theorem new_keys_fresh_tag_witness:
  "new_keys demo True demo_ws = (Ok demo_new, demo_ws2) \<and>
     snd (snd (snd demo_new)) \<notin> (\<lambda>(u, k). key_tag k) ` set (dm_keys demo_keyset)"
  using demo_new_keys new_keys_fresh_tag [of demo True demo_ws _ _ _ _ demo_ws2] by (simp add: demo_new_def)

section \<open>The number of attempts\<close>

text \<open>\<open>costs c a m\<close>: \<open>m\<close> increases the counter \<open>c\<close> by at most \<open>a\<close>, whatever its outcome.\<close>

definition costs :: "('s \<Rightarrow> nat) \<Rightarrow> nat \<Rightarrow> ('s, 'a) prog \<Rightarrow> bool" where
  "costs c a m \<longleftrightarrow> (\<forall>s. c (snd (m s)) \<le> c s + a)"

lemma costs_unchanged: "unchanged c m \<Longrightarrow> costs c 0 m"
  by (simp add: costs_def unchanged_def)

lemma costsD: "costs c a m \<Longrightarrow> m s = (r, t) \<Longrightarrow> c t \<le> c s + a"
  by (metis costs_def snd_conv)

lemma costs_bindP:
  assumes "costs c a m" and "\<And>x. costs c b (f x)"
  shows "costs c (a + b) (bindP m f)"
  unfolding costs_def
proof
  fix s
  obtain r t where m: "m s = (r, t)" by (cases "m s")
  with assms(1) have t: "c t \<le> c s + a" by (rule costsD)
  have "c (snd (f x t)) \<le> c t + b" for x using assms(2) by (simp add: costs_def)
  then have u: "c (snd (f x t)) \<le> c s + (a + b)" for x using t by (metis add.assoc add_le_mono1 le_trans)
  from m show "c (snd (bindP m f s)) \<le> c s + (a + b)"
    using t u by (cases r) (simp_all add: bindP_def)
qed

lemma costs_retry_unique:
  assumes once: "costs c 1 once"
  shows "costs c (max 1 n) (retry_unique n once)"
  unfolding costs_def
proof
  fix s
  show "c (snd (retry_unique n once s)) \<le> c s + max 1 n"
  proof (induction n arbitrary: s)
    case 0
    obtain r t where rt: "once s = (r, t)" by (cases "once s")
    with once have "c t \<le> c s + 1" by (rule costsD)
    with rt show ?case
      by (auto simp: bindP_def prog_eval split: res.splits option.splits)
  next
    case (Suc n)
    obtain r t where rt: "once s = (r, t)" by (cases "once s")
    with once have t: "c t \<le> c s + 1" by (rule costsD)
    show ?case
    proof (cases "r = Ok None \<and> n \<noteq> 0")
      case True
      with rt have "retry_unique (Suc n) once s = retry_unique n once t"
        by (simp add: bindP_def)
      with Suc [of t] t True show ?thesis by simp
    next
      case False
      with rt have "snd (retry_unique (Suc n) once s) = t"
        by (auto simp: bindP_def prog_eval split: res.splits option.splits)
      with t show ?thesis by simp
    qed
  qed
qed

abbreviation generated :: "'ks ws \<Rightarrow> nat" where
  "generated s \<equiv> w_generated (ws_world s)"

lemma io_generated [unch]:
  "(\<And>w. w_generated (snd (f w)) = w_generated w) \<Longrightarrow> unchanged w_generated (io f g)"
  by (auto simp: unchanged_def io_def split: prod.splits) (metis snd_conv)

lemma in_world_generated [unch]: "unchanged w_generated m \<Longrightarrow> unchanged generated (in_world m)"
  by (simp add: unchanged_def snd_in_world)

lemma write_key_files_generated [unch]: "unchanged w_generated (write_key_files b p q c d)"
  unfolding write_key_files_def create_new_file_def
  by (intro unch) (auto simp: fs_defs split: option.splits)

lemma count_fresh:
  "costs generated 1 (in_world (\<lambda>w. (Ok (w_generated w), w\<lparr>w_generated := Suc (w_generated w)\<rparr>)))"
  by (simp add: in_world_def costs_def)

lemma relabel_keys_generated [unch]: "unchanged generated (relabel_keys E i cfg b pool kp)"
  unfolding relabel_keys_def Let_def
  by (intro unch) (auto split: res.splits sum.splits intro!: unch)

lemma generate_once_count: "costs generated 1 (generate_once E params flags tags)"
proof -
  have "costs generated (1 + 0) (generate_once E params flags tags)"
    unfolding generate_once_def by (intro costs_bindP count_fresh costs_unchanged unch)
  then show ?thesis by simp
qed

lemma kmip_generate_once_count: "costs generated 1 (kmip_generate_once E params flags tags b i pool)"
proof -
  have "costs generated (0 + (0 + (1 + 0))) (kmip_generate_once E params flags tags b i pool)"
    unfolding kmip_generate_once_def by (intro costs_bindP count_fresh costs_unchanged unch)
  then show ?thesis by simp
qed

lemma new_file_keys_count: "costs generated MAX_KEY_TAG_TRIES (new_file_keys E params flags tags)"
proof -
  have "costs generated (max 1 MAX_KEY_TAG_TRIES + 0) (new_file_keys E params flags tags)"
    unfolding new_file_keys_def Let_def
    by (intro costs_bindP costs_retry_unique generate_once_count costs_unchanged unch)
  then show ?thesis by (simp add: MAX_KEY_TAG_TRIES_def)
qed

lemma new_kmip_keys_count: "costs generated MAX_KEY_TAG_TRIES (new_kmip_keys E params flags tags b pool)"
proof -
  have "costs generated (0 + (max 1 MAX_KEY_TAG_TRIES + 0)) (new_kmip_keys E params flags tags b pool)"
    unfolding new_kmip_keys_def
    by (intro costs_bindP costs_retry_unique kmip_generate_once_count costs_unchanged unch)
  then show ?thesis by (simp add: MAX_KEY_TAG_TRIES_def)
qed

text \<open>
  \<open>new_keys\<close> generates at most ten key pairs (\<open>MAX_KEY_TAG_TRIES\<close>), whatever
  its outcome.
\<close>

theorem new_keys_attempts:
  "w_generated (ws_world (snd (new_keys E make_ksk s))) \<le> w_generated (ws_world s) + 10"
proof -
  have "costs generated MAX_KEY_TAG_TRIES (case dflt of Some pool \<Rightarrow> new_kmip_keys E params flags tags make_ksk pool
      | None \<Rightarrow> new_file_keys E params flags tags)" for dflt params flags tags
    by (cases dflt) (simp_all add: new_file_keys_count new_kmip_keys_count)
  then have "costs generated (0 + (0 + (0 + (0 + MAX_KEY_TAG_TRIES)))) (new_keys E make_ksk)"
    unfolding new_keys_def Let_def
    by (intro costs_bindP) (simp_all add: costs_unchanged unch)
  then show ?thesis by (simp add: MAX_KEY_TAG_TRIES_def costs_def)
qed

section \<open>Files of fresh keys\<close>

text \<open>Creating a key pair never touches a file that already exists, on any outcome.\<close>

interpretation files_grow: step_frame "\<lambda>s t. ws_files s \<subseteq>\<^sub>m ws_files t"
  by unfold_locales (auto intro: map_le_trans)

lemma write_key_files_grow: "w_files w \<subseteq>\<^sub>m w_files (snd (write_key_files b p q c d w))"
  by (auto simp: write_key_files_def create_new_file_def io_def fs_defs bindP_def thenP_def map_le_def
      split: option.splits)

lemma write_key_files_Ok:
  assumes "write_key_files b p q c d w = (Ok (), w')"
  shows "w_files w p = None" "w_files w q = None" "p \<noteq> q"
    "w_files w' = (w_files w)(p \<mapsto> c, q \<mapsto> d)" "\<not> w_denied w p" "\<not> w_denied w q"
    "w_denied w' = w_denied w"
  using assms
  by (auto simp: write_key_files_def create_new_file_def io_def fs_defs prog_Ok fun_eq_iff
      split: option.splits if_splits)

text \<open>The same for a program over the whole state that only creates key files.\<close>

lemma in_world_grow:
  "(\<And>w. w_files w \<subseteq>\<^sub>m w_files (snd (m w))) \<Longrightarrow>
     steps (\<lambda>s t. ws_files s \<subseteq>\<^sub>m ws_files t) (in_world m)"
  by (simp add: steps_def snd_in_world)

lemma unchanged_files_grow:
  "unchanged ws_files m \<Longrightarrow> steps (\<lambda>s t. ws_files s \<subseteq>\<^sub>m ws_files t) m"
  by (rule files_grow.steps_unchanged) auto

lemma fresh_index_files [unch]:
  "unchanged ws_files (in_world (\<lambda>w. (Ok (w_generated w), w\<lparr>w_generated := Suc (w_generated w)\<rparr>)))"
  by (simp add: unchanged_def in_world_def)

lemma generate_once_files [unch]: "unchanged ws_files (generate_once E params flags tags)"
  unfolding generate_once_def by (intro unch)

lemma relabel_keys_files [unch]: "unchanged ws_files (relabel_keys E i cfg b pool kp)"
  unfolding relabel_keys_def Let_def
  by (intro unch) (auto split: res.splits sum.splits intro!: unch)

lemma kmip_generate_once_files [unch]: "unchanged ws_files (kmip_generate_once E params flags tags b i pool)"
  unfolding kmip_generate_once_def by (intro unch)

lemma retry_unique_unchanged [unch]: "unchanged f once \<Longrightarrow> unchanged f (retry_unique n once)"
proof (induction n)
  case 0
  then show ?case by (simp only: retry_unique.simps) (intro unch)
next
  case (Suc n)
  then have "unchanged f (retry_unique n once)" by blast
  with Suc.prems show ?case by (simp only: retry_unique.simps) (intro unch)
qed

lemma new_keys_grow:
  "ws_files s \<subseteq>\<^sub>m ws_files (snd (new_keys E make_ksk s))"
proof -
  have on_disk: "steps (\<lambda>s t. ws_files s \<subseteq>\<^sub>m ws_files t) (new_file_keys E params flags tags)" for params flags tags
    unfolding new_file_keys_def Let_def
    by (intro files_grow.steps_intros in_world_grow write_key_files_grow)
      (simp_all add: unchanged_files_grow unch)
  have on_hsm: "steps (\<lambda>s t. ws_files s \<subseteq>\<^sub>m ws_files t) (new_kmip_keys E params flags tags make_ksk pool)" for params flags tags pool
    unfolding new_kmip_keys_def
    by (intro files_grow.steps_intros) (simp_all add: unchanged_files_grow unch)
  have "steps (\<lambda>s t. ws_files s \<subseteq>\<^sub>m ws_files t) (new_keys E make_ksk)"
    unfolding new_keys_def Let_def
    by (intro files_grow.steps_intros on_disk on_hsm) (simp_all add: unchanged_files_grow unch)
  then show ?thesis by (simp add: steps_def)
qed

text \<open>
  \<open>new_keys\<close> never overwrites or removes a file: every file that existed
  before the call has the same contents after it, whether the call succeeds or fails at
  any point.
\<close>

theorem new_keys_keeps_files:
  "w_files (ws_world s) \<subseteq>\<^sub>m w_files (ws_world (snd (new_keys E make_ksk s)))"
  by (rule new_keys_grow)

end
