(* ===== verification/Rrsets.thy ===== *)
theory Rrsets
  imports Key_Files
begin

text \<open>
  The RRsets keyset maintains (src/commands/keyset/cmd.rs): the signed DNSKEY RRset, the
  signed CDS and CDNSKEY RRsets, the DS RRset for the parent, and \<open>handle_actions\<close>, which
  rebuilds them when a step of a key roll asks for it.
\<close>

section \<open>Which keys take part\<close>

definition key_present :: "key \<Rightarrow> bool" where
  "key_present v = (case keytype v of
      Ksk st \<Rightarrow> present st | Zsk st \<Rightarrow> present st | Csk st _ \<Rightarrow> present st | Include st \<Rightarrow> present st)"

definition key_at_parent :: "key \<Rightarrow> bool" where
  "key_at_parent v = (case keytype v of
      Ksk st \<Rightarrow> at_parent st | Zsk st \<Rightarrow> at_parent st | Csk st _ \<Rightarrow> at_parent st
    | Include st \<Rightarrow> at_parent st)"

definition dnskey_signer :: "key \<Rightarrow> bool" where
  "dnskey_signer v = (case keytype v of
      Ksk st \<Rightarrow> signer st | Zsk _ \<Rightarrow> False | Csk st _ \<Rightarrow> signer st | Include _ \<Rightarrow> False)"

definition expect_url :: "'ks ext \<Rightarrow> string \<Rightarrow> ('s, url) prog" where
  "expect_url E k = (case url_parse E k of Inl _ \<Rightarrow> panic ''valid URL expected'' | Inr u \<Rightarrow> ret u)"

definition public_key_of :: "'ks ext \<Rightarrow> string \<times> key \<Rightarrow> ('ks ws, dnskey_rr) prog" where
  "public_key_of E = (\<lambda>(k, v). bindP (expect_url E k) (public_key_from_url E))"

text \<open>
  The signing key of a keyset key: from its files, or from the HSM that holds both
  halves. \<open>rd\<close> words the error of a private key file that cannot be read.
\<close>

definition load_signing_key :: "'ks ext \<Rightarrow> (string \<Rightarrow> string \<Rightarrow> string) \<Rightarrow> string \<times> key \<Rightarrow> ('ks ws, signing_key) prog" where
  "load_signing_key E rd = (\<lambda>(k, v).
     bindP (case privref v of None \<Rightarrow> fail ''missing private key'' | Some r \<Rightarrow> ret r) (\<lambda>priv.
     bindP (expect_url E priv) (\<lambda>priv_url.
     bindP (expect_url E k) (\<lambda>pub_url.
     if url_scheme priv_url = ''file'' \<and> url_scheme pub_url = ''file'' then
       bindP (in_world (read_file (url_path priv_url) (rd (url_path priv_url)))) (\<lambda>data.
       bindP (try_res (\<lambda>e. ''unable to parse private key file '' @ priv @ '': '' @ e) (secret_parse_from_bind E data)) (\<lambda>secret.
       bindP (public_key_from_url E pub_url) (\<lambda>pk.
       bindP (try_res (\<lambda>e. ''private key '' @ priv @ '' and public key '' @ k @ '' do not match: '' @ e)
                (keypair_from_bytes E secret (kr_data pk))) (\<lambda>pair.
       ret (SigningKey (kr_owner pk) (dk_flags (kr_data pk)) pair)))))
     else if url_scheme priv_url = ''kmip'' \<and> url_scheme pub_url = ''kmip'' then
       bindP (gets (\<lambda>s. ks_name E (ws_keyset s))) (\<lambda>owner.
       bindP (try_res id (kmip_key_url E priv_url)) (\<lambda>priv_key_url.
       bindP (try_res id (kmip_key_url E pub_url)) (\<lambda>pub_key_url.
       bindP (get_kmip_pool E (ku_server_id priv_key_url)) (\<lambda>pool.
       bindP (try_res (\<lambda>e. ''Failed to retrieve KMIP key by URL: '' @ e)
                (kmip_key_pair E priv_key_url pub_key_url pool)) (\<lambda>pair.
       ret (SigningKey owner (ku_flags priv_key_url) pair))))))
     else panic (''unsupported URL scheme combination: '' @ url_scheme priv_url @ '' & '' @ url_scheme pub_url)))))"

definition private_name :: "string \<times> key \<Rightarrow> string" where
  "private_name kv = (case privref (snd kv) of Some p \<Rightarrow> p | None \<Rightarrow> [])"

text \<open>
  Times in signatures are \<open>u32\<close> seconds; the subtraction and the addition are those of a
  release build, which wrap around.
\<close>

definition secs_u32 :: "duration \<Rightarrow> u32" where
  "secs_u32 d = of_nat (as_secs d)"

definition sig_window :: "time \<Rightarrow> duration \<Rightarrow> duration \<Rightarrow> u32 \<times> u32" where
  "sig_window now offset lifetime = (secs_u32 now - secs_u32 offset, secs_u32 now + secs_u32 lifetime)"

definition print_rrset :: "bool \<Rightarrow> string \<Rightarrow> ('ks kss \<Rightarrow> string list) \<Rightarrow> ('ks ws, unit) prog" where
  "print_rrset verbose title f = whenP verbose (bindP (gets (\<lambda>s. f (ws_state s))) (\<lambda>rs.
     thenP (print_line title) (forP rs (\<lambda>r. print_line (CHR 0x09 # r)))))"

section \<open>The DNSKEY RRset\<close>

definition sign_dnskeys ::
  "'ks ext \<Rightarrow> rr list \<Rightarrow> u32 \<times> u32 \<Rightarrow> string \<times> key \<Rightarrow> ('ks ws, rr list) prog" where
  "sign_dnskeys E rrs win kv =
     thenP (try_res (\<lambda>e. ''unable to create Rrset: '' @ e) (rrset_new E rrs))
      (if dnskey_signer (snd kv) then
         bindP (load_signing_key E (\<lambda>p e. ''unable read from file '' @ p @ '': '' @ e) kv) (\<lambda>sk.
         bindP (try_res (\<lambda>e. ''error signing DNSKEY RRset with private key '' @ private_name kv @ '': '' @ e)
                  (sign_rrset E sk rrs (fst win) (snd win))) (\<lambda>sig.
         ret [sig]))
       else ret [])"

definition update_dnskey_rrset :: "'ks ext \<Rightarrow> bool \<Rightarrow> ('ks ws, unit) prog" where
  "update_dnskey_rrset E verbose =
     bindP (gets faketime_or_now) (\<lambda>now.
     bindP (gets (\<lambda>s. ks_keys E (ws_keyset s))) (\<lambda>keys.
     bindP (collectP (filter (\<lambda>(k, v). key_present v) keys) (public_key_of E)) (\<lambda>dnskeys.
     bindP (gets (\<lambda>s. sig_window now (dnskey_inception_offset (ws_config s))
                        (dnskey_signature_lifetime (ws_config s)))) (\<lambda>win.
     let rrs = map dnskey_record dnskeys in
     bindP (if dnskeys = [] then ret [] else collectP keys (sign_dnskeys E rrs win)) (\<lambda>sigs.
     thenP (modify (upd_state (\<lambda>st. st\<lparr>st_dnskey_rrset := map (display_zonefile E) (rrs @ concat sigs)\<rparr>)))
      (print_rrset verbose ''Got DNSKEY RRset:'' st_dnskey_rrset))))))"

section \<open>The CDS and CDNSKEY RRsets\<close>

definition create_cds_rrset_helper ::
  "'ks ext \<Rightarrow> digest_algorithm \<Rightarrow> dnskey_rr \<Rightarrow> ('s, rr \<times> rr) prog" where
  "create_cds_rrset_helper E digest_alg r =
     (let pk = kr_data r;
          cdnskey = DnskeyData (dk_flags pk) (dk_protocol pk) (dk_algorithm pk) (dk_public_key pk)
      in bindP (try_res (\<lambda>e. ''error creating digest for DNSKEY record: '' @ e)
                  (dnskey_digest E pk (kr_owner r) digest_alg)) (\<lambda>digest.
         ret (RR (kr_owner r) (kr_class r) (kr_ttl r) (Cdnskey cdnskey),
              RR (kr_owner r) (kr_class r) (kr_ttl r)
                (Cds (DsData (dnskey_key_tag E pk) (dk_algorithm pk) digest_alg digest)))))"

definition sign_cds ::
  "'ks ext \<Rightarrow> rr list \<Rightarrow> rr list \<Rightarrow> u32 \<times> u32 \<Rightarrow> string \<times> key \<Rightarrow> ('ks ws, (rr \<times> rr) list) prog" where
  "sign_cds E cds_list cdnskey_list win kv =
     thenP (try_res (\<lambda>e. ''unable to create Rrset: '' @ e) (rrset_new E cds_list))
    (thenP (try_res (\<lambda>e. ''unable to create Rrset: '' @ e) (rrset_new E cdnskey_list))
      (if dnskey_signer (snd kv) then
         bindP (load_signing_key E (\<lambda>p e. ''unable to read from private key file '' @ p @ '': '' @ e) kv) (\<lambda>sk.
         bindP (try_res (\<lambda>e. ''error signing CDS RRset with private key '' @ private_name kv @ '': '' @ e)
                  (sign_rrset E sk cds_list (fst win) (snd win))) (\<lambda>cds_sig.
         bindP (try_res (\<lambda>e. ''error signing CDNSKEY RRset with private key '' @ private_name kv @ '': '' @ e)
                  (sign_rrset E sk cdnskey_list (fst win) (snd win))) (\<lambda>cdnskey_sig.
         ret [(cds_sig, cdnskey_sig)])))
       else ret []))"

definition create_cds_rrset :: "'ks ext \<Rightarrow> bool \<Rightarrow> ('ks ws, unit) prog" where
  "create_cds_rrset E verbose =
     bindP (gets faketime_or_now) (\<lambda>now.
     bindP (gets (\<lambda>s. to_digest_algorithm (ds_algorithm (ws_config s)))) (\<lambda>digest_alg.
     bindP (gets (\<lambda>s. ks_keys E (ws_keyset s))) (\<lambda>keys.
     bindP (collectP (filter (\<lambda>(k, v). key_at_parent v) keys)
              (\<lambda>kv. bindP (public_key_of E kv) (create_cds_rrset_helper E digest_alg))) (\<lambda>pairs.
     let cdnskey_list = map fst pairs; cds_list = map snd pairs in
     bindP (gets (\<lambda>s. sig_window now (cds_inception_offset (ws_config s))
                        (cds_signature_lifetime (ws_config s)))) (\<lambda>win.
     bindP (if cds_list = [] then ret [] else collectP keys (sign_cds E cds_list cdnskey_list win)) (\<lambda>sigs.
     thenP (modify (upd_state (\<lambda>st. st\<lparr>st_cds_rrset := map (display_zonefile E)
              (cdnskey_list @ map snd (concat sigs) @ cds_list @ map fst (concat sigs))\<rparr>)))
      (print_rrset verbose ''Got CDS/CDNSKEY RRset:'' st_cds_rrset)))))))"

definition remove_cds_rrset :: "'ks kss \<Rightarrow> 'ks kss" where
  "remove_cds_rrset st = st\<lparr>st_cds_rrset := []\<rparr>"

section \<open>The DS RRset\<close>

definition ds_record_of ::
  "'ks ext \<Rightarrow> digest_algorithm \<Rightarrow> string \<times> key \<Rightarrow> ('ks ws, rr) prog" where
  "ds_record_of E digest_alg kv =
     bindP (public_key_of E kv) (\<lambda>r.
     bindP (try_res (\<lambda>e. ''error creating digest for DNSKEY record: '' @ e)
              (dnskey_digest E (kr_data r) (kr_owner r) digest_alg)) (\<lambda>digest.
     bindP (gets (\<lambda>s. default_ttl (ws_config s))) (\<lambda>t.
     ret (RR (kr_owner r) (kr_class r) t
       (Ds (DsData (dnskey_key_tag E (kr_data r)) (dk_algorithm (kr_data r)) digest_alg digest))))))"

definition update_ds_rrset :: "'ks ext \<Rightarrow> bool \<Rightarrow> ('ks ws, unit) prog" where
  "update_ds_rrset E verbose =
     bindP (gets (\<lambda>s. to_digest_algorithm (ds_algorithm (ws_config s)))) (\<lambda>digest_alg.
     bindP (gets (\<lambda>s. ks_keys E (ws_keyset s))) (\<lambda>keys.
     bindP (collectP (filter (\<lambda>(k, v). key_at_parent v) keys) (ds_record_of E digest_alg)) (\<lambda>ds_list.
     thenP (modify (upd_state (\<lambda>st. st\<lparr>st_ds_rrset := map (display_zonefile E) ds_list\<rparr>)))
      (print_rrset verbose ''Got DS RRset:'' st_ds_rrset))))"

section \<open>Actions\<close>

fun handle_action :: "'ks ext \<Rightarrow> bool \<Rightarrow> action \<Rightarrow> ('ks ws, unit) prog" where
  "handle_action E verbose UpdateDnskeyRrset = update_dnskey_rrset E verbose"
| "handle_action E verbose CreateCdsRrset = create_cds_rrset E verbose"
| "handle_action E verbose RemoveCdsRrset = modify (upd_state remove_cds_rrset)"
| "handle_action E verbose UpdateDsRrset =
     thenP (modify (\<lambda>s. s\<lparr>ws_run_update_ds_command := True\<rparr>)) (update_ds_rrset E verbose)"
| "handle_action E verbose UpdateRrsig = ret ()"
| "handle_action E verbose ReportDnskeyPropagated = ret ()"
| "handle_action E verbose ReportDsPropagated = ret ()"
| "handle_action E verbose ReportRrsigPropagated = ret ()"
| "handle_action E verbose WaitDnskeyPropagated = ret ()"
| "handle_action E verbose WaitDsPropagated = ret ()"
| "handle_action E verbose WaitRrsigPropagated = ret ()"

definition handle_actions :: "'ks ext \<Rightarrow> action list \<Rightarrow> bool \<Rightarrow> ('ks ws, unit) prog" where
  "handle_actions E actions verbose = forP actions (handle_action E verbose)"

definition do_done :: "'ks ext \<Rightarrow> roll_type \<Rightarrow> ('ks ws, unit) prog" where
  "do_done E r =
     bindP (ks_try E (\<lambda>e. ''Error reporting done: '' @ e) (ks_roll_done E r)) (\<lambda>actions.
     if actions \<noteq> [] then fail ''List of actions after reporting done''
     else modify (upd_state (\<lambda>st. (remove_cds_rrset st)\<lparr>st_internal := (st_internal st)(r := None)\<rparr>)))"

section \<open>Footprints\<close>

text \<open>
  The interface between \<open>handle_actions\<close> and the functions that rebuild an RRset. \<open>own\<close>
  is the field such a function writes and \<open>clear\<close> empties it: apart from that field, the
  pools and what is printed, the function changes nothing, and if it fails it has not
  changed its field either.
\<close>

definition blank :: "('ks kss \<Rightarrow> 'ks kss) \<Rightarrow> 'ks ws \<Rightarrow> 'ks ws" where
  "blank clear s = (upd_state clear s)\<lparr>ws_pools := Map.empty, ws_world := (ws_world s)\<lparr>w_stdout := []\<rparr>\<rparr>"

locale rrset_writer =
  fixes upd :: "('ks ws, unit) prog"
    and own :: "'ks kss \<Rightarrow> string list"
    and clear :: "'ks kss \<Rightarrow> 'ks kss"
  assumes footprint: "unchanged (blank clear) upd"
    and failed: "upd s = (Err e, t) \<Longrightarrow> own (ws_state t) = own (ws_state s)"
    and clear_keyset: "st_keyset (clear st) = st_keyset st"
    and clear_internal: "st_internal (clear st) = st_internal st"
    and own_rest: "clear a = clear b \<Longrightarrow> own a = own b \<Longrightarrow> a = b"
begin

lemma frame:
  assumes "\<And>s. f (blank clear s) = f s"
  shows "unchanged f upd"
proof (rule unchangedI)
  fix s
  have "blank clear (snd (upd s)) = blank clear s" using footprint by (simp add: unchanged_def)
  then have "f (blank clear (snd (upd s))) = f (blank clear s)" by simp
  then show "f (snd (upd s)) = f s" by (simp only: assms)
qed

lemma keeps_keyset: "unchanged ws_keyset upd"
  by (rule frame) (simp add: blank_def clear_keyset)

lemma keeps_internal: "unchanged (\<lambda>s. st_internal (ws_state s)) upd"
  by (rule frame) (simp add: blank_def clear_internal)

lemma keeps_config: "unchanged ws_config upd"
  by (rule frame) (simp add: blank_def)

lemma keeps_files: "unchanged ws_files upd"
  by (rule frame) (simp add: blank_def)

lemma keeps_flags:
  "unchanged (\<lambda>s. (ws_config_changed s, ws_state_changed s, ws_run_update_ds_command s)) upd"
  by (rule frame) (simp add: blank_def)

lemma keeps_clock: "unchanged (\<lambda>s. w_clock (ws_world s)) upd"
  by (rule frame) (simp add: blank_def)

lemma failed_state: "upd s = (Err e, t) \<Longrightarrow> ws_state t = ws_state s"
proof -
  assume run: "upd s = (Err e, t)"
  from footprint run have "blank clear t = blank clear s" by (rule unchangedD)
  then have "ws_state (blank clear t) = ws_state (blank clear s)" by simp
  then have "clear (ws_state t) = clear (ws_state s)" by (simp add: blank_def)
  then show ?thesis by (rule own_rest) (rule failed [OF run])
qed

lemmas writer_frames =
  keeps_keyset keeps_internal keeps_config keeps_files keeps_flags keeps_clock

end

lemma unchanged_print_line [unch]:
  "(\<And>s l. f (s\<lparr>ws_world := println l (ws_world s)\<rparr>) = f s) \<Longrightarrow> unchanged f (print_line l)"
  by (simp add: unchanged_def print_line_def in_world_def prog_eval)

lemma unchanged_print_rrset [unch]:
  "(\<And>s l. f (s\<lparr>ws_world := println l (ws_world s)\<rparr>) = f s) \<Longrightarrow> unchanged f (print_rrset v title g)"
  unfolding print_rrset_def by (intro unch)

lemma unchanged_expect_url [unch]: "unchanged f (expect_url E k)"
  unfolding expect_url_def by (intro unch)

lemma unchanged_public_key_of [unch]:
  "(\<And>s p. f (s\<lparr>ws_pools := p\<rparr>) = f s) \<Longrightarrow> unchanged f (public_key_of E kv)"
  unfolding public_key_of_def by (intro unch)

lemma unchanged_load_signing_key [unch]:
  "(\<And>s p. f (s\<lparr>ws_pools := p\<rparr>) = f s) \<Longrightarrow> unchanged f (load_signing_key E rd kv)"
  unfolding load_signing_key_def by (intro unch)

lemma unchanged_sign_dnskeys [unch]:
  "(\<And>s p. f (s\<lparr>ws_pools := p\<rparr>) = f s) \<Longrightarrow> unchanged f (sign_dnskeys E rrs win kv)"
  unfolding sign_dnskeys_def by (intro unch)

lemma unchanged_create_cds_rrset_helper [unch]: "unchanged f (create_cds_rrset_helper E d r)"
  unfolding create_cds_rrset_helper_def Let_def by (intro unch)

lemma unchanged_sign_cds [unch]:
  "(\<And>s p. f (s\<lparr>ws_pools := p\<rparr>) = f s) \<Longrightarrow> unchanged f (sign_cds E l m win kv)"
  unfolding sign_cds_def by (intro unch)

lemma unchanged_ds_record_of [unch]:
  "(\<And>s p. f (s\<lparr>ws_pools := p\<rparr>) = f s) \<Longrightarrow> unchanged f (ds_record_of E d kv)"
  unfolding ds_record_of_def by (intro unch)

text \<open>
  \<open>clean_err f m\<close>: if \<open>m\<close> fails, \<open>f\<close> is as before. It holds of a program that only
  frames \<open>f\<close> up to an assignment after which nothing can fail.
\<close>

definition clean_err :: "('s \<Rightarrow> 'b) \<Rightarrow> ('s, 'a) prog \<Rightarrow> bool" where
  "clean_err f m \<longleftrightarrow> (\<forall>s e t. m s = (Err e, t) \<longrightarrow> f t = f s)"

lemma clean_err_never: "(\<And>s. is_ok (fst (m s))) \<Longrightarrow> clean_err f m"
  by (auto simp: clean_err_def) (metis fst_conv is_ok.simps(2))

lemma clean_err_unchanged: "unchanged f m \<Longrightarrow> clean_err f m"
  unfolding clean_err_def by (blast dest: unchangedD)

lemma clean_err_bindP:
  assumes "unchanged f m" and "\<And>x. clean_err f (n x)"
  shows "clean_err f (bindP m n)"
  unfolding clean_err_def
proof (intro allI impI)
  fix s e t assume run: "bindP m n s = (Err e, t)"
  obtain r u where m: "m s = (r, u)" by (cases "m s")
  with assms(1) have u: "f u = f s" by (rule unchangedD)
  show "f t = f s"
  proof (cases r)
    case (Ok x)
    with m run have "n x u = (Err e, t)" by (simp add: bindP_def)
    with assms(2) u show ?thesis by (simp add: clean_err_def)
  qed (use m run u in \<open>auto simp: bindP_def\<close>)
qed

lemma is_ok_thenP: "(\<And>s. is_ok (fst (m s))) \<Longrightarrow> (\<And>s. is_ok (fst (n s))) \<Longrightarrow> is_ok (fst (thenP m n s))"
  by (auto simp: thenP_def bindP_def split: prod.splits res.splits) (metis fst_conv is_ok.simps)+

lemma is_ok_print_line: "is_ok (fst (print_line l s))"
  by (simp add: print_line_def in_world_def prog_eval)

lemma is_ok_forP: "(\<And>x s. is_ok (fst (g x s))) \<Longrightarrow> is_ok (fst (forP xs g s))"
  by (induction xs arbitrary: s) (simp_all add: prog_eval is_ok_thenP)

lemma is_ok_print_rrset: "is_ok (fst (print_rrset v title g s))"
  by (simp add: print_rrset_def whenP_def prog_eval is_ok_thenP is_ok_forP is_ok_print_line)

lemma is_ok_assign_print: "is_ok (fst (thenP (modify h) (print_rrset v title g) s))"
  by (simp add: prog_eval is_ok_print_rrset)

lemma blank_pools [simp]: "blank c (s\<lparr>ws_pools := p\<rparr>) = blank c s"
  by (simp add: blank_def upd_state_def)

lemma blank_println [simp]: "blank c (s\<lparr>ws_world := println l (ws_world s)\<rparr>) = blank c s"
  by (simp add: blank_def upd_state_def println_def)

lemma kss_lens:
  fixes a b :: "'ks kss"
  shows "a\<lparr>st_dnskey_rrset := []\<rparr> = b\<lparr>st_dnskey_rrset := []\<rparr> \<Longrightarrow> st_dnskey_rrset a = st_dnskey_rrset b \<Longrightarrow> a = b"
    and "a\<lparr>st_cds_rrset := []\<rparr> = b\<lparr>st_cds_rrset := []\<rparr> \<Longrightarrow> st_cds_rrset a = st_cds_rrset b \<Longrightarrow> a = b"
    and "a\<lparr>st_ds_rrset := []\<rparr> = b\<lparr>st_ds_rrset := []\<rparr> \<Longrightarrow> st_ds_rrset a = st_ds_rrset b \<Longrightarrow> a = b"
  by (cases a; cases b; simp)+

interpretation dnskey_writer: rrset_writer
  "update_dnskey_rrset E v" st_dnskey_rrset "\<lambda>st. st\<lparr>st_dnskey_rrset := []\<rparr>" for E v
proof (unfold_locales, goal_cases)
  case 1
  show ?case unfolding update_dnskey_rrset_def Let_def
    by (intro unch) (simp_all add: blank_def upd_state_def println_def)
next
  case (2 s e t)
  have "clean_err (\<lambda>s. st_dnskey_rrset (ws_state s)) (update_dnskey_rrset E v)"
    unfolding update_dnskey_rrset_def Let_def
    by (intro clean_err_bindP clean_err_never is_ok_assign_print unch) simp_all
  with 2 show ?case by (simp add: clean_err_def)
qed (simp, simp, erule (1) kss_lens(1))

interpretation cds_writer: rrset_writer
  "create_cds_rrset E v" st_cds_rrset "\<lambda>st. st\<lparr>st_cds_rrset := []\<rparr>" for E v
proof (unfold_locales, goal_cases)
  case 1
  show ?case unfolding create_cds_rrset_def Let_def
    by (intro unch) (simp_all add: blank_def upd_state_def println_def)
next
  case (2 s e t)
  have "clean_err (\<lambda>s. st_cds_rrset (ws_state s)) (create_cds_rrset E v)"
    unfolding create_cds_rrset_def Let_def
    by (intro clean_err_bindP clean_err_never is_ok_assign_print unch) simp_all
  with 2 show ?case by (simp add: clean_err_def)
qed (simp, simp, erule (1) kss_lens(2))

interpretation ds_writer: rrset_writer
  "update_ds_rrset E v" st_ds_rrset "\<lambda>st. st\<lparr>st_ds_rrset := []\<rparr>" for E v
proof (unfold_locales, goal_cases)
  case 1
  show ?case unfolding update_ds_rrset_def
    by (intro unch) (simp_all add: blank_def upd_state_def println_def)
next
  case (2 s e t)
  have "clean_err (\<lambda>s. st_ds_rrset (ws_state s)) (update_ds_rrset E v)"
    unfolding update_ds_rrset_def
    by (intro clean_err_bindP clean_err_never is_ok_assign_print unch) simp_all
  with 2 show ?case by (simp add: clean_err_def)
qed (simp, simp, erule (1) kss_lens(3))

section \<open>What the rebuilt RRsets contain\<close>

text \<open>
  A collecting loop over a body that keeps the observation \<open>h\<close>: every collected value comes
  from a call in a state with the observation of the start.
\<close>

definition called :: "('s \<Rightarrow> 'b) \<Rightarrow> 's \<Rightarrow> ('s, 'a) prog \<Rightarrow> 'a \<Rightarrow> bool" where
  "called h s m y \<longleftrightarrow> (\<exists>u v. h u = h s \<and> m u = (Ok y, v))"

lemma calledI: "h u = h s \<Longrightarrow> m u = (Ok y, v) \<Longrightarrow> called h s m y"
  by (auto simp: called_def)

lemma called_shift: "h u = h s \<Longrightarrow> called h u m y = called h s m y"
  by (simp add: called_def)

lemma collectP_called:
  assumes keep: "\<And>x. unchanged h (f x)"
  shows "collectP xs f s = (Ok ys, t) \<Longrightarrow> list_all2 (\<lambda>x y. called h s (f x) y) xs ys"
proof (induction xs arbitrary: s ys t)
  case Nil
  then show ?case by (simp add: prog_Ok)
next
  case (Cons x xs)
  from Cons.prems obtain y u zs v where fx: "f x s = (Ok y, u)"
    and rest: "collectP xs f u = (Ok zs, v)" and ys: "ys = y # zs" by (auto simp: prog_Ok)
  from keep fx have u: "h u = h s" by (rule unchangedD)
  from Cons.IH [OF rest] have "list_all2 (\<lambda>x y. called h s (f x) y) xs zs"
    by (simp only: called_shift [where h = h, OF u])
  moreover from fx have "called h s (f x) y" by (rule calledI [OF refl])
  ultimately show ?case by (simp add: ys)
qed

text \<open>A loop in which some elements contribute one value and the others none.\<close>

lemma list_all2_concat_filter:
  assumes "list_all2 R xs yss"
    and "\<And>x ys. R x ys \<Longrightarrow> P x \<Longrightarrow> \<exists>y. ys = [y] \<and> Q x y"
    and "\<And>x ys. R x ys \<Longrightarrow> \<not> P x \<Longrightarrow> ys = []"
  shows "list_all2 Q (filter P xs) (concat yss)"
  using assms(1)
proof (induction rule: list_all2_induct)
  case (Cons x xs ys yss)
  show ?case
  proof (cases "P x")
    case True
    with assms(2) [OF Cons(1)] obtain y where "ys = [y]" "Q x y" by blast
    with True Cons show ?thesis by simp
  next
    case False
    with assms(3) [OF Cons(1)] Cons show ?thesis by simp
  qed
qed simp

text \<open>Everything but the connection pools and the output.\<close>

abbreviation settled :: "'ks ws \<Rightarrow> 'ks ws" where
  "settled \<equiv> blank (\<lambda>st. st)"

lemma settled_parts:
  assumes "settled u = settled s"
  shows "ws_state u = ws_state s" "ws_config u = ws_config s" "ws_files u = ws_files s"
    "w_clock (ws_world u) = w_clock (ws_world s)"
proof -
  have "ws_state (settled x) = ws_state x" "ws_config (settled x) = ws_config x"
    "ws_files (settled x) = ws_files x" "w_clock (ws_world (settled x)) = w_clock (ws_world x)" for x :: "'a ws"
    by (simp_all add: blank_def)
  with assms show "ws_state u = ws_state s" "ws_config u = ws_config s" "ws_files u = ws_files s"
    "w_clock (ws_world u) = w_clock (ws_world s)" by metis+
qed

lemma print_rrset_state: "print_rrset v title g s = (r, t) \<Longrightarrow> ws_state t = ws_state s"
  by (rule unchangedD [where f = ws_state, OF unchanged_print_rrset]) simp_all

text \<open>The signature one key contributes.\<close>

definition signs :: "'ks ext \<Rightarrow> 'ks ws \<Rightarrow> (string \<Rightarrow> string \<Rightarrow> string) \<Rightarrow> rr list \<Rightarrow> u32 \<times> u32 \<Rightarrow> string \<times> key \<Rightarrow> rr \<Rightarrow> bool" where
  "signs E s rd rrs win kv sig \<longleftrightarrow> (\<exists>sk. called settled s (load_signing_key E rd kv) sk \<and>
     sign_rrset E sk rrs (fst win) (snd win) = Inr sig)"

lemma sign_dnskeys_called:
  assumes "called settled s (sign_dnskeys E rrs win kv) ys"
  shows "dnskey_signer (snd kv) \<Longrightarrow> \<exists>y. ys = [y] \<and>
       signs E s (\<lambda>p e. ''unable read from file '' @ p @ '': '' @ e) rrs win kv y"
    and "\<not> dnskey_signer (snd kv) \<Longrightarrow> ys = []"
  using assms unfolding signs_def
  by (auto simp: called_def sign_dnskeys_def prog_Ok try_res_def; blast)+

text \<open>
  Property C5. When \<open>update_dnskey_rrset\<close> succeeds, the stored DNSKEY RRset is, in
  zonefile format, the public keys of exactly the keyset's present keys, in order,
  followed by one signature over exactly those records for every key that signs the
  DNSKEY RRset, valid from \<open>now - offset\<close> to \<open>now + lifetime\<close>; without present keys it is
  empty.
\<close>

theorem update_dnskey_rrset_contents:
  assumes "update_dnskey_rrset E v s = (Ok (), t)"
  defines "keys \<equiv> ks_keys E (ws_keyset s)"
    and "win \<equiv> sig_window (faketime_or_now s) (dnskey_inception_offset (ws_config s))
                 (dnskey_signature_lifetime (ws_config s))"
  shows "\<exists>pubs sigs. let rrs = map dnskey_record pubs in
    st_dnskey_rrset (ws_state t) = map (display_zonefile E) (rrs @ sigs) \<and>
    list_all2 (\<lambda>kv r. called settled s (public_key_of E kv) r)
      (filter (\<lambda>(k, x). key_present x) keys) pubs \<and>
    (if pubs = [] then sigs = []
     else list_all2 (signs E s (\<lambda>p e. ''unable read from file '' @ p @ '': '' @ e) rrs win)
            (filter (\<lambda>kv. dnskey_signer (snd kv)) keys) sigs)"
proof -
  from assms(1) obtain pubs u sigss w where
    pubs: "collectP (filter (\<lambda>(k, x). key_present x) keys) (public_key_of E) s = (Ok pubs, u)"
    and sigss: "(if pubs = [] then ret []
        else collectP keys (sign_dnskeys E (map dnskey_record pubs)
          (sig_window (faketime_or_now s) (dnskey_inception_offset (ws_config u))
             (dnskey_signature_lifetime (ws_config u))))) u = (Ok sigss, w)"
    and t: "st_dnskey_rrset (ws_state t) =
          map (display_zonefile E \<circ> dnskey_record) pubs @ map (display_zonefile E) (concat sigss)"
    by (fastforce simp: update_dnskey_rrset_def keys_def prog_Ok Let_def dest!: print_rrset_state)
  have pubs_from: "list_all2 (\<lambda>kv r. called settled s (public_key_of E kv) r)
      (filter (\<lambda>(k, x). key_present x) keys) pubs"
    by (rule collectP_called [OF _ pubs]) (intro unch, simp)
  have "unchanged settled (collectP (filter (\<lambda>(k, x). key_present x) keys) (public_key_of E))"
    by (intro unch) simp
  from unchangedD [OF this pubs] have u: "settled u = settled s" .
  have "list_all2 (signs E s (\<lambda>p e. ''unable read from file '' @ p @ '': '' @ e) (map dnskey_record pubs) win)
      (filter (\<lambda>kv. dnskey_signer (snd kv)) keys) (concat sigss)" if "pubs \<noteq> []"
  proof -
    from sigss that u have "collectP keys (sign_dnskeys E (map dnskey_record pubs) win) u = (Ok sigss, w)"
      by (simp add: win_def settled_parts [OF u])
    then have "list_all2 (\<lambda>kv ys. called settled u (sign_dnskeys E (map dnskey_record pubs) win kv) ys) keys sigss"
      by (rule collectP_called [rotated]) (intro unch, simp)
    then have "list_all2 (\<lambda>kv ys. called settled s (sign_dnskeys E (map dnskey_record pubs) win kv) ys) keys sigss"
      by (simp only: called_shift [where h = settled, OF u])
    then show ?thesis
      by (rule list_all2_concat_filter) (use sign_dnskeys_called in blast)+
  qed
  moreover have "concat sigss = []" if "pubs = []" using sigss that by (simp add: prog_Ok)
  ultimately show ?thesis using t pubs_from by (auto simp: Let_def intro!: exI [of _ pubs] exI [of _ "concat sigss"])
qed

lemma sign_cds_called:
  assumes "called settled s (sign_cds E cds cdnskey win kv) ys"
  shows "dnskey_signer (snd kv) \<Longrightarrow> \<exists>y. ys = [y] \<and>
       signs E s (\<lambda>p e. ''unable to read from private key file '' @ p @ '': '' @ e) cds win kv (fst y) \<and>
       signs E s (\<lambda>p e. ''unable to read from private key file '' @ p @ '': '' @ e) cdnskey win kv (snd y)"
    and "\<not> dnskey_signer (snd kv) \<Longrightarrow> ys = []"
  using assms unfolding signs_def
  by (auto simp: called_def sign_cds_def prog_Ok try_res_def; blast)+

text \<open>The CDNSKEY and CDS records of one key at the parent.\<close>

definition cds_pair_of :: "'ks ext \<Rightarrow> digest_algorithm \<Rightarrow> string \<times> key \<Rightarrow> ('ks ws, rr \<times> rr) prog" where
  "cds_pair_of E d kv = bindP (public_key_of E kv) (create_cds_rrset_helper E d)"

lemma unchanged_cds_pair_of [unch]:
  "(\<And>s p. f (s\<lparr>ws_pools := p\<rparr>) = f s) \<Longrightarrow> unchanged f (cds_pair_of E d kv)"
  unfolding cds_pair_of_def by (intro unch)

text \<open>
  Property C6. When \<open>create_cds_rrset\<close> succeeds, the stored set is the CDNSKEY records of
  exactly the keys whose DS belongs at the parent, the signatures over them, the CDS
  records of the same keys with the configured digest, and the signatures over those; the
  signers are exactly the keys that sign the DNSKEY RRset.
\<close>

theorem create_cds_rrset_contents:
  assumes "create_cds_rrset E v s = (Ok (), t)"
  defines "keys \<equiv> ks_keys E (ws_keyset s)"
    and "win \<equiv> sig_window (faketime_or_now s) (cds_inception_offset (ws_config s))
                 (cds_signature_lifetime (ws_config s))"
    and "rd \<equiv> \<lambda>p e. ''unable to read from private key file '' @ p @ '': '' @ e"
  shows "\<exists>pairs sigs. 
    st_cds_rrset (ws_state t) = map (display_zonefile E)
      (map fst pairs @ map snd sigs @ map snd pairs @ map fst sigs) \<and>
    list_all2 (\<lambda>kv p. called settled s (cds_pair_of E (to_digest_algorithm (ds_algorithm (ws_config s))) kv) p)
      (filter (\<lambda>(k, x). key_at_parent x) keys) pairs \<and>
    (if pairs = [] then sigs = []
     else list_all2 (\<lambda>kv y. signs E s rd (map snd pairs) win kv (fst y) \<and> signs E s rd (map fst pairs) win kv (snd y))
            (filter (\<lambda>kv. dnskey_signer (snd kv)) keys) sigs)"
proof -
  let ?d = "to_digest_algorithm (ds_algorithm (ws_config s))"
  from assms(1) obtain pairs u sigss w where
    pairs: "collectP (filter (\<lambda>(k, x). key_at_parent x) keys) (cds_pair_of E ?d) s = (Ok pairs, u)"
    and sigss: "(if pairs = [] then ret []
        else collectP keys (sign_cds E (map snd pairs) (map fst pairs)
          (sig_window (faketime_or_now s) (cds_inception_offset (ws_config u))
             (cds_signature_lifetime (ws_config u))))) u = (Ok sigss, w)"
    and t: "st_cds_rrset (ws_state t) = map (display_zonefile E)
          (map fst pairs @ map snd (concat sigss) @ map snd pairs @ map fst (concat sigss))"
    by (fastforce simp: create_cds_rrset_def keys_def prog_Ok Let_def cds_pair_of_def [abs_def] dest!: print_rrset_state)
  define sigs where "sigs = concat sigss"
  have pairs_from: "list_all2 (\<lambda>kv p. called settled s (cds_pair_of E ?d kv) p)
      (filter (\<lambda>(k, x). key_at_parent x) keys) pairs"
    by (rule collectP_called [OF _ pairs]) (intro unch, simp)
  have "unchanged settled (collectP (filter (\<lambda>(k, x). key_at_parent x) keys) (cds_pair_of E ?d))"
    by (intro unch) simp
  from unchangedD [OF this pairs] have u: "settled u = settled s" .
  have "list_all2 (\<lambda>kv y. signs E s rd (map snd pairs) win kv (fst y) \<and> signs E s rd (map fst pairs) win kv (snd y))
      (filter (\<lambda>kv. dnskey_signer (snd kv)) keys) sigs" if "pairs \<noteq> []"
  proof -
    from sigss that u have "collectP keys (sign_cds E (map snd pairs) (map fst pairs) win) u = (Ok sigss, w)"
      by (simp add: win_def settled_parts [OF u])
    then have "list_all2 (\<lambda>kv ys. called settled u (sign_cds E (map snd pairs) (map fst pairs) win kv) ys) keys sigss"
      by (rule collectP_called [rotated]) (intro unch, simp)
    then have "list_all2 (\<lambda>kv ys. called settled s (sign_cds E (map snd pairs) (map fst pairs) win kv) ys) keys sigss"
      by (simp only: called_shift [where h = settled, OF u])
    then show ?thesis unfolding sigs_def
      by (rule list_all2_concat_filter) (use sign_cds_called in \<open>unfold rd_def, blast\<close>)+
  qed
  moreover have "sigs = []" if "pairs = []" using sigss that by (simp add: prog_Ok sigs_def)
  ultimately show ?thesis using t [folded sigs_def] pairs_from
    by (intro exI [of _ pairs] exI [of _ sigs]) auto
qed

text \<open>
  When \<open>update_ds_rrset\<close> succeeds, the stored DS RRset is, in order, the DS
  records of exactly the keys whose DS belongs at the parent, made with the configured
  digest from those keys' public keys.
\<close>

theorem update_ds_rrset_contents:
  assumes "update_ds_rrset E v s = (Ok (), t)"
  shows "\<exists>dss. st_ds_rrset (ws_state t) = map (display_zonefile E) dss \<and>
    list_all2 (\<lambda>kv r. called settled s (ds_record_of E (to_digest_algorithm (ds_algorithm (ws_config s))) kv) r)
      (filter (\<lambda>(k, x). key_at_parent x) (ks_keys E (ws_keyset s))) dss"
proof -
  from assms obtain dss u where
    dss: "collectP (filter (\<lambda>(k, x). key_at_parent x) (ks_keys E (ws_keyset s)))
        (ds_record_of E (to_digest_algorithm (ds_algorithm (ws_config s)))) s = (Ok dss, u)"
    and t: "st_ds_rrset (ws_state t) = map (display_zonefile E) dss"
    by (fastforce simp: update_ds_rrset_def prog_Ok dest!: print_rrset_state)
  have "list_all2 (\<lambda>kv r. called settled s (ds_record_of E (to_digest_algorithm (ds_algorithm (ws_config s))) kv) r)
      (filter (\<lambda>(k, x). key_at_parent x) (ks_keys E (ws_keyset s))) dss"
    by (rule collectP_called [OF _ dss]) (intro unch, simp)
  with t show ?thesis by blast
qed

text \<open>
  A failure while an RRset is rebuilt, a key file that cannot be read or an
  HSM that cannot be reached, leaves the whole keyset state as it was.
\<close>

theorem rrset_update_failure:
  "update_dnskey_rrset E v s = (Err e, t) \<or> create_cds_rrset E v s = (Err e, t) \<or>
     update_ds_rrset E v s = (Err e, t) \<Longrightarrow> ws_state t = ws_state s"
  using dnskey_writer.failed_state cds_writer.failed_state ds_writer.failed_state by blast

section \<open>What handling actions changes\<close>

lemma handle_action_frames:
  "unchanged ws_keyset (handle_action E v a)"
  "unchanged ws_config (handle_action E v a)"
  "unchanged (\<lambda>s. st_internal (ws_state s)) (handle_action E v a)"
  "unchanged ws_files (handle_action E v a)"
  "unchanged (\<lambda>s. (ws_config_changed s, ws_state_changed s)) (handle_action E v a)"
  "unchanged (\<lambda>s. w_clock (ws_world s)) (handle_action E v a)"
  by (cases a; simp; intro unch dnskey_writer.writer_frames cds_writer.writer_frames
      ds_writer.writer_frames dnskey_writer.frame cds_writer.frame ds_writer.frame;
      simp add: remove_cds_rrset_def blank_def)+

lemma handle_actions_frames [unch]:
  "unchanged ws_keyset (handle_actions E acts v)"
  "unchanged ws_config (handle_actions E acts v)"
  "unchanged (\<lambda>s. st_internal (ws_state s)) (handle_actions E acts v)"
  "unchanged ws_files (handle_actions E acts v)"
  "unchanged (\<lambda>s. (ws_config_changed s, ws_state_changed s)) (handle_actions E acts v)"
  "unchanged (\<lambda>s. w_clock (ws_world s)) (handle_actions E acts v)"
  unfolding handle_actions_def by (intro unch handle_action_frames)+

text \<open>
  Handling the actions of a roll step changes no key, no configuration value,
  no record of earlier propagation checks and no file, whatever the actions and the
  outcome.
\<close>

theorem handle_actions_frame:
  "ws_keyset (snd (handle_actions E acts v s)) = ws_keyset s \<and>
   ws_config (snd (handle_actions E acts v s)) = ws_config s \<and>
   st_internal (ws_state (snd (handle_actions E acts v s))) = st_internal (ws_state s) \<and>
   w_files (ws_world (snd (handle_actions E acts v s))) = w_files (ws_world s)"
  by (simp add: handle_actions_frames(1-4) [unfolded unchanged_def, rule_format])

lemma handle_action_flag:
  assumes "handle_action E v a s = (Ok (), t)"
  shows "ws_run_update_ds_command t \<longleftrightarrow> ws_run_update_ds_command s \<or> a = UpdateDsRrset"
proof -
  have w: "upd s = (r, u) \<Longrightarrow> ws_run_update_ds_command u = ws_run_update_ds_command s"
    if "unchanged (\<lambda>s. (ws_config_changed s, ws_state_changed s, ws_run_update_ds_command s)) upd"
    for upd :: "('a ws, unit) prog" and s r u
    using unchangedD [OF that] by blast
  from assms show ?thesis
    by (cases a) (auto simp: prog_Ok dest!: w [OF dnskey_writer.keeps_flags] w [OF cds_writer.keeps_flags]
        w [OF ds_writer.keeps_flags])
qed

text \<open>
  After the actions were handled, the command that pushes DS records to the
  parent is due exactly if it was due before or an action asked for a new DS RRset.
\<close>

theorem handle_actions_ds_command:
  assumes "handle_actions E acts v s = (Ok (), t)"
  shows "ws_run_update_ds_command t \<longleftrightarrow> ws_run_update_ds_command s \<or> UpdateDsRrset \<in> set acts"
  using assms unfolding handle_actions_def
proof (induction acts arbitrary: s)
  case Nil
  then show ?case by (simp add: prog_Ok)
next
  case (Cons a acts)
  then obtain u where "handle_action E v a s = (Ok (), u)" "forP acts (handle_action E v) u = (Ok (), t)"
    by (auto simp: prog_Ok)
  from handle_action_flag [OF this(1)] Cons.IH [OF this(2)] show ?case by auto
qed

section \<open>The demo workspace\<close>

lemma demo_public_key:
  "public_key_of demo (''file:///k/pub1'', k) demo_ws =
     (Ok (DnskeyRR ''example'' class_IN 3600 (DnskeyData 257 3 15 ''kkkkk'')), demo_ws)"
  by (simp add: public_key_of_def expect_url_def public_key_from_url_def prog_eval bindP_def
      in_world_def read_file_def fs_read_def try_res_def demo_parse_def)

lemma demo_signing_key:
  "load_signing_key demo rd (''file:///k/pub1'', demo_key ty (Some ''file:///k/pri1'') 15 5 n) demo_ws =
     (Ok (SigningKey ''example'' 257 ''secret''), demo_ws)"
  using demo_public_key
  by (simp add: load_signing_key_def expect_url_def public_key_of_def prog_eval bindP_def
      in_world_def read_file_def fs_read_def try_res_def)

lemma demo_roles [simp]:
  "key_present (demo_key (Ksk demo_active) p a t n)"
  "key_at_parent (demo_key (Ksk demo_active) p a t n)"
  "dnskey_signer (demo_key (Ksk demo_active) p a t n)"
  by (simp_all add: key_present_def key_at_parent_def dnskey_signer_def demo_active_def)

definition demo_dnskeys :: "string list" where
  "demo_dnskeys = [''example DNSKEY kkkkk'', ''example RRSIG secret'']"

lemma demo_update_dnskeys:
  "update_dnskey_rrset demo False demo_ws = (Ok (), upd_state (\<lambda>st. st\<lparr>st_dnskey_rrset := demo_dnskeys\<rparr>) demo_ws)"
  apply (simp add: update_dnskey_rrset_def prog_eval bindP_def demo_public_key)
  apply (simp add: sign_dnskeys_def thenP_def bindP_def try_res_def demo_signing_key prog_eval demo_sign_def dnskey_record_def)
  apply (simp add: prog_eval print_rrset_def whenP_def demo_show_def demo_dnskeys_def)
  done

lemma demo_create_cds:
  "create_cds_rrset demo False demo_ws = (Ok (), upd_state (\<lambda>st. st\<lparr>st_cds_rrset :=
     [''example CDNSKEY kkkkk'', ''example RRSIG secret'', ''example CDS digest of kkkkk'', ''example RRSIG secret'']\<rparr>) demo_ws)"
  apply (simp add: create_cds_rrset_def prog_eval bindP_def demo_public_key create_cds_rrset_helper_def try_res_def Let_def)
  apply (simp add: sign_cds_def thenP_def bindP_def try_res_def demo_signing_key prog_eval demo_sign_def)
  apply (simp add: prog_eval print_rrset_def whenP_def demo_show_def)
  done

lemma demo_update_ds:
  "update_ds_rrset demo False demo_ws = (Ok (), upd_state (\<lambda>st. st\<lparr>st_ds_rrset := [''example DS digest of kkkkk'']\<rparr>) demo_ws)"
  apply (simp add: update_ds_rrset_def prog_eval bindP_def demo_public_key ds_record_of_def try_res_def)
  apply (simp add: thenP_def bindP_def prog_eval print_rrset_def whenP_def demo_show_def)
  done

lemma demo_update_fails:
  "update_dnskey_rrset demo False (demo_ws\<lparr>ws_world := demo_world\<lparr>w_files := Map.empty\<rparr>\<rparr>) =
     (Err ''unable read from file /k/pub1: No such file or directory'',
      demo_ws\<lparr>ws_world := demo_world\<lparr>w_files := Map.empty\<rparr>\<rparr>)"
  by (simp add: update_dnskey_rrset_def public_key_of_def expect_url_def public_key_from_url_def prog_eval bindP_def
      in_world_def read_file_def fs_read_def faketime_or_now_def ENOENT_def)

theorem update_dnskey_rrset_contents_witness:
  "st_dnskey_rrset (ws_state (snd (update_dnskey_rrset demo False demo_ws))) = demo_dnskeys \<and>
   (\<exists>pubs sigs. demo_dnskeys = map demo_show (map dnskey_record pubs @ sigs))"
  using update_dnskey_rrset_contents [OF demo_update_dnskeys]
  by (auto simp: Let_def demo_update_dnskeys)

theorem create_cds_rrset_contents_witness:
  "\<exists>pairs sigs. st_cds_rrset (ws_state (snd (create_cds_rrset demo False demo_ws))) =
     map demo_show (map fst pairs @ map snd sigs @ map snd pairs @ map fst sigs)"
  using create_cds_rrset_contents [OF demo_create_cds] by (auto simp: demo_create_cds)

theorem update_ds_rrset_contents_witness:
  "\<exists>dss. st_ds_rrset (ws_state (snd (update_ds_rrset demo False demo_ws))) = map demo_show dss"
  using update_ds_rrset_contents [OF demo_update_ds] unfolding demo_update_ds demo_sel snd_conv by blast

theorem rrset_update_failure_witness:
  "ws_state (snd (update_dnskey_rrset demo False (demo_ws\<lparr>ws_world := demo_world\<lparr>w_files := Map.empty\<rparr>\<rparr>))) = demo_state"
  using rrset_update_failure [OF disjI1, OF demo_update_fails] by (simp add: demo_update_fails)

theorem handle_actions_ds_command_witness:
  "ws_run_update_ds_command (snd (handle_actions demo [UpdateDnskeyRrset] False demo_ws)) = False"
proof -
  have "handle_actions demo [UpdateDnskeyRrset] False demo_ws =
      (Ok (), upd_state (\<lambda>st. st\<lparr>st_dnskey_rrset := demo_dnskeys\<rparr>) demo_ws)"
    by (simp add: handle_actions_def thenP_def bindP_def demo_update_dnskeys prog_eval)
  from handle_actions_ds_command [OF this] this show ?thesis by simp
qed

end
