(* ===== verification/Rolls.thy ===== *)
theory Rolls
  imports Rrsets
begin

text \<open>
  Key rolls of src/commands/keyset/cmd.rs: the functions that start a roll, the roll
  subcommands, the automatic start, \<open>init\<close>, and the import and removal of keys.
\<close>

section \<open>Keys that take part in a roll\<close>

definition usable_csk :: "key \<Rightarrow> bool" where
  "usable_csk v = (case keytype v of Csk st _ \<Rightarrow> \<not> stale st | _ \<Rightarrow> False)"

definition usable_ksk :: "key \<Rightarrow> bool" where
  "usable_ksk v = (case keytype v of Ksk st \<Rightarrow> \<not> stale st | _ \<Rightarrow> False)"

definition usable_zsk :: "key \<Rightarrow> bool" where
  "usable_zsk v = (case keytype v of Zsk st \<Rightarrow> \<not> stale st | _ \<Rightarrow> False)"

definition usable_key :: "key \<Rightarrow> bool" where
  "usable_key v = (case keytype v of Ksk st \<Rightarrow> \<not> stale st | Zsk st \<Rightarrow> \<not> stale st
     | Csk st _ \<Rightarrow> \<not> stale st | Include _ \<Rightarrow> False)"

definition names_of :: "(key \<Rightarrow> bool) \<Rightarrow> (string \<times> key) list \<Rightarrow> string list" where
  "names_of P keys = map fst (filter (\<lambda>(_, v). P v) keys)"

fun roll_type_debug :: "roll_type \<Rightarrow> string" where
  "roll_type_debug KskRoll = ''KskRoll''"
| "roll_type_debug KskDoubleDsRoll = ''KskDoubleDsRoll''"
| "roll_type_debug ZskRoll = ''ZskRoll''"
| "roll_type_debug ZskDoubleSignatureRoll = ''ZskDoubleSignatureRoll''"
| "roll_type_debug CskRoll = ''CskRoll''"
| "roll_type_debug AlgorithmRoll = ''AlgorithmRoll''"

section \<open>Starting a roll\<close>

definition has_keys :: "'ks ext \<Rightarrow> ('ks ws, unit) prog" where
  "has_keys E = bindP (gets (\<lambda>s. ks_keys E (ws_keyset s) \<noteq> [])) (\<lambda>b.
     guardP b ''assertion failed: !self.state.keyset.keys().is_empty()'')"

definition record_roll :: "roll_type \<Rightarrow> 'ks kss \<Rightarrow> 'ks kss" where
  "record_roll r st = st\<lparr>st_internal := (st_internal st)(r \<mapsto> roll_state_reports_default)\<rparr>"

text \<open>
  The last part of every start function: the roll is started in the keyset; when that is
  refused the fresh keys are removed again, otherwise the actions are handled and the
  roll gets an entry in \<open>internal\<close>.
\<close>

definition begin_roll ::
  "'ks ext \<Rightarrow> roll_type \<Rightarrow> string \<Rightarrow> string list \<Rightarrow> string list \<Rightarrow> url list \<Rightarrow> bool \<Rightarrow> ('ks ws, action list) prog" where
  "begin_roll E r what old new urls verbose =
     bindP (ks_call (ks_start_roll E r old new)) (\<lambda>res. case res of
        Inl e \<Rightarrow> thenP (forP urls (remove_key E)) (fail (what @ ks_show_error E e))
      | Inr actions \<Rightarrow>
          thenP (handle_actions E actions verbose)
         (thenP (modify (upd_state (record_roll r))) (ret actions)))"

definition refuse_csk :: "'ks ext \<Rightarrow> roll_type \<Rightarrow> ('ks ws, unit) prog" where
  "refuse_csk E r =
     bindP (gets (\<lambda>s. (use_csk (ws_config s), ks_keys E (ws_keyset s)))) (\<lambda>(csk, keys).
     if csk then fail ''wrong key roll, use start-csk-roll''
     else if list_ex (\<lambda>(_, v). usable_csk v) keys
     then fail (''cannot start '' @ roll_type_debug r @ '' roll, found CSK'')
     else ret ())"

definition start_ksk_roll :: "'ks ext \<Rightarrow> bool \<Rightarrow> ('ks ws, action list) prog" where
  "start_ksk_roll E verbose =
     bindP (gets (\<lambda>s. roll_variant_to_roll VariantKsk (ws_config s))) (\<lambda>r.
     bindP (gets faketime_or_now) (\<lambda>now.
     thenP (has_keys E)
    (thenP (refuse_csk E r)
    (bindP (gets (\<lambda>s. names_of usable_ksk (ks_keys E (ws_keyset s)))) (\<lambda>old.
     bindP (new_keys E True) (\<lambda>(pub, priv, alg, tag).
     thenP (add_new_key E (ks_add_key_ksk E) ''KSK'' now (pub, priv, alg, tag))
           (begin_roll E r (''cannot start '' @ roll_type_debug r @ '': '') old [url_text pub] [priv, pub] verbose)))))))"

definition start_zsk_roll :: "'ks ext \<Rightarrow> bool \<Rightarrow> ('ks ws, action list) prog" where
  "start_zsk_roll E verbose =
     bindP (gets (\<lambda>s. roll_variant_to_roll VariantZsk (ws_config s))) (\<lambda>r.
     bindP (gets faketime_or_now) (\<lambda>now.
     thenP (has_keys E)
    (thenP (refuse_csk E r)
    (bindP (gets (\<lambda>s. names_of usable_zsk (ks_keys E (ws_keyset s)))) (\<lambda>old.
     bindP (new_keys E False) (\<lambda>(pub, priv, alg, tag).
     thenP (add_new_key E (ks_add_key_zsk E) ''ZSK'' now (pub, priv, alg, tag))
           (begin_roll E r (''cannot start '' @ roll_type_debug r @ '': '') old [url_text pub] [priv, pub] verbose)))))))"

definition start_csk_roll :: "'ks ext \<Rightarrow> bool \<Rightarrow> ('ks ws, action list) prog" where
  "start_csk_roll E verbose =
     thenP (has_keys E)
    (bindP (gets (\<lambda>s. names_of usable_key (ks_keys E (ws_keyset s)))) (\<lambda>old.
     bindP (new_csk_or_ksk_zsk E) (\<lambda>(new, urls).
     begin_roll E CskRoll ''cannot start CskRoll: '' old (map url_text new) urls verbose)))"

definition start_algorithm_roll :: "'ks ext \<Rightarrow> bool \<Rightarrow> ('ks ws, action list) prog" where
  "start_algorithm_roll E verbose =
     thenP (has_keys E)
    (bindP (gets (\<lambda>s. names_of usable_key (ks_keys E (ws_keyset s)))) (\<lambda>old.
     bindP (new_csk_or_ksk_zsk E) (\<lambda>(new, urls).
     begin_roll E AlgorithmRoll ''cannot start roll: '' old (map url_text new) urls verbose)))"

section \<open>The roll subcommands\<close>

datatype roll_cmd =
  StartRoll | Propagation1Complete u32 | CacheExpired1 | Propagation2Complete u32
| CacheExpired2 | RollDone

fun action_debug :: "action \<Rightarrow> string" where
  "action_debug UpdateDnskeyRrset = ''UpdateDnskeyRrset''"
| "action_debug CreateCdsRrset = ''CreateCdsRrset''"
| "action_debug RemoveCdsRrset = ''RemoveCdsRrset''"
| "action_debug UpdateDsRrset = ''UpdateDsRrset''"
| "action_debug UpdateRrsig = ''UpdateRrsig''"
| "action_debug ReportDnskeyPropagated = ''ReportDnskeyPropagated''"
| "action_debug ReportDsPropagated = ''ReportDsPropagated''"
| "action_debug ReportRrsigPropagated = ''ReportRrsigPropagated''"
| "action_debug WaitDnskeyPropagated = ''WaitDnskeyPropagated''"
| "action_debug WaitDsPropagated = ''WaitDsPropagated''"
| "action_debug WaitRrsigPropagated = ''WaitRrsigPropagated''"

fun action_help :: "action \<Rightarrow> string list" where
  "action_help CreateCdsRrset = [''sign the zone with the CDS and CDNSKEY RRsets'']"
| "action_help RemoveCdsRrset = [''sign the zone with empty CDS and CDNSKEY RRsets'']"
| "action_help UpdateDnskeyRrset = [''sign the zone with the new DNSKEY RRset from the state file'']"
| "action_help UpdateDsRrset = [''update the DS RRset at the parent to match the CDNSKEY RRset'']"
| "action_help UpdateRrsig = [''sign the zone with the new zone signing keys'']"
| "action_help ReportDnskeyPropagated =
     [''verify that the new DNSKEY RRset has propagated to all'',
      ''nameservers and report (at least) the TTL of the DNSKEY RRset'']"
| "action_help ReportDsPropagated =
     [''verify that all nameservers of the parent zone have a new'',
      ''DS RRset that matches the keys in the CNDSKEY RRset and'',
      ''report (at least) the TTL of the DNSKEY RRset'']"
| "action_help ReportRrsigPropagated =
     [''verify that the new RRSIG records have propagated to all'',
      ''nameservers and report (at least) the maximum TTL among'',
      ''the RRSIG records'']"
| "action_help WaitDnskeyPropagated =
     [''verify that the new DNSKEY RRset has propagated to all'', ''nameservers'']"
| "action_help WaitDsPropagated =
     [''verify that all nameservers of the parent zone have a new'',
      ''DS RRset that matches the keys in the CNDSKEY RRset'']"
| "action_help WaitRrsigPropagated =
     [''verify that the new RRSIG records have propagated to all'', ''nameservers'']"

definition reports :: "action \<Rightarrow> bool" where
  "reports a \<longleftrightarrow> a \<in> {ReportDnskeyPropagated, ReportDsPropagated, ReportRrsigPropagated}"

definition tab :: string where
  "tab = [CHR 0x09]"

definition print_actions :: "action list \<Rightarrow> ('ks ws, unit) prog" where
  "print_actions actions =
     (if actions = [] then print_line ''No actions''
      else thenP (print_line ''Actions:'')
          (thenP (forP actions (\<lambda>a.
             thenP (print_line (tab @ action_debug a @ '':''))
            (thenP (forP (action_help a) (\<lambda>l. print_line (tab @ tab @ l)))
                   (print_line []))))
           (whenP (length (filter reports actions) > 1)
              (print_line (tab @ ''Note: with multiple Report actions, report the maximum of the TTLs.'')))))"

definition start_roll_for :: "'ks ext \<Rightarrow> roll_variant \<Rightarrow> bool \<Rightarrow> ('ks ws, action list) prog" where
  "start_roll_for E v verbose = (case v of
      VariantKsk \<Rightarrow> start_ksk_roll E verbose
    | VariantZsk \<Rightarrow> start_zsk_roll E verbose
    | VariantCsk \<Rightarrow> start_csk_roll E verbose
    | VariantAlgorithm \<Rightarrow> start_algorithm_roll E verbose)"

text \<open>A step of a roll reported by the user: the keyset moves on, the actions are handled.\<close>

definition roll_step ::
  "'ks ext \<Rightarrow> string \<Rightarrow> roll_variant \<Rightarrow> (roll_type \<Rightarrow> 'ks \<Rightarrow> (ks_error + action list) \<times> 'ks) \<Rightarrow> ('ks ws, unit) prog" where
  "roll_step E what v f =
     bindP (gets (\<lambda>s. roll_variant_to_roll v (ws_config s))) (\<lambda>r.
     bindP (ks_try E (\<lambda>e. what @ e) (f r)) (\<lambda>actions.
     thenP (handle_actions E actions True)
    (thenP (print_actions actions) (modify set_state_changed))))"

fun roll_command :: "'ks ext \<Rightarrow> roll_cmd \<Rightarrow> roll_variant \<Rightarrow> ('ks ws, unit) prog" where
  "roll_command E StartRoll v =
     bindP (start_roll_for E v True) (\<lambda>actions.
     thenP (print_actions actions) (modify set_state_changed))"
| "roll_command E (Propagation1Complete t) v =
     roll_step E ''Error reporting propagation complete: '' v (\<lambda>r. ks_propagation1_complete E r t)"
| "roll_command E CacheExpired1 v =
     roll_step E ''Error reporting cache expired: '' v (ks_cache_expired1 E)"
| "roll_command E (Propagation2Complete t) v =
     roll_step E ''Error reporting propagation complete: '' v (\<lambda>r. ks_propagation2_complete E r t)"
| "roll_command E CacheExpired2 v =
     roll_step E ''Error reporting cache expired: '' v (ks_cache_expired2 E)"
| "roll_command E RollDone v =
     bindP (gets (\<lambda>s. roll_variant_to_roll v (ws_config s))) (\<lambda>r.
     thenP (do_done E r) (modify set_state_changed))"

section \<open>Automatic start\<close>

fun min_opt :: "nat list \<Rightarrow> nat option" where
  "min_opt [] = None"
| "min_opt (x # xs) = (case min_opt xs of None \<Rightarrow> Some x | Some y \<Rightarrow> Some (min x y))"

lemma min_opt_None: "min_opt xs = None \<longleftrightarrow> xs = []"
  by (cases xs) (auto split: option.splits)

lemma min_opt_Min: "min_opt xs = (if xs = [] then None else Some (Min (set xs)))"
proof (induction xs)
  case (Cons x xs)
  then show ?case by (cases xs) (simp_all add: min_def)
qed simp

text \<open>When the keys selected by \<open>match_keytype\<close> reach the end of their validity.\<close>

definition expiries :: "(key_type \<Rightarrow> key_state option) \<Rightarrow> duration \<Rightarrow> (string \<times> key) list \<Rightarrow> time list" where
  "expiries match_keytype validity keys =
     List.map_filter (\<lambda>(_, k). case match_keytype (keytype k) of
         Some st \<Rightarrow> if \<not> stale st then map_option (\<lambda>p. p + validity) (published (key_times k)) else None
       | None \<Rightarrow> None) keys"

definition auto_start ::
  "'ks ext \<Rightarrow> duration option \<Rightarrow> auto_config \<Rightarrow> (roll_type \<Rightarrow> bool) \<Rightarrow>
     (key_type \<Rightarrow> key_state option) \<Rightarrow> (bool \<Rightarrow> ('ks ws, action list) prog) \<Rightarrow> ('ks ws, unit) prog" where
  "auto_start E validity auto conflicting match_keytype start_roll =
     bindP (gets faketime_or_now) (\<lambda>now.
     case validity of
       None \<Rightarrow> ret ()
     | Some v \<Rightarrow>
        if auto_start_flag auto then
          bindP (gets (\<lambda>s. (ks_rollstates E (ws_keyset s), ks_keys E (ws_keyset s)))) (\<lambda>(rolls, keys).
          if \<not> list_ex (\<lambda>(r, _). conflicting r) rolls then
            (case min_opt (expiries match_keytype v keys) of
               Some next_time \<Rightarrow>
                 if next_time < now then bindP (start_roll False) (\<lambda>_. modify set_state_changed)
                 else ret ()
             | None \<Rightarrow> ret ())
          else ret ())
        else ret ())"

definition key_algs :: "(string \<times> key) list \<Rightarrow> nat set" where
  "key_algs keys = algorithm ` snd ` set (filter (\<lambda>(_, v). usable_key v) keys)"

definition algorithm_roll_needed :: "'ks ext \<Rightarrow> ('ks ws, bool) prog" where
  "algorithm_roll_needed E =
     bindP (gets (\<lambda>s. key_algs (ks_keys E (ws_keyset s)))) (\<lambda>curr.
     bindP (gets (\<lambda>s. to_generate_params (config_algorithm (ws_config s)))) (\<lambda>p.
     bindP (lift_res p) (\<lambda>params.
     ret (curr \<noteq> {params_algorithm E params}))))"

section \<open>Init\<close>

definition init_command :: "'ks ext \<Rightarrow> ('ks ws, unit) prog" where
  "init_command E =
     bindP (gets (\<lambda>s. (st_dnskey_rrset (ws_state s), ks_keys E (ws_keyset s)))) (\<lambda>(rrset, keys).
     if rrset \<noteq> [] then fail ''already initialized''
     else
       let ksk_present = list_ex (\<lambda>(_, k). case keytype k of Ksk _ \<Rightarrow> True | _ \<Rightarrow> False) keys;
           zsk_present = list_ex (\<lambda>(_, k). case keytype k of Zsk _ \<Rightarrow> True | _ \<Rightarrow> False) keys;
           csk_present = list_ex (\<lambda>(_, k). case keytype k of Csk _ _ \<Rightarrow> True | _ \<Rightarrow> False) keys
       in thenP
         (if (ksk_present \<and> zsk_present) \<or> csk_present then
            thenP (update_dnskey_rrset E True) (update_ds_rrset E True)
          else if ksk_present \<or> zsk_present then fail ''Cannot start with only a KSK or ZSK.''
          else
            bindP (new_csk_or_ksk_zsk E) (\<lambda>(new, _).
            bindP (ks_expect ''should not happen (start_roll)'' (ks_start_roll E AlgorithmRoll [] (map url_text new))) (\<lambda>actions.
            thenP (handle_actions E actions True)
           (thenP (modify (upd_state (record_roll AlgorithmRoll)))
                  (print_actions actions)))))
         (modify set_state_changed))"

end
