(* ===== verification/Key_Admin.thy ===== *)
theory Key_Admin
  imports Rolls
begin

text \<open>
  Importing existing keys into a keyset and removing keys from it
  (\<open>import_command\<close>, \<open>import_key_command\<close>, \<open>remove_key_command\<close> and the handlers of the
  subcommands in src/commands/keyset/cmd.rs). \<open>std::path::absolute\<close>, which reads the
  current directory, is an argument.
\<close>

section \<open>Paths\<close>

text \<open>\<open>Path\<close> ignores trailing separators and \<open>.\<close> components.\<close>

fun rtrim_dots :: "string \<Rightarrow> string" where
  "rtrim_dots [] = []"
| "rtrim_dots [c] = [c]"
| "rtrim_dots (c # d # p) =
     (if c = CHR ''/'' then rtrim_dots (d # p)
      else if c = CHR ''.'' \<and> d = CHR ''/'' then (if p = [] then [d] else rtrim_dots p)
      else c # d # p)"

definition path_split :: "string \<Rightarrow> string \<times> string" where
  "path_split p = (let q = rtrim_dots (rev p)
     in (rev (dropWhile (\<lambda>c. c \<noteq> CHR ''/'') q), rev (takeWhile (\<lambda>c. c \<noteq> CHR ''/'') q)))"

text \<open>The stem and the extension of a file name; a leading dot does not start an extension.\<close>

definition name_split :: "string \<Rightarrow> string \<times> string option" where
  "name_split b =
     (let after = takeWhile (\<lambda>c. c \<noteq> CHR ''.'') (rev b); before = dropWhile (\<lambda>c. c \<noteq> CHR ''.'') (rev b)
      in if b = ''..'' \<or> length before \<le> 1 then (b, None) else (rev (tl before), Some (rev after)))"

definition path_extension :: "string \<Rightarrow> string option" where
  "path_extension p = snd (name_split (snd (path_split p)))"

definition with_extension :: "string \<Rightarrow> string \<Rightarrow> string" where
  "with_extension p e = (case path_split p of (dir, b) \<Rightarrow>
     if b = [] \<or> b = ''..'' then p else dir @ fst (name_split b) @ ''.'' @ e)"

section \<open>Import\<close>

datatype key_variant = KeyKsk | KeyZsk | KeyCsk

datatype import_source =
  ImportFile (imp_path: string) (imp_coupled: bool) (imp_private_key: "string option")
| ImportKmip string string string nat u16 bool

datatype import_cmd =
  ImportPublicKey string | ImportKsk import_source | ImportZsk import_source | ImportCsk import_source

text \<open>
  The key pair to import: URLs of the public and the private key, algorithm, key tag and
  whether the files belong to the keyset from now on.
\<close>

definition import_file ::
  "'ks ext \<Rightarrow> (string \<Rightarrow> string + string) \<Rightarrow> string \<Rightarrow> bool \<Rightarrow> string option \<Rightarrow>
     ('ks ws, string \<times> string \<times> nat \<times> u16 \<times> bool) prog" where
  "import_file E absolute path coupled private_key =
     bindP (case private_key of
         Some p \<Rightarrow> ret p
       | None \<Rightarrow> if path_extension path \<noteq> Some ''key''
            then fail (''public key '' @ path @ '' should end in .key, use --private-key to specify a private key separately'')
            else ret (with_extension path ''private'')) (\<lambda>private_path.
     bindP (in_world (read_file private_path (\<lambda>e. ''unable read from file '' @ private_path @ '': '' @ e))) (\<lambda>private_data.
     bindP (try_res (\<lambda>e. ''unable to parse private key file '' @ private_path @ '': '' @ e)
              (secret_parse_from_bind E private_data)) (\<lambda>secret.
     bindP (in_world (read_file path (\<lambda>e. ''unable read from file '' @ path @ '': '' @ e))) (\<lambda>public_data.
     bindP (try_res (\<lambda>e. ''unable to parse public key file '' @ path @ '': '' @ e)
              (parse_from_bind E public_data)) (\<lambda>pk.
     bindP (try_res (\<lambda>e. ''private key '' @ private_path @ '' and public key '' @ path @ '' do not match: '' @ e)
              (keypair_from_bytes E secret (kr_data pk))) (\<lambda>_.
     bindP (gets (\<lambda>s. ks_name E (ws_keyset s))) (\<lambda>zone_name.
     if kr_owner pk \<noteq> zone_name
     then fail (''public key '' @ path @ '' has wrong owner name '' @ kr_owner pk @ '', expected '' @ zone_name)
     else
       bindP (try_res (\<lambda>e. ''unable to make '' @ path @ '' absolute: '' @ e) (absolute path)) (\<lambda>abs_path.
       bindP (try_res (\<lambda>e. ''unable to make '' @ private_path @ '' absolute: '' @ e) (absolute private_path)) (\<lambda>abs_private.
       ret (''file://'' @ abs_path, ''file://'' @ abs_private, dk_algorithm (kr_data pk),
            dnskey_key_tag E (kr_data pk), coupled))))))))))"

definition import_kmip ::
  "'ks ext \<Rightarrow> string \<Rightarrow> string \<Rightarrow> string \<Rightarrow> nat \<Rightarrow> u16 \<Rightarrow> bool \<Rightarrow>
     ('ks ws, string \<times> string \<times> nat \<times> u16 \<times> bool) prog" where
  "import_kmip E server public_id private_id alg flags coupled =
     bindP (get_kmip_pool E server) (\<lambda>pool.
     bindP (try_res (\<lambda>e. ''error constructing key pair on KMIP server '' @ server @ '': '' @ e)
              (kmip_pair_from_metadata E alg flags private_id public_id pool)) (\<lambda>kp.
     ret (url_text (kp_public_url kp), url_text (kp_private_url kp), kp_algorithm kp,
          dnskey_key_tag E (kp_dnskey kp), coupled)))"

fun import_pair ::
  "'ks ext \<Rightarrow> (string \<Rightarrow> string + string) \<Rightarrow> import_source \<Rightarrow> ('ks ws, string \<times> string \<times> nat \<times> u16 \<times> bool) prog" where
  "import_pair E absolute (ImportFile path coupled private_key) = import_file E absolute path coupled private_key"
| "import_pair E absolute (ImportKmip server public_id private_id alg flags coupled) =
     import_kmip E server public_id private_id alg flags coupled"

definition not_happen :: string where
  "not_happen = ''should not happen''"

definition import_key_command ::
  "'ks ext \<Rightarrow> (string \<Rightarrow> string + string) \<Rightarrow> import_source \<Rightarrow> key_variant \<Rightarrow> ('ks ws, unit) prog" where
  "import_key_command E absolute source variant =
     bindP (gets faketime_or_now) (\<lambda>now.
     bindP (import_pair E absolute source) (\<lambda>(pub, priv, alg, tag, coupled).
     thenP (case variant of
         KeyKsk \<Rightarrow> ks_try E (\<lambda>e. ''unable to add KSK '' @ pub @ ''/'' @ priv @ '': '' @ e)
                     (ks_add_key_ksk E pub (Some priv) alg tag now)
       | KeyZsk \<Rightarrow> ks_try E (\<lambda>e. ''unable to add ZSK '' @ pub @ '': '' @ e)
                     (ks_add_key_zsk E pub (Some priv) alg tag now)
       | KeyCsk \<Rightarrow> ks_try E (\<lambda>e. ''unable to add CSK '' @ pub @ '': '' @ e)
                     (ks_add_key_csk E pub (Some priv) alg tag now))
    (thenP (ks_expect not_happen (ks_set_present E pub True))
    (thenP (ks_expect not_happen (ks_set_visible E pub now))
    (thenP (ks_expect not_happen (ks_set_signer E pub True))
    (thenP (ks_expect not_happen (ks_set_decoupled E pub (\<not> coupled)))
    (thenP (whenP (variant \<noteq> KeyZsk)
              (thenP (ks_expect not_happen (ks_set_at_parent E pub True))
                     (ks_expect not_happen (ks_set_ds_visible E pub now))))
           (whenP (variant \<noteq> KeyKsk)
              (ks_expect not_happen (ks_set_rrsig_visible E pub now))))))))))"

definition import_public_key ::
  "'ks ext \<Rightarrow> (string \<Rightarrow> string + string) \<Rightarrow> string \<Rightarrow> ('ks ws, unit) prog" where
  "import_public_key E absolute path =
     bindP (gets faketime_or_now) (\<lambda>now.
     bindP (in_world (read_file path (\<lambda>e. ''unable read from file '' @ path @ '': '' @ e))) (\<lambda>data.
     bindP (try_res (\<lambda>e. ''unable to parse public key file '' @ path @ '': '' @ e) (parse_from_bind E data)) (\<lambda>pk.
     bindP (try_res (\<lambda>e. ''unable to make '' @ path @ '' absolute: '' @ e) (absolute path)) (\<lambda>abs_path.
     let u = ''file://'' @ abs_path in
     thenP (ks_try E (\<lambda>e. ''unable to add public key '' @ u @ '': '' @ e)
              (ks_add_public_key E u (dk_algorithm (kr_data pk)) (dnskey_key_tag E (kr_data pk)) now))
    (thenP (ks_expect not_happen (ks_set_present E u True))
           (ks_expect not_happen (ks_set_visible E u now)))))))"

text \<open>RRsets that are in use are rebuilt after keys changed; none is created.\<close>

definition refresh_rrsets :: "'ks ext \<Rightarrow> ('ks ws, unit) prog" where
  "refresh_rrsets E =
     thenP (bindP (gets (\<lambda>s. st_dnskey_rrset (ws_state s))) (\<lambda>rs. whenP (rs \<noteq> []) (update_dnskey_rrset E True)))
    (thenP (bindP (gets (\<lambda>s. st_ds_rrset (ws_state s))) (\<lambda>rs. whenP (rs \<noteq> []) (update_ds_rrset E True)))
           (bindP (gets (\<lambda>s. st_cds_rrset (ws_state s))) (\<lambda>rs. whenP (rs \<noteq> []) (create_cds_rrset E True))))"

definition import_command ::
  "'ks ext \<Rightarrow> (string \<Rightarrow> string + string) \<Rightarrow> import_cmd \<Rightarrow> ('ks ws, unit) prog" where
  "import_command E absolute cmd =
     thenP (case cmd of
         ImportPublicKey path \<Rightarrow> import_public_key E absolute path
       | ImportKsk source \<Rightarrow> import_key_command E absolute source KeyKsk
       | ImportZsk source \<Rightarrow> import_key_command E absolute source KeyZsk
       | ImportCsk source \<Rightarrow> import_key_command E absolute source KeyCsk)
    (thenP (modify set_state_changed) (refresh_rrsets E))"

section \<open>Removal\<close>

definition key_stale :: "key \<Rightarrow> bool" where
  "key_stale v = (case keytype v of Ksk st \<Rightarrow> stale st | Zsk st \<Rightarrow> stale st | Include st \<Rightarrow> stale st
     | Csk kst zst \<Rightarrow> stale kst \<and> stale zst)"

text \<open>\<open>delete_key\<close>, after marking the key stale when the removal is forced.\<close>

definition forget_key :: "'ks ext \<Rightarrow> string \<Rightarrow> bool \<Rightarrow> ('ks ws, unit) prog" where
  "forget_key E k force =
     thenP (whenP force (ks_expect ''should not fail'' (ks_set_stale E k)))
           (ks_try E (\<lambda>e. ''unable to remove key '' @ k @ '': '' @ e) (ks_delete_key E k))"

definition remove_key_command ::
  "'ks ext \<Rightarrow> string \<Rightarrow> bool \<Rightarrow> bool \<Rightarrow> ('ks ws, unit) prog" where
  "remove_key_command E k force continue_flag =
     bindP (gets (\<lambda>s. map_of (ks_keys E (ws_keyset s)) k)) (\<lambda>found. case found of
       None \<Rightarrow> fail (''key '' @ k @ '' not found'')
     | Some v \<Rightarrow>
        if decoupled v then forget_key E k force
        else if \<not> key_stale v \<and> \<not> force
        then fail (''unable to remove key '' @ k @ ''. Key is not stale. Use --force to override'')
        else
          thenP (case privref v of
              None \<Rightarrow> ret ()
            | Some priv \<Rightarrow>
                bindP (try_res (\<lambda>e. ''unable to parse '' @ priv @ '' as Url: '' @ e) (url_parse E priv)) (\<lambda>u.
                bindP (attempt (remove_key E u)) (\<lambda>res.
                case res of
                  Inr _ \<Rightarrow> ret ()
                | Inl e \<Rightarrow> if continue_flag then ret () else fail e)))
         (bindP (try_res (\<lambda>e. ''unable to parse '' @ k @ '' as Url: '' @ e) (url_parse E k)) (\<lambda>u.
          bindP (attempt (remove_key E u)) (\<lambda>res.
          thenP (case res of
              Inr _ \<Rightarrow> ret ()
            | Inl e \<Rightarrow> if privref v \<noteq> None \<or> continue_flag then ret () else fail e)
           (forget_key E k force)))))"

definition remove_key_subcommand ::
  "'ks ext \<Rightarrow> string \<Rightarrow> bool \<Rightarrow> bool \<Rightarrow> ('ks ws, unit) prog" where
  "remove_key_subcommand E k force continue_flag =
     thenP (remove_key_command E k force continue_flag)
    (thenP (whenP force (refresh_rrsets E))
           (modify set_state_changed))"

end
