(* ===== verification/Roll_Records.thy ===== *)
theory Roll_Records
  imports Key_Admin
begin

text \<open>
  Every roll of the keyset has an entry in \<open>internal\<close>, the record of its propagation
  checks. Several places of the source rely on it with an \<open>expect\<close>. This theory shows that
  each operation on rolls and keys keeps it, states what starting a roll does on every
  outcome, and puts the four start functions behind one interface.
\<close>

section \<open>The laws of the keyset\<close>

definition rolls :: "'ks ext \<Rightarrow> 'ks \<Rightarrow> roll_type set" where
  "rolls E k = fst ` set (ks_rollstates E k)"

text \<open>An operation that starts no roll.\<close>

definition starts_none :: "'ks ext \<Rightarrow> ('ks \<Rightarrow> (ks_error + 'a) \<times> 'ks) \<Rightarrow> bool" where
  "starts_none E f \<longleftrightarrow> (\<forall>k. rolls E (snd (f k)) \<subseteq> rolls E k)"

text \<open>
  What the crate documents of \<open>KeySet\<close>: a new keyset has no roll, \<open>start_roll\<close> adds the
  roll it is given and no other, and only if it succeeds, \<open>roll_done\<close> ends the roll, and
  no other operation starts a roll.
\<close>

definition keyset_laws :: "'ks ext \<Rightarrow> bool" where
  "keyset_laws E \<longleftrightarrow>
     (\<forall>n. rolls E (ks_new E n) = {}) \<and>
     (\<forall>r old new k. case ks_start_roll E r old new k of
        (Inl e, k') \<Rightarrow> rolls E k' \<subseteq> rolls E k
      | (Inr acts, k') \<Rightarrow> rolls E k' \<subseteq> insert r (rolls E k)) \<and>
     (\<forall>r k. case ks_roll_done E r k of
        (Inl e, k') \<Rightarrow> rolls E k' \<subseteq> rolls E k
      | (Inr acts, k') \<Rightarrow> rolls E k' \<subseteq> rolls E k - {r}) \<and>
     (\<forall>r u. starts_none E (ks_propagation1_complete E r u)) \<and>
     (\<forall>r. starts_none E (ks_cache_expired1 E r)) \<and>
     (\<forall>r u. starts_none E (ks_propagation2_complete E r u)) \<and>
     (\<forall>r. starts_none E (ks_cache_expired2 E r)) \<and>
     (\<forall>u p a n t. starts_none E (ks_add_key_ksk E u p a n t)) \<and>
     (\<forall>u p a n t. starts_none E (ks_add_key_zsk E u p a n t)) \<and>
     (\<forall>u p a n t. starts_none E (ks_add_key_csk E u p a n t)) \<and>
     (\<forall>u a n t. starts_none E (ks_add_public_key E u a n t)) \<and>
     (\<forall>u. starts_none E (ks_delete_key E u)) \<and>
     (\<forall>u b. starts_none E (ks_set_present E u b)) \<and>
     (\<forall>u t. starts_none E (ks_set_visible E u t)) \<and>
     (\<forall>u b. starts_none E (ks_set_signer E u b)) \<and>
     (\<forall>u b. starts_none E (ks_set_decoupled E u b)) \<and>
     (\<forall>u b. starts_none E (ks_set_at_parent E u b)) \<and>
     (\<forall>u t. starts_none E (ks_set_ds_visible E u t)) \<and>
     (\<forall>u t. starts_none E (ks_set_rrsig_visible E u t)) \<and>
     (\<forall>u. starts_none E (ks_set_stale E u))"

lemma keyset_laws_new: "keyset_laws E \<Longrightarrow> rolls E (ks_new E n) = {}"
  by (simp add: keyset_laws_def)

lemma keyset_laws_start:
  assumes "keyset_laws E" and "ks_start_roll E r old new k = (res, k')"
  shows "case res of Inl e \<Rightarrow> rolls E k' \<subseteq> rolls E k | Inr acts \<Rightarrow> rolls E k' \<subseteq> insert r (rolls E k)"
proof -
  have "case ks_start_roll E r old new k of
        (Inl e, k') \<Rightarrow> rolls E k' \<subseteq> rolls E k
      | (Inr acts, k') \<Rightarrow> rolls E k' \<subseteq> insert r (rolls E k)"
    using assms(1) by (simp add: keyset_laws_def)
  with assms(2) show ?thesis by (auto split: sum.splits)
qed

lemma keyset_laws_done:
  assumes "keyset_laws E" and "ks_roll_done E r k = (res, k')"
  shows "case res of Inl e \<Rightarrow> rolls E k' \<subseteq> rolls E k | Inr acts \<Rightarrow> rolls E k' \<subseteq> rolls E k - {r}"
proof -
  have "case ks_roll_done E r k of
        (Inl e, k') \<Rightarrow> rolls E k' \<subseteq> rolls E k
      | (Inr acts, k') \<Rightarrow> rolls E k' \<subseteq> rolls E k - {r}"
    using assms(1) by (simp add: keyset_laws_def)
  with assms(2) show ?thesis by (auto split: sum.splits)
qed

lemma keyset_laws_none:
  assumes "keyset_laws E"
  shows "starts_none E (ks_propagation1_complete E r u)" "starts_none E (ks_cache_expired1 E r)"
    "starts_none E (ks_propagation2_complete E r u)" "starts_none E (ks_cache_expired2 E r)"
    "starts_none E (ks_add_key_ksk E i p a n t)" "starts_none E (ks_add_key_zsk E i p a n t)"
    "starts_none E (ks_add_key_csk E i p a n t)" "starts_none E (ks_add_public_key E i a n t)"
    "starts_none E (ks_delete_key E i)" "starts_none E (ks_set_present E i b)"
    "starts_none E (ks_set_visible E i t)" "starts_none E (ks_set_signer E i b)"
    "starts_none E (ks_set_decoupled E i b)" "starts_none E (ks_set_at_parent E i b)"
    "starts_none E (ks_set_ds_visible E i t)" "starts_none E (ks_set_rrsig_visible E i t)"
    "starts_none E (ks_set_stale E i)"
  using assms by (simp_all add: keyset_laws_def)

section \<open>The invariant\<close>

definition rolls_recorded :: "'ks ext \<Rightarrow> 'ks ws \<Rightarrow> bool" where
  "rolls_recorded E s \<longleftrightarrow> rolls E (ws_keyset s) \<subseteq> dom (st_internal (ws_state s))"

text \<open>
  The panics of a missing entry, in the automation and in the status command, and every
  other panic.
\<close>

definition missing_roll :: string where
  "missing_roll = ''should not fail (internal)''"

definition missing_status :: string where
  "missing_status = ''should exist (internal)''"

definition other_panic :: "string \<Rightarrow> bool" where
  "other_panic p \<longleftrightarrow> p \<noteq> missing_roll \<and> p \<noteq> missing_status"

abbreviation never_missing :: "('s, 'a) prog \<Rightarrow> bool" where
  "never_missing m \<equiv> okay (\<lambda>_. True) other_panic m"

abbreviation records :: "'ks ext \<Rightarrow> ('ks ws, 'a) prog \<Rightarrow> bool" where
  "records E m \<equiv> okay (rolls_recorded E) other_panic m"

lemma recordsI:
  "never_missing m \<Longrightarrow> (\<And>s x t. rolls_recorded E s \<Longrightarrow> m s = (Ok x, t) \<Longrightarrow> rolls_recorded E t) \<Longrightarrow> records E m"
  by (rule okayI) (auto dest: okay_Panic)

lemma never_missing_Panic: "never_missing m \<Longrightarrow> m s = (Panic p, t) \<Longrightarrow> other_panic p"
  using okay_Panic [of "\<lambda>_. True" other_panic m s p t] by simp

abbreviation roll_view :: "'ks ws \<Rightarrow> 'ks \<times> (roll_type \<rightharpoonup> roll_state_reports)" where
  "roll_view s \<equiv> (ws_keyset s, st_internal (ws_state s))"

lemma records_frame:
  assumes "never_missing m" and "unchanged roll_view m"
  shows "records E m"
proof (rule recordsI [OF assms(1)])
  fix s x t assume "rolls_recorded E s" and run: "m s = (Ok x, t)"
  with unchangedD [OF assms(2) run] show "rolls_recorded E t" by (simp add: rolls_recorded_def)
qed

lemma okay_try_res [okays]: "okay I P (try_res g r)"
  by (auto simp: okay_def try_res_def lift_res_def split: res.splits) (metis is_panic_map_err is_panic.simps(1))

lemma okay_case_res [okays]:
  "(\<And>x. okay I P (m x)) \<Longrightarrow> (\<And>x. okay I P (n x)) \<Longrightarrow> (\<And>x. okay I P (k x)) \<Longrightarrow>
     okay I P (case v of Ok x \<Rightarrow> m x | Err x \<Rightarrow> n x | Panic x \<Rightarrow> k x)"
  by (cases v) simp_all

lemma never_panics_in_world: "(\<And>w. \<not> is_panic (fst (m w))) \<Longrightarrow> never_missing (in_world m)"
  by (rule okayI) (auto simp: in_world_def split: prod.splits, metis fst_conv is_panic.simps(1))

lemma never_missing_in_world:
  "never_missing m \<Longrightarrow> never_missing (in_world m)"
  by (fastforce simp: okay_def in_world_def split: prod.splits res.splits)

lemma never_missing_io [okays]: "never_missing (io f g)"
  by (rule okayI) (auto simp: io_def split: prod.splits, metis is_panic_map_err is_panic.simps(1))

lemma never_missing_read_file [okays]: "never_missing (read_file p g)"
  by (rule okayI) (auto simp: read_file_def, metis is_panic_map_err is_panic.simps(1))

lemma never_missing_ks_call [okays]: "never_missing (ks_call f)"
  by (auto simp: okay_def ks_call_def split: prod.splits)

lemma never_missing_ks_try [okays]: "never_missing (ks_try E g f)"
  unfolding ks_try_def by (intro okays)

lemma never_missing_ks_expect [okays]: "other_panic p \<Longrightarrow> never_missing (ks_expect p f)"
  unfolding ks_expect_def by (intro okays)

lemma never_missing_print_line [okays]: "never_missing (print_line l)"
  unfolding print_line_def by (intro never_missing_in_world okays)

lemma never_missing_pools:
  assumes "never_missing m"
  shows "never_missing (in_pools m)"
  using assms by (fastforce simp: okay_def in_pools_def split: prod.splits res.splits)

lemma never_missing_cred_file_new [okays]: "never_missing (cred_file_new E p m)"
  unfolding cred_file_new_def cred_open_def by (intro okays) (metis is_panic_map_err is_panic.simps(1))

lemma never_missing_server_load [okays]: "never_missing (kmip_server_load E c i)"
  unfolding kmip_server_load_def load_client_cert_def load_server_cert_def load_ca_cert_def
    load_optional_def load_binary_file_def load_credentials_def
  by (intro okays)

lemma never_missing_get_pool [okays]: "never_missing (get_pool E k i)"
proof (rule okayI)
  fix s p t assume run: "get_pool E k i s = (Panic p, t)"
  obtain ps w where s: "s = (ps, w)" by (cases s)
  have load: "kmip_server_load E c i w = (Panic p, u) \<Longrightarrow> other_panic p" for c u
    using okay_Panic [OF never_missing_server_load] by blast
  from run show "other_panic p"
    by (auto simp: s get_pool_def dest: load split: option.splits res.splits prod.splits sum.splits)
qed simp

lemma never_missing_kmip_pool [okays]: "never_missing (get_kmip_pool E i)"
  unfolding get_kmip_pool_def by (intro okays never_missing_pools)

lemma never_missing_default_pool [okays]: "never_missing (get_kmip_default_pool E)"
  unfolding get_kmip_default_pool_def get_default_pool_def by (intro okays never_missing_pools)

lemma other_panic_other: "hd p \<noteq> CHR ''s'' \<Longrightarrow> other_panic p"
  by (auto simp: other_panic_def missing_roll_def missing_status_def)

section \<open>Components that start no roll\<close>

lemma records_ks_call:
  assumes "starts_none E f"
  shows "records E (ks_call f)"
proof (rule recordsI [OF never_missing_ks_call])
  fix s x t assume "rolls_recorded E s" and run: "ks_call f s = (Ok x, t)"
  obtain r k where f: "f (ws_keyset s) = (r, k)" by (cases "f (ws_keyset s)")
  with run have t: "t = upd_state (\<lambda>st. st\<lparr>st_keyset := k\<rparr>) s" by (simp add: ks_call_def)
  have "rolls E (snd (f (ws_keyset s))) \<subseteq> rolls E (ws_keyset s)"
    using assms unfolding starts_none_def by blast
  with f have "rolls E k \<subseteq> rolls E (ws_keyset s)" by simp
  with \<open>rolls_recorded E s\<close> show "rolls_recorded E t"
    by (simp add: t rolls_recorded_def)
qed

lemma records_ks_try: "starts_none E f \<Longrightarrow> records E (ks_try E g f)"
  unfolding ks_try_def by (intro okays records_ks_call)

lemma records_ks_expect: "starts_none E f \<Longrightarrow> other_panic p \<Longrightarrow> records E (ks_expect p f)"
  unfolding ks_expect_def by (intro okays records_ks_call)

lemma never_missing_public_key_from_url [okays]: "never_missing (public_key_from_url E u)"
  unfolding public_key_from_url_def by (intro okays never_missing_in_world) (simp add: other_panic_other)

lemma never_missing_expect_url [okays]: "never_missing (expect_url E k)"
  unfolding expect_url_def by (intro okays) (simp add: other_panic_other)

lemma never_missing_public_key_of [okays]: "never_missing (public_key_of E kv)"
  unfolding public_key_of_def by (intro okays)

lemma never_missing_load_signing_key [okays]: "never_missing (load_signing_key E rd kv)"
  unfolding load_signing_key_def by (intro okays never_missing_in_world) (simp add: other_panic_other)

lemma never_missing_sign_dnskeys [okays]: "never_missing (sign_dnskeys E rrs win kv)"
  unfolding sign_dnskeys_def by (intro okays)

lemma never_missing_cds_helper [okays]: "never_missing (create_cds_rrset_helper E d r)"
  unfolding create_cds_rrset_helper_def Let_def by (intro okays)

lemma never_missing_sign_cds [okays]: "never_missing (sign_cds E l m win kv)"
  unfolding sign_cds_def by (intro okays)

lemma never_missing_ds_record_of [okays]: "never_missing (ds_record_of E d kv)"
  unfolding ds_record_of_def by (intro okays)

lemma never_missing_modify [okays]: "never_missing (modify g)"
  by (intro okays) simp

lemma never_missing_print_rrset [okays]: "never_missing (print_rrset v t f)"
  unfolding print_rrset_def by (intro okays)

lemma never_missing_rrsets [okays]:
  "never_missing (update_dnskey_rrset E v)" "never_missing (create_cds_rrset E v)"
  "never_missing (update_ds_rrset E v)"
  unfolding update_dnskey_rrset_def create_cds_rrset_def update_ds_rrset_def Let_def
  by (intro okays)+

lemma never_missing_handle_action [okays]: "never_missing (handle_action E v a)"
  by (cases a; simp only: handle_action.simps; intro okays)

lemma never_missing_handle_actions [okays]: "never_missing (handle_actions E acts v)"
  unfolding handle_actions_def by (intro okays)

lemma unchanged_pair:
  "unchanged f m \<Longrightarrow> unchanged g m \<Longrightarrow> unchanged (\<lambda>s. (f s, g s)) m"
  by (simp add: unchanged_def)

lemma records_handle_actions: "records E (handle_actions E' acts v)"
  by (intro records_frame okays unchanged_pair handle_actions_frames)

lemma records_rrsets:
  "records E (update_dnskey_rrset E' v)" "records E (create_cds_rrset E' v)" "records E (update_ds_rrset E' v)"
  by (intro records_frame okays unchanged_pair dnskey_writer.writer_frames cds_writer.writer_frames
      ds_writer.writer_frames)+

lemma never_missing_remove_key [okays]: "never_missing (remove_key E u)"
  unfolding remove_key_def by (intro okays never_missing_in_world) (simp add: other_panic_other)

lemma remove_key_frames [unch]:
  "(\<And>s w. f (s\<lparr>ws_world := w\<rparr>) = f s) \<Longrightarrow> (\<And>s p. f (s\<lparr>ws_pools := p\<rparr>) = f s) \<Longrightarrow> unchanged f (remove_key E u)"
  unfolding remove_key_def by (intro unch)

lemma never_missing_retry_unique [okays]: "never_missing once \<Longrightarrow> never_missing (retry_unique n once)"
proof (induction n)
  case 0
  then show ?case by (simp only: retry_unique.simps) (intro okays)
next
  case (Suc n)
  then have "never_missing (retry_unique n once)" by blast
  with Suc.prems show ?case by (simp only: retry_unique.simps) (intro okays)
qed

lemma never_missing_fresh_index [okays]:
  "never_missing (in_world (\<lambda>w. (Ok (w_generated w), w\<lparr>w_generated := Suc (w_generated w)\<rparr>)))"
  by (simp add: okay_def in_world_def)

lemma never_missing_generate_once [okays]: "never_missing (generate_once E params flags tags)"
  unfolding generate_once_def by (intro okays)

lemma never_missing_relabel_keys [okays]: "never_missing (relabel_keys E i cfg b pool kp)"
  unfolding relabel_keys_def Let_def by (intro okays)

lemma never_missing_kmip_generate_once [okays]: "never_missing (kmip_generate_once E params flags tags b i pool)"
  unfolding kmip_generate_once_def by (intro okays) (simp add: other_panic_other)

lemma never_missing_write_key_files [okays]: "never_missing (write_key_files b p q c d)"
  unfolding write_key_files_def create_new_file_def by (intro okays)

lemma never_missing_new_file_keys [okays]: "never_missing (new_file_keys E params flags tags)"
  unfolding new_file_keys_def Let_def by (intro okays never_missing_in_world)

lemma never_missing_new_kmip_keys [okays]: "never_missing (new_kmip_keys E params flags tags b pool)"
  unfolding new_kmip_keys_def by (intro okays)

lemma to_generate_params_panic: "to_generate_params a = Panic p \<Longrightarrow> other_panic p"
  by (cases a) (auto simp: usize_to_u32_def bind_res_Panic_iff other_panic_def missing_roll_def missing_status_def split: if_splits)

lemma never_missing_params [okays]:
  "never_missing (bindP (gets (\<lambda>s. to_generate_params (a s))) (\<lambda>p. bindP (lift_res p) f))"
  if "\<And>x. never_missing (f x)"
proof (rule okayI)
  fix s p t assume run: "bindP (gets (\<lambda>s. to_generate_params (a s))) (\<lambda>p. bindP (lift_res p) f) s = (Panic p, t)"
  show "other_panic p"
  proof (cases "to_generate_params (a s)")
    case (Ok x)
    with run have "f x s = (Panic p, t)" by (simp add: prog_eval)
    then show ?thesis by (rule okay_Panic [OF that, OF TrueI])
  next
    case (Err e)
    with run show ?thesis by (simp add: prog_eval)
  next
    case (Panic q)
    with run show ?thesis by (simp add: prog_eval to_generate_params_panic)
  qed
qed simp

lemma never_missing_new_keys [okays]: "never_missing (new_keys E b)"
  unfolding new_keys_def Let_def by (intro never_missing_params okays)

text \<open>Creating keys touches the key files, the HSM and the KMIP settings only.\<close>

lemma new_keys_frames [unch]:
  assumes "\<And>s w. f (s\<lparr>ws_world := w\<rparr>) = f s" "\<And>s p. f (s\<lparr>ws_pools := p\<rparr>) = f s"
    "\<And>s i. f (upd_state (relabel_server i) s) = f s"
  shows "unchanged f (new_keys E b)"
proof -
  have relabel: "unchanged f (relabel_keys E i cfg b pool kp)" for i cfg pool kp
    unfolding relabel_keys_def Let_def
    by (intro unch) (auto split: res.splits sum.splits intro!: unch assms)
  show ?thesis
    unfolding new_keys_def new_file_keys_def new_kmip_keys_def generate_once_def kmip_generate_once_def Let_def
    by (intro unch relabel) (simp_all add: assms)
qed

lemma relabel_server_view [simp]:
  "st_keyset (relabel_server i st) = st_keyset st" "st_internal (relabel_server i st) = st_internal st"
  "st_dnskey_rrset (relabel_server i st) = st_dnskey_rrset st" "st_cds_rrset (relabel_server i st) = st_cds_rrset st"
  "st_ds_rrset (relabel_server i st) = st_ds_rrset st"
  by (simp_all add: relabel_server_def)

lemma records_new_keys: "records E (new_keys E' b)"
  by (intro records_frame okays unch) simp_all

lemma records_add_new_key:
  assumes "\<And>u p a n t. starts_none E (add u p a n t)"
  shows "records E (add_new_key E add kind now x)"
proof -
  obtain pub priv alg tag where "x = (pub, priv, alg, tag)" by (cases x)
  with assms show ?thesis by (simp add: add_new_key_def records_ks_try)
qed

lemma records_new_csk_or_ksk_zsk: "keyset_laws E \<Longrightarrow> records E (new_csk_or_ksk_zsk E)"
  unfolding new_csk_or_ksk_zsk_def
  by (intro okays records_new_keys records_add_new_key keyset_laws_none)

section \<open>Starting a roll\<close>

lemma ks_call_Ok: "ks_call f s = (Ok res, t) \<longleftrightarrow>
    (\<exists>k. f (ws_keyset s) = (res, k) \<and> t = upd_state (\<lambda>st. st\<lparr>st_keyset := k\<rparr>) s)"
  by (auto simp: ks_call_def split: prod.splits)

lemma never_missing_begin_roll [okays]: "never_missing (begin_roll E r what old new urls v)"
  unfolding begin_roll_def by (intro okays)

lemma begin_roll_Ok:
  assumes "begin_roll E r what old new urls v s = (Ok actions, t)"
  obtains k u where "ks_start_roll E r old new (ws_keyset s) = (Inr actions, k)"
    and "handle_actions E actions v (upd_state (\<lambda>st. st\<lparr>st_keyset := k\<rparr>) s) = (Ok (), u)"
    and "t = upd_state (record_roll r) u"
proof -
  from assms obtain res k where start: "ks_start_roll E r old new (ws_keyset s) = (res, k)"
    and run: "(case res of
        Inl e \<Rightarrow> thenP (forP urls (remove_key E)) (fail (what @ ks_show_error E e))
      | Inr acts \<Rightarrow> thenP (handle_actions E acts v)
          (thenP (modify (upd_state (record_roll r))) (ret acts)))
        (upd_state (\<lambda>st. st\<lparr>st_keyset := k\<rparr>) s) = (Ok actions, t)"
    by (auto simp: begin_roll_def bindP_Ok_iff ks_call_Ok)
  show thesis
  proof (cases res)
    case (Inl e)
    with run show thesis by (simp add: prog_Ok)
  next
    case (Inr acts)
    with run start that show thesis by (auto simp: prog_Ok)
  qed
qed

lemma begin_roll_records:
  assumes laws: "keyset_laws E"
  shows "records E (begin_roll E r what old new urls v)"
proof (rule recordsI [OF never_missing_begin_roll])
  fix s actions t assume I: "rolls_recorded E s"
    and "begin_roll E r what old new urls v s = (Ok actions, t)"
  then obtain k u where start: "ks_start_roll E r old new (ws_keyset s) = (Inr actions, k)"
    and acts: "handle_actions E actions v (upd_state (\<lambda>st. st\<lparr>st_keyset := k\<rparr>) s) = (Ok (), u)"
    and t: "t = upd_state (record_roll r) u" by (auto elim: begin_roll_Ok)
  from keyset_laws_start [OF laws start] have "rolls E k \<subseteq> insert r (rolls E (ws_keyset s))" by simp
  moreover have "ws_keyset u = k" "st_internal (ws_state u) = st_internal (ws_state s)"
    using unchangedD [OF handle_actions_frames(1) acts] unchangedD [OF handle_actions_frames(3) acts] by simp_all
  ultimately show "rolls_recorded E t"
    using I by (auto simp: rolls_recorded_def t record_roll_def)
qed

lemma begin_roll_frames [unch]:
  assumes "\<And>s w. f (s\<lparr>ws_world := w\<rparr>) = f s" "\<And>s p. f (s\<lparr>ws_pools := p\<rparr>) = f s"
    "\<And>s k. f (upd_state (\<lambda>st. st\<lparr>st_keyset := k\<rparr>) s) = f s"
    "\<And>s. f (upd_state (record_roll r) s) = f s"
    "\<And>acts. unchanged f (handle_actions E acts v)"
  shows "unchanged f (begin_roll E r what old new urls v)"
  unfolding begin_roll_def by (intro unch) (simp_all add: assms)

lemma never_missing_has_keys [okays]: "never_missing (has_keys E)"
  unfolding has_keys_def by (intro okays) (simp add: other_panic_other)

lemma records_has_keys: "records E (has_keys E')"
  by (rule records_frame) (intro okays, unfold has_keys_def, intro unch)

lemma has_keys_frame [unch]: "unchanged f (has_keys E)"
  unfolding has_keys_def by (intro unch)

lemma refuse_csk_frame [unch]: "unchanged f (refuse_csk E r)"
  unfolding refuse_csk_def by (intro unch)

lemma never_missing_refuse_csk [okays]: "never_missing (refuse_csk E r)"
  unfolding refuse_csk_def by (intro okays)

lemma records_refuse_csk: "records E (refuse_csk E' r)"
  by (intro records_frame okays unch)

lemma add_new_key_frame [unch]:
  assumes "\<And>s k. f (upd_state (\<lambda>st. st\<lparr>st_keyset := k\<rparr>) s) = f s"
  shows "unchanged f (add_new_key E add kind now x)"
  using assms by (cases x) (simp add: add_new_key_def unch)

lemma new_csk_or_ksk_zsk_frame [unch]:
  assumes "\<And>s w. f (s\<lparr>ws_world := w\<rparr>) = f s" "\<And>s p. f (s\<lparr>ws_pools := p\<rparr>) = f s"
    "\<And>s i. f (upd_state (relabel_server i) s) = f s"
    "\<And>s k. f (upd_state (\<lambda>st. st\<lparr>st_keyset := k\<rparr>) s) = f s"
  shows "unchanged f (new_csk_or_ksk_zsk E)"
  unfolding new_csk_or_ksk_zsk_def by (intro unch) (simp_all add: assms)

text \<open>
  The interface of the functions that start a roll, as \<open>auto_start\<close> and the roll
  subcommands use it: \<open>kind\<close> is the roll type the configuration selects. Such a function
  keeps the configuration and every file that existed, keeps the entries of \<open>internal\<close>
  in step with the rolls, and on success leaves an empty entry for its roll.
\<close>

locale roll_starter =
  fixes E :: "'ks ext"
    and start :: "bool \<Rightarrow> ('ks ws, action list) prog"
    and kind :: "keyset_config \<Rightarrow> roll_type"
  assumes start_records: "keyset_laws E \<Longrightarrow> records E (start v)"
    and start_config: "unchanged ws_config (start v)"
    and start_entry: "start v s = (Ok acts, t) \<Longrightarrow>
       st_internal (ws_state t) = (st_internal (ws_state s))(kind (ws_config s) \<mapsto> roll_state_reports_default)"
    and start_files: "start v s = (Ok acts, t) \<Longrightarrow> ws_files s \<subseteq>\<^sub>m ws_files t"
begin

lemma auto_records:
  assumes "keyset_laws E"
  shows "records E (auto_start E validity auto conflicting match_keytype start)"
  unfolding auto_start_def
  by (intro okays start_records [OF assms]) (simp add: rolls_recorded_def set_state_changed_def)

lemma auto_config: "unchanged ws_config (auto_start E validity auto conflicting match_keytype start)"
  unfolding auto_start_def by (intro unch start_config) (simp add: set_state_changed_def)

lemma success:
  assumes "start v s = (Ok acts, t)"
  shows "ws_config t = ws_config s \<and> ws_files s \<subseteq>\<^sub>m ws_files t \<and>
    st_internal (ws_state t) = (st_internal (ws_state s))(kind (ws_config s) \<mapsto> roll_state_reports_default)"
  using unchangedD [OF start_config assms] start_files [OF assms] start_entry [OF assms] by blast

text \<open>An automatic start either does nothing, or its conditions hold and the roll is started.\<close>

lemma auto_cases:
  "auto_start E validity auto conflicting match_keytype start s = (Ok (), s) \<or>
   (\<exists>v e. validity = Some v \<and> auto_start_flag auto \<and>
      (\<forall>(r, x) \<in> set (ks_rollstates E (ws_keyset s)). \<not> conflicting r) \<and>
      e \<in> set (expiries match_keytype v (ks_keys E (ws_keyset s))) \<and> e < faketime_or_now s \<and>
      auto_start E validity auto conflicting match_keytype start s =
        bindP (start False) (\<lambda>_. modify set_state_changed) s)"
proof (cases "validity = None \<or> \<not> auto_start_flag auto \<or> list_ex (\<lambda>(r, _). conflicting r) (ks_rollstates E (ws_keyset s))")
  case True
  then show ?thesis by (auto simp: auto_start_def prog_eval split: option.splits)
next
  case False
  then obtain v where v: "validity = Some v" and flag: "auto_start_flag auto" by auto
  let ?e = "expiries match_keytype v (ks_keys E (ws_keyset s))"
  from False v have run: "auto_start E validity auto conflicting match_keytype start s =
     (case min_opt ?e of
        Some n \<Rightarrow> if n < faketime_or_now s then bindP (start False) (\<lambda>_. modify set_state_changed) else ret ()
      | None \<Rightarrow> ret ()) s"
    by (simp add: auto_start_def prog_eval)
  from False have quiet: "\<forall>(r, x) \<in> set (ks_rollstates E (ws_keyset s)). \<not> conflicting r"
    by (auto simp: list_ex_iff)
  show ?thesis
  proof (cases "?e = [] \<or> \<not> Min (set ?e) < faketime_or_now s")
    case True
    then show ?thesis by (auto simp: run min_opt_Min prog_eval)
  next
    case False
    then have "Min (set ?e) \<in> set ?e" by (simp add: Min_in)
    moreover from False have "auto_start E validity auto conflicting match_keytype start s =
        bindP (start False) (\<lambda>_. modify set_state_changed) s"
      by (simp add: run min_opt_Min)
    moreover note False v quiet flag
    ultimately show ?thesis by blast
  qed
qed

end

section \<open>The four start functions\<close>

lemma roll_kind_simps:
  "roll_variant_to_roll VariantCsk c = CskRoll" "roll_variant_to_roll VariantAlgorithm c = AlgorithmRoll"
  by simp_all

lemma add_key_frames:
  "unchanged ws_files (add_new_key E add kind now x)"
  "unchanged (\<lambda>s. st_internal (ws_state s)) (add_new_key E add kind now x)"
  "unchanged ws_config (add_new_key E add kind now x)"
  "unchanged (\<lambda>s. w_clock (ws_world s)) (add_new_key E add kind now x)"
  by (intro unch; simp)+

lemma files_grow_new_keys: "steps (\<lambda>s t. ws_files s \<subseteq>\<^sub>m ws_files t) (new_keys E b)"
  by (auto simp: steps_def new_keys_grow)

lemma files_grow_new_csk_or_ksk_zsk: "steps (\<lambda>s t. ws_files s \<subseteq>\<^sub>m ws_files t) (new_csk_or_ksk_zsk E)"
  unfolding new_csk_or_ksk_zsk_def
  by (intro files_grow.steps_intros files_grow_new_keys unchanged_files_grow add_key_frames)

text \<open>The files after a start are those after the creation of the keys.\<close>

lemma begin_roll_Ok_frames:
  assumes "begin_roll E r what old new urls v s = (Ok acts, t)"
  shows "ws_files t = ws_files s" "ws_config t = ws_config s"
    "st_internal (ws_state t) = (st_internal (ws_state s))(r \<mapsto> roll_state_reports_default)"
proof -
  from assms obtain k u where acts: "handle_actions E acts v (upd_state (\<lambda>st. st\<lparr>st_keyset := k\<rparr>) s) = (Ok (), u)"
    and t: "t = upd_state (record_roll r) u" by (auto elim: begin_roll_Ok)
  from unchangedD [OF handle_actions_frames(4) acts] show "ws_files t = ws_files s" by (simp add: t)
  from unchangedD [OF handle_actions_frames(2) acts] show "ws_config t = ws_config s" by (simp add: t)
  from unchangedD [OF handle_actions_frames(3) acts]
  show "st_internal (ws_state t) = (st_internal (ws_state s))(r \<mapsto> roll_state_reports_default)"
    by (simp add: t record_roll_def)
qed

text \<open>
  A start function is preparations that keep the configuration and \<open>internal\<close> and only add
  files, followed by \<open>begin_roll\<close>.
\<close>

definition prepares :: "('ks ws, 'a) prog \<Rightarrow> bool" where
  "prepares m \<longleftrightarrow> unchanged (\<lambda>s. (ws_config s, st_internal (ws_state s))) m \<and>
     steps (\<lambda>s t. ws_files s \<subseteq>\<^sub>m ws_files t) m"

definition begins :: "(keyset_config \<Rightarrow> roll_type) \<Rightarrow> ('ks ws, action list) prog \<Rightarrow> bool" where
  "begins kind m \<longleftrightarrow> (\<forall>s acts t. m s = (Ok acts, t) \<longrightarrow> ws_files s \<subseteq>\<^sub>m ws_files t \<and>
     st_internal (ws_state t) = (st_internal (ws_state s))(kind (ws_config s) \<mapsto> roll_state_reports_default))"

lemma beginsD:
  assumes "begins kind m" and "m s = (Ok acts, t)"
  shows "st_internal (ws_state t) = (st_internal (ws_state s))(kind (ws_config s) \<mapsto> roll_state_reports_default)"
    and "ws_files s \<subseteq>\<^sub>m ws_files t"
  using assms by (simp_all add: begins_def)

lemma preparesI:
  "(unchanged (\<lambda>s. (ws_config s, st_internal (ws_state s))) m) \<Longrightarrow>
   steps (\<lambda>s t. ws_files s \<subseteq>\<^sub>m ws_files t) m \<Longrightarrow> prepares m"
  by (simp add: prepares_def)

lemma prepares_unchanged:
  "unchanged (\<lambda>s. (ws_config s, st_internal (ws_state s))) m \<Longrightarrow> unchanged ws_files m \<Longrightarrow> prepares m"
  by (intro preparesI unchanged_files_grow)

lemma begins_bindP:
  assumes m: "prepares m" and f: "\<And>x. begins kind (f x)"
  shows "begins kind (bindP m f)"
  unfolding begins_def
proof (intro allI impI)
  fix s acts t assume "bindP m f s = (Ok acts, t)"
  then obtain x u where mu: "m s = (Ok x, u)" and fu: "f x u = (Ok acts, t)" by (auto simp: prog_Ok)
  from m mu have "ws_config u = ws_config s \<and> st_internal (ws_state u) = st_internal (ws_state s)"
    unfolding prepares_def using unchangedD [where f = "\<lambda>s. (ws_config s, st_internal (ws_state s))"] by blast
  moreover from m mu have "ws_files s \<subseteq>\<^sub>m ws_files u"
    unfolding prepares_def using stepsD [where R = "\<lambda>s t. ws_files s \<subseteq>\<^sub>m ws_files t"] by blast
  moreover from f [of x] fu have "ws_files u \<subseteq>\<^sub>m ws_files t \<and>
     st_internal (ws_state t) = (st_internal (ws_state u))(kind (ws_config u) \<mapsto> roll_state_reports_default)"
    unfolding begins_def by blast
  ultimately show "ws_files s \<subseteq>\<^sub>m ws_files t \<and>
     st_internal (ws_state t) = (st_internal (ws_state s))(kind (ws_config s) \<mapsto> roll_state_reports_default)"
    by (auto intro: map_le_trans)
qed

lemma begins_thenP: "prepares m \<Longrightarrow> begins kind n \<Longrightarrow> begins kind (thenP m n)"
  by (simp add: thenP_def begins_bindP)

lemma begins_case_prod: "(\<And>x y. begins kind (f x y)) \<Longrightarrow> begins kind (case v of (x, y) \<Rightarrow> f x y)"
  by (cases v) simp

lemma begins_begin_roll: "begins (\<lambda>_. r) (begin_roll E r what old new urls v)"
  unfolding begins_def by (auto dest: begin_roll_Ok_frames)

lemma begins_kind:
  "(\<And>r. begins (\<lambda>_. r) (f r)) \<Longrightarrow> begins kind (bindP (gets (\<lambda>s. kind (ws_config s))) f)"
  by (auto simp: begins_def prog_eval)

lemma prepares_parts:
  "prepares (gets g)" "prepares (has_keys E)" "prepares (refuse_csk E r)"
  "prepares (new_keys E b)" "prepares (new_csk_or_ksk_zsk E)" "prepares (add_new_key E add kind now x)"
  by (intro prepares_unchanged unch)
    (intro prepares_unchanged preparesI unch files_grow_new_keys files_grow_new_csk_or_ksk_zsk add_key_frames; simp)+

lemmas start_rolls =
  start_ksk_roll_def start_zsk_roll_def start_csk_roll_def start_algorithm_roll_def

lemma start_rolls_begin:
  "begins (roll_variant_to_roll VariantKsk) (start_ksk_roll E v)"
  "begins (roll_variant_to_roll VariantZsk) (start_zsk_roll E v)"
  "begins (roll_variant_to_roll VariantCsk) (start_csk_roll E v)"
  "begins (roll_variant_to_roll VariantAlgorithm) (start_algorithm_roll E v)"
  unfolding start_rolls roll_kind_simps [abs_def]
  by (intro begins_kind begins_bindP begins_thenP begins_case_prod begins_begin_roll prepares_parts)+

lemma start_rolls_frames:
  "unchanged ws_config (start_ksk_roll E v)" "unchanged ws_config (start_zsk_roll E v)"
  "unchanged ws_config (start_csk_roll E v)" "unchanged ws_config (start_algorithm_roll E v)"
  unfolding start_rolls by (intro unch; simp)+

lemma start_rolls_records:
  assumes "keyset_laws E"
  shows "records E (start_ksk_roll E v)" "records E (start_zsk_roll E v)"
    "records E (start_csk_roll E v)" "records E (start_algorithm_roll E v)"
  unfolding start_rolls
  by (intro okays begin_roll_records records_has_keys records_refuse_csk records_new_keys records_add_new_key
      records_new_csk_or_ksk_zsk keyset_laws_none assms)+

interpretation ksk_starter: roll_starter E "start_ksk_roll E" "roll_variant_to_roll VariantKsk" for E
  by unfold_locales
    (fact start_rolls_records start_rolls_frames | erule beginsD [OF start_rolls_begin(1)])+

interpretation zsk_starter: roll_starter E "start_zsk_roll E" "roll_variant_to_roll VariantZsk" for E
  by unfold_locales
    (fact start_rolls_records start_rolls_frames | erule beginsD [OF start_rolls_begin(2)])+

interpretation csk_starter: roll_starter E "start_csk_roll E" "roll_variant_to_roll VariantCsk" for E
  by unfold_locales
    (fact start_rolls_records start_rolls_frames | erule beginsD [OF start_rolls_begin(3)])+

interpretation algorithm_starter: roll_starter E "start_algorithm_roll E" "roll_variant_to_roll VariantAlgorithm" for E
  by unfold_locales
    (fact start_rolls_records start_rolls_frames | erule beginsD [OF start_rolls_begin(4)])+

text \<open>
  Property C9. A roll that starts successfully leaves the configuration and every existing
  file as they were, and records its roll type, the one the configuration selects, with an
  empty set of propagation checks, all other records being kept.
\<close>

theorem start_roll_success:
  assumes "start_roll_for E variant v s = (Ok actions, t)"
  shows "ws_config t = ws_config s \<and> w_files (ws_world s) \<subseteq>\<^sub>m w_files (ws_world t) \<and>
    st_internal (ws_state t) =
      (st_internal (ws_state s))(roll_variant_to_roll variant (ws_config s) \<mapsto> roll_state_reports_default)"
proof (cases variant)
  case VariantKsk
  with assms ksk_starter.success show ?thesis by (simp add: start_roll_for_def)
next
  case VariantZsk
  with assms zsk_starter.success show ?thesis by (simp add: start_roll_for_def)
next
  case VariantCsk
  with assms csk_starter.success show ?thesis by (simp add: start_roll_for_def)
next
  case VariantAlgorithm
  with assms algorithm_starter.success show ?thesis by (simp add: start_roll_for_def)
qed

text \<open>
  Property C37. While the configuration asks for CSKs, or a CSK is in use, a KSK roll and a
  ZSK roll are refused before anything is changed: no key is created, no file is written.
\<close>

theorem start_roll_refused:
  assumes "ks_keys E (ws_keyset s) \<noteq> []"
    and "use_csk (ws_config s) \<or> (\<exists>(k, x) \<in> set (ks_keys E (ws_keyset s)). usable_csk x)"
  shows "(\<exists>e. start_ksk_roll E v s = (Err e, s)) \<and> (\<exists>e. start_zsk_roll E v s = (Err e, s))"
proof -
  have refused: "\<exists>e. refuse_csk E r s = (Err e, s)" for r
    using assms(2) by (auto simp: refuse_csk_def prog_eval list_ex_iff)
  have keys: "has_keys E s = (Ok (), s)"
    using assms(1) by (simp add: has_keys_def prog_eval)
  have "\<exists>e. thenP (has_keys E) (thenP (refuse_csk E r) m) s = (Err e, s)"
    for r and m :: "('a ws, action list) prog"
    using refused [of r] by (auto simp: thenP_def bindP_def keys)
  then show ?thesis unfolding start_ksk_roll_def start_zsk_roll_def bindP_gets by blast
qed

text \<open>
  The automatic start of a roll either leaves the state alone, or it is
  enabled with a validity period, no conflicting roll is in progress, some key of the
  right type that is not stale was published more than that period ago, and it is then
  the start of that roll.
\<close>

theorem auto_start_conditions:
  "auto_start E validity auto conflicting match_keytype (start_roll_for E variant) s = (Ok (), s) \<or>
   (\<exists>v e. validity = Some v \<and> auto_start_flag auto \<and>
      list_all (\<lambda>(r, x). \<not> conflicting r) (ks_rollstates E (ws_keyset s)) \<and>
      e \<in> set (expiries match_keytype v (ks_keys E (ws_keyset s))) \<and> e < faketime_or_now s \<and>
      auto_start E validity auto conflicting match_keytype (start_roll_for E variant) s =
        bindP (start_roll_for E variant False) (\<lambda>_. modify set_state_changed) s)"
proof -
  have start: "start_roll_for E VariantKsk = start_ksk_roll E" "start_roll_for E VariantZsk = start_zsk_roll E"
    "start_roll_for E VariantCsk = start_csk_roll E" "start_roll_for E VariantAlgorithm = start_algorithm_roll E"
    by (simp_all add: start_roll_for_def fun_eq_iff)
  show ?thesis
    unfolding list_all_iff
    by (cases variant; simp only: start; rule ksk_starter.auto_cases zsk_starter.auto_cases
        csk_starter.auto_cases algorithm_starter.auto_cases)
qed

end
