(* ===== verification/Key_Lifecycle.thy ===== *)
theory Key_Lifecycle
  imports Roll_Records
begin

text \<open>
  What becomes of the key files when a roll is refused, when keys are imported and when
  keys are removed, with a key roll of the demo workspace as witness.
\<close>

section \<open>A refused roll leaves no key file behind\<close>

text \<open>What \<open>Url::parse\<close> does with the URLs the source builds from absolute paths.\<close>

definition file_urls :: "'ks ext \<Rightarrow> bool" where
  "file_urls E \<longleftrightarrow> (\<forall>p u. url_parse E (''file://'' @ p) = Inr u \<longrightarrow> url_scheme u = ''file'' \<and> url_path u = p)"

lemma remove_key_file:
  assumes "url_scheme u = ''file''" "ws_files s (url_path u) = Some c" "\<not> w_denied (ws_world s) (url_path u)"
  shows "remove_key E u s = (Ok (), s\<lparr>ws_world := (ws_world s)\<lparr>w_files := (ws_files s)(url_path u := None)\<rparr>\<rparr>)"
  using assms by (simp add: remove_key_def in_world_def io_def fs_remove_def)

text \<open>A fresh pair of key files: where it is and what was there before.\<close>

lemma new_file_keys_Ok:
  assumes "new_file_keys E params flags tags s = (Ok (pub, priv, alg, tag), t)" and "file_urls E"
  obtains p q c d where "url_scheme pub = ''file''" "url_scheme priv = ''file''"
    "url_path priv = p" "url_path pub = q" "p \<noteq> q" "ws_files s p = None" "ws_files s q = None"
    "ws_files t = (ws_files s)(p \<mapsto> c, q \<mapsto> d)"
    "\<not> w_denied (ws_world t) p" "\<not> w_denied (ws_world t) q"
proof -
  from assms(1) obtain secret pk u where
    gen: "retry_unique MAX_KEY_TAG_TRIES (generate_once E params flags tags) s = (Ok (secret, pk), u)"
    and rest: "(let base = key_base E (ks_name E (ws_keyset u)) pk;
         secret_path = path_join (keys_dir (ws_config u)) (base @ ''.private'');
         public_path = path_join (keys_dir (ws_config u)) (base @ ''.key'')
     in thenP (in_world (write_key_files base secret_path public_path
                 (secret_display_as_bind E secret)
                 (display_as_bind E (DnskeyRR (ks_name E (ws_keyset u)) class_IN 0 pk))))
       (bindP (try_res (\<lambda>e. ''unable to parse file://'' @ secret_path @ '' as URL: '' @ e) (url_parse E (''file://'' @ secret_path))) (\<lambda>secret_url.
        bindP (try_res (\<lambda>e. ''unable to parse file://'' @ public_path @ '' as URL: '' @ e) (url_parse E (''file://'' @ public_path))) (\<lambda>public_url.
        ret (public_url, secret_url, dk_algorithm pk, dnskey_key_tag E pk))))) u = (Ok (pub, priv, alg, tag), t)"
    by (auto simp: new_file_keys_def prog_Ok)
  define p where "p = path_join (keys_dir (ws_config u)) (key_base E (ks_name E (ws_keyset u)) pk @ ''.private'')"
  define q where "q = path_join (keys_dir (ws_config u)) (key_base E (ks_name E (ws_keyset u)) pk @ ''.key'')"
  from rest obtain b c d w where
    wr: "write_key_files b p q c d (ws_world u) = (Ok (), w)"
    and t: "t = u\<lparr>ws_world := w\<rparr>"
    and priv: "url_parse E (''file://'' @ p) = Inr priv" and pub: "url_parse E (''file://'' @ q) = Inr pub"
    unfolding Let_def p_def [symmetric] q_def [symmetric]
    by (auto simp: prog_Ok try_res_def in_world_def split: prod.splits)
  have "unchanged ws_files (retry_unique MAX_KEY_TAG_TRIES (generate_once E params flags tags))"
    by (intro unch)
  from unchangedD [OF this gen] have u: "ws_files u = ws_files s" .
  show thesis
    using that [of p q c d] write_key_files_Ok [OF wr] u t assms(2) priv pub
    by (auto simp: file_urls_def)
qed


section \<open>Importing a key\<close>

text \<open>
  A key pair is imported from files only if both files can be read and parsed,
  the private key belongs to the public key, and the public key carries the name of the
  zone.
\<close>

theorem import_key_consistent:
  assumes "import_key_command E absolute (ImportFile path coupled (Some private_path)) variant s = (Ok (), t)"
  shows "\<exists>private_data secret public_data pk pair.
    w_files (ws_world s) private_path = Some private_data \<and>
    secret_parse_from_bind E private_data = Inr secret \<and>
    w_files (ws_world s) path = Some public_data \<and> parse_from_bind E public_data = Inr pk \<and>
    keypair_from_bytes E secret (kr_data pk) = Inr pair \<and> kr_owner pk = ks_name E (ws_keyset s)"
  using assms
  by (auto simp: import_key_command_def import_file_def prog_Ok try_res_def in_world_def read_file_def
      fs_read_def split: option.splits if_splits sum.splits) 

text \<open>
  Importing a key, of any kind and whatever the outcome, changes no file, no
  configuration value and no record of earlier propagation checks.
\<close>

theorem import_key_frame:
  "w_files (ws_world (snd (import_key_command E absolute source variant s))) = w_files (ws_world s) \<and>
   ws_config (snd (import_key_command E absolute source variant s)) = ws_config s \<and>
   st_internal (ws_state (snd (import_key_command E absolute source variant s))) = st_internal (ws_state s)"
proof -
  have pair: "unchanged f (import_pair E absolute source)"
    if "\<And>s p. f (s\<lparr>ws_pools := p\<rparr>) = f s" for f :: "'a ws \<Rightarrow> 'b"
    using that by (cases source) (simp_all add: import_file_def import_kmip_def unch)
  have "unchanged ws_files (import_key_command E absolute source variant)"
    "unchanged ws_config (import_key_command E absolute source variant)"
    "unchanged (\<lambda>s. st_internal (ws_state s)) (import_key_command E absolute source variant)"
    unfolding import_key_command_def by (intro unch pair; cases variant; simp add: unch)+
  then show ?thesis by (simp add: unchanged_def)
qed

section \<open>Removing a key\<close>

text \<open>
  Property C33. The files of a key are left alone when the key is unknown, when it is
  decoupled, and when it is in use and the removal is not forced; in the first and the
  last case nothing at all changes and the command fails.
\<close>

theorem remove_key_protects:
  "case map_of (ks_keys E (ws_keyset s)) k of
     None \<Rightarrow> \<exists>e. remove_key_command E k force cont s = (Err e, s)
   | Some v \<Rightarrow>
       if decoupled v then w_files (ws_world (snd (remove_key_command E k force cont s))) = w_files (ws_world s)
       else if \<not> key_stale v \<and> \<not> force then \<exists>e. remove_key_command E k force cont s = (Err e, s)
       else True"
proof -
  have "unchanged ws_files (forget_key E k force)"
    unfolding forget_key_def by (intro unch) simp_all
  then show ?thesis
    by (auto simp: remove_key_command_def prog_eval unchanged_def split: option.splits)
qed

text \<open>
  Without \<open>--continue\<close>, a private key that cannot be removed stops the
  command before the public key is touched and before the key leaves the keyset.
\<close>

theorem remove_key_private_first:
  assumes "map_of (ks_keys E (ws_keyset s)) k = Some v" and "\<not> decoupled v"
    and "key_stale v \<or> force" and "privref v = Some priv" and "url_parse E priv = Inr u"
    and "remove_key E u s = (Err e, t)"
  shows "remove_key_command E k force False s = (Err e, t) \<and> ws_state t = ws_state s"
proof -
  have "unchanged ws_state (remove_key E u)" by (rule remove_key_frames) simp_all
  from unchangedD [OF this assms(6)] have "ws_state t = ws_state s" .
  with assms show ?thesis
    by (auto simp: remove_key_command_def prog_eval thenP_def bindP_def attempt_def try_res_def)
qed

section \<open>Rolls of the demo workspace\<close>

text \<open>The demo workspace with some rolls in progress.\<close>

definition demo_at :: "(roll_type \<times> roll_state) list \<Rightarrow> demo_ks ws" where
  "demo_at rs = demo_ws\<lparr>ws_state := demo_state\<lparr>st_keyset := demo_keyset\<lparr>dm_rolls := rs\<rparr>\<rparr>\<rparr>"

definition demo_written :: world where
  "demo_written = demo_world\<lparr>w_generated := 1,
     w_files := (w_files demo_world)(''/k/Kexample.+015+00001.private'' \<mapsto> ''s'',
       ''/k/Kexample.+015+00001.key'' \<mapsto> ''k'')\<rparr>"

lemma demo_generate_at:
  "generate_once demo GenEcdsaP256Sha256 257 [5] (demo_at rs) =
     (Ok (Some (''s'', demo_public 0 257)), (demo_at rs)\<lparr>ws_world := demo_world\<lparr>w_generated := 1\<rparr>\<rparr>)"
  by (simp add: generate_once_def prog_eval in_world_def bindP_def try_res_def demo_public_def demo_at_def)

lemma demo_new_file_keys_at:
  "new_file_keys demo GenEcdsaP256Sha256 257 [5] (demo_at rs) = (Ok demo_new, (demo_at rs)\<lparr>ws_world := demo_written\<rparr>)"
  apply (simp add: new_file_keys_def MAX_KEY_TAG_TRIES_def retry_unique_10 bindP_def demo_generate_at prog_eval)
  apply (simp add: demo_at_def demo_base path_join_def Let_def)
  apply (simp add: thenP_def bindP_def try_res_def lift_res_def in_world_def)
  apply (simp add: write_key_files_def create_new_file_def io_def fs_defs thenP_def bindP_def)
  apply (simp add: bindP_def lift_res_def)
  apply (simp add: demo_public_def ret_def demo_new_def demo_written_def)
  done

lemma demo_pool_at: "get_kmip_default_pool demo (demo_at rs) = (Ok None, demo_at rs)"
  by (simp add: get_kmip_default_pool_def get_default_pool_def prog_eval in_pools_def demo_at_def demo_ws_def)

lemma demo_at_sel [simp]:
  "ws_config (demo_at rs) = demo_config" "ws_keyset (demo_at rs) = demo_keyset\<lparr>dm_rolls := rs\<rparr>"
  "st_kmip (ws_state (demo_at rs)) = demo_kmip" "ws_world (demo_at rs) = demo_world"
  by (simp_all add: demo_at_def)

lemma demo_new_keys_at:
  "new_keys demo True (demo_at rs) = (Ok demo_new, (demo_at rs)\<lparr>ws_world := demo_written\<rparr>)"
  by (simp add: new_keys_def prog_eval bindP_def demo_pool_at demo_new_file_keys_at)

text \<open>The new key, and the workspace in which the roll starts.\<close>

definition demo_fresh :: "string \<times> key" where
  "demo_fresh = (''file:///k/Kexample.+015+00001.key'',
     demo_key (Ksk demo_idle) (Some ''file:///k/Kexample.+015+00001.private'') 15 1 (from_secs 5000))"

definition demo_rolling :: "(roll_type \<times> roll_state) list \<Rightarrow> demo_ks ws" where
  "demo_rolling rs = demo_ws\<lparr>ws_world := demo_written, ws_state := demo_state\<lparr>st_keyset :=
     demo_keyset\<lparr>dm_keys := dm_keys demo_keyset @ [demo_fresh], dm_rolls := rs\<rparr>\<rparr>\<rparr>"

lemma demo_fresh_roles [simp]:
  "\<not> key_present (snd demo_fresh)" "\<not> dnskey_signer (snd demo_fresh)"
  by (simp_all add: demo_fresh_def key_present_def dnskey_signer_def demo_idle_def)

lemma demo_rolling_sel [simp]:
  "ws_config (demo_rolling rs) = demo_config"
  "dm_keys (ws_keyset (demo_rolling rs)) = dm_keys demo_keyset @ [demo_fresh]"
  "dm_name (ws_keyset (demo_rolling rs)) = ''example''"
  "dm_rolls (ws_keyset (demo_rolling rs)) = rs"
  "ws_files (demo_rolling rs) ''/k/pub1'' = Some ''kkkkk''"
  "ws_files (demo_rolling rs) ''/k/pri1'' = Some ''secret''"
  "(demo_rolling rs)\<lparr>ws_world := ws_world (demo_rolling rs)\<rparr> = demo_rolling rs"
  by (simp_all add: demo_rolling_def demo_written_def)

lemma demo_public_url_rolling:
  "public_key_from_url demo (Url ''file'' ''/k/pub1'' ''file:///k/pub1'') (demo_rolling rs) =
     (Ok (DnskeyRR ''example'' class_IN 3600 (DnskeyData 257 3 15 ''kkkkk'')), demo_rolling rs)"
  by (simp add: public_key_from_url_def prog_eval bindP_def in_world_def read_file_def fs_read_def try_res_def
      demo_parse_def)

lemma demo_public_key_rolling:
  "public_key_of demo (''file:///k/pub1'', k) (demo_rolling rs) =
     (Ok (DnskeyRR ''example'' class_IN 3600 (DnskeyData 257 3 15 ''kkkkk'')), demo_rolling rs)"
  by (simp add: public_key_of_def expect_url_def prog_eval demo_public_url_rolling)

lemma demo_signing_key_rolling:
  "load_signing_key demo rd (''file:///k/pub1'', demo_key ty (Some ''file:///k/pri1'') 15 5 n) (demo_rolling rs) =
     (Ok (SigningKey ''example'' 257 ''secret''), demo_rolling rs)"
  by (simp add: load_signing_key_def expect_url_def prog_eval bindP_def
      in_world_def read_file_def fs_read_def try_res_def demo_public_url_rolling)

lemma demo_update_rolling:
  "update_dnskey_rrset demo False (demo_rolling rs) =
     (Ok (), upd_state (\<lambda>st. st\<lparr>st_dnskey_rrset := demo_dnskeys\<rparr>) (demo_rolling rs))"
proof -
  obtain a b where ab: "demo_fresh = (a, b)" by (cases demo_fresh)
  then have roles: "\<not> key_present b" "\<not> dnskey_signer b" using demo_fresh_roles by (metis snd_conv)+
  show ?thesis
    apply (simp add: update_dnskey_rrset_def prog_eval bindP_def demo_public_key_rolling ab roles)
    apply (simp add: sign_dnskeys_def thenP_def bindP_def try_res_def demo_signing_key_rolling prog_eval demo_sign_def dnskey_record_def ab roles)
    apply (simp add: prog_eval print_rrset_def whenP_def demo_show_def demo_dnskeys_def)
    done
qed

definition demo_started :: "demo_ks ws" where
  "demo_started = upd_state (record_roll KskRoll)
     (upd_state (\<lambda>st. st\<lparr>st_dnskey_rrset := demo_dnskeys\<rparr>) (demo_rolling [(KskRoll, Propagation1)]))"

lemma demo_faketime [simp]:
  "faketime_or_now (demo_at rs) = from_secs 5000"
  by (simp add: faketime_or_now_def)

lemma demo_add_key:
  "demo_add (Ksk demo_idle) ''file:///k/Kexample.+015+00001.key'' (Some ''file:///k/Kexample.+015+00001.private'') 15 1 (from_secs 5000)
     (demo_keyset\<lparr>dm_rolls := rs\<rparr>) =
   (Inr (), demo_keyset\<lparr>dm_keys := dm_keys demo_keyset @ [demo_fresh], dm_rolls := rs\<rparr>)"
  by (simp add: demo_add_def demo_fresh_def)

lemma demo_guards:
  "has_keys demo (demo_at rs) = (Ok (), demo_at rs)"
  "refuse_csk demo r (demo_at rs) = (Ok (), demo_at rs)"
  by (simp_all add: has_keys_def refuse_csk_def prog_eval usable_csk_def)

lemma demo_begin:
  "begin_roll demo KskRoll what old [''file:///k/Kexample.+015+00001.key''] urls False (demo_rolling []) =
     (Ok [UpdateDnskeyRrset, ReportDnskeyPropagated], demo_started)"
proof -
  have "ks_call (demo_start KskRoll old new) (demo_rolling []) =
      (Ok (Inr [UpdateDnskeyRrset, ReportDnskeyPropagated]), demo_rolling [(KskRoll, Propagation1)])" for new
    by (simp add: ks_call_def demo_start_def) (simp add: demo_rolling_def upd_state_def)
  then show ?thesis
    by (simp add: begin_roll_def bindP_def thenP_def handle_actions_def demo_update_rolling prog_eval demo_started_def)
qed

lemma demo_start_ksk_roll:
  "start_roll_for demo VariantKsk False (demo_at []) = (Ok [UpdateDnskeyRrset, ReportDnskeyPropagated], demo_started)"
proof -
  have "add_new_key demo (demo_add (Ksk demo_idle)) ''KSK'' (from_secs 5000)
      (Url ''file'' ''/k/Kexample.+015+00001.key'' ''file:///k/Kexample.+015+00001.key'',
       Url ''file'' ''/k/Kexample.+015+00001.private'' ''file:///k/Kexample.+015+00001.private'', 15, 1)
      ((demo_at [])\<lparr>ws_world := demo_written\<rparr>) = (Ok (), demo_rolling [])"
    by (simp add: add_new_key_def ks_try_def bindP_def ks_call_def demo_add_key prog_eval)
      (simp add: demo_rolling_def upd_state_def demo_at_def)
  then show ?thesis
    by (simp add: start_roll_for_def start_ksk_roll_def thenP_def bindP_def run_gets demo_guards demo_new_keys_at
        demo_begin demo_new_def)
qed

theorem start_roll_success_witness:
  "fst (start_roll_for demo VariantKsk False (demo_at [])) = Ok [UpdateDnskeyRrset, ReportDnskeyPropagated] \<and>
   st_internal (ws_state (snd (start_roll_for demo VariantKsk False (demo_at [])))) KskRoll = Some roll_state_reports_default"
  using start_roll_success [OF demo_start_ksk_roll] by (simp add: demo_start_ksk_roll)

theorem start_roll_refused_witness:
  "\<exists>e. start_ksk_roll demo False (demo_ws\<lparr>ws_config := demo_config\<lparr>use_csk := True\<rparr>\<rparr>) =
     (Err e, demo_ws\<lparr>ws_config := demo_config\<lparr>use_csk := True\<rparr>\<rparr>)"
  using start_roll_refused [of demo "demo_ws\<lparr>ws_config := demo_config\<lparr>use_csk := True\<rparr>\<rparr>" False] by simp

lemma demo_file_urls: "file_urls demo"
  by (auto simp: file_urls_def)


text \<open>Importing the key that the demo workspace has on disk, and removing a key that is in use.\<close>

definition demo_empty :: "demo_ks ws" where
  "demo_empty = demo_ws\<lparr>ws_state := demo_state\<lparr>st_keyset := demo_keyset\<lparr>dm_keys := []\<rparr>\<rparr>\<rparr>"

lemma demo_import:
  "\<exists>t. import_key_command demo Inr (ImportFile ''/k/pub1'' True (Some ''/k/pri1'')) KeyKsk demo_empty = (Ok (), t)"
  by (simp add: import_key_command_def import_file_def prog_eval bindP_def in_world_def read_file_def fs_read_def
      try_res_def demo_empty_def demo_parse_def ks_try_def ks_expect_def ks_call_def thenP_def demo_add_def
      demo_upd_key_def whenP_def Let_def demo_key_def)

theorem import_key_consistent_witness:
  "\<exists>secret pk. secret_parse_from_bind demo ''secret'' = Inr secret \<and> parse_from_bind demo ''kkkkk'' = Inr pk \<and>
     kr_owner pk = ''example''"
proof -
  obtain t where "import_key_command demo Inr (ImportFile ''/k/pub1'' True (Some ''/k/pri1'')) KeyKsk demo_empty = (Ok (), t)"
    using demo_import by blast
  from import_key_consistent [OF this] show ?thesis by (auto simp: demo_empty_def)
qed

theorem remove_key_private_first_witness:
  "\<exists>e t. remove_key_command demo ''file:///k/pub1'' True False (demo_ws\<lparr>ws_world := demo_world\<lparr>w_denied := (\<lambda>p. True)\<rparr>\<rparr>) = (Err e, t) \<and>
     ws_state t = demo_state"
proof -
  let ?s = "demo_ws\<lparr>ws_world := demo_world\<lparr>w_denied := (\<lambda>p. True)\<rparr>\<rparr>"
  let ?v = "demo_key (Ksk demo_active) (Some ''file:///k/pri1'') 15 5 (from_secs 1000)"
  have "remove_key demo (Url ''file'' ''/k/pri1'' ''file:///k/pri1'') ?s =
      (Err ''unable to remove key file /k/pri1: Permission denied'', ?s)"
    by (simp add: remove_key_def in_world_def io_def fs_remove_def EACCES_def)
  from remove_key_private_first [of demo ?s "''file:///k/pub1''" ?v True "''file:///k/pri1''", OF _ _ _ _ _ this]
  show ?thesis by (auto simp: demo_key_def)
qed

end
