(* ===== verification/Zone_Api.thy ===== *)
theory Zone_Api
  imports World
begin

text \<open>
  What \<open>dnst signzone\<close> (src/commands/signzone.rs) uses of the crates beyond the record
  \<open>ext\<close>: records of a zone with the data it looks into, and the operations on sorted
  records, keys, hashes and printers as the fields of the record \<open>signer\<close>. The records of
  a \<open>SortedRecords\<close> are the list that its iterator yields.
\<close>

section \<open>Records of a zone\<close>

abbreviation RT_NSEC3PARAM :: rtype where "RT_NSEC3PARAM \<equiv> RT_OTHER 51"
abbreviation RT_ZONEMD :: rtype where "RT_ZONEMD \<equiv> RT_OTHER 63"

datatype soa_data =
  SoaFields (so_mname: name) (so_rname: name) (so_serial: u32) (so_refresh: ttl)
    (so_retry: ttl) (so_expire: ttl) (so_minimum: ttl)

datatype zonemd =
  ZonemdFields (zm_serial: u32) (zm_scheme: nat) (zm_algorithm: nat) (zm_digest: string)

text \<open>The next owner is the text of the hash.\<close>

datatype nsec3 = Nsec3Fields (n3_opt_out: bool) (n3_next_owner: string) (n3_rest: string)

datatype zdata =
  ZSoa soa_data | ZDnskey dnskey | ZRrsig rrsig | ZNsec3 nsec3 | ZZonemd zonemd
| ZOther rtype string

datatype zrec = ZRec (z_owner: name) (z_class: nat) (z_ttl: ttl) (z_data: zdata)

fun zdata_rtype :: "zdata \<Rightarrow> rtype" where
  "zdata_rtype (ZSoa _) = RT_SOA"
| "zdata_rtype (ZDnskey _) = RT_DNSKEY"
| "zdata_rtype (ZRrsig _) = RT_RRSIG"
| "zdata_rtype (ZNsec3 _) = RT_NSEC3"
| "zdata_rtype (ZZonemd _) = RT_ZONEMD"
| "zdata_rtype (ZOther t _) = t"

definition z_rtype :: "zrec \<Rightarrow> rtype" where
  "z_rtype r = zdata_rtype (z_data r)"

text \<open>The types with a variant of their own are never carried by the general variant.\<close>

fun proper_data :: "zdata \<Rightarrow> bool" where
  "proper_data (ZOther t _) \<longleftrightarrow> t \<notin> {RT_SOA, RT_DNSKEY, RT_RRSIG, RT_NSEC3, RT_ZONEMD}"
| "proper_data _ \<longleftrightarrow> True"

definition proper :: "zrec \<Rightarrow> bool" where
  "proper r \<longleftrightarrow> proper_data (z_data r)"

lemma proper_soa: "proper r \<Longrightarrow> z_rtype r = RT_SOA \<Longrightarrow> \<exists>s. z_data r = ZSoa s"
  by (cases "z_data r") (auto simp: proper_def z_rtype_def)

datatype zentry = ZoneRecord zrec | ZoneInclude

section \<open>How the zone is to be denied and signed\<close>

text \<open>The builder calls of \<open>GenerateNsec3Config\<close>.\<close>

datatype nsec3_config =
  Nsec3ConfigNew nat u16 string
| WithOptOut nsec3_config
| WithoutExcludingUnsignedDelegations nsec3_config
| WithTtlModeFixed nat nsec3_config

datatype denial_config = DenialAlreadyPresent | DenialNsec | DenialNsec3 nsec3_config

record signing_config =
  sc_denial :: denial_config
  sc_inception :: u32
  sc_expiration :: u32

text \<open>
  What the data of a record gives to the formatter of a zonefile: values that the crate
  shows, tokens that the code has formatted, and comments, which only some layouts print.
\<close>

datatype zonefile_item = Shown string | Token string | Remark string

section \<open>The operations of the crates\<close>

record signer =
  sr_from :: "zrec list \<Rightarrow> zrec list"
  sr_insert :: "zrec \<Rightarrow> zrec list \<Rightarrow> zrec list option"
  sr_update_data :: "(zrec \<Rightarrow> bool) \<Rightarrow> zdata \<Rightarrow> zrec list \<Rightarrow> zrec list"
  sr_remove_first :: "name \<Rightarrow> rtype \<Rightarrow> zrec list \<Rightarrow> zrec list"
  sr_remove_all :: "name \<Rightarrow> rtype \<Rightarrow> zrec list \<Rightarrow> zrec list"
  sr_find_apex_rtype :: "name \<Rightarrow> rtype \<Rightarrow> zrec list \<Rightarrow> zrec list option"
  sr_rrsets :: "zrec list \<Rightarrow> zrec list list"
  sr_owner_rrs :: "zrec list \<Rightarrow> zrec list list"
  sr_in_zone :: "name \<Rightarrow> zrec list \<Rightarrow> bool"
  sr_sign_zone :: "name \<Rightarrow> signing_config \<Rightarrow> signing_key list \<Rightarrow> zrec list \<Rightarrow> string + zrec list"
  sr_par_sort :: "(zrec list \<Rightarrow> zrec list \<Rightarrow> int) \<Rightarrow> zrec list list \<Rightarrow> zrec list list"
  sx_sign_rrset :: "signing_key \<Rightarrow> zrec list \<Rightarrow> u32 \<Rightarrow> u32 \<Rightarrow> string + (name \<times> nat \<times> ttl \<times> rrsig)"
  sx_rrset_ok :: "zrec list \<Rightarrow> bool"
  sx_rrset_sign :: "name \<Rightarrow> signing_key list \<Rightarrow> zrec list \<Rightarrow> u32 \<Rightarrow> u32 \<Rightarrow> string + rrsig list"
  sx_key_algorithm :: "signing_key \<Rightarrow> nat"
  sx_key_dnskey :: "signing_key \<Rightarrow> dnskey"
  sx_key_sep :: "signing_key \<Rightarrow> bool"
  sx_dnskey_sep :: "dnskey \<Rightarrow> bool"
  sx_dnskey_zone_key :: "dnskey \<Rightarrow> bool"
  sx_dnskey_size :: "dnskey \<Rightarrow> string + nat"
  sx_dnskey_tag :: "dnskey \<Rightarrow> u16"
  sx_parse_zone :: "name option \<Rightarrow> string \<Rightarrow> (string + zentry) list"
  sx_parse_from_bind :: "string \<Rightarrow> string + (name \<times> dnskey)"
  sx_secret_parse :: "string \<Rightarrow> string + string"
  sx_keypair :: "string \<Rightarrow> dnskey \<Rightarrow> string + string"
  sx_nsec3_owner :: "name \<Rightarrow> nat \<Rightarrow> u16 \<Rightarrow> string \<Rightarrow> name \<Rightarrow> string + name"
  sx_append_chars :: "string \<Rightarrow> string option"
  sx_append_origin :: "string \<Rightarrow> name \<Rightarrow> name option"
  sx_suffixes :: "name \<Rightarrow> name list"
  sx_ends_with :: "name \<Rightarrow> name \<Rightarrow> bool"
  sx_name_cmp :: "name \<Rightarrow> name \<Rightarrow> int"
  sx_sort_hashes :: "(name \<times> name \<times> bool) list \<Rightarrow> (name \<times> name \<times> bool) list"
  sx_fmt_with_dot :: "name \<Rightarrow> string"
  sx_serial_gt :: "u32 \<Rightarrow> u32 \<Rightarrow> bool"
  sx_serial_add :: "u32 \<Rightarrow> u32 \<Rightarrow> u32"
  sx_set_order :: "(nat \<times> nat) list \<Rightarrow> (nat \<times> nat) list"
  sx_compose_canonical :: "zrec \<Rightarrow> string"
  sx_sha384 :: "string \<Rightarrow> string"
  sx_sha512 :: "string \<Rightarrow> string"
  sx_show_record :: "zrec \<Rightarrow> string"
  sx_display :: "zrec \<Rightarrow> zonefile_item list \<Rightarrow> string"
  sx_show_type :: "rtype \<Rightarrow> string"
  sx_show_algorithm :: "nat \<Rightarrow> string"
  sx_show_ttl :: "ttl \<Rightarrow> string"
  sx_date_text :: "u32 \<Rightarrow> string"
  sx_base64 :: "string \<Rightarrow> string"
  sx_rrsig_labels :: "rrsig \<Rightarrow> nat"
  sx_rrsig_original_ttl :: "rrsig \<Rightarrow> ttl"
  sx_rrsig_signer :: "rrsig \<Rightarrow> name"
  sx_nsec3_algorithm :: "nsec3 \<Rightarrow> nat"
  sx_nsec3_flags :: "nsec3 \<Rightarrow> nat"
  sx_nsec3_iterations :: "nsec3 \<Rightarrow> nat"
  sx_nsec3_salt :: "nsec3 \<Rightarrow> string"
  sx_nsec3_types :: "nsec3 \<Rightarrow> string"
  sx_zonemd_scheme_mnemonic :: "nat \<Rightarrow> string option"
  sx_zonemd_scheme_from_mnemonic :: "string \<Rightarrow> nat option"
  sx_zonemd_alg_mnemonic :: "nat \<Rightarrow> string option"
  sx_zonemd_alg_from_mnemonic :: "string \<Rightarrow> nat option"
  sx_timestamp_from_str :: "string \<Rightarrow> string + u32"
  sx_in_cwd :: "string \<Rightarrow> string"

text \<open>
  The documented behaviour of \<open>SortedRecords\<close> that the properties use: an insertion
  is refused exactly for a record that is present; removal takes records out and leaves the
  order of the others; the iterators over owners and over RRsets cut the list into runs of
  one owner and of one owner and type.
\<close>

definition uniform :: "(zrec \<Rightarrow> 'a) \<Rightarrow> zrec list \<Rightarrow> bool" where
  "uniform f rs \<longleftrightarrow> rs \<noteq> [] \<and> (\<forall>r \<in> set rs. f r = f (hd rs))"

definition insert_law :: "signer \<Rightarrow> bool" where
  "insert_law A \<longleftrightarrow> (\<forall>r rs. (sr_insert A r rs = None \<longleftrightarrow> r \<in> set rs) \<and>
     (\<forall>rs'. sr_insert A r rs = Some rs' \<longrightarrow> (\<exists>xs ys. rs = xs @ ys \<and> rs' = xs @ r # ys)))"

definition update_law :: "signer \<Rightarrow> bool" where
  "update_law A \<longleftrightarrow> (\<forall>P d rs. list_all2
     (\<lambda>r r'. r' = r \<or> (P r \<and> r' = ZRec (z_owner r) (z_class r) (z_ttl r) d))
     rs (sr_update_data A P d rs))"

definition remove_law :: "signer \<Rightarrow> bool" where
  "remove_law A \<longleftrightarrow> (\<forall>n t rs.
     (\<exists>xs ys. rs = xs @ ys \<and> (sr_remove_first A n t rs = rs \<or>
        (\<exists>r ys'. ys = r # ys' \<and> z_owner r = n \<and> z_rtype r = t \<and> sr_remove_first A n t rs = xs @ ys'))) \<and>
     sr_remove_all A n t rs = filter (\<lambda>r. \<not> (z_owner r = n \<and> z_rtype r = t)) rs)"

definition runs_law :: "signer \<Rightarrow> bool" where
  "runs_law A \<longleftrightarrow> (\<forall>rs.
     concat (sr_owner_rrs A rs) = rs \<and> (\<forall>g \<in> set (sr_owner_rrs A rs). uniform z_owner g) \<and>
     concat (sr_rrsets A rs) = rs \<and>
     (\<forall>s \<in> set (sr_rrsets A rs). uniform (\<lambda>r. (z_owner r, z_rtype r)) s))"

end
