(* ===== verification/Logging.thy ===== *)
theory Logging
  imports World
begin

text \<open>
  Diagnostics and the process (src/log.rs, src/error.rs, src/env/real.rs): the lines on stderr,
  written directly or logged through \<open>tracing\<close> with a level, the error of the program with its
  layers of context, the clock and the binding of a UDP socket. Events below the level WARN that
  the commands log are not part of the model.
\<close>

section \<open>Log lines\<close>

datatype log_level = LvError | LvWarn | LvInfo | LvDebug | LvTrace

fun level_rank :: "log_level \<Rightarrow> nat" where
  "level_rank LvError = 0"
| "level_rank LvWarn = 1"
| "level_rank LvInfo = 2"
| "level_rank LvDebug = 3"
| "level_rank LvTrace = 4"

text \<open>\<open>LevelFilter\<close>: the most verbose level that is shown, or \<open>off\<close>.\<close>

type_synonym level_filter = "log_level option"

definition logged :: "level_filter \<Rightarrow> log_level \<Rightarrow> bool" where
  "logged m l \<longleftrightarrow> (case m of None \<Rightarrow> False | Some k \<Rightarrow> level_rank l \<le> level_rank k)"

fun level_text :: "log_level \<Rightarrow> string" where
  "level_text LvError = ''ERROR''"
| "level_text LvWarn = ''WARN''"
| "level_text LvInfo = ''INFO''"
| "level_text LvDebug = ''DEBUG''"
| "level_text LvTrace = ''TRACE''"

definition COLOR_RED :: nat where "COLOR_RED = 31"
definition COLOR_GREEN :: nat where "COLOR_GREEN = 32"
definition COLOR_YELLOW :: nat where "COLOR_YELLOW = 33"
definition COLOR_BLUE :: nat where "COLOR_BLUE = 34"
definition COLOR_PURPLE :: nat where "COLOR_PURPLE = 35"

fun level_color :: "log_level \<Rightarrow> nat" where
  "level_color LvError = COLOR_RED"
| "level_color LvWarn = COLOR_YELLOW"
| "level_color LvInfo = COLOR_BLUE"
| "level_color LvDebug = COLOR_GREEN"
| "level_color LvTrace = COLOR_PURPLE"

text \<open>How the subscriber of a run formats and filters events.\<close>

record log_format =
  lf_program :: string
  lf_ansi :: bool
  lf_max :: level_filter

definition format_event :: "log_format \<Rightarrow> log_level \<Rightarrow> string \<Rightarrow> string" where
  "format_event F level message =
     ''['' @ lf_program F @ ''] ''
     @ (if lf_ansi F
        then [CHR 0x1B] @ ''['' @ show_nat (level_color level) @ ''m'' @ level_text level @ [CHR 0x1B] @ ''[0m: ''
        else level_text level @ '': '')
     @ message @ [CHR 0x0A]"

text \<open>A line for stderr: written as it is, or an event for the log.\<close>

datatype err_line = Plain string | Event log_level string

fun err_text :: "log_format \<Rightarrow> err_line \<Rightarrow> string" where
  "err_text F (Plain s) = s @ [CHR 0x0A]"
| "err_text F (Event l s) = (if logged (lf_max F) l then format_event F l s else [])"

section \<open>Errors\<close>

text \<open>An error of clap with its exit code and its text without and with colours.\<close>

record clap_error =
  ce_exit_code :: int
  ce_plain :: string
  ce_ansi :: string

datatype primary_error = ClapPrimary clap_error | OtherPrimary string

record error_info =
  ei_primary :: primary_error
  ei_context :: "string list"

definition error_new :: "string \<Rightarrow> error_info" where
  "error_new e = \<lparr>ei_primary = OtherPrimary e, ei_context = []\<rparr>"

definition clap_failure :: "clap_error \<Rightarrow> error_info" where
  "clap_failure ce = \<lparr>ei_primary = ClapPrimary ce, ei_context = []\<rparr>"

definition error_context :: "string \<Rightarrow> error_info \<Rightarrow> error_info" where
  "error_context c e = e\<lparr>ei_context := ei_context e @ [c]\<rparr>"

text \<open>What \<open>pretty_print\<close> writes; \<open>colour\<close> is whether stderr shows basic colours.\<close>

definition pretty_print :: "bool \<Rightarrow> error_info \<Rightarrow> err_line" where
  "pretty_print colour e =
     (case ei_primary e of
        ClapPrimary ce \<Rightarrow> Plain (if colour then ce_ansi ce else ce_plain ce)
      | OtherPrimary msg \<Rightarrow>
          Event LvError (msg @ [CHR 0x0A]
            @ concat (map (\<lambda>c. ''... while '' @ c @ [CHR 0x0A]) (ei_context e))))"

definition exit_code :: "error_info \<Rightarrow> nat" where
  "exit_code e = (case ei_primary e of ClapPrimary ce \<Rightarrow> nat (ce_exit_code ce mod 256) | OtherPrimary _ \<Rightarrow> 1)"

text \<open>
  Elsewhere an error is its text, in which a layer of context is a line of its own:
\<close>

definition with_context :: "string \<Rightarrow> string \<Rightarrow> string" where
  "with_context c e = e @ [CHR 0x0A] @ ''... while '' @ c"

text \<open>the text with its layers prints as the error with its list of layers does.\<close>

lemma pretty_print_context:
  "pretty_print colour (foldl (\<lambda>e c. error_context c e) (error_new msg) cs)
     = pretty_print colour (error_new (foldl (\<lambda>e c. with_context c e) msg cs))"
proof -
  have layers: "foldl (\<lambda>e c. error_context c e) e cs = e\<lparr>ei_context := ei_context e @ cs\<rparr>" for e
    by (induction cs arbitrary: e) (simp_all add: error_context_def)
  have "foldl (\<lambda>e c. with_context c e) msg cs @ [CHR 0x0A]
      = msg @ [CHR 0x0A] @ concat (map (\<lambda>c. ''... while '' @ c @ [CHR 0x0A]) cs)"
    by (induction cs arbitrary: msg) (simp_all add: with_context_def)
  then show ?thesis by (simp add: layers pretty_print_def error_new_def)
qed

section \<open>The clock\<close>

text \<open>
  \<open>RealEnv::seconds_since_epoch\<close> from the nanoseconds since the epoch: whole seconds as 32 bits;
  before the epoch the distance to it.
\<close>

definition clock_seconds :: "int \<Rightarrow> u32" where
  "clock_seconds ns = word_of_int ((if 0 \<le> ns then ns else - ns) div 1000000000)"

text \<open>The value is the number of seconds until the year 2106, and starts again at 0 there.\<close>

lemma clock_seconds_wraps:
  assumes "0 \<le> ns"
  shows "uint (clock_seconds ns) = ns div 1000000000 mod 4294967296"
    and "ns div 1000000000 < 4294967296 \<Longrightarrow> uint (clock_seconds ns) = ns div 1000000000"
    and "clock_seconds (ns + 4294967296 * 1000000000) = clock_seconds ns"
proof -
  have *: "uint (clock_seconds n) = n div 1000000000 mod 4294967296" if "0 \<le> n" for n
    using that by (simp add: clock_seconds_def uint_word_of_int)
  show "uint (clock_seconds ns) = ns div 1000000000 mod 4294967296" by (rule * [OF assms])
  show "ns div 1000000000 < 4294967296 \<Longrightarrow> uint (clock_seconds ns) = ns div 1000000000"
    using * [OF assms] assms by (simp add: pos_imp_zdiv_nonneg_iff)
  have "(ns + 4294967296 * 1000000000) div 1000000000 = 4294967296 + ns div 1000000000"
    by (rule div_mult_self1) simp
  then have "uint (clock_seconds (ns + 4294967296 * 1000000000)) = uint (clock_seconds ns)"
    using * [of ns] * [of "ns + 4294967296 * 1000000000"] assms by (simp only: mod_add_self1)
  then show "clock_seconds (ns + 4294967296 * 1000000000) = clock_seconds ns"
    by (simp add: word_uint_eq_iff)
qed

section \<open>Binding a socket\<close>

definition RETRY_RANDOM_PORT :: nat where "RETRY_RANDOM_PORT = 10"

text \<open>\<open>bind_loop\<close> asks for a socket; the result of the attempt with the number \<open>i\<close> is \<open>bind i\<close>.\<close>

partial_function (option) bind_loop :: "(nat \<Rightarrow> string + 's) \<Rightarrow> nat \<Rightarrow> (string + 's) option" where
  "bind_loop bind i =
     (case bind i of
        Inr sock \<Rightarrow> Some (Inr sock)
      | Inl e \<Rightarrow> if i = RETRY_RANDOM_PORT then Some (Inl e) else bind_loop bind (i + 1))"

definition bind_and_connect ::
  "(nat \<Rightarrow> string + 's) \<Rightarrow> ('s \<Rightarrow> string + unit) \<Rightarrow> (string + 's) option" where
  "bind_and_connect bind connect =
     (case bind_loop bind 0 of
        None \<Rightarrow> None
      | Some (Inl e) \<Rightarrow> Some (Inl e)
      | Some (Inr sock) \<Rightarrow> Some (case connect sock of Inl e \<Rightarrow> Inl e | Inr _ \<Rightarrow> Inr sock))"

lemma bind_loop_from:
  assumes "i \<le> RETRY_RANDOM_PORT"
  shows "bind_loop bind i = Some (case List.find (\<lambda>j. \<exists>s. bind j = Inr s) [i..<RETRY_RANDOM_PORT + 1] of
      Some j \<Rightarrow> bind j | None \<Rightarrow> bind RETRY_RANDOM_PORT)"
  using assms
proof (induction rule: inc_induct)
  case base
  show ?case by (subst bind_loop.simps) (simp split: sum.split)
next
  case (step i)
  then have "[i..<RETRY_RANDOM_PORT + 1] = i # [i + 1..<RETRY_RANDOM_PORT + 1]" by (simp add: upt_conv_Cons)
  with step show ?case by (subst bind_loop.simps) (simp split: sum.split)
qed

text \<open>
  Binding ends after at most eleven attempts: with the first socket, or with the error of the last
  attempt.
\<close>

lemma bind_loop_result:
  "bind_loop bind 0 = Some (case List.find (\<lambda>j. \<exists>s. bind j = Inr s) [0..<11] of
      Some j \<Rightarrow> bind j | None \<Rightarrow> bind 10)"
  using bind_loop_from [of 0 bind, unfolded RETRY_RANDOM_PORT_def] by simp

end
