(* ===== verification/Cli.thy ===== *)
theory Cli
  imports Logging
begin

text \<open>
  What the stand-alone commands of \<open>dnst\<close> share (src/commands/mod.rs, src/parse.rs,
  src/error.rs): numbers and names on the command line, operating system strings, and the
  argument loops of the \<open>ldns-\<close> variants over the parser of the crate \<open>lexopt\<close>, which is
  the record \<open>lexer\<close>. Letters are lowered as ASCII letters.
\<close>

section \<open>Text\<close>

fun split_once :: "char \<Rightarrow> string \<Rightarrow> (string \<times> string) option" where
  "split_once c [] = None"
| "split_once c (x # xs) =
     (if x = c then Some ([], xs)
      else (case split_once c xs of None \<Rightarrow> None | Some (a, b) \<Rightarrow> Some (x # a, b)))"

definition is_digit :: "char \<Rightarrow> bool" where
  "is_digit c \<longleftrightarrow> 48 \<le> (of_char c :: nat) \<and> (of_char c :: nat) \<le> 57"

definition digits_value :: "string \<Rightarrow> nat" where
  "digits_value s = foldl (\<lambda>n c. 10 * n + (of_char c - 48)) 0 s"

text \<open>\<open>parse\<close> into an unsigned integer below \<open>bound\<close>: digits, possibly after a plus sign.\<close>

definition parse_digits :: "nat \<Rightarrow> string \<Rightarrow> nat option" where
  "parse_digits bound s =
     (if s \<noteq> [] \<and> list_all is_digit s \<and> digits_value s < bound then Some (digits_value s) else None)"

fun parse_uint :: "nat \<Rightarrow> string \<Rightarrow> nat option" where
  "parse_uint bound [] = None"
| "parse_uint bound (c # cs) =
     (if c = CHR ''+'' then parse_digits bound cs else parse_digits bound (c # cs))"

text \<open>The texts of \<open>std::num::ParseIntError\<close>.\<close>

definition parse_int_error :: "string \<Rightarrow> string" where
  "parse_int_error s =
     (if s = [] then ''cannot parse integer from empty string''
      else if list_all is_digit s \<or> (hd s = CHR ''+'' \<and> tl s \<noteq> [] \<and> list_all is_digit (tl s))
      then ''number too large to fit in target type''
      else ''invalid digit found in string'')"

definition parse_num :: "nat \<Rightarrow> string \<Rightarrow> string + nat" where
  "parse_num bound s = (case parse_uint bound s of Some n \<Rightarrow> Inr n | None \<Rightarrow> Inl (parse_int_error s))"

definition lower_char :: "char \<Rightarrow> char" where
  "lower_char c = (if 65 \<le> (of_char c :: nat) \<and> (of_char c :: nat) \<le> 90 then char_of (of_char c + 32 :: nat) else c)"

definition to_lowercase :: "string \<Rightarrow> string" where
  "to_lowercase s = map lower_char s"

lemma digits_value_append: "digits_value (s @ [c]) = 10 * digits_value s + (of_char c - 48)"
  by (simp add: digits_value_def)

lemma of_char_digit: "d < 10 \<Longrightarrow> (of_char (char_of (48 + d :: nat)) :: nat) = 48 + d"
  by simp

lemma show_nat_digits:
  "show_nat n \<noteq> [] \<and> list_all is_digit (show_nat n) \<and> digits_value (show_nat n) = n"
proof (induction n rule: less_induct)
  case (less n)
  show ?case
  proof (cases "n < 10")
    case True
    then have "show_nat n = [char_of (48 + n)]" by (simp add: show_nat.simps)
    with True show ?thesis
      by (simp add: is_digit_def digits_value_def of_char_digit)
  next
    case False
    then have s: "show_nat n = show_nat (n div 10) @ [char_of (48 + n mod 10)]"
      by (subst show_nat.simps) simp
    have "n mod 10 < 10" "n div 10 < n" using False by auto
    with less.IH [of "n div 10"] show ?thesis
      unfolding s by (simp add: digits_value_append is_digit_def of_char_digit del: of_char_of)
  qed
qed

lemma parse_uint_show_nat: "n < bound \<Longrightarrow> parse_uint bound (show_nat n) = Some n"
proof -
  assume n: "n < bound"
  obtain c cs where s: "show_nat n = c # cs" using show_nat_digits [of n] by (cases "show_nat n") auto
  then have "c \<noteq> CHR ''+''" using show_nat_digits [of n] by (auto simp: is_digit_def)
  then show ?thesis
    using n show_nat_digits [of n] by (simp add: s parse_digits_def)
qed

section \<open>Errors\<close>

definition in_context :: "string \<Rightarrow> ('s, 'a) prog \<Rightarrow> ('s, 'a) prog" where
  "in_context c m s = (case m s of (Err e, t) \<Rightarrow> (Err (with_context c e), t) | x \<Rightarrow> x)"

section \<open>Operating system strings\<close>

datatype os_string = Unicode (os_text: string) | NotUnicode (os_text: string)

text \<open>A value as \<open>{:?}\<close> shows it, in quotes; only quotes and backslashes are escaped here.\<close>

definition escape_char :: "char \<Rightarrow> string" where
  "escape_char c = (if c = CHR 0x22 \<or> c = CHR 0x5C then [CHR 0x5C, c] else [c])"

definition debug_str :: "string \<Rightarrow> string" where
  "debug_str s = [CHR 0x22] @ concat (map escape_char s) @ [CHR 0x22]"

text \<open>\<open>parse_os_with\<close>; an error of the parser is shown with the value.\<close>

fun parse_os_with :: "string \<Rightarrow> (string \<Rightarrow> string + 'a) \<Rightarrow> os_string \<Rightarrow> 'a res" where
  "parse_os_with opt f (NotUnicode v) = Err (''Invalid value for '' @ opt @ '': '' @ debug_str v @ '' is not valid unicode'')"
| "parse_os_with opt f (Unicode v) =
     map_err (\<lambda>e. ''Invalid value '' @ debug_str v @ '' for '' @ opt @ '': '' @ e) (f v)"

lemma parse_os_with_Ok:
  "parse_os_with opt f v = Ok x \<longleftrightarrow> (\<exists>s. v = Unicode s \<and> f s = Inr x)"
  by (cases v) auto

section \<open>The argument loop\<close>

datatype arg = Short char | Long string | Value os_string

record 'l lexer =
  lx_start :: "os_string list \<Rightarrow> 'l"
  lx_next :: "'l \<Rightarrow> (string + arg option) \<times> 'l"
  lx_value :: "'l \<Rightarrow> (string + os_string) \<times> 'l"

text \<open>
  The loops \<open>while let Some(arg) = parser.next()? \<dots>\<close>: the state holds the parser and the
  options collected so far; a handler may return early with a result. A loop that never ends
  is \<open>None\<close>.
\<close>

partial_function (option) lex_loop ::
  "'l lexer \<Rightarrow> (arg \<Rightarrow> 'l \<times> 'o \<Rightarrow> 'r option res \<times> 'l \<times> 'o) \<Rightarrow> 'l \<times> 'o \<Rightarrow> ('r option res \<times> 'o) option" where
  "lex_loop L handle s =
     (case lx_next L (fst s) of
        (Inl e, l) \<Rightarrow> Some (Err e, snd s)
      | (Inr None, l) \<Rightarrow> Some (Ok None, snd s)
      | (Inr (Some a), l) \<Rightarrow>
          (case handle a (l, snd s) of
             (Ok None, s') \<Rightarrow> lex_loop L handle s'
           | (r, s') \<Rightarrow> Some (r, snd s')))"

text \<open>\<open>parser.value()?\<close> followed by a conversion.\<close>

definition lex_value :: "'l lexer \<Rightarrow> (os_string \<Rightarrow> 'a res) \<Rightarrow> ('l \<times> 'o, 'a) prog" where
  "lex_value L f s = (case lx_value L (fst s) of
      (Inl e, l) \<Rightarrow> (Err e, l, snd s)
    | (Inr v, l) \<Rightarrow> (f v, l, snd s))"

definition set_opt :: "('o \<Rightarrow> 'o) \<Rightarrow> ('l \<times> 'o, 'r option) prog" where
  "set_opt g s = (Ok None, fst s, g (snd s))"

text \<open>
  The parser makes progress: there is a length that \<open>next\<close> decreases when it returns an
  argument and \<open>value\<close> never increases. Then every loop whose handler touches the parser
  only through \<open>value\<close> returns.
\<close>

definition lexer_laws :: "('l \<Rightarrow> nat) \<Rightarrow> 'l lexer \<Rightarrow> bool" where
  "lexer_laws len L \<longleftrightarrow>
     (\<forall>l a l'. lx_next L l = (Inr (Some a), l') \<longrightarrow> len l' < len l) \<and>
     (\<forall>l r l'. lx_value L l = (r, l') \<longrightarrow> len l' \<le> len l)"

definition steady :: "('l \<Rightarrow> nat) \<Rightarrow> ('l \<times> 'o, 'a) prog \<Rightarrow> bool" where
  "steady len m \<longleftrightarrow> (\<forall>s r s'. m s = (r, s') \<longrightarrow> len (fst s') \<le> len (fst s))"

lemma lex_loop_returns:
  assumes laws: "lexer_laws len L" and handle: "\<And>a. steady len (handle a)"
  shows "\<exists>r. lex_loop L handle s = Some r"
proof (induction "len (fst s)" arbitrary: s rule: less_induct)
  case less
  obtain n l where n: "lx_next L (fst s) = (n, l)" by (cases "lx_next L (fst s)")
  consider e where "n = Inl e" | "n = Inr None" | a where "n = Inr (Some a)"
    by (cases n) auto
  then show ?case
  proof cases
    case 3
    obtain r s' where r: "handle a (l, snd s) = (r, s')" by (cases "handle a (l, snd s)")
    have "len l < len (fst s)" using laws n 3 by (auto simp: lexer_laws_def)
    moreover have "len (fst s') \<le> len l"
      using handle [of a] r unfolding steady_def by fastforce
    ultimately have "\<exists>q. lex_loop L handle s' = Some q" using less.hyps [of s'] by simp
    with n 3 r show ?thesis
      by (subst lex_loop.simps) (auto split: res.split option.split)
  qed (use n in \<open>subst lex_loop.simps, simp\<close>)+
qed

lemma steady_set_opt: "steady len (set_opt g)"
  by (simp add: steady_def set_opt_def)

lemma steady_lex_value:
  assumes "lexer_laws len L"
  shows "steady len (lex_value L f)"
  using assms by (auto simp: steady_def lex_value_def lexer_laws_def split: prod.splits sum.splits)

lemma steady_bindP:
  assumes "steady len m" "\<And>x. steady len (f x)"
  shows "steady len (bindP m f)"
  unfolding steady_def
proof (intro allI impI)
  fix s r s' assume run: "bindP m f s = (r, s')"
  obtain q t where q: "m s = (q, t)" by (cases "m s")
  with assms(1) have "len (fst t) \<le> len (fst s)" unfolding steady_def by blast
  moreover have "len (fst s') \<le> len (fst t)"
  proof (cases q)
    case (Ok x)
    with run q have "f x t = (r, s')" by (simp add: bindP_def)
    with assms(2) show ?thesis unfolding steady_def by blast
  qed (use run q in \<open>auto simp: bindP_def\<close>)
  ultimately show "len (fst s') \<le> len (fst s)" by simp
qed

lemma steady_pure: "steady len (ret x)" "steady len (fail e)" "steady len (lift_res v)"
  by (simp_all add: steady_def prog_defs)

lemmas steady_rules = steady_set_opt steady_lex_value steady_bindP steady_pure

section \<open>The \<open>ldns-\<close> commands\<close>

text \<open>
  \<open>parse_ldns\<close> ends in a text to print (\<open>Command::Report\<close>) or in the options of the command.
\<close>

datatype 'a ldns_args = LdnsReport string | LdnsRun 'a

definition ldns_parse ::
  "'l lexer \<Rightarrow> (arg \<Rightarrow> ('l \<times> 'o, string option) prog) \<Rightarrow> 'o \<Rightarrow> ('o \<Rightarrow> 'a ldns_args res) \<Rightarrow>
     os_string list \<Rightarrow> 'a ldns_args res option" where
  "ldns_parse L handle defaults finish args =
     (case lex_loop L handle (lx_start L args, defaults) of
        None \<Rightarrow> None
      | Some (r, opts) \<Rightarrow> Some (bind_res r (\<lambda>early.
          case early of Some report \<Rightarrow> Ok (LdnsReport report) | None \<Rightarrow> finish opts)))"

definition report :: "string \<Rightarrow> ('s, string option) prog" where
  "report s = ret (Some s)"

text \<open>\<open>report_version\<close>; the version of the crate is a parameter.\<close>

definition report_version :: "string \<Rightarrow> string \<Rightarrow> string \<Rightarrow> string" where
  "report_version name version compatible =
     ''ldns-'' @ name @ '' provided by dnst v'' @ version @ '' (compatible with ldns v'' @ compatible @ '')''"

text \<open>The last two arms of every loop.\<close>

definition invalid_short :: "char \<Rightarrow> string" where
  "invalid_short c = ''Invalid short option: -'' @ [c]"

definition no_long :: "string \<Rightarrow> string" where
  "no_long x = ''Long options are not supported, but `--'' @ x @ ''` given''"

text \<open>An option with a value that is converted and stored.\<close>

definition store :: "'l lexer \<Rightarrow> (os_string \<Rightarrow> 'a res) \<Rightarrow> ('a \<Rightarrow> 'o \<Rightarrow> 'o) \<Rightarrow> ('l \<times> 'o, string option) prog" where
  "store L f g = bindP (lex_value L f) (\<lambda>x. set_opt (g x))"

definition store_value :: "'a res \<Rightarrow> ('a \<Rightarrow> 'o \<Rightarrow> 'o) \<Rightarrow> ('l \<times> 'o, string option) prog" where
  "store_value v g = bindP (lift_res v) (\<lambda>x. set_opt (g x))"

lemma steady_gets: "steady len (gets f)"
  by (simp add: steady_def prog_defs)

lemma steady_if: "steady len m \<Longrightarrow> steady len n \<Longrightarrow> steady len (if b then m else n)"
  by simp

lemma steady_store: "lexer_laws len L \<Longrightarrow> steady len (store L f g)"
  unfolding store_def by (intro steady_rules)

lemma steady_store_value: "steady len (store_value v g)"
  unfolding store_value_def by (intro steady_rules)

lemma steady_report: "steady len (report s)"
  unfolding report_def by (intro steady_rules)

lemmas steady_handlers = steady_store steady_store_value steady_report steady_gets steady_rules

text \<open>
  What every \<open>ldns-\<close> command promises of the handler of its loop, and what follows for its
  parser: it returns, it refuses long options, and a parser error ends it.
\<close>

locale ldns_command =
  fixes handler :: "'l lexer \<Rightarrow> arg \<Rightarrow> ('l \<times> 'o, string option) prog"
  assumes handler_steady: "lexer_laws len L \<Longrightarrow> steady len (handler L a)"
    and long_refused: "handler L (Long x) = fail (no_long x)"
begin

lemma parse_returns:
  assumes "lexer_laws len L"
  shows "\<exists>r. ldns_parse L (handler L) defaults finish args = Some r"
  using lex_loop_returns [OF assms, of "handler L" "(lx_start L args, defaults)"] handler_steady [OF assms]
  by (auto simp: ldns_parse_def split: prod.splits)

lemma long_option_refused:
  assumes "lx_next L (lx_start L args) = (Inr (Some (Long x)), l)"
  shows "ldns_parse L (handler L) defaults finish args = Some (Err (no_long x))"
  using assms by (simp add: ldns_parse_def lex_loop.simps long_refused fail_def)

lemma bad_argument_refused:
  assumes "lx_next L (lx_start L args) = (Inl e, l)"
  shows "ldns_parse L (handler L) defaults finish args = Some (Err e)"
  using assms by (simp add: ldns_parse_def lex_loop.simps)

end

section \<open>What the handlers keep of the options\<close>

definition keeps_opts :: "('o \<Rightarrow> bool) \<Rightarrow> ('l \<times> 'o, 'a) prog \<Rightarrow> bool" where
  "keeps_opts P m \<longleftrightarrow> (\<forall>s. P (snd s) \<longrightarrow> P (snd (snd (m s))))"

lemma lex_loop_keeps:
  assumes "lex_loop L handle s = Some out"
  shows "(\<forall>a. keeps_opts P (handle a)) \<longrightarrow> P (snd s) \<longrightarrow> P (snd out)"
proof (induction rule: lex_loop.raw_induct)
  case (1 loop L handle s out)
  show ?case
  proof (intro impI)
    assume keep: "\<forall>a. keeps_opts P (handle a)" and s: "P (snd s)"
    obtain n l where n: "lx_next L (fst s) = (n, l)" by (cases "lx_next L (fst s)")
    consider e where "n = Inl e" | "n = Inr None" | a where "n = Inr (Some a)" by (cases n) auto
    then show "P (snd out)"
    proof cases
      case 3
      obtain r s' where r: "handle a (l, snd s) = (r, s')" by (cases "handle a (l, snd s)")
      have "P (snd s')" using keep s r unfolding keeps_opts_def by (metis snd_conv)
      moreover have "loop L handle s' = Some out \<or> out = (r, snd s')"
        using 1(2) n 3 r by (auto split: res.splits option.splits)
      ultimately show ?thesis using 1(1) [of L handle s' out] keep by auto
    qed (use 1(2) n s in auto)
  qed
qed (rule assms)

lemma keeps_set_opt: "(\<And>opts. P opts \<Longrightarrow> P (g opts)) \<Longrightarrow> keeps_opts P (set_opt g)"
  by (simp add: keeps_opts_def set_opt_def)

lemma keeps_bind: "keeps_opts P m \<Longrightarrow> (\<And>x. keeps_opts P (f x)) \<Longrightarrow> keeps_opts P (bindP m f)"
  by (auto simp: keeps_opts_def bindP_def split: prod.split res.split)
    (metis snd_conv)+

lemma keeps_lex_value: "keeps_opts P (lex_value L f)"
  by (auto simp: keeps_opts_def lex_value_def split: prod.split sum.split)

lemma keeps_fail: "keeps_opts P (fail e)"
  by (simp add: keeps_opts_def fail_def)

lemma keeps_gets: "keeps_opts P (gets f)"
  by (simp add: keeps_opts_def gets_def)

lemma keeps_lift: "keeps_opts P (lift_res r)"
  by (simp add: keeps_opts_def lift_res_def)

lemma keeps_shown: "keeps_opts P (report s)"
  by (simp add: keeps_opts_def report_def ret_def)

lemma keeps_store: "(\<And>x opts. P opts \<Longrightarrow> P (g x opts)) \<Longrightarrow> keeps_opts P (store L f g)"
  unfolding store_def by (intro keeps_bind keeps_lex_value keeps_set_opt)

lemma keeps_store_value: "(\<And>x opts. P opts \<Longrightarrow> P (g x opts)) \<Longrightarrow> keeps_opts P (store_value v g)"
  unfolding store_value_def by (intro keeps_bind keeps_lift keeps_set_opt)

lemma keeps_if: "keeps_opts P m \<Longrightarrow> keeps_opts P n \<Longrightarrow> keeps_opts P (if b then m else n)"
  by simp

end
