(* ===== verification/Sign_Zone.thy ===== *)
theory Sign_Zone
  imports Zone_Api Cli
begin

text \<open>
  \<open>dnst signzone\<close> up to the finished list of records (src/commands/signzone.rs): loading
  the zone, the new serial, the keys and their roles, the signatures over the DNSKEY, CDS
  and CDNSKEY RRsets, the list of NSEC3 hashes, signing, and ZONEMD. \<open>Sign_Output\<close> holds
  the printing of the records and the whole command.
\<close>

section \<open>Options\<close>

record sign_args =
  sz_extra_comments :: bool
  sz_do_not_add_keys :: bool
  sz_expiration :: u32
  sz_out_file :: "string option"
  sz_inception :: u32
  sz_origin :: "name option"
  sz_serial_to_epoch :: bool
  sz_use_nsec3 :: bool
  sz_sign_dnskeys_with_all_keys :: bool
  sz_every_unique_algorithm :: bool
  sz_zonemd :: "(nat \<times> nat) list"
  sz_zonemd_without_signing :: bool
  sz_algorithm :: nat
  sz_iterations :: u16
  sz_salt :: string
  sz_opt_out_flags_only :: bool
  sz_opt_out :: bool
  sz_hash_only :: bool
  sz_hash_list :: bool
  sz_order_nsec3 :: bool
  sz_order_rrsigs :: bool
  sz_rrsig_dates :: bool
  sz_zonefile :: string
  sz_key_paths :: "string list"
  sz_as_ldns :: bool

definition ZONEMD_SIMPLE :: nat where "ZONEMD_SIMPLE = 1"
definition ZONEMD_SHA384 :: nat where "ZONEMD_SHA384 = 1"
definition ZONEMD_SHA512 :: nat where "ZONEMD_SHA512 = 2"

definition num_to_zonemd_alg :: "signer \<Rightarrow> nat \<Rightarrow> string + nat" where
  "num_to_zonemd_alg A num = (case sx_zonemd_alg_mnemonic A num of
     Some _ \<Rightarrow> Inr num | None \<Rightarrow> Inl ''unknown ZONEMD algorithm number'')"

definition num_to_zonemd_scheme :: "signer \<Rightarrow> nat \<Rightarrow> string + nat" where
  "num_to_zonemd_scheme A num = (case sx_zonemd_scheme_mnemonic A num of
     Some _ \<Rightarrow> Inr num | None \<Rightarrow> Inl ''unknown ZONEMD scheme number'')"

definition option_or :: "string \<Rightarrow> 'a option \<Rightarrow> string + 'a" where
  "option_or e x = (case x of Some y \<Rightarrow> Inr y | None \<Rightarrow> Inl e)"

definition parse_zonemd_tuple :: "signer \<Rightarrow> string \<Rightarrow> (nat \<times> nat) res" where
  "parse_zonemd_tuple A arg =
     (let (scheme, h) =
        (case split_once (CHR '':'') arg of
           Some (s, h) \<Rightarrow>
            ((case parse_uint 256 s of
                Some num \<Rightarrow> num_to_zonemd_scheme A num
              | None \<Rightarrow> option_or ''unknown ZONEMD scheme mnemonic'' (sx_zonemd_scheme_from_mnemonic A s)), h)
         | None \<Rightarrow> (Inr ZONEMD_SIMPLE, arg))
      in bind_res (map_err id scheme) (\<lambda>scheme.
         bind_res (map_err id (case parse_uint 256 h of
             Some num \<Rightarrow> num_to_zonemd_alg A num
           | None \<Rightarrow> option_or ''unknown ZONEMD algorithm mnemonic'' (sx_zonemd_alg_from_mnemonic A h))) (\<lambda>alg.
         Ok (scheme, alg))))"

definition parse_zonemd_scheme_ldns :: "string \<Rightarrow> nat res" where
  "parse_zonemd_scheme_ldns s =
     (if to_lowercase s \<in> {''simple'', ''1''} then Ok ZONEMD_SIMPLE
      else Err ''unknown ZONEMD scheme name or number'')"

definition parse_zonemd_hash_alg_ldns :: "string \<Rightarrow> nat res" where
  "parse_zonemd_hash_alg_ldns h =
     (if to_lowercase h \<in> {''sha384'', ''1''} then Ok ZONEMD_SHA384
      else if to_lowercase h \<in> {''sha512'', ''2''} then Ok ZONEMD_SHA512
      else Err ''unknown ZONEMD algorithm name or number'')"

definition parse_zonemd_tuple_ldns :: "string \<Rightarrow> (nat \<times> nat) res" where
  "parse_zonemd_tuple_ldns arg =
     (case split_once (CHR '':'') arg of
        Some (s, h) \<Rightarrow>
          bind_res (parse_zonemd_scheme_ldns s) (\<lambda>scheme.
          bind_res (parse_zonemd_hash_alg_ldns h) (\<lambda>alg. Ok (scheme, alg)))
      | None \<Rightarrow> bind_res (parse_zonemd_hash_alg_ldns arg) (\<lambda>alg. Ok (ZONEMD_SIMPLE, alg)))"

text \<open>Eight digits are a date, not a number of seconds.\<close>

definition parse_timestamp :: "signer \<Rightarrow> string \<Rightarrow> u32 res" where
  "parse_timestamp A arg =
     map_err (\<lambda>e. ''Invalid timestamp: '' @ e)
       (sx_timestamp_from_str A
          (if length arg = 8 \<and> parse_uint (2 ^ 32) arg \<noteq> None then arg @ ''000000'' else arg))"

datatype signing_mode = HashAndSign | HashOnly | NoSigning

definition signing_mode_of :: "sign_args \<Rightarrow> signing_mode res" where
  "signing_mode_of args =
     (if sz_hash_only args then
        (if sz_key_paths args = [] then Ok HashOnly else Err (''Key paths are not expected when using '' @ [CHR 0x27] @ ''-H'' @ [CHR 0x27]))
      else if sz_zonemd_without_signing args then Ok NoSigning
      else Ok HashAndSign)"

definition out_file_of :: "sign_args \<Rightarrow> string" where
  "out_file_of args = (case sz_out_file args of Some f \<Rightarrow> f | None \<Rightarrow> sz_zonefile args @ ''.signed'')"

section \<open>Loading the zone\<close>

definition kept :: "name option \<Rightarrow> zrec \<Rightarrow> bool" where
  "kept origin r \<longleftrightarrow>
     \<not> (z_rtype r = RT_ZONEMD \<and> (case origin of Some n \<Rightarrow> z_owner r = n | None \<Rightarrow> True)) \<and>
     z_rtype r \<notin> {RT_RRSIG, RT_NSEC, RT_NSEC3, RT_NSEC3PARAM}"

fun keep_records :: "name option \<Rightarrow> (string + zentry) list \<Rightarrow> zrec list res" where
  "keep_records origin [] = Ok []"
| "keep_records origin (Inl e # es) = Err (''Invalid zone file: '' @ e)"
| "keep_records origin (Inr ZoneInclude # es) =
     Err ''Invalid zone file: $INCLUDE directive is not supported''"
| "keep_records origin (Inr (ZoneRecord r) # es) =
     bind_res (keep_records origin es) (\<lambda>rs. Ok (if kept origin r then r # rs else rs))"

definition load_zone :: "signer \<Rightarrow> sign_args \<Rightarrow> string \<Rightarrow> (world, zrec list) prog" where
  "load_zone A args path =
     bindP (read_file path (\<lambda>e. with_context (''loading zone file from path '' @ path) (''error opening file: '' @ e))) (\<lambda>text.
     bindP (lift_res (keep_records (sz_origin args) (sx_parse_zone A (sz_origin args) text))) (\<lambda>records.
     ret (sr_from A records)))"

definition find_apex :: "zrec list \<Rightarrow> name option \<Rightarrow> zrec res" where
  "find_apex records origin =
     (case origin of
        Some expected \<Rightarrow>
          (case List.find (\<lambda>r. z_rtype r = RT_SOA \<and> z_owner r = expected) records of
             Some r \<Rightarrow> Ok r
           | None \<Rightarrow> Err (''SOA record not found for origin '' @ expected @ ''.''))
      | None \<Rightarrow>
          (case List.find (\<lambda>r. z_rtype r = RT_SOA) records of
             Some r \<Rightarrow> Ok r
           | None \<Rightarrow> Err ''Invalid zone file: Cannot find SOA record''))"

section \<open>The new serial\<close>

definition seconds_since_epoch :: "world \<Rightarrow> u32" where
  "seconds_since_epoch w = word_of_nat (as_secs (w_clock w))"

text \<open>It is the time of the real environment.\<close>

lemma seconds_since_epoch_clock: "seconds_since_epoch w = clock_seconds (int (w_clock w))"
proof -
  have "int (w_clock w) div 1000000000 = int (w_clock w div 1000000000)" by (simp add: zdiv_int)
  then show ?thesis by (simp add: seconds_since_epoch_def clock_seconds_def as_secs_def nanos_def)
qed

definition bumped_serial :: "signer \<Rightarrow> u32 \<Rightarrow> u32 \<Rightarrow> u32" where
  "bumped_serial A now old = (if sx_serial_gt A now old then now else sx_serial_add A old 1)"

definition bump :: "signer \<Rightarrow> u32 \<Rightarrow> soa_data \<Rightarrow> soa_data" where
  "bump A now old =
     SoaFields (so_mname old) (so_rname old) (bumped_serial A now (so_serial old))
       (so_refresh old) (so_retry old) (so_expire old) (so_minimum old)"

definition mk_bumped_soa_rdata :: "signer \<Rightarrow> u32 \<Rightarrow> zrec \<Rightarrow> soa_data res" where
  "mk_bumped_soa_rdata A now r = (case z_data r of
     ZSoa old \<Rightarrow> Ok (bump A now old)
   | _ \<Rightarrow> Panic ''unreachable (mk_bumped_soa_rdata)'')"

text \<open>The records with the SOA data of the output, and that data.\<close>

definition process_soa :: "signer \<Rightarrow> sign_args \<Rightarrow> u32 \<Rightarrow> zrec \<Rightarrow> zrec list \<Rightarrow> (zrec list \<times> soa_data) res" where
  "process_soa A args now soa_rr records =
     (if sz_serial_to_epoch args then
        bind_res (mk_bumped_soa_rdata A now soa_rr) (\<lambda>new.
        Ok (sr_update_data A (\<lambda>r. r = soa_rr) (ZSoa new) records, new))
      else (case z_data soa_rr of
          ZSoa old \<Rightarrow> Ok (records, old)
        | _ \<Rightarrow> Panic ''unreachable (execute)''))"

section \<open>Loading the keys\<close>

text \<open>\<open>Path::extension\<close>.\<close>

definition file_name :: "string \<Rightarrow> string" where
  "file_name p = rev (takeWhile (\<lambda>c. c \<noteq> CHR ''/'') (rev p))"

definition path_extension :: "string \<Rightarrow> string option" where
  "path_extension p =
     (let f = file_name p;
          before = rev (drop 1 (dropWhile (\<lambda>c. c \<noteq> CHR ''.'') (rev f)))
      in if CHR ''.'' \<notin> set f \<or> f = ''..'' \<or> before = [] then None
         else Some (rev (takeWhile (\<lambda>c. c \<noteq> CHR ''.'') (rev f))))"

definition mk_public_key_path :: "string \<Rightarrow> string" where
  "mk_public_key_path p = (if path_extension p = Some ''key'' then p else p @ ''.key'')"

definition mk_private_key_path :: "string \<Rightarrow> string" where
  "mk_private_key_path p = (if path_extension p = Some ''private'' then p else p @ ''.private'')"

definition load_private_key :: "signer \<Rightarrow> string \<Rightarrow> (world, string) prog" where
  "load_private_key A path =
     bindP (read_file path (\<lambda>e. with_context (''loading private key from file '' @ path) (''error reading from file: '' @ e))) (\<lambda>text.
     lift_res (map_err (\<lambda>e. ''Unable to parse BIND formatted private key file '' @ path @ '': '' @ e)
       (sx_secret_parse A text)))"

definition load_public_key :: "signer \<Rightarrow> string \<Rightarrow> (world, name \<times> dnskey) prog" where
  "load_public_key A path =
     bindP (read_file path (\<lambda>e. with_context (''loading public key from file '' @ path) (''error reading from file: '' @ e))) (\<lambda>text.
     lift_res (map_err (\<lambda>e. ''Unable to parse BIND formatted public key file '' @ path @ '': '' @ e)
       (sx_parse_from_bind A text)))"

definition mk_signing_key :: "signer \<Rightarrow> name \<Rightarrow> string \<Rightarrow> dnskey \<Rightarrow> string + signing_key" where
  "mk_signing_key A owner private_key public_key =
     (case sx_keypair A private_key public_key of
        Inl e \<Rightarrow> Inl e
      | Inr pair \<Rightarrow> Inr (SigningKey owner (dk_flags public_key) pair))"

fun match_public_key :: "signer \<Rightarrow> string \<Rightarrow> (name \<times> dnskey) list \<Rightarrow> signing_key option" where
  "match_public_key A private_key [] = None"
| "match_public_key A private_key ((owner, d) # found) =
     (case mk_signing_key A owner private_key d of
        Inr k \<Rightarrow> Some k
      | Inl e \<Rightarrow> match_public_key A private_key found)"

definition load_signing_key_at :: "signer \<Rightarrow> name \<Rightarrow> (name \<times> dnskey) list \<Rightarrow> string \<Rightarrow> (world, signing_key) prog" where
  "load_signing_key_at A apex found path =
     (let key_path = sx_in_cwd A path;
          private_key_path = mk_private_key_path key_path;
          public_key_path = mk_public_key_path key_path in
      bindP (load_private_key A (sx_in_cwd A private_key_path)) (\<lambda>private_key.
      (case match_public_key A private_key found of
         Some k \<Rightarrow> ret k
       | None \<Rightarrow>
          bindP (load_public_key A (sx_in_cwd A public_key_path)) (\<lambda>(owner, d).
          if owner \<noteq> apex
          then fail (''Public key owner '' @ owner @ '' does not match zone apex '' @ apex)
          else lift_res (map_err (\<lambda>e. ''Unable to create key pair from '' @ public_key_path
                 @ '' and '' @ private_key_path @ '': '' @ e)
               (mk_signing_key A owner private_key d))))))"

fun dnskeys_of :: "zrec list \<Rightarrow> (name \<times> dnskey) list" where
  "dnskeys_of [] = []"
| "dnskeys_of (r # rs) = (case z_data r of ZDnskey d \<Rightarrow> [(z_owner r, d)] | _ \<Rightarrow> []) @ dnskeys_of rs"

section \<open>The roles of the keys\<close>

text \<open>One key for each algorithm that is not there yet.\<close>

fun add_algorithms :: "signer \<Rightarrow> nat list \<Rightarrow> signing_key list \<Rightarrow> signing_key list" where
  "add_algorithms A algorithms [] = []"
| "add_algorithms A algorithms (k # ks) =
     (if sx_key_algorithm A k \<in> set algorithms then add_algorithms A algorithms ks
      else k # add_algorithms A (sx_key_algorithm A k # algorithms) ks)"

definition unique_algorithms :: "signer \<Rightarrow> signing_key list \<Rightarrow> signing_key list \<Rightarrow> signing_key list" where
  "unique_algorithms A keys extra = keys @ add_algorithms A (map (sx_key_algorithm A) keys) extra"

text \<open>The keys that sign the DNSKEY, CDS and CDNSKEY RRsets and those that sign the zone.\<close>

definition key_roles :: "signer \<Rightarrow> sign_args \<Rightarrow> signing_key list \<Rightarrow> signing_key list \<times> signing_key list" where
  "key_roles A args keys =
     (let ksks = filter (sx_key_sep A) keys; zsks = filter (\<lambda>k. \<not> sx_key_sep A k) keys in
      if ksks = [] then (zsks, zsks)
      else if zsks = [] then (ksks, ksks)
      else
        let ksks1 = (if sz_sign_dnskeys_with_all_keys args then ksks @ zsks else ksks) in
        if sz_every_unique_algorithm args then
          let ksks2 = unique_algorithms A ksks1 zsks in (ksks2, unique_algorithms A zsks ksks2)
        else (ksks1, zsks))"

section \<open>Signatures at the apex\<close>

definition rrset_records :: "zrec list option \<Rightarrow> zrec list" where
  "rrset_records rrset = (case rrset of Some rs \<Rightarrow> rs | None \<Rightarrow> [])"

definition has_dnskey :: "zrec list \<Rightarrow> dnskey \<Rightarrow> bool" where
  "has_dnskey rs d \<longleftrightarrow> list_ex (\<lambda>r. z_data r = ZDnskey d) rs"

text \<open>The DNSKEY records of used keys that the zone lacks.\<close>

definition dnskey_extra ::
  "signer \<Rightarrow> sign_args \<Rightarrow> name \<Rightarrow> nat \<Rightarrow> ttl \<Rightarrow> zrec list option \<Rightarrow> signing_key list \<Rightarrow> zrec list" where
  "dnskey_extra A args apex zone_class new_rr_ttl rrset keys =
     (if sz_do_not_add_keys args then []
      else
        let dnskey_ttl = (case rrset of Some rs \<Rightarrow> z_ttl (hd rs) | None \<Rightarrow> new_rr_ttl) in
        map (\<lambda>k. ZRec apex zone_class dnskey_ttl (ZDnskey (sx_key_dnskey A k)))
          (filter (\<lambda>k. \<not> has_dnskey (rrset_records rrset) (sx_key_dnskey A k)) keys))"

definition rrsig_record :: "name \<times> nat \<times> ttl \<times> rrsig \<Rightarrow> zrec" where
  "rrsig_record s = (case s of (owner, class, ttl, sig) \<Rightarrow> ZRec owner class ttl (ZRrsig sig))"

fun sign_with :: "signer \<Rightarrow> sign_args \<Rightarrow> zrec list \<Rightarrow> signing_key list \<Rightarrow> zrec list res" where
  "sign_with A args rrset [] = Ok []"
| "sign_with A args rrset (k # ks) =
     (case sx_sign_rrset A k rrset (sz_inception args) (sz_expiration args) of
        Inl e \<Rightarrow> Panic ''should not fail (sign_rrset)''
      | Inr s \<Rightarrow> bind_res (sign_with A args rrset ks) (\<lambda>rs. Ok (rrsig_record s # rs)))"

definition sign_option :: "signer \<Rightarrow> sign_args \<Rightarrow> zrec list option \<Rightarrow> signing_key list \<Rightarrow> zrec list res" where
  "sign_option A args rrset keys = (case rrset of Some rs \<Rightarrow> sign_with A args rs keys | None \<Rightarrow> Ok [])"

fun insert_all :: "signer \<Rightarrow> zrec list \<Rightarrow> zrec list \<Rightarrow> zrec list res" where
  "insert_all A [] records = Ok records"
| "insert_all A (r # rs) records =
     (case sr_insert A r records of
        Some records' \<Rightarrow> insert_all A rs records'
      | None \<Rightarrow> Panic ''should not fail (insert)'')"

definition sign_apex ::
  "signer \<Rightarrow> sign_args \<Rightarrow> name \<Rightarrow> nat \<Rightarrow> ttl \<Rightarrow> zrec list \<Rightarrow> signing_key list \<Rightarrow> zrec list res" where
  "sign_apex A args apex zone_class new_rr_ttl records keys =
     (let dnskey_rrset = sr_find_apex_rtype A apex RT_DNSKEY records;
          cds_rrset = sr_find_apex_rtype A apex RT_CDS records;
          cdnskey_rrset = sr_find_apex_rtype A apex RT_CDNSKEY records;
          ksks = fst (key_roles A args keys);
          extra = dnskey_extra A args apex zone_class new_rr_ttl dnskey_rrset keys;
          all_dnskeys = rrset_records dnskey_rrset @ extra
      in bind_res (if sx_rrset_ok A all_dnskeys then sign_with A args all_dnskeys ksks else Ok []) (\<lambda>dnskey_rrsigs.
         bind_res (sign_option A args cds_rrset ksks) (\<lambda>cds_rrsigs.
         bind_res (sign_option A args cdnskey_rrset ksks) (\<lambda>cdnskey_rrsigs.
         bind_res (insert_all A extra records) (\<lambda>records1.
         bind_res (insert_all A dnskey_rrsigs records1) (\<lambda>records2.
         insert_all A (cds_rrsigs @ cdnskey_rrsigs) records2))))))"

text \<open>The signed apex and the keys that sign the zone.\<close>

definition use_keys ::
  "signer \<Rightarrow> sign_args \<Rightarrow> signing_mode \<Rightarrow> name \<Rightarrow> nat \<Rightarrow> ttl \<Rightarrow> zrec list \<Rightarrow>
     (world, zrec list \<times> signing_key list) prog" where
  "use_keys A args mode apex zone_class new_rr_ttl records =
     (if mode = HashAndSign then
        let found = dnskeys_of (rrset_records (sr_find_apex_rtype A apex RT_DNSKEY records)) in
        bindP (collectP (sz_key_paths args) (load_signing_key_at A apex found)) (\<lambda>keys.
        bindP (lift_res (sign_apex A args apex zone_class new_rr_ttl records keys)) (\<lambda>records'.
        ret (records', snd (key_roles A args keys))))
      else ret (records, []))"

section \<open>NSEC3 hashes\<close>

text \<open>From a hashed owner name to the name and whether it is an empty non-terminal.\<close>

type_synonym hash_map = "(name \<times> name \<times> bool) list"

definition nsec3_owner :: "signer \<Rightarrow> sign_args \<Rightarrow> name \<Rightarrow> name \<Rightarrow> name res" where
  "nsec3_owner A args apex n =
     map_err (\<lambda>e. ''NSEC3 error: '' @ e)
       (sx_nsec3_owner A n (sz_algorithm args) (sz_iterations args) (sz_salt args) apex)"

fun hash_ents :: "signer \<Rightarrow> sign_args \<Rightarrow> name \<Rightarrow> name \<Rightarrow> name list \<Rightarrow> hash_map \<Rightarrow> hash_map res" where
  "hash_ents A args apex owner [] m = Ok m"
| "hash_ents A args apex owner (suffix # ss) m =
     (if suffix = owner then hash_ents A args apex owner ss m
      else if suffix = apex then Ok m
      else bind_res (nsec3_owner A args apex suffix) (\<lambda>h.
        if map_of m h \<noteq> None then Ok m
        else hash_ents A args apex owner ss (hm_insert h (suffix, True) m)))"

fun hash_names ::
  "signer \<Rightarrow> sign_args \<Rightarrow> name \<Rightarrow> (name \<times> rtype) list \<Rightarrow> name option \<Rightarrow> name option \<Rightarrow> hash_map \<Rightarrow> hash_map res" where
  "hash_names A args apex [] prev delegation m = Ok m"
| "hash_names A args apex ((owner, t) # rrsets) prev delegation m =
     (if prev = Some owner then
        hash_names A args apex rrsets prev
          (if t = RT_NS \<and> owner \<noteq> apex then Some owner else delegation) m
      else if (case delegation of Some d \<Rightarrow> owner \<noteq> d \<and> sx_ends_with A owner d | None \<Rightarrow> False) then
        hash_names A args apex rrsets prev delegation m
      else
        let delegation1 = (case delegation of Some d \<Rightarrow> if owner \<noteq> d then None else Some d | None \<Rightarrow> None);
            delegation2 = (if t = RT_NS \<and> owner \<noteq> apex then Some owner else delegation1)
        in if t = RT_NS \<and> owner \<noteq> apex \<and> sz_opt_out args then
             hash_names A args apex rrsets None delegation2 m
           else
             bind_res (nsec3_owner A args apex owner) (\<lambda>h.
             let m1 = hm_insert h (owner, False) m in
             bind_res (if owner = apex then Ok m1
                       else hash_ents A args apex owner (sx_suffixes A owner) m1) (\<lambda>m2.
             hash_names A args apex rrsets (Some owner) delegation2 m2)))"

definition rrset_key :: "zrec list \<Rightarrow> name \<times> rtype" where
  "rrset_key s = (z_owner (hd s), z_rtype (hd s))"

definition nsec3_hashes :: "signer \<Rightarrow> sign_args \<Rightarrow> name \<Rightarrow> zrec list \<Rightarrow> hash_map option res" where
  "nsec3_hashes A args apex records =
     (if sz_use_nsec3 args \<and> (sz_extra_comments args \<or> sz_hash_list args \<or> sz_order_nsec3 args)
      then bind_res (hash_names A args apex (map rrset_key (sr_rrsets A records)) None None []) (\<lambda>m. Ok (Some m))
      else Ok None)"

section \<open>Signing\<close>

definition nsec3_config_of :: "sign_args \<Rightarrow> nsec3_config" where
  "nsec3_config_of args =
     (let c = Nsec3ConfigNew (sz_algorithm args) (sz_iterations args) (sz_salt args);
          c1 = (if sz_opt_out args then WithOptOut c
                else if sz_opt_out_flags_only args then WithoutExcludingUnsignedDelegations (WithOptOut c)
                else c)
      in if sz_as_ldns args then WithTtlModeFixed 3600 c1 else c1)"

definition signing_config_of :: "sign_args \<Rightarrow> signing_mode \<Rightarrow> signing_config" where
  "signing_config_of args mode =
     \<lparr>sc_denial =
        (if mode = NoSigning then DenialAlreadyPresent
         else if sz_use_nsec3 args then DenialNsec3 (nsec3_config_of args)
         else DenialNsec),
      sc_inception = sz_inception args, sc_expiration = sz_expiration args\<rparr>"

section \<open>ZONEMD\<close>

definition insert_if_new :: "signer \<Rightarrow> zrec \<Rightarrow> zrec list \<Rightarrow> zrec list" where
  "insert_if_new A r records = (case sr_insert A r records of Some rs \<Rightarrow> rs | None \<Rightarrow> records)"

definition replace_apex_zonemd_with_placeholder ::
  "signer \<Rightarrow> name \<Rightarrow> nat \<Rightarrow> u32 \<Rightarrow> ttl \<Rightarrow> zrec list \<Rightarrow> zrec list" where
  "replace_apex_zonemd_with_placeholder A apex zone_class serial ttl records =
     insert_if_new A (ZRec apex zone_class ttl (ZZonemd (ZonemdFields serial 0 0 [])))
       (sr_remove_all A apex RT_ZONEMD records)"

definition covers :: "rtype \<Rightarrow> zrec \<Rightarrow> bool" where
  "covers t r = (case z_data r of ZRrsig s \<Rightarrow> sig_type_covered s = t | _ \<Rightarrow> False)"

text \<open>The records at the apex that the digest leaves out.\<close>

definition zonemd_skipped :: "name \<Rightarrow> zrec \<Rightarrow> bool" where
  "zonemd_skipped apex r \<longleftrightarrow>
     (z_rtype r = RT_ZONEMD \<and> z_owner r = apex) \<or>
     (z_rtype r = RT_RRSIG \<and> z_owner r = apex \<and> covers RT_ZONEMD r)"

definition digested_records :: "signer \<Rightarrow> name \<Rightarrow> zrec list \<Rightarrow> zrec list" where
  "digested_records A apex records =
     filter (\<lambda>r. \<not> zonemd_skipped apex r) (concat (filter (sr_in_zone A apex) (sr_owner_rrs A records)))"

definition create_zonemd_digest_simple :: "signer \<Rightarrow> name \<Rightarrow> zrec list \<Rightarrow> nat \<Rightarrow> string res" where
  "create_zonemd_digest_simple A apex records alg =
     (let input = concat (map (sx_compose_canonical A) (digested_records A apex records)) in
      if alg = ZONEMD_SHA384 then Ok (sx_sha384 A input)
      else if alg = ZONEMD_SHA512 then Ok (sx_sha512 A input)
      else Err ''unsupported zonemd hash algorithm'')"

fun create_zonemd_digest_and_records ::
  "signer \<Rightarrow> zrec list \<Rightarrow> name \<Rightarrow> nat \<Rightarrow> (nat \<times> nat) list \<Rightarrow> u32 \<Rightarrow> ttl \<Rightarrow> zrec list res" where
  "create_zonemd_digest_and_records A records apex zone_class [] serial ttl = Ok []"
| "create_zonemd_digest_and_records A records apex zone_class ((scheme, alg) # zs) serial ttl =
     (if scheme \<noteq> ZONEMD_SIMPLE then Err ''unsupported zonemd scheme (only SIMPLE is supported)''
      else
        bind_res (create_zonemd_digest_simple A apex records alg) (\<lambda>digest.
        bind_res (create_zonemd_digest_and_records A records apex zone_class zs serial ttl) (\<lambda>rs.
        Ok (ZRec apex zone_class ttl (ZZonemd (ZonemdFields serial scheme alg digest)) # rs))))"

definition zonemd_rrsig :: "name \<Rightarrow> zrec \<Rightarrow> bool" where
  "zonemd_rrsig apex r \<longleftrightarrow> z_owner r = apex \<and> covers RT_ZONEMD r"

definition update_zonemd_rrsig ::
  "signer \<Rightarrow> sign_args \<Rightarrow> name \<Rightarrow> zrec list \<Rightarrow> signing_key list \<Rightarrow> zrec list \<Rightarrow> zrec list res" where
  "update_zonemd_rrsig A args apex records keys zonemd_rrs =
     (if zonemd_rrs = [] then Ok records
      else if \<not> sx_rrset_ok A zonemd_rrs then Panic ''zonemd_rrs is not empty so new should not fail''
      else
        bind_res (map_err (\<lambda>e. ''ZONEMD re-signing error: '' @ e)
           (sx_rrset_sign A apex keys zonemd_rrs (sz_inception args) (sz_expiration args))) (\<lambda>sigs.
        if sigs = [] then Panic ''unwrap (update_zonemd_rrsig)''
        else Ok (sr_update_data A (zonemd_rrsig apex) (ZRrsig (last sigs)) records)))"

definition insert_zonemds :: "signer \<Rightarrow> zrec list \<Rightarrow> zrec list \<Rightarrow> zrec list" where
  "insert_zonemds A zonemds records = foldl (\<lambda>rs r. insert_if_new A r rs) records zonemds"

text \<open>The digests replace the placeholder and are signed again.\<close>

definition finish_zonemd ::
  "signer \<Rightarrow> sign_args \<Rightarrow> signing_mode \<Rightarrow> name \<Rightarrow> nat \<Rightarrow> u32 \<Rightarrow> ttl \<Rightarrow> signing_key list \<Rightarrow>
     (nat \<times> nat) list \<Rightarrow> zrec list \<Rightarrow> zrec list res" where
  "finish_zonemd A args mode apex zone_class serial ttl zsks zonemd records =
     (let records1 = sr_remove_first A apex RT_ZONEMD records in
      bind_res (create_zonemd_digest_and_records A records1 apex zone_class zonemd serial ttl) (\<lambda>rrs.
      let records2 = insert_zonemds A rrs records1 in
      if mode = HashAndSign then update_zonemd_rrsig A args apex records2 zsks rrs
      else Ok records2))"

text \<open>What follows the keys: the placeholder, the hashes for the output, signing and ZONEMD.\<close>

definition sign_records ::
  "signer \<Rightarrow> sign_args \<Rightarrow> signing_mode \<Rightarrow> name \<Rightarrow> nat \<Rightarrow> u32 \<Rightarrow> ttl \<Rightarrow> signing_key list \<Rightarrow>
     zrec list \<Rightarrow> (zrec list \<times> hash_map option) res" where
  "sign_records A args mode apex zone_class serial ttl zsks records =
     (let zonemd = sx_set_order A (sz_zonemd args);
          records1 = (if zonemd \<noteq> [] then replace_apex_zonemd_with_placeholder A apex zone_class serial ttl records
                      else records)
      in bind_res (nsec3_hashes A args apex records1) (\<lambda>hashes.
         bind_res (map_err (\<lambda>e. ''Signing failed: '' @ e)
            (sr_sign_zone A apex (signing_config_of args mode) zsks records1)) (\<lambda>signed.
         bind_res (if zonemd \<noteq> [] then finish_zonemd A args mode apex zone_class serial ttl zsks zonemd signed
                   else Ok signed) (\<lambda>final.
         Ok (final, hashes)))))"

end
