(* ===== verification/Sign_Output.thy ===== *)
theory Sign_Output
  imports Sign_Zone
begin

text \<open>
  The output of \<open>dnst signzone\<close> (src/commands/signzone.rs): the order of the records, the
  comments, the buffered file and the whole command.
\<close>

section \<open>A buffered file\<close>

text \<open>
  \<open>BufWriter<File>\<close>: texts collect in a buffer that is written out when the next one does
  not fit; what is left is written when the writer is dropped, and an error is ignored then.
\<close>

definition BUF_CAPACITY :: nat where
  "BUF_CAPACITY = 8192"

definition fs_append :: "string \<Rightarrow> string \<Rightarrow> world \<Rightarrow> (string + unit) \<times> world" where
  "fs_append p d w = fs_write_all p ((case w_files w p of Some c \<Rightarrow> c | None \<Rightarrow> []) @ d) w"

definition flush_buf :: "string \<Rightarrow> string \<Rightarrow> world \<Rightarrow> (string + unit) \<times> world" where
  "flush_buf p buf w = (if buf = [] then (Inr (), w) else fs_append p buf w)"

definition buf_write_all :: "string \<Rightarrow> string \<Rightarrow> string \<times> world \<Rightarrow> (string + unit) \<times> string \<times> world" where
  "buf_write_all p d s = (case s of (buf, w) \<Rightarrow>
     if length d < BUF_CAPACITY - length buf then (Inr (), buf @ d, w)
     else (case (if length d > BUF_CAPACITY - length buf then flush_buf p buf w else (Inr (), w)) of
         (Inl e, w') \<Rightarrow> (Inl e, buf, w')
       | (Inr u, w') \<Rightarrow>
           let buf' = (if length d > BUF_CAPACITY - length buf then [] else buf) in
           if length d \<ge> BUF_CAPACITY
           then (case fs_append p d w' of (r, w'') \<Rightarrow> (r, buf', w''))
           else (Inr (), buf' @ d, w')))"

definition drop_writer :: "string \<Rightarrow> string \<times> world \<Rightarrow> world" where
  "drop_writer p s = (case s of (buf, w) \<Rightarrow> snd (flush_buf p buf w))"

section \<open>Comments\<close>

text \<open>What is written piece by piece; \<open>Fails\<close> is a printer that returns \<open>fmt::Error\<close>.\<close>

datatype chunk = Line zrec | Text string | Fails

definition dnskey_comment :: "signer \<Rightarrow> dnskey \<Rightarrow> chunk list" where
  "dnskey_comment A d =
     Text ('' ;{id = '' @ show_nat (unat (sx_dnskey_tag A d)))
     # Text (if sx_dnskey_sep A d then '' (ksk)'' else if sx_dnskey_zone_key A d then '' (zsk)'' else '''')
     # (case sx_dnskey_size A d of
          Inl e \<Rightarrow> [Fails]
        | Inr n \<Rightarrow> [Text ('', size = '' @ show_nat n @ ''b}'')])"

definition hash_name :: "hash_map \<Rightarrow> name \<Rightarrow> name option" where
  "hash_name m h = map_option fst (map_of m h)"

definition get_if_ent :: "hash_map \<Rightarrow> name \<Rightarrow> name option" where
  "get_if_ent m h = (case map_of m h of Some (n, True) \<Rightarrow> Some n | _ \<Rightarrow> None)"

definition next_owner_hash_to_name :: "signer \<Rightarrow> string \<Rightarrow> name \<Rightarrow> name option" where
  "next_owner_hash_to_name A h apex =
     Option.bind (sx_append_chars A h) (\<lambda>builder. sx_append_origin A builder apex)"

definition nsec3_comment :: "signer \<Rightarrow> hash_map option \<Rightarrow> name \<Rightarrow> zrec \<Rightarrow> nsec3 \<Rightarrow> chunk list" where
  "nsec3_comment A hashes apex r n =
     [Text ''  ;{ flags: '', Text (if n3_opt_out n then ''optout'' else ''-'')]
     @ (case hashes of
          None \<Rightarrow> []
        | Some m \<Rightarrow>
           (let from = map_option (sx_fmt_with_dot A) (hash_name m (z_owner r));
                to = map_option (sx_fmt_with_dot A)
                  (Option.bind (next_owner_hash_to_name A (n3_next_owner n) apex) (hash_name m))
            in case (from, to) of
                 (None, _) \<Rightarrow> [Text '', from: <internal error>, to: <internal error>'']
               | (Some f, None) \<Rightarrow> [Text ('', from: '' @ f @ '', to: <unknown hash: '' @ n3_next_owner n @ ''>'')]
               | (Some f, Some t) \<Rightarrow> [Text ('', from: '' @ f @ '', to: '' @ t)]))
     @ [Text ''}'']"

section \<open>The order of the records\<close>

definition newline :: string where "newline = [CHR 0x0A]"

definition writeln_rr :: "zrec \<Rightarrow> chunk list" where
  "writeln_rr r = [Line r, Text newline]"

text \<open>RRSIG data with readable dates, and NSEC3 data as ldns prints it.\<close>

definition rrsig_items :: "signer \<Rightarrow> rrsig \<Rightarrow> zonefile_item list" where
  "rrsig_items A s =
     [Shown (sx_show_type A (sig_type_covered s)),
      Shown (sx_show_algorithm A (sig_algorithm s)),
      Token (show_nat (sx_rrsig_labels A s)), Remark ''labels'',
      Shown (sx_show_ttl A (sx_rrsig_original_ttl A s)), Remark ''original ttl'',
      Token (sx_date_text A (sig_expiration s)), Remark ''expiration'',
      Token (sx_date_text A (sig_inception s)), Remark ''inception'',
      Token (show_nat (unat (sig_key_tag s))), Remark ''key tag'',
      Token (sx_fmt_with_dot A (sx_rrsig_signer A s)), Remark ''signer name'',
      Token (sx_base64 A (sig_signature s))]"

definition nsec3_items :: "signer \<Rightarrow> nsec3 \<Rightarrow> zonefile_item list" where
  "nsec3_items A n =
     [Shown (sx_show_algorithm A (sx_nsec3_algorithm A n)),
      Token (show_nat (sx_nsec3_flags A n)),
      Remark (''flags: '' @ (if n3_opt_out n then ''opt-out'' else ''<none>'')),
      Token (show_nat (sx_nsec3_iterations A n)), Remark ''iterations'',
      Shown (sx_nsec3_salt A n),
      Token ('' '' @ to_lowercase (n3_next_owner n)),
      Shown (sx_nsec3_types A n),
      Token []]"

definition write_rr :: "signer \<Rightarrow> sign_args \<Rightarrow> zrec \<Rightarrow> string" where
  "write_rr A args r =
     (case z_data r of
        ZRrsig s \<Rightarrow> if sz_rrsig_dates args then sx_display A r (rrsig_items A s) else sx_show_record A r
      | ZNsec3 n \<Rightarrow> if sz_as_ldns args then sx_display A r (nsec3_items A n) else sx_show_record A r
      | _ \<Rightarrow> sx_show_record A r)"

text \<open>
  The order of groups of one owner: by the unhashed owner name, hashed names after the
  names they stand for.
\<close>

definition owner_order :: "signer \<Rightarrow> hash_map \<Rightarrow> zrec list \<Rightarrow> zrec list \<Rightarrow> int" where
  "owner_order A m a b =
     (let ha = hash_name m (z_owner (hd a)); hb = hash_name m (z_owner (hd b));
          ua = (case ha of Some n \<Rightarrow> n | None \<Rightarrow> z_owner (hd a));
          ub = (case hb of Some n \<Rightarrow> n | None \<Rightarrow> z_owner (hd b));
          c = sx_name_cmp A ua ub
      in if c \<noteq> 0 then c
         else if ha \<noteq> None \<and> hb = None then 1
         else if ha = None \<and> hb \<noteq> None then -1
         else 0)"

definition owner_groups :: "signer \<Rightarrow> sign_args \<Rightarrow> hash_map option \<Rightarrow> zrec list \<Rightarrow> zrec list list" where
  "owner_groups A args hashes records =
     (case hashes of
        Some m \<Rightarrow> if sz_order_nsec3 args then sr_par_sort A (owner_order A m) (sr_owner_rrs A records)
          else sr_owner_rrs A records
      | None \<Rightarrow> sr_owner_rrs A records)"

definition header_chunks :: "signer \<Rightarrow> sign_args \<Rightarrow> hash_map option \<Rightarrow> name \<Rightarrow> chunk list" where
  "header_chunks A args hashes apex =
     (if sz_extra_comments args then [Text ('';; Zone: '' @ sx_fmt_with_dot A apex @ newline @ '';'' @ newline)] else [])
     @ (case hashes of
          Some m \<Rightarrow> if sz_hash_list args
            then map (\<lambda>(h, n, _). Text (''; H('' @ n @ '') = '' @ h @ newline)) (sx_sort_hashes A m)
            else []
        | None \<Rightarrow> [])"

definition soa_chunks :: "sign_args \<Rightarrow> zrec list \<Rightarrow> chunk list" where
  "soa_chunks args records =
     (case List.find (\<lambda>r. z_rtype r = RT_SOA) records of
        None \<Rightarrow> []
      | Some soa \<Rightarrow> writeln_rr soa
          @ (if sz_order_rrsigs args
             then concat (map writeln_rr (filter (covers RT_SOA) records))
               @ (if sz_extra_comments args then [Text ('';'' @ newline)] else [])
             else []))"

definition set_type :: "zrec list \<Rightarrow> rtype" where
  "set_type s = z_rtype (hd s)"

text \<open>A record in the ordered layout, with its comment.\<close>

definition commented_rr :: "signer \<Rightarrow> sign_args \<Rightarrow> hash_map option \<Rightarrow> name \<Rightarrow> zrec \<Rightarrow> chunk list" where
  "commented_rr A args hashes apex r =
     Line r # (case z_data r of
        ZNsec3 n \<Rightarrow> if sz_extra_comments args then nsec3_comment A hashes apex r n else []
      | ZDnskey d \<Rightarrow> dnskey_comment A d
      | _ \<Rightarrow> []) @ [Text newline]"

definition withheld :: "sign_args \<Rightarrow> name \<Rightarrow> zrec list \<Rightarrow> bool" where
  "withheld args apex s \<longleftrightarrow> sz_as_ldns args \<and> set_type s = RT_NSEC \<and> z_owner (hd s) = apex"

text \<open>The signatures at this owner over one of its RRsets.\<close>

definition covering_rrsigs :: "signer \<Rightarrow> sign_args \<Rightarrow> name \<Rightarrow> zrec list list \<Rightarrow> rtype \<Rightarrow> zrec list" where
  "covering_rrsigs A args apex sets t =
     concat (map (filter (\<lambda>r. covers t r \<and> \<not> (sz_as_ldns args \<and> z_owner r = apex \<and> t = RT_NSEC)))
       (filter (\<lambda>s. set_type s = RT_RRSIG) sets))"

definition set_chunks ::
  "signer \<Rightarrow> sign_args \<Rightarrow> hash_map option \<Rightarrow> name \<Rightarrow> zrec list list \<Rightarrow> zrec list \<Rightarrow> chunk list" where
  "set_chunks A args hashes apex sets s =
     (if set_type s \<in> {RT_SOA, RT_RRSIG} \<or> withheld args apex s then []
      else concat (map (commented_rr A args hashes apex) s)
        @ concat (map writeln_rr (covering_rrsigs A args apex sets (set_type s))))"

text \<open>The NSEC record of the apex and its signature, in the place of \<open>ldns-signzone\<close>.\<close>

definition apex_nsec_chunks :: "sign_args \<Rightarrow> name \<Rightarrow> zrec list list \<Rightarrow> zrec list \<Rightarrow> chunk list" where
  "apex_nsec_chunks args apex sets g =
     (if sz_as_ldns args \<and> \<not> sz_use_nsec3 args \<and> z_owner (hd g) = apex then
        (case List.find (\<lambda>s. set_type s = RT_NSEC) sets of
           Some s \<Rightarrow> writeln_rr (hd s) | None \<Rightarrow> [])
        @ (case List.find (\<lambda>s. set_type s = RT_RRSIG) sets of
             Some s \<Rightarrow> (case List.find (covers RT_NSEC) s of Some r \<Rightarrow> writeln_rr r | None \<Rightarrow> [])
           | None \<Rightarrow> [])
      else [])"

definition ordered_owner_chunks ::
  "signer \<Rightarrow> sign_args \<Rightarrow> hash_map option \<Rightarrow> name \<Rightarrow> zrec list \<Rightarrow> chunk list" where
  "ordered_owner_chunks A args hashes apex g =
     (let sets = sr_rrsets A g in
      concat (map (set_chunks A args hashes apex sets) sets)
      @ apex_nsec_chunks args apex sets g
      @ (if sz_extra_comments args then [Text ('';'' @ newline)] else []))"

definition plain_rr :: "signer \<Rightarrow> sign_args \<Rightarrow> zrec \<Rightarrow> chunk list" where
  "plain_rr A args r =
     Line r # (case z_data r of ZDnskey d \<Rightarrow> if sz_as_ldns args then dnskey_comment A d else [] | _ \<Rightarrow> [])
     @ [Text newline]"

definition plain_owner_chunks :: "signer \<Rightarrow> sign_args \<Rightarrow> zrec list \<Rightarrow> chunk list" where
  "plain_owner_chunks A args g =
     concat (map (\<lambda>s. concat (map (plain_rr A args) s))
       (filter (\<lambda>s. set_type s \<noteq> RT_SOA) (sr_rrsets A g)))"

definition owner_chunks ::
  "signer \<Rightarrow> sign_args \<Rightarrow> hash_map option \<Rightarrow> name \<Rightarrow> zrec list \<Rightarrow> chunk list" where
  "owner_chunks A args hashes apex g =
     (if sz_extra_comments args then
        (case hashes of
           Some m \<Rightarrow> (case get_if_ent m (z_owner (hd g)) of
               Some n \<Rightarrow> [Text ('';; Empty nonterminal: '' @ n @ newline)] | None \<Rightarrow> [])
         | None \<Rightarrow> [])
      else [])
     @ (if sz_order_rrsigs args then ordered_owner_chunks A args hashes apex g
        else plain_owner_chunks A args g)"

definition zone_chunks ::
  "signer \<Rightarrow> sign_args \<Rightarrow> hash_map option \<Rightarrow> name \<Rightarrow> zrec list \<Rightarrow> chunk list" where
  "zone_chunks A args hashes apex records =
     header_chunks A args hashes apex
     @ soa_chunks args records
     @ concat (map (owner_chunks A args hashes apex) (owner_groups A args hashes records))"

section \<open>Writing\<close>

fun chunk_text :: "signer \<Rightarrow> sign_args \<Rightarrow> chunk \<Rightarrow> string" where
  "chunk_text A args (Line r) = write_rr A args r"
| "chunk_text A args (Text t) = t"
| "chunk_text A args Fails = []"

definition FMT_ERROR :: string where
  "FMT_ERROR = ''an error occurred when formatting an argument''"

fun write_chunks :: "signer \<Rightarrow> sign_args \<Rightarrow> string \<Rightarrow> chunk list \<Rightarrow> (string \<times> world, unit) prog" where
  "write_chunks A args p [] = ret ()"
| "write_chunks A args p (Fails # cs) = fail FMT_ERROR"
| "write_chunks A args p (c # cs) = (\<lambda>s. case buf_write_all p (chunk_text A args c) s of
      (Inl e, s') \<Rightarrow> (Err FMT_ERROR, s')
    | (Inr u, s') \<Rightarrow> write_chunks A args p cs s')"

text \<open>To a file, which is dropped at the end; to stdout, where writing does not fail.\<close>

definition write_to_file :: "signer \<Rightarrow> sign_args \<Rightarrow> string \<Rightarrow> chunk list \<Rightarrow> (world, unit) prog" where
  "write_to_file A args p cs w =
     (case write_chunks A args p cs ([], w) of (r, s) \<Rightarrow> (r, drop_writer p s))"

definition write_to_stdout :: "signer \<Rightarrow> sign_args \<Rightarrow> chunk list \<Rightarrow> (world, unit) prog" where
  "write_to_stdout A args cs =
     thenP (modify (println (concat (map (chunk_text A args) (takeWhile (\<lambda>c. c \<noteq> Fails) cs)))))
           (if Fails \<in> set cs then fail FMT_ERROR else ret ())"

section \<open>The command\<close>

text \<open>What is known once the keys are used: apex, class, serial, default TTL, records, keys.\<close>

record prepared =
  pr_mode :: signing_mode
  pr_apex :: name
  pr_class :: nat
  pr_serial :: u32
  pr_ttl :: ttl
  pr_records :: "zrec list"
  pr_zsks :: "signing_key list"

definition sign_prepare :: "signer \<Rightarrow> sign_args \<Rightarrow> (world, prepared) prog" where
  "sign_prepare A args =
     bindP (lift_res (signing_mode_of args)) (\<lambda>mode.
     bindP (load_zone A args (sx_in_cwd A (sz_zonefile args))) (\<lambda>loaded.
     bindP (lift_res (find_apex loaded (sz_origin args))) (\<lambda>soa_rr.
     bindP (gets seconds_since_epoch) (\<lambda>now.
     bindP (lift_res (process_soa A args now soa_rr loaded)) (\<lambda>(records, soa).
     bindP (use_keys A args mode (z_owner soa_rr) (z_class soa_rr) (z_ttl soa_rr) records) (\<lambda>(records1, zsks).
     ret \<lparr>pr_mode = mode, pr_apex = z_owner soa_rr, pr_class = z_class soa_rr, pr_serial = so_serial soa,
       pr_ttl = z_ttl soa_rr, pr_records = records1, pr_zsks = zsks\<rparr>))))))"

definition sign_prepared :: "signer \<Rightarrow> sign_args \<Rightarrow> prepared \<Rightarrow> (zrec list \<times> hash_map option) res" where
  "sign_prepared A args p =
     sign_records A args (pr_mode p) (pr_apex p) (pr_class p) (pr_serial p) (pr_ttl p) (pr_zsks p) (pr_records p)"

definition create_output :: "signer \<Rightarrow> string \<Rightarrow> (world, unit) prog" where
  "create_output A out_file =
     (if out_file = ''-'' then ret ()
      else io (fs_create_truncate (sx_in_cwd A out_file))
        (\<lambda>e. ''unable to create file '' @ out_file @ '': '' @ e))"

definition write_output :: "signer \<Rightarrow> sign_args \<Rightarrow> string \<Rightarrow> chunk list \<Rightarrow> (world, unit) prog" where
  "write_output A args out_file cs =
     (if out_file = ''-'' then write_to_stdout A args cs
      else write_to_file A args (sx_in_cwd A out_file) cs)"

text \<open>The warnings about NSEC3 iterations, given before the zone is read.\<close>

definition iterations_text :: "string \<Rightarrow> string" where
  "iterations_text s = s @ [CHR 0x0A] @ ''See: https://www.rfc-editor.org/rfc/rfc9276.html''"

definition extreme_iterations :: string where
  "extreme_iterations =
     ''NSEC3 iterations larger than 500 may cause validating resolvers to return SERVFAIL!''"

definition large_iterations :: string where
  "large_iterations =
     ''NSEC3 iterations larger than 100 may cause validating resolvers to return insecure responses!''"

definition non_zero_iterations :: string where
  "non_zero_iterations =
     ''NSEC3 iterations larger than 0 increases performance cost while providing only moderate protection!''"

definition iterations_warning :: "sign_args \<Rightarrow> string option" where
  "iterations_warning args =
     (if 500 \<le> sz_iterations args then Some (iterations_text extreme_iterations)
      else if 100 \<le> sz_iterations args \<and> sz_as_ldns args then Some (iterations_text large_iterations)
      else if 1 \<le> sz_iterations args \<and> \<not> sz_as_ldns args then Some (iterations_text non_zero_iterations)
      else None)"

lemma iterations_warned_at_limit:
  "sz_iterations args = 500 \<Longrightarrow> iterations_warning args = Some (iterations_text extreme_iterations)"
  "sz_iterations args = 100 \<Longrightarrow> sz_as_ldns args \<Longrightarrow> iterations_warning args = Some (iterations_text large_iterations)"
  by (simp_all add: iterations_warning_def)

definition sign_execute :: "signer \<Rightarrow> sign_args \<Rightarrow> (world, unit) prog" where
  "sign_execute A args =
     bindP (sign_prepare A args) (\<lambda>p.
     thenP (create_output A (out_file_of args))
    (bindP (lift_res (sign_prepared A args p)) (\<lambda>(final, hashes).
     write_output A args (out_file_of args) (zone_chunks A args hashes (pr_apex p) final))))"

end
