(* ===== verification/Sign_Keys_Correct.thy ===== *)
theory Sign_Keys_Correct
  imports Sign_Output
begin

text \<open>
  Correctness of the parts of \<open>dnst signzone\<close> that decide about keys and serials: every
  given key signs, with \<open>-U\<close> every algorithm signs both the keys and the zone, the new
  serial is newer than the old one, and what happens when a key is given twice.
\<close>

section \<open>The roles of the keys\<close>

lemma set_add_algorithms: "set (add_algorithms A algs ks) \<subseteq> set ks"
  by (induction ks arbitrary: algs) auto

lemma add_algorithms_algorithms:
  "set algs \<union> sx_key_algorithm A ` set (add_algorithms A algs ks) = set algs \<union> sx_key_algorithm A ` set ks"
proof (induction ks arbitrary: algs)
  case (Cons k ks)
  show ?case
    using Cons.IH [of algs] Cons.IH [of "sx_key_algorithm A k # algs"] by (auto simp: insert_absorb)
qed simp

lemma add_algorithms_fresh:
  "k \<in> set (add_algorithms A algs ks) \<Longrightarrow> sx_key_algorithm A k \<notin> set algs"
proof (induction ks arbitrary: algs)
  case (Cons a ks)
  from Cons.prems Cons.IH [of algs] Cons.IH [of "sx_key_algorithm A a # algs"] show ?case
    by (auto split: if_splits)
qed simp

lemma distinct_add_algorithms: "distinct ks \<Longrightarrow> distinct (add_algorithms A algs ks)"
  using set_add_algorithms by (induction ks arbitrary: algs) fastforce+

lemma set_unique_algorithms: "set keys \<subseteq> set (unique_algorithms A keys extra)"
  "set (unique_algorithms A keys extra) \<subseteq> set keys \<union> set extra"
  using set_add_algorithms by (fastforce simp: unique_algorithms_def)+

lemma unique_algorithms_in: "k \<in> set (unique_algorithms A keys extra) \<Longrightarrow> k \<in> set keys \<or> k \<in> set extra"
  using set_unique_algorithms(2) by fast

lemma unique_algorithms_algorithms:
  "sx_key_algorithm A ` set (unique_algorithms A keys extra) = sx_key_algorithm A ` (set keys \<union> set extra)"
  using add_algorithms_algorithms [of "map (sx_key_algorithm A) keys" A extra]
  by (auto simp: unique_algorithms_def image_Un)

lemma distinct_unique_algorithms:
  assumes "distinct keys" "distinct extra"
  shows "distinct (unique_algorithms A keys extra)"
proof -
  have "set keys \<inter> set (add_algorithms A (map (sx_key_algorithm A) keys) extra) = {}"
    using add_algorithms_fresh by fastforce
  with assms show ?thesis by (simp add: unique_algorithms_def distinct_add_algorithms)
qed

lemma key_roles_subset:
  assumes "key_roles A args keys = (ksks, zsks)"
  shows "set ksks \<subseteq> set keys" "set zsks \<subseteq> set keys"
  using assms
  by (auto simp: key_roles_def Let_def dest!: unique_algorithms_in split: if_splits)

text \<open>The case of \<open>-U\<close>: both roles are filled up with keys of the missing algorithms.\<close>

lemma unique_roles:
  fixes A keys k z k1
  defines "ksks \<equiv> unique_algorithms A k1 z"
  defines "zsks \<equiv> unique_algorithms A z ksks"
  assumes k1: "set k \<subseteq> set k1" "set k1 \<subseteq> set keys" "distinct k1" and z: "distinct z"
    and all: "set keys = set k \<union> set z"
  shows "sx_key_algorithm A ` set ksks = sx_key_algorithm A ` set keys"
    and "sx_key_algorithm A ` set zsks = sx_key_algorithm A ` set keys"
    and "set k1 \<subseteq> set ksks" and "set z \<subseteq> set zsks" and "distinct ksks" and "distinct zsks"
proof -
  show a: "sx_key_algorithm A ` set ksks = sx_key_algorithm A ` set keys"
    using k1(1,2) unfolding ksks_def unique_algorithms_algorithms all by auto
  show "sx_key_algorithm A ` set zsks = sx_key_algorithm A ` set keys"
    using a unique_algorithms_algorithms [of A z ksks, folded zsks_def, unfolded image_Un] all by auto
  show "set k1 \<subseteq> set ksks" "set z \<subseteq> set zsks"
    unfolding ksks_def zsks_def by (rule set_unique_algorithms(1))+
  show "distinct ksks" "distinct zsks"
    unfolding ksks_def zsks_def using k1 z by (simp_all add: distinct_unique_algorithms)
qed

text \<open>
  Property C13. Every given key signs the DNSKEY RRset or the zone, and neither set of
  signing keys is empty; with -A all keys sign the DNSKEY RRset; with -U both sets use every algorithm of the given keys. No key is listed twice.
\<close>

theorem key_roles_complete:
  assumes roles: "key_roles A args keys = (ksks, zsks)" and keys: "keys \<noteq> []" "distinct keys"
  shows "set ksks \<union> set zsks = set keys \<and> ksks \<noteq> [] \<and> zsks \<noteq> [] \<and> distinct ksks \<and> distinct zsks \<and>
     (sz_sign_dnskeys_with_all_keys args \<longrightarrow> set ksks = set keys) \<and>
     (sz_every_unique_algorithm args \<longrightarrow>
        sx_key_algorithm A ` set ksks = sx_key_algorithm A ` set keys \<and>
        sx_key_algorithm A ` set zsks = sx_key_algorithm A ` set keys)"
proof -
  let ?k = "filter (sx_key_sep A) keys" and ?z = "filter (\<lambda>k. \<not> sx_key_sep A k) keys"
  have all: "set keys = set ?k \<union> set ?z" by auto
  show ?thesis
  proof (cases "?k = [] \<or> ?z = []")
    case True
    have "?k = [] \<Longrightarrow> ?z = keys" "?z = [] \<Longrightarrow> ?k = keys" by (auto simp: filter_empty_conv filter_id_conv)
    with True roles keys show ?thesis
      by (auto simp: key_roles_def Let_def)
  next
    case False
    define k1 where "k1 = (if sz_sign_dnskeys_with_all_keys args then ?k @ ?z else ?k)"
    have k1: "set ?k \<subseteq> set k1" "set k1 \<subseteq> set keys" "distinct k1" "k1 \<noteq> []"
      and whole: "sz_sign_dnskeys_with_all_keys args \<Longrightarrow> set k1 = set keys"
      using keys False by (auto simp: k1_def)
    show ?thesis
    proof (cases "sz_every_unique_algorithm args")
      case True
      have r: "ksks = unique_algorithms A k1 ?z" "zsks = unique_algorithms A ?z (unique_algorithms A k1 ?z)"
        using roles True False unfolding key_roles_def Let_def k1_def by auto
      have sub: "set ksks \<subseteq> set keys" "set zsks \<subseteq> set keys" by (rule key_roles_subset [OF roles])+
      have z: "distinct ?z" using keys by simp
      note filled = unique_roles [OF k1(1-3) z all, where A = A, folded r]
      then have "set ksks \<union> set zsks = set keys" using sub k1(1) all by blast
      moreover have "ksks \<noteq> [] \<and> zsks \<noteq> []" using filled(3,4) k1(4) False by auto
      moreover have "sz_sign_dnskeys_with_all_keys args \<longrightarrow> set ksks = set keys" using whole sub(1) filled(3) by auto
      ultimately show ?thesis using True filled by simp
    next
      case f: False
      with roles False have "ksks = k1" "zsks = ?z" unfolding key_roles_def Let_def k1_def by auto
      with f k1 whole False keys show ?thesis by auto
    qed
  qed
qed

section \<open>The new serial\<close>

text \<open>
  RFC 1982, which the \<open>Serial\<close> of the crate documents: a serial is greater than another one
  if it is less than half the number space ahead.
\<close>

definition serial_laws :: "signer \<Rightarrow> bool" where
  "serial_laws A \<longleftrightarrow>
     (\<forall>a b. sx_serial_gt A a b \<longleftrightarrow> a \<noteq> b \<and> unat (a - b) < 2 ^ 31) \<and>
     (\<forall>a b. sx_serial_add A a b = a + b)"

text \<open>
  Property C39. With \<open>-u\<close> the new serial is newer than the old one, also when it wraps
  around, and it is the current time whenever that is newer.
\<close>

theorem bumped_serial_increases:
  assumes "serial_laws A"
  shows "sx_serial_gt A (bumped_serial A now old) old \<and>
     (sx_serial_gt A now old \<longrightarrow> bumped_serial A now old = now)"
  using assms by (auto simp: serial_laws_def bumped_serial_def)

lemma find_apex_Ok:
  assumes "find_apex records origin = Ok r"
  shows "r \<in> set records" "z_rtype r = RT_SOA" "\<And>n. origin = Some n \<Longrightarrow> z_owner r = n"
  using assms
  by (auto simp: find_apex_def find_Some_iff in_set_conv_nth split: option.splits)

lemma process_soa_total:
  assumes "proper r" and "z_rtype r = RT_SOA"
  shows "\<exists>x. process_soa A args now r records = Ok x"
  using proper_soa [OF assms]
  by (auto simp: process_soa_def mk_bumped_soa_rdata_def)

section \<open>Inserting the keys and signatures\<close>

lemma insert_Some:
  assumes "insert_law A" and "sr_insert A r rs = Some rs'"
  shows "set rs' = insert r (set rs)" "r \<notin> set rs"
proof -
  obtain xs ys where "rs = xs @ ys" "rs' = xs @ r # ys"
    using assms unfolding insert_law_def by blast
  then show "set rs' = insert r (set rs)" by auto
  show "r \<notin> set rs" using assms unfolding insert_law_def by (metis option.discI)
qed

lemma insert_None: "insert_law A \<Longrightarrow> sr_insert A r rs = None \<longleftrightarrow> r \<in> set rs"
  unfolding insert_law_def by blast

text \<open>Insertion of a list succeeds exactly for new and distinct records; otherwise it panics.\<close>

lemma insert_all_iff:
  assumes "insert_law A"
  shows "(\<exists>rs'. insert_all A new rs = Ok rs') \<longleftrightarrow> distinct new \<and> set new \<inter> set rs = {}"
proof (induction new arbitrary: rs)
  case (Cons r new)
  show ?case
  proof (cases "sr_insert A r rs")
    case None
    with insert_None [OF assms, of r rs] have "r \<in> set rs" by simp
    with None show ?thesis by auto
  next
    case (Some rs1)
    with Cons.IH [of rs1] insert_Some [OF assms Some] show ?thesis by auto
  qed
qed simp

lemma insert_all_set:
  assumes "insert_law A"
  shows "insert_all A new rs = Ok rs' \<Longrightarrow> set rs' = set new \<union> set rs"
proof (induction new arbitrary: rs)
  case (Cons r new)
  then obtain rs1 where "sr_insert A r rs = Some rs1" by (auto split: option.splits)
  with Cons insert_Some(1) [OF assms this] show ?case by auto
qed simp

lemma sign_with_Ok:
  assumes "sign_with A args rrset ks = Ok sigs"
  shows "\<forall>k \<in> set ks. \<exists>s. sx_sign_rrset A k rrset (sz_inception args) (sz_expiration args) = Inr s"
    and "set sigs = {rrsig_record s |s k. k \<in> set ks \<and>
      sx_sign_rrset A k rrset (sz_inception args) (sz_expiration args) = Inr s}"
  using assms by (induction ks arbitrary: sigs) (fastforce simp: bind_res_Ok_iff split: sum.splits)+

text \<open>The RRsets at the apex that the key signing keys sign.\<close>

definition apex_sets :: "signer \<Rightarrow> name \<Rightarrow> zrec list \<Rightarrow> zrec list \<Rightarrow> zrec list set" where
  "apex_sets A apex records dnskeys =
     (if sx_rrset_ok A dnskeys then {dnskeys} else {})
     \<union> set_option (sr_find_apex_rtype A apex RT_CDS records)
     \<union> set_option (sr_find_apex_rtype A apex RT_CDNSKEY records)"

lemma sign_option_Ok:
  assumes "sign_option A args rrset ks = Ok sigs"
  shows "\<forall>rs \<in> set_option rrset. \<forall>k \<in> set ks. \<exists>s. sx_sign_rrset A k rs (sz_inception args) (sz_expiration args) = Inr s"
    and "set sigs = {rrsig_record s |s k rs. rs \<in> set_option rrset \<and> k \<in> set ks \<and>
      sx_sign_rrset A k rs (sz_inception args) (sz_expiration args) = Inr s}"
  using assms sign_with_Ok [of A args _ ks sigs] by (auto simp: sign_option_def split: option.splits)

lemma dnskeys_complete:
  assumes "\<not> sz_do_not_add_keys args" "k \<in> set keys"
  shows "ZDnskey (sx_key_dnskey A k) \<in> z_data `
    set (rrset_records rrset @ dnskey_extra A args apex zone_class new_rr_ttl rrset keys)"
proof (cases "has_dnskey (rrset_records rrset) (sx_key_dnskey A k)")
  case True
  then show ?thesis by (force simp: has_dnskey_def list_ex_iff)
next
  case False
  with assms show ?thesis by (force simp: dnskey_extra_def Let_def)
qed


lemma insert_all_no_Err: "insert_all A new rs \<noteq> Err e"
  by (induction new arbitrary: rs) (auto split: option.split)

text \<open>The functions that load keys only read.\<close>

lemma load_signing_key_at_reads: "snd (load_signing_key_at A apex found p w) = w"
proof -
  have "unchanged (\<lambda>w. w) (load_signing_key_at A apex found p)"
    unfolding load_signing_key_at_def Let_def load_private_key_def load_public_key_def
    by (intro unch)
  then show ?thesis by (simp add: unchanged_def)
qed

lemma collectP_readers:
  assumes "\<And>q. q \<in> set qs \<Longrightarrow> f q w = (Ok (g q), w)"
  shows "collectP qs f w = (Ok (map g qs), w)"
  using assms by (induction qs) (simp_all add: bindP_def ret_def)

lemma sign_with_no_Err: "sign_with A args rs ks \<noteq> Err e"
proof (induction ks)
  case (Cons k ks)
  then show ?case by (cases "sign_with A args rs ks") (auto split: sum.split)
qed simp

lemma bind_panic: "is_panic m \<Longrightarrow> is_panic (bind_res m f)"
  by (cases m) auto

lemma bind_later_panic:
  "(\<And>x. is_panic (f x)) \<Longrightarrow> (\<And>e. m \<noteq> Err e) \<Longrightarrow> is_panic (bind_res m f)"
  by (cases m) auto

lemma sign_apex_needs_new_keys:
  assumes law: "insert_law A" and add: "\<not> sz_do_not_add_keys args"
    and dup: "\<not> distinct (map (sx_key_dnskey A) (filter (\<lambda>k. \<not> has_dnskey (rrset_records
       (sr_find_apex_rtype A apex RT_DNSKEY records)) (sx_key_dnskey A k)) keys))"
  shows "is_panic (sign_apex A args apex zone_class new_rr_ttl records keys)"
proof -
  let ?extra = "dnskey_extra A args apex zone_class new_rr_ttl (sr_find_apex_rtype A apex RT_DNSKEY records) keys"
  have "\<not> distinct ?extra"
    using add dup by (auto simp: dnskey_extra_def Let_def distinct_map inj_on_def)
  then have "\<nexists>rs'. insert_all A ?extra records = Ok rs'"
    using insert_all_iff [OF law, of ?extra records] by simp
  then have "is_panic (insert_all A ?extra records)"
    using insert_all_no_Err by (cases "insert_all A ?extra records") auto
  then have stops: "is_panic (bind_res (insert_all A ?extra records) f)" for f :: "zrec list \<Rightarrow> zrec list res"
    by (rule bind_panic)
  show ?thesis
    unfolding sign_apex_def Let_def
    by (rule bind_later_panic, rule bind_later_panic, rule bind_later_panic, rule stops)
      (auto simp: sign_with_no_Err sign_option_def split: option.split)
qed

text \<open>
  A key that is given twice and whose DNSKEY the zone lacks ends the process: its
  record is inserted twice, and the second insertion is expected not to fail.
\<close>

theorem repeated_key_panics:
  fixes found apex records A
  defines "found \<equiv> rrset_records (sr_find_apex_rtype A apex RT_DNSKEY records)"
  assumes law: "insert_law A" and add: "\<not> sz_do_not_add_keys args"
    and paths: "sz_key_paths args = xs @ p # ys @ p # zs"
    and loads: "\<forall>q \<in> set (sz_key_paths args). is_ok (fst (load_signing_key_at A apex (dnskeys_of found) q w))"
    and key: "fst (load_signing_key_at A apex (dnskeys_of found) p w) = Ok k"
    and lacks: "\<not> has_dnskey found (sx_key_dnskey A k)"
  shows "is_panic (fst (use_keys A args HashAndSign apex zone_class new_rr_ttl records w))"
proof -
  let ?load = "load_signing_key_at A apex (dnskeys_of found)"
  define g where "g q = (case fst (?load q w) of Ok k \<Rightarrow> k)" for q
  have load: "?load q w = (Ok (g q), w)" if "q \<in> set (sz_key_paths args)" for q
  proof -
    have "is_ok (fst (?load q w))" using loads that by blast
    then obtain k' where "fst (?load q w) = Ok k'" by (cases "fst (?load q w)") auto
    then show ?thesis
      using load_signing_key_at_reads [of A apex "dnskeys_of found" q w]
      by (cases "?load q w") (simp add: g_def)
  qed
  have keys: "collectP (sz_key_paths args) ?load w = (Ok (map g (sz_key_paths args)), w)"
    by (rule collectP_readers) (rule load)
  have "g p = k" using key by (simp add: g_def)
  then have "\<not> distinct (map (sx_key_dnskey A) (filter (\<lambda>k. \<not> has_dnskey found (sx_key_dnskey A k))
      (map g (sz_key_paths args))))"
    using lacks unfolding paths by simp
  then have "is_panic (sign_apex A args apex zone_class new_rr_ttl records (map g (sz_key_paths args)))"
    by (intro sign_apex_needs_new_keys [OF law add]) (simp add: found_def)
  then show ?thesis
    using keys unfolding use_keys_def found_def
    by (cases "sign_apex A args apex zone_class new_rr_ttl records (map g (sz_key_paths args))")
      (simp_all add: Let_def bindP_def lift_res_def)
qed

end
