(* ===== verification/Zonemd_Correct.thy ===== *)
theory Zonemd_Correct
  imports Sign_Keys_Correct
begin

text \<open>
  The ZONEMD records of \<open>dnst signzone\<close>: the stored digests are the digests of the zone
  that is written, and what becomes of the signatures over them.
\<close>

section \<open>What is digested\<close>

text \<open>\<open>is_in_zone\<close> looks at the owner only.\<close>

definition in_zone_law :: "signer \<Rightarrow> bool" where
  "in_zone_law A \<longleftrightarrow> (\<forall>apex g. g \<noteq> [] \<longrightarrow> sr_in_zone A apex g = sx_ends_with A (z_owner (hd g)) apex)"

text \<open>The signatures over an RRset: one for each key, in their order, of the type of the set.\<close>

definition sign_law :: "signer \<Rightarrow> bool" where
  "sign_law A \<longleftrightarrow> (\<forall>apex keys rs i e sigs. sx_rrset_sign A apex keys rs i e = Inr sigs \<longrightarrow>
     length sigs = length keys \<and> (\<forall>s \<in> set sigs. sig_type_covered s = z_rtype (hd rs)))"

lemma concat_filter_uniform:
  assumes "\<forall>g \<in> set gs. uniform f g" and "\<And>g. g \<noteq> [] \<Longrightarrow> P g = Q (f (hd g))"
  shows "concat (filter P gs) = filter (\<lambda>r. Q (f r)) (concat gs)"
  using assms
proof (induction gs)
  case (Cons g gs)
  then have u: "uniform f g" by simp
  have "Q (f r) = P g" if "r \<in> set g" for r
  proof -
    have "f r = f (hd g)" "g \<noteq> []" using u that unfolding uniform_def by blast+
    with Cons.prems(2) [of g] show ?thesis by simp
  qed
  then have "filter (\<lambda>r. Q (f r)) g = (if P g then g else [])"
    by (auto simp: filter_empty_conv filter_id_conv)
  with Cons show ?case by simp
qed simp

definition zone_laws :: "signer \<Rightarrow> bool" where
  "zone_laws A \<longleftrightarrow> runs_law A \<and> in_zone_law A \<and> insert_law A \<and> update_law A"

lemma zone_lawsD:
  assumes "zone_laws A"
  shows "runs_law A" "in_zone_law A" "insert_law A" "update_law A"
  using assms by (simp_all add: zone_laws_def)

lemma update_data_pairs:
  "zone_laws A \<Longrightarrow> list_all2 (\<lambda>r r'. r' = r \<or> (P r \<and> r' = ZRec (z_owner r) (z_class r) (z_ttl r) d)) rs
     (sr_update_data A P d rs)"
  by (simp add: zone_laws_def update_law_def)

lemma digested_records_eq:
  assumes "zone_laws A"
  shows "digested_records A apex rs =
     filter (\<lambda>r. \<not> zonemd_skipped apex r \<and> sx_ends_with A (z_owner r) apex) rs"
proof -
  have "concat (filter (sr_in_zone A apex) (sr_owner_rrs A rs)) =
      filter (\<lambda>r. sx_ends_with A (z_owner r) apex) (concat (sr_owner_rrs A rs))"
    by (rule concat_filter_uniform [where f = z_owner])
      (use zone_lawsD(1,2) [OF assms] in \<open>simp_all add: runs_law_def in_zone_law_def\<close>)
  also have "concat (sr_owner_rrs A rs) = rs" using zone_lawsD(1) [OF assms] by (simp add: runs_law_def)
  finally show ?thesis by (simp add: digested_records_def conj_commute)
qed

text \<open>Two lists with the same digested records.\<close>

definition same_digest :: "signer \<Rightarrow> name \<Rightarrow> zrec list \<Rightarrow> zrec list \<Rightarrow> bool" where
  "same_digest A apex rs rs' \<longleftrightarrow> digested_records A apex rs = digested_records A apex rs'"

lemma same_digest_simple:
  "same_digest A apex rs rs' \<Longrightarrow>
     create_zonemd_digest_simple A apex rs alg = create_zonemd_digest_simple A apex rs' alg"
  by (simp add: same_digest_def create_zonemd_digest_simple_def)

lemma same_digest_insert:
  assumes laws: "zone_laws A" and "zonemd_skipped apex r"
  shows "same_digest A apex rs (insert_if_new A r rs)"
proof (cases "sr_insert A r rs")
  case (Some rs')
  then obtain xs ys where "rs = xs @ ys" "rs' = xs @ r # ys"
    using zone_lawsD(3) [OF laws] unfolding insert_law_def by blast
  with Some assms(2) show ?thesis
    by (simp add: same_digest_def insert_if_new_def digested_records_eq [OF laws])
qed (simp add: same_digest_def insert_if_new_def)

lemma same_digest_insert_all:
  assumes laws: "zone_laws A" and "\<forall>r \<in> set new. zonemd_skipped apex r"
  shows "same_digest A apex rs (insert_zonemds A new rs)"
  using assms(2)
proof (induction new arbitrary: rs)
  case (Cons r new)
  then have "same_digest A apex rs (insert_if_new A r rs)"
    by (intro same_digest_insert [OF laws]) simp
  moreover have "same_digest A apex (insert_if_new A r rs) (insert_zonemds A new (insert_if_new A r rs))"
    using Cons.prems by (intro Cons.IH) simp
  ultimately show ?case by (simp add: insert_zonemds_def same_digest_def)
qed (simp add: insert_zonemds_def same_digest_def)

lemma same_digest_update:
  assumes laws: "zone_laws A" and old: "\<And>r. P r \<Longrightarrow> zonemd_skipped apex r"
    and new: "\<And>r. P r \<Longrightarrow> zonemd_skipped apex (ZRec (z_owner r) (z_class r) (z_ttl r) d)"
  shows "same_digest A apex rs (sr_update_data A P d rs)"
proof -
  have "filter (\<lambda>r. \<not> zonemd_skipped apex r \<and> Q r) rs =
      filter (\<lambda>r. \<not> zonemd_skipped apex r \<and> Q r) (sr_update_data A P d rs)" for Q
    using update_data_pairs [OF laws, of P d rs]
  proof (induction rule: list_all2_induct)
    case (Cons r rs r' rs')
    then show ?case using old [of r] new [of r] by (elim disjE conjE) simp_all
  qed simp
  then show ?thesis by (simp add: same_digest_def digested_records_eq [OF laws])
qed

lemma insert_if_new_set: "zone_laws A \<Longrightarrow> set (insert_if_new A r rs) = insert r (set rs)"
  using insert_Some(1) [of A r rs] insert_None [of A r rs]
  by (cases "sr_insert A r rs") (auto simp: insert_if_new_def zone_lawsD)

lemma insert_zonemds_set: "zone_laws A \<Longrightarrow> set (insert_zonemds A new rs) = set new \<union> set rs"
proof (induction new arbitrary: rs)
  case (Cons r new)
  then show ?case using insert_if_new_set [of A r rs] by (auto simp: insert_zonemds_def)
qed (simp add: insert_zonemds_def)

lemma update_data_set:
  assumes "zone_laws A"
  shows "r' \<in> set (sr_update_data A P d rs) \<Longrightarrow> r' \<in> set rs \<or> z_data r' = d"
    and "r \<in> set rs \<Longrightarrow> \<not> P r \<Longrightarrow> r \<in> set (sr_update_data A P d rs)"
proof -
  show "r' \<in> set (sr_update_data A P d rs) \<Longrightarrow> r' \<in> set rs \<or> z_data r' = d"
    using update_data_pairs [OF assms, of P d rs] by (induction rule: list_all2_induct) auto
  show "r \<in> set rs \<Longrightarrow> \<not> P r \<Longrightarrow> r \<in> set (sr_update_data A P d rs)"
    using update_data_pairs [OF assms, of P d rs] by (induction rule: list_all2_induct) auto
qed

section \<open>The records that are made\<close>

lemma create_zonemd_records:
  assumes "create_zonemd_digest_and_records A rs apex zone_class zs serial ttl = Ok rrs"
  shows "\<forall>r \<in> set rrs. z_owner r = apex \<and> z_rtype r = RT_ZONEMD"
    and "\<forall>z \<in> set zs. \<exists>d. create_zonemd_digest_simple A apex rs (snd z) = Ok d \<and>
       ZRec apex zone_class ttl (ZZonemd (ZonemdFields serial (fst z) (snd z) d)) \<in> set rrs"
    and "rrs = [] \<longleftrightarrow> zs = []"
proof -
  have "(\<forall>r \<in> set rrs. z_owner r = apex \<and> z_rtype r = RT_ZONEMD) \<and>
     (\<forall>z \<in> set zs. \<exists>d. create_zonemd_digest_simple A apex rs (snd z) = Ok d \<and>
       ZRec apex zone_class ttl (ZZonemd (ZonemdFields serial (fst z) (snd z) d)) \<in> set rrs) \<and>
     (rrs = [] \<longleftrightarrow> zs = [])"
    using assms
  proof (induction zs arbitrary: rrs)
    case (Cons z zs)
    obtain scheme alg where z: "z = (scheme, alg)" by (cases z)
    with Cons.prems obtain d rrs' where
      "scheme = ZONEMD_SIMPLE" "create_zonemd_digest_simple A apex rs alg = Ok d"
      "create_zonemd_digest_and_records A rs apex zone_class zs serial ttl = Ok rrs'"
      "rrs = ZRec apex zone_class ttl (ZZonemd (ZonemdFields serial scheme alg d)) # rrs'"
      by (auto simp: bind_res_Ok_iff split: if_splits)
    with Cons.IH [of rrs'] z show ?case by (auto simp: z_rtype_def)
  qed simp
  then show "\<forall>r \<in> set rrs. z_owner r = apex \<and> z_rtype r = RT_ZONEMD"
    and "\<forall>z \<in> set zs. \<exists>d. create_zonemd_digest_simple A apex rs (snd z) = Ok d \<and>
       ZRec apex zone_class ttl (ZZonemd (ZonemdFields serial (fst z) (snd z) d)) \<in> set rrs"
    and "rrs = [] \<longleftrightarrow> zs = []" by blast+
qed

lemma zonemd_skipped_made: "z_owner r = apex \<Longrightarrow> z_rtype r = RT_ZONEMD \<Longrightarrow> zonemd_skipped apex r"
  by (simp add: zonemd_skipped_def)

lemma covers_rtype: "covers t r \<Longrightarrow> z_rtype r = RT_RRSIG"
  by (auto simp: covers_def z_rtype_def split: zdata.splits)

lemma zonemd_rrsig_skipped: "zonemd_rrsig apex r \<Longrightarrow> zonemd_skipped apex r"
  using covers_rtype by (auto simp: zonemd_rrsig_def zonemd_skipped_def)

lemma update_zonemd_rrsig_Ok:
  assumes "update_zonemd_rrsig A args apex records keys rrs = Ok final" and "rrs \<noteq> []"
  obtains sigs where "sx_rrset_sign A apex keys rrs (sz_inception args) (sz_expiration args) = Inr sigs"
    and "sigs \<noteq> []" and "final = sr_update_data A (zonemd_rrsig apex) (ZRrsig (last sigs)) records"
  using assms by (auto simp: update_zonemd_rrsig_def bind_res_Ok_iff split: if_splits)

text \<open>The steps of \<open>finish_zonemd\<close> that succeeded.\<close>

lemma finish_zonemd_Ok:
  assumes laws: "zone_laws A" "sign_law A" and zs: "zs \<noteq> []"
    and run: "finish_zonemd A args mode apex zone_class serial ttl zsks zs records = Ok final"
  obtains rrs where
    "create_zonemd_digest_and_records A (sr_remove_first A apex RT_ZONEMD records) apex zone_class zs serial ttl = Ok rrs"
    and "same_digest A apex (sr_remove_first A apex RT_ZONEMD records) final" and "set rrs \<subseteq> set final"
proof -
  let ?r1 = "sr_remove_first A apex RT_ZONEMD records"
  obtain rrs where rrs: "create_zonemd_digest_and_records A ?r1 apex zone_class zs serial ttl = Ok rrs"
    and rest: "(if mode = HashAndSign then update_zonemd_rrsig A args apex (insert_zonemds A rrs ?r1) zsks rrs
       else Ok (insert_zonemds A rrs ?r1)) = Ok final"
    using run by (auto simp: finish_zonemd_def Let_def bind_res_Ok_iff)
  note made = create_zonemd_records [OF rrs]
  have ne: "rrs \<noteq> []" using made(3) zs by simp
  have ins: "same_digest A apex ?r1 (insert_zonemds A rrs ?r1)"
    using made(1) by (intro same_digest_insert_all [OF laws(1)]) (auto intro: zonemd_skipped_made)
  have sub: "set rrs \<subseteq> set (insert_zonemds A rrs ?r1)" by (simp add: insert_zonemds_set [OF laws(1)])
  show thesis
  proof (cases "mode = HashAndSign")
    case False
    with rest rrs ins sub that show thesis by simp
  next
    case True
    with rest have upd: "update_zonemd_rrsig A args apex (insert_zonemds A rrs ?r1) zsks rrs = Ok final" by simp
    obtain sigs where sigs: "sx_rrset_sign A apex zsks rrs (sz_inception args) (sz_expiration args) = Inr sigs"
        "sigs \<noteq> []" "final = sr_update_data A (zonemd_rrsig apex) (ZRrsig (last sigs)) (insert_zonemds A rrs ?r1)"
      by (rule update_zonemd_rrsig_Ok [OF upd ne])
    have "sig_type_covered (last sigs) = z_rtype (hd rrs)"
      using laws(2) sigs(1,2) last_in_set unfolding sign_law_def by blast
    then have type: "sig_type_covered (last sigs) = RT_ZONEMD" using made(1) ne by simp
    have "same_digest A apex (insert_zonemds A rrs ?r1) final"
      unfolding sigs(3)
    proof (rule same_digest_update [OF laws(1)])
      fix r assume r: "zonemd_rrsig apex r"
      show "zonemd_skipped apex r" by (rule zonemd_rrsig_skipped [OF r])
      show "zonemd_skipped apex (ZRec (z_owner r) (z_class r) (z_ttl r) (ZRrsig (last sigs)))"
        using r type by (simp add: zonemd_rrsig_def zonemd_skipped_def covers_def z_rtype_def)
    qed
    moreover have "r \<in> set final" if "r \<in> set rrs" for r
    proof -
      have "\<not> zonemd_rrsig apex r"
        using made(1) that covers_rtype by (fastforce simp: zonemd_rrsig_def)
      then show ?thesis unfolding sigs(3) using that sub by (intro update_data_set(2) [OF laws(1)]) auto
    qed
    ultimately show thesis using that rrs ins by (auto simp: same_digest_def)
  qed
qed

text \<open>
  Property C3. For every scheme and hash that was asked for, the zone that is written has a
  ZONEMD record whose digest is the digest of that same zone: computing it again over the
  output, with the stored records and their signatures in place, gives the stored value.
\<close>

theorem zonemd_verifies:
  assumes laws: "zone_laws A" "sign_law A"
    and run: "finish_zonemd A args mode apex zone_class serial ttl zsks zs records = Ok final"
    and asked: "(scheme, alg) \<in> set zs"
  shows "\<exists>digest. ZRec apex zone_class ttl (ZZonemd (ZonemdFields serial scheme alg digest)) \<in> set final \<and>
     create_zonemd_digest_simple A apex final alg = Ok digest"
proof -
  have "zs \<noteq> []" using asked by auto
  from finish_zonemd_Ok [OF laws this run] obtain rrs where
    rrs: "create_zonemd_digest_and_records A (sr_remove_first A apex RT_ZONEMD records) apex zone_class zs serial ttl = Ok rrs"
    and same: "same_digest A apex (sr_remove_first A apex RT_ZONEMD records) final" and sub: "set rrs \<subseteq> set final"
    by blast
  from create_zonemd_records(2) [OF rrs] asked obtain d where
    "create_zonemd_digest_simple A apex (sr_remove_first A apex RT_ZONEMD records) alg = Ok d"
    "ZRec apex zone_class ttl (ZZonemd (ZonemdFields serial scheme alg d)) \<in> set rrs" by fastforce
  with sub same_digest_simple [OF same] show ?thesis by auto
qed

text \<open>
  Only the last key's signature over the ZONEMD records is stored: a signature
  of another key that differs from it is in the output only if it was there before the
  digests were known.
\<close>

theorem zonemd_last_signature:
  assumes laws: "zone_laws A" "sign_law A" and zs: "zs \<noteq> []"
    and run: "finish_zonemd A args HashAndSign apex zone_class serial ttl zsks zs records = Ok final"
  shows "\<exists>rrs sigs.
     create_zonemd_digest_and_records A (sr_remove_first A apex RT_ZONEMD records) apex zone_class zs serial ttl = Ok rrs \<and>
     sx_rrset_sign A apex zsks rrs (sz_inception args) (sz_expiration args) = Inr sigs \<and>
     length sigs = length zsks \<and>
     (\<forall>s \<in> set sigs. s \<noteq> last sigs \<longrightarrow>
        (\<forall>r \<in> set final. z_data r = ZRrsig s \<longrightarrow> r \<in> set (sr_remove_first A apex RT_ZONEMD records)))"
proof -
  let ?r1 = "sr_remove_first A apex RT_ZONEMD records"
  obtain rrs where rrs: "create_zonemd_digest_and_records A ?r1 apex zone_class zs serial ttl = Ok rrs"
    and rest: "update_zonemd_rrsig A args apex (insert_zonemds A rrs ?r1) zsks rrs = Ok final"
    using run by (auto simp: finish_zonemd_def Let_def bind_res_Ok_iff)
  note made = create_zonemd_records [OF rrs]
  have ne: "rrs \<noteq> []" using made(3) zs by simp
  obtain sigs where sigs: "sx_rrset_sign A apex zsks rrs (sz_inception args) (sz_expiration args) = Inr sigs"
      "sigs \<noteq> []" "final = sr_update_data A (zonemd_rrsig apex) (ZRrsig (last sigs)) (insert_zonemds A rrs ?r1)"
    by (rule update_zonemd_rrsig_Ok [OF rest ne])
  have "r \<in> set ?r1" if "s \<noteq> last sigs" "r \<in> set final" "z_data r = ZRrsig s" for s r
  proof -
    have "r \<in> set (insert_zonemds A rrs ?r1)"
      using update_data_set(1) [OF laws(1)] that unfolding sigs(3) by fastforce
    then show ?thesis using made(1) that(3) by (auto simp: insert_zonemds_set [OF laws(1)] z_rtype_def)
  qed
  moreover have "length sigs = length zsks" using laws(2) sigs(1) unfolding sign_law_def by blast
  ultimately show ?thesis using rrs sigs(1) by blast
qed

end
