(* ===== verification/Sign_Command_Correct.thy ===== *)
theory Sign_Command_Correct
  imports Sign_Output_Correct
begin

text \<open>
  The command \<open>dnst signzone\<close> as a whole: what is in the output file after it, and when it
  is not what the exit status promises.
\<close>

section \<open>The buffered file\<close>

definition content :: "world \<Rightarrow> string \<Rightarrow> string" where
  "content w p = (case w_files w p of Some c \<Rightarrow> c | None \<Rightarrow> [])"

text \<open>Writing without failures extends what the file and the buffer hold together.\<close>

lemma fs_append_ok:
  assumes "w_write_fails w p = None"
  shows "fs_append p d w = (Inr (), w\<lparr>w_files := (w_files w)(p \<mapsto> content w p @ d)\<rparr>)"
  using assms by (simp add: fs_append_def fs_write_all_def content_def)

text \<open>States of the buffer and the file that hold the text \<open>t\<close> so far.\<close>

definition holds_text :: "world \<Rightarrow> string \<Rightarrow> string \<Rightarrow> string \<times> world \<Rightarrow> bool" where
  "holds_text w p t s \<longleftrightarrow> (\<exists>c. c @ fst s = t \<and> w_files w p = Some [] \<and> w_write_fails w p = None \<and>
     snd s = w\<lparr>w_files := (w_files w)(p \<mapsto> c)\<rparr>)"

lemma holds_text_start:
  "w_files w p = Some [] \<Longrightarrow> w_write_fails w p = None \<Longrightarrow> holds_text w p [] ([], w)"
  by (simp add: holds_text_def fun_upd_idem)

lemma buf_write_all_ok:
  assumes "holds_text w p t s"
  shows "\<exists>s'. buf_write_all p d s = (Inr (), s') \<and> holds_text w p (t @ d) s'"
proof -
  obtain c buf where s: "s = (buf, w\<lparr>w_files := (w_files w)(p \<mapsto> c)\<rparr>)" and t: "t = c @ buf"
    and w: "w_files w p = Some []" "w_write_fails w p = None"
    using assms by (cases s) (auto simp: holds_text_def)
  have flush: "flush_buf p buf (w\<lparr>w_files := (w_files w)(p \<mapsto> c)\<rparr>) =
      (Inr (), w\<lparr>w_files := (w_files w)(p \<mapsto> c @ buf)\<rparr>)"
    using w by (simp add: flush_buf_def fs_append_ok content_def)
  have append: "fs_append p d (w\<lparr>w_files := (w_files w)(p \<mapsto> x)\<rparr>) =
      (Inr (), w\<lparr>w_files := (w_files w)(p \<mapsto> x @ d)\<rparr>)" for x
    using w by (simp add: fs_append_ok content_def)
  have "buf = []" if "8192 \<le> 8192 - length buf"
    using that by (cases buf) auto
  then show ?thesis
    using w unfolding s t
    by (auto simp: buf_write_all_def flush append holds_text_def Let_def BUF_CAPACITY_def)
qed

lemma drop_writer_ok:
  assumes "holds_text w p t s"
  shows "drop_writer p s = w\<lparr>w_files := (w_files w)(p \<mapsto> t)\<rparr>"
  using assms
  by (cases s) (auto simp: holds_text_def drop_writer_def flush_buf_def fs_append_ok content_def)

definition chunks_text :: "signer \<Rightarrow> sign_args \<Rightarrow> chunk list \<Rightarrow> string" where
  "chunks_text A args cs = concat (map (chunk_text A args) (takeWhile (\<lambda>c. c \<noteq> Fails) cs))"

lemma write_chunks_ok:
  assumes "holds_text w p t s"
  shows "\<exists>r s'. write_chunks A args p cs s = (r, s') \<and> holds_text w p (t @ chunks_text A args cs) s' \<and>
     (r = Ok () \<longleftrightarrow> Fails \<notin> set cs) \<and> (r = Err FMT_ERROR \<longleftrightarrow> Fails \<in> set cs)"
  using assms
proof (induction cs arbitrary: t s)
  case Nil
  then show ?case by (simp add: chunks_text_def ret_def)
next
  case (Cons c cs)
  show ?case
  proof (cases "c = Fails")
    case True
    with Cons.prems show ?thesis by (simp add: chunks_text_def fail_def)
  next
    case False
    obtain s' where s': "buf_write_all p (chunk_text A args c) s = (Inr (), s')"
        "holds_text w p (t @ chunk_text A args c) s'"
      using buf_write_all_ok [OF Cons.prems] by blast
    have "write_chunks A args p (c # cs) s = write_chunks A args p cs s'"
      using False s'(1) by (cases c) simp_all
    moreover have "chunks_text A args (c # cs) = chunk_text A args c @ chunks_text A args cs"
      using False by (simp add: chunks_text_def)
    ultimately show ?thesis using Cons.IH [OF s'(2)] False by auto
  qed
qed

lemma write_to_file_ok:
  assumes "w_files w p = Some []" "w_write_fails w p = None"
  shows "write_to_file A args p cs w =
     (if Fails \<in> set cs then Err FMT_ERROR else Ok (),
      w\<lparr>w_files := (w_files w)(p \<mapsto> chunks_text A args cs)\<rparr>)"
  using write_chunks_ok [OF holds_text_start [OF assms], of A args cs] drop_writer_ok
  by (auto simp: write_to_file_def)

section \<open>A full disk\<close>

lemma buf_write_all_small:
  assumes "length buf + length d < BUF_CAPACITY"
  shows "buf_write_all p d (buf, w) = (Inr (), buf @ d, w)"
proof -
  have "length d < BUF_CAPACITY - length buf" using assms by simp
  then show ?thesis by (simp add: buf_write_all_def)
qed

lemma write_chunks_small:
  assumes "length buf + length (chunks_text A args cs) < BUF_CAPACITY" and "Fails \<notin> set cs"
  shows "write_chunks A args p cs (buf, w) = (Ok (), buf @ chunks_text A args cs, w)"
  using assms
proof (induction cs arbitrary: buf)
  case (Cons c cs)
  then have c: "chunks_text A args (c # cs) = chunk_text A args c @ chunks_text A args cs" "c \<noteq> Fails"
    by (auto simp: chunks_text_def)
  have "write_chunks A args p (c # cs) (buf, w) = write_chunks A args p cs (buf @ chunk_text A args c, w)"
    using Cons.prems(1) c by (cases c) (simp_all add: buf_write_all_small)
  also have "\<dots> = (Ok (), (buf @ chunk_text A args c) @ chunks_text A args cs, w)"
    by (rule Cons.IH) (use Cons.prems c in auto)
  finally show ?case using c by simp
qed (simp add: chunks_text_def ret_def)

lemma write_to_file_full:
  assumes "length (chunks_text A args cs) < BUF_CAPACITY" "Fails \<notin> set cs" "chunks_text A args cs \<noteq> []"
    and "w_files w p = Some []" "w_write_fails w p = Some n"
  shows "write_to_file A args p cs w =
     (Ok (), w\<lparr>w_files := (w_files w)(p \<mapsto> take n (chunks_text A args cs))\<rparr>)"
  using assms write_chunks_small [of "[]" A args cs p w]
  by (simp add: write_to_file_def drop_writer_def flush_buf_def fs_append_def fs_write_all_def)

section \<open>The command\<close>

lemma sign_prepare_reads: "snd (sign_prepare A args w) = w"
proof -
  have keys: "unchanged (\<lambda>w. w) (load_signing_key_at A apex found p)" for apex found p
    by (simp add: unchanged_def load_signing_key_at_reads)
  have "unchanged (\<lambda>w. w) (use_keys A args mode apex zone_class ttl records)" for mode apex zone_class ttl records
    unfolding use_keys_def Let_def by (intro unch keys)
  then have "unchanged (\<lambda>w. w) (sign_prepare A args)"
    unfolding sign_prepare_def load_zone_def by (intro unch) 
  then show ?thesis by (simp add: unchanged_def)
qed

lemma sign_prepare_run: "fst (sign_prepare A args w) = Ok p \<Longrightarrow> sign_prepare A args w = (Ok p, w)"
  using sign_prepare_reads [of A args w] by (cases "sign_prepare A args w") simp

lemma sign_execute_run:
  assumes prep: "fst (sign_prepare A args w) = Ok p"
    and outp: "out_file_of args \<noteq> ''-''" "\<not> w_denied w (sx_in_cwd A (out_file_of args))"
  shows "sign_execute A args w =
     (case sign_prepared A args p of
        Ok (final, hashes) \<Rightarrow>
          write_to_file A args (sx_in_cwd A (out_file_of args)) (zone_chunks A args hashes (pr_apex p) final)
            (w\<lparr>w_files := (w_files w)(sx_in_cwd A (out_file_of args) \<mapsto> [])\<rparr>)
      | Err e \<Rightarrow> (Err e, w\<lparr>w_files := (w_files w)(sx_in_cwd A (out_file_of args) \<mapsto> [])\<rparr>)
      | Panic e \<Rightarrow> (Panic e, w\<lparr>w_files := (w_files w)(sx_in_cwd A (out_file_of args) \<mapsto> [])\<rparr>))"
proof -
  have create: "create_output A (out_file_of args) w =
      (Ok (), w\<lparr>w_files := (w_files w)(sx_in_cwd A (out_file_of args) \<mapsto> [])\<rparr>)"
    using outp by (simp add: create_output_def io_def fs_create_truncate_def)
  show ?thesis
    unfolding sign_execute_def
    using outp(1) sign_prepare_run [OF prep] create
    by (cases "sign_prepared A args p")
      (simp_all add: bindP_def thenP_def lift_res_def write_output_def split: prod.split)
qed

text \<open>Whatever the outcome, no file but the output file changes.\<close>

lemma fs_append_frame: "q \<noteq> p \<Longrightarrow> w_files (snd (fs_append p d w)) q = w_files w q"
  by (simp add: fs_append_def fs_write_all_def split: option.split)

lemma buf_write_all_frame: "q \<noteq> p \<Longrightarrow> w_files (snd (snd (buf_write_all p d (buf, w)))) q = w_files w q"
  using fs_append_frame [of q p buf w] fs_append_frame [of q p d w]
    fs_append_frame [of q p d "snd (fs_append p buf w)"]
  by (auto simp: buf_write_all_def flush_buf_def Let_def split: prod.split sum.split)

lemma write_chunks_frame: "q \<noteq> p \<Longrightarrow> w_files (snd (snd (write_chunks A args p cs (buf, w)))) q = w_files w q"
proof (induction cs arbitrary: buf w)
  case (Cons c cs)
  obtain r buf' w' where wr: "buf_write_all p (chunk_text A args c) (buf, w) = (r, buf', w')"
    by (cases "buf_write_all p (chunk_text A args c) (buf, w)")
  then have "w_files w' q = w_files w q" using buf_write_all_frame [OF Cons.prems] by (metis snd_conv)
  with wr Cons show ?case by (cases c) (auto simp: fail_def split: sum.split)
qed (simp add: ret_def)

lemma write_to_file_frame: "q \<noteq> p \<Longrightarrow> w_files (snd (write_to_file A args p cs w)) q = w_files w q"
  using write_chunks_frame [of q p A args cs "[]" w] fs_append_frame [of q p]
  by (auto simp: write_to_file_def drop_writer_def flush_buf_def split: prod.split)

lemma sign_execute_frame:
  assumes "out_file_of args = ''-'' \<or> q \<noteq> sx_in_cwd A (out_file_of args)"
  shows "w_files (snd (sign_execute A args w)) q = w_files w q"
proof -
  have "unchanged (\<lambda>w. w_files w q) (sign_prepare A args)"
    by (simp add: unchanged_def sign_prepare_reads)
  moreover have "unchanged (\<lambda>w. w_files w q) (create_output A (out_file_of args))"
    using assms by (auto simp: unchanged_def create_output_def io_def fs_create_truncate_def ret_def)
  moreover have "unchanged (\<lambda>w. w_files w q) (write_output A args (out_file_of args) cs)" for cs
    using assms write_to_file_frame [of q _ A args cs]
    by (auto simp: unchanged_def write_output_def write_to_stdout_def println_def thenP_def bindP_def
        modify_def fail_def ret_def)
  ultimately have "unchanged (\<lambda>w. w_files w q) (sign_execute A args)"
    unfolding sign_execute_def by (intro unchanged_bindP unchanged_thenP unchanged_pure) (auto split: prod.split)
  then show ?thesis by (simp add: unchanged_def)
qed

text \<open>
  Property C12. When the zone can be signed and the output file can be written, the command
  succeeds exactly if no comment fails to print, and the file then holds the text of the
  whole zone and nothing else has changed.
\<close>

theorem sign_output_file:
  assumes "fst (sign_prepare A args w) = Ok p" and "sign_prepared A args p = Ok (final, hashes)"
    and "out_file_of args \<noteq> ''-''" "\<not> w_denied w (sx_in_cwd A (out_file_of args))"
    and "w_write_fails w (sx_in_cwd A (out_file_of args)) = None"
  shows "sign_execute A args w =
     (if Fails \<in> set (zone_chunks A args hashes (pr_apex p) final) then Err FMT_ERROR else Ok (),
      w\<lparr>w_files := (w_files w)(sx_in_cwd A (out_file_of args) \<mapsto>
        chunks_text A args (zone_chunks A args hashes (pr_apex p) final))\<rparr>)"
  using assms by (simp add: sign_execute_run write_to_file_ok)

text \<open>
  A zone that cannot be signed leaves the output file empty: an earlier signed
  zone under that name is lost although the command reports an error.
\<close>

theorem failed_signing_empties_output:
  assumes "fst (sign_prepare A args w) = Ok p" and "sign_prepared A args p = Err e"
    and "out_file_of args \<noteq> ''-''" "\<not> w_denied w (sx_in_cwd A (out_file_of args))"
  shows "sign_execute A args w =
     (Err e, w\<lparr>w_files := (w_files w)(sx_in_cwd A (out_file_of args) \<mapsto> [])\<rparr>)"
  using assms by (simp add: sign_execute_run)

text \<open>
  On a full disk the command succeeds although the file is cut off, as long as
  the text fits into the buffer: the last write happens when the writer is dropped, and its
  error is ignored.
\<close>

theorem full_disk_unnoticed:
  fixes A args hashes p final
  defines "cs \<equiv> zone_chunks A args hashes (pr_apex p) final"
  assumes "fst (sign_prepare A args w) = Ok p" and "sign_prepared A args p = Ok (final, hashes)"
    and "out_file_of args \<noteq> ''-''" "\<not> w_denied w (sx_in_cwd A (out_file_of args))"
    and full: "w_write_fails w (sx_in_cwd A (out_file_of args)) = Some n"
    and small: "length (chunks_text A args cs) < BUF_CAPACITY" "chunks_text A args cs \<noteq> []" "Fails \<notin> set cs"
  shows "sign_execute A args w =
     (Ok (), w\<lparr>w_files := (w_files w)(sx_in_cwd A (out_file_of args) \<mapsto> take n (chunks_text A args cs))\<rparr>)"
proof -
  let ?p = "sx_in_cwd A (out_file_of args)"
  have "write_to_file A args ?p cs (w\<lparr>w_files := (w_files w)(?p \<mapsto> [])\<rparr>) =
      (Ok (), w\<lparr>w_files := (w_files w)(?p \<mapsto> take n (chunks_text A args cs))\<rparr>)"
    using small full by (simp add: write_to_file_full)
  with assms show ?thesis by (simp add: sign_execute_run cs_def)
qed

end
