(* ===== verification/Name_Order.thy ===== *)
theory Name_Order
  imports Domain_Api
begin

text \<open>
  The order of domain names that the walks over a zone rely on, and a concrete order that
  has it: names compared from their ends, character by character.
\<close>

section \<open>The order of names\<close>

text \<open>
  The canonical order of RFC 4034, section 6.1: a name comes before all names below it, and
  these follow it without a gap.
\<close>

definition canonical :: "(name \<Rightarrow> name \<Rightarrow> bool) \<Rightarrow> (name \<Rightarrow> name \<Rightarrow> bool) \<Rightarrow> bool" where
  "canonical before below \<longleftrightarrow>
     (\<forall>a. \<not> before a a) \<and>
     (\<forall>a b c. before a b \<and> before b c \<longrightarrow> before a c) \<and>
     (\<forall>a b c. below a b \<and> below b c \<longrightarrow> below a c) \<and>
     (\<forall>k d. below k d \<and> k \<noteq> d \<longrightarrow> before d k) \<and>
     (\<forall>d x k. before d x \<and> before x k \<and> below k d \<longrightarrow> below x d)"

lemma canonicalD:
  assumes "canonical before below"
  shows "\<not> before a a"
    and "before a b \<Longrightarrow> before b c \<Longrightarrow> before a c"
    and "below a b \<Longrightarrow> below b c \<Longrightarrow> below a c"
    and "below k d \<Longrightarrow> k \<noteq> d \<Longrightarrow> before d k"
    and "before d x \<Longrightarrow> before x k \<Longrightarrow> below k d \<Longrightarrow> below x d"
  using assms unfolding canonical_def by - (elim conjE, metis)+

section \<open>A concrete order\<close>

fun lex_less :: "nat list \<Rightarrow> nat list \<Rightarrow> bool" where
  "lex_less xs [] = False"
| "lex_less [] (y # ys) = True"
| "lex_less (x # xs) (y # ys) = (x < y \<or> x = y \<and> lex_less xs ys)"

fun starts_with :: "nat list \<Rightarrow> nat list \<Rightarrow> bool" where
  "starts_with xs [] = True"
| "starts_with [] (y # ys) = False"
| "starts_with (x # xs) (y # ys) = (x = y \<and> starts_with xs ys)"

lemma lex_less_irrefl: "\<not> lex_less a a"
  by (induction a) auto

lemma lex_less_trans: "lex_less a b \<Longrightarrow> lex_less b c \<Longrightarrow> lex_less a c"
proof (induction a b arbitrary: c rule: lex_less.induct)
  case (2 y ys)
  then show ?case by (cases c) auto
next
  case (3 x xs y ys)
  then show ?case by (cases c) auto
qed simp

lemma lex_less_total: "a \<noteq> b \<Longrightarrow> lex_less a b \<or> lex_less b a"
proof (induction a b rule: lex_less.induct)
  case (1 xs)
  then show ?case by (cases xs) auto
qed auto

lemma starts_with_trans: "starts_with a b \<Longrightarrow> starts_with b c \<Longrightarrow> starts_with a c"
proof (induction a b arbitrary: c rule: starts_with.induct)
  case (1 xs)
  then show ?case by (cases c) auto
next
  case (3 x xs y ys)
  then show ?case by (cases c) auto
qed simp

lemma starts_with_less: "starts_with k d \<Longrightarrow> k \<noteq> d \<Longrightarrow> lex_less d k"
proof (induction k d rule: starts_with.induct)
  case (1 xs)
  then show ?case by (cases xs) auto
qed auto

lemma starts_with_between: "lex_less d x \<Longrightarrow> lex_less x k \<Longrightarrow> starts_with k d \<Longrightarrow> starts_with x d"
proof (induction k d arbitrary: x rule: starts_with.induct)
  case (3 k ks d ds)
  then show ?case by (cases x) auto
qed auto

definition demo_order :: "name \<Rightarrow> nat list" where
  "demo_order n = map of_char (rev n)"

lemma demo_order_eq: "demo_order a = demo_order b \<longleftrightarrow> a = b"
  unfolding demo_order_def by (auto dest!: map_injective intro!: injI)

lemma demo_order_total:
  "a \<noteq> b \<Longrightarrow> lex_less (demo_order a) (demo_order b) \<or> lex_less (demo_order b) (demo_order a)"
  by (intro lex_less_total) (simp add: demo_order_eq)

lemma demo_order_canonical:
  "canonical (\<lambda>a b. lex_less (demo_order a) (demo_order b)) (\<lambda>a b. starts_with (demo_order a) (demo_order b))"
  unfolding canonical_def
  by (auto simp: lex_less_irrefl demo_order_eq dest: starts_with_less
      intro: lex_less_trans starts_with_trans starts_with_between)

end
