(* ===== verification/Hash_List_Correct.thy ===== *)
theory Hash_List_Correct
  imports Sign_Zone Name_Order
begin

text \<open>
  The list of NSEC3 hashes that \<open>dnst signzone\<close> makes for its comments and its order of
  records: the single walk over the sorted RRsets, with one remembered delegation and early
  exits among the ancestors of a name, lists exactly the names that a reference definition
  asks for.
\<close>

section \<open>Suffixes\<close>

text \<open>\<open>iter_suffixes\<close>: the name itself, then the suffixes of its parent.\<close>

definition suffix_laws :: "(name \<Rightarrow> name \<Rightarrow> bool) \<Rightarrow> signer \<Rightarrow> bool" where
  "suffix_laws before A \<longleftrightarrow>
     (\<forall>n. sx_suffixes A n \<noteq> [] \<and> hd (sx_suffixes A n) = n \<and> distinct (sx_suffixes A n)) \<and>
     (\<forall>n xs s ys. sx_suffixes A n = xs @ s # ys \<longrightarrow> sx_suffixes A s = s # ys) \<and>
     (\<forall>n s. s \<in> set (tl (sx_suffixes A n)) \<longrightarrow> before s n)"

section \<open>The reference\<close>

type_synonym rrset_keys = "(name \<times> rtype) list"

definition cut_below :: "signer \<Rightarrow> name \<Rightarrow> rrset_keys \<Rightarrow> name \<Rightarrow> bool" where
  "cut_below A apex sets n \<longleftrightarrow> (\<exists>d. (d, RT_NS) \<in> set sets \<and> d \<noteq> apex \<and> n \<noteq> d \<and> sx_ends_with A n d)"

text \<open>
  The owners that are hashed: those not below a delegation that own something else than the
  delegation, which opt-out leaves out.
\<close>

definition hashed_owners :: "signer \<Rightarrow> sign_args \<Rightarrow> name \<Rightarrow> rrset_keys \<Rightarrow> rrset_keys \<Rightarrow> name set" where
  "hashed_owners A args apex all sets =
     {n. \<exists>t. (n, t) \<in> set sets \<and> \<not> cut_below A apex all n \<and> \<not> (sz_opt_out args \<and> t = RT_NS \<and> n \<noteq> apex)}"

text \<open>The names between a name and the apex.\<close>

definition ancestors :: "signer \<Rightarrow> name \<Rightarrow> name \<Rightarrow> name list" where
  "ancestors A apex n = takeWhile (\<lambda>s. s \<noteq> apex) (tl (sx_suffixes A n))"

definition with_ancestors :: "signer \<Rightarrow> name \<Rightarrow> name set \<Rightarrow> name set" where
  "with_ancestors A apex ns = ns \<union> (\<Union>n \<in> ns - {apex}. set (ancestors A apex n))"

section \<open>Maps that list a set of names\<close>

definition lists :: "(name \<Rightarrow> name) \<Rightarrow> name set \<Rightarrow> name set \<Rightarrow> hash_map \<Rightarrow> bool" where
  "lists f owners ns m \<longleftrightarrow>
     (\<forall>n. map_of m (f n) = (if n \<in> ns then Some (n, n \<notin> owners) else None)) \<and> dom (map_of m) \<subseteq> range f"

lemma lists_insert:
  assumes "lists f owners ns m" "inj f"
  shows "lists f owners (insert n ns) (hm_insert (f n) (n, n \<notin> owners) m)"
  using assms by (auto simp: lists_def map_of_hm_insert inj_eq)

lemma lists_dom:
  assumes "lists f owners ns m"
  shows "dom (map_of m) = f ` ns"
proof -
  have at: "map_of m (f n) = (if n \<in> ns then Some (n, n \<notin> owners) else None)" for n
    using assms by (simp add: lists_def)
  have range: "dom (map_of m) \<subseteq> range f" using assms by (simp add: lists_def)
  have "k \<in> f ` ns" if k: "k \<in> dom (map_of m)" for k
  proof -
    obtain n where n: "k = f n" using range k by blast
    with k have "map_of m (f n) \<noteq> None" by blast
    with at [of n] n show ?thesis by (cases "n \<in> ns") simp_all
  qed
  moreover have "f n \<in> dom (map_of m)" if "n \<in> ns" for n
    using at [of n] that by (simp add: domIff)
  ultimately show ?thesis by blast
qed

definition hashes_to :: "signer \<Rightarrow> sign_args \<Rightarrow> name \<Rightarrow> (name \<Rightarrow> name) \<Rightarrow> bool" where
  "hashes_to A args apex f \<longleftrightarrow> inj f \<and>
     (\<forall>n. sx_nsec3_owner A n (sz_algorithm args) (sz_iterations args) (sz_salt args) apex = Inr (f n))"

lemma hashes_toD:
  assumes "hashes_to A args apex f"
  shows "inj f" "nsec3_owner A args apex n = Ok (f n)"
  using assms by (simp_all add: hashes_to_def nsec3_owner_def)

section \<open>The ancestors of one name\<close>

lemma ancestors_tail:
  assumes "suffix_laws before A" and "sx_suffixes A n = xs @ s # ys"
  shows "ancestors A apex s = takeWhile (\<lambda>s. s \<noteq> apex) ys"
proof -
  have "sx_suffixes A s = s # ys" using assms unfolding suffix_laws_def by blast
  then show ?thesis by (simp add: ancestors_def)
qed

lemma ancestors_closed:
  assumes laws: "suffix_laws before A" and s: "s \<in> set (ancestors A apex n)"
  shows "set (ancestors A apex s) \<subseteq> set (ancestors A apex n)" "s \<noteq> apex" "before s n"
proof -
  obtain us vs where split: "ancestors A apex n = us @ s # vs" using s by (auto simp: in_set_conv_decomp)
  let ?P = "\<lambda>s. s \<noteq> apex"
  have "s \<in> set (tl (sx_suffixes A n))"
    using s unfolding ancestors_def by (rule set_takeWhileD [THEN conjunct1])
  then show "before s n" using laws by (simp add: suffix_laws_def)
  show "s \<noteq> apex" using s unfolding ancestors_def by (rule set_takeWhileD [THEN conjunct2])
  have "tl (sx_suffixes A n) = ancestors A apex n @ dropWhile ?P (tl (sx_suffixes A n))"
    by (simp add: ancestors_def)
  then have "tl (sx_suffixes A n) = us @ s # vs @ dropWhile ?P (tl (sx_suffixes A n))"
    by (simp only: split append.simps append_assoc)
  moreover have "sx_suffixes A n \<noteq> []" using laws unfolding suffix_laws_def by blast
  then have "sx_suffixes A n = hd (sx_suffixes A n) # tl (sx_suffixes A n)" by simp
  ultimately have "sx_suffixes A n = (hd (sx_suffixes A n) # us) @ s # vs @ dropWhile ?P (tl (sx_suffixes A n))"
    by simp
  from ancestors_tail [OF laws this] have
    "ancestors A apex s = takeWhile ?P (vs @ dropWhile ?P (tl (sx_suffixes A n)))" .
  moreover have "\<forall>v \<in> set vs. ?P v"
    using split set_takeWhileD [of _ ?P "tl (sx_suffixes A n)"] unfolding ancestors_def by (metis in_set_conv_decomp append_Cons append_assoc set_append UnI2 list.set_intros(2))
  moreover have "takeWhile ?P (dropWhile ?P zs) = []" for zs
    by (induction zs) auto
  ultimately have "ancestors A apex s = vs" by (simp add: takeWhile_append2)
  then show "set (ancestors A apex s) \<subseteq> set (ancestors A apex n)" by (auto simp: split)
qed

definition closed :: "signer \<Rightarrow> name \<Rightarrow> name set \<Rightarrow> bool" where
  "closed A apex ns \<longleftrightarrow> (\<forall>n \<in> ns - {apex}. set (ancestors A apex n) \<subseteq> ns)"

lemma closed_with_ancestors:
  assumes "suffix_laws before A"
  shows "closed A apex (with_ancestors A apex ns)"
  using ancestors_closed(1) [OF assms] by (fastforce simp: closed_def with_ancestors_def)

lemma hash_ents_lists:
  assumes hash: "hashes_to A args apex f" and laws: "suffix_laws before A"
    and suffixes: "sx_suffixes A owner = xs @ ss" "owner \<notin> set ss"
    and closed: "closed A apex ns" and fresh: "extra \<inter> set ss = {}"
    and new: "\<forall>s \<in> set (takeWhile (\<lambda>s. s \<noteq> apex) ss) - ns. s \<notin> owners"
    and m: "lists f owners (ns \<union> extra) m"
  shows "\<exists>m'. hash_ents A args apex owner ss m = Ok m' \<and>
     lists f owners (ns \<union> extra \<union> set (takeWhile (\<lambda>s. s \<noteq> apex) ss)) m'"
  using suffixes fresh new m
proof (induction ss arbitrary: xs extra m)
  case (Cons s ss)
  note inj = hashes_toD(1) [OF hash] and h = hashes_toD(2) [OF hash]
  have s: "s \<noteq> owner" "s \<notin> extra" using Cons.prems by auto
  consider "s = apex" | "s \<noteq> apex" "s \<in> ns" | "s \<noteq> apex" "s \<notin> ns" by blast
  then show ?case
  proof cases
    case 1 with s Cons.prems show ?thesis by simp
  next
    case 2
    have "set (takeWhile (\<lambda>s. s \<noteq> apex) ss) = set (ancestors A apex s)"
      using ancestors_tail [OF laws Cons.prems(1)] by simp
    also have "\<dots> \<subseteq> ns" using closed 2 by (simp add: closed_def)
    finally have "ns \<union> extra \<union> set (takeWhile (\<lambda>s. s \<noteq> apex) (s # ss)) = ns \<union> extra" using 2 by auto
    moreover have "map_of m (f s) \<noteq> None" using Cons.prems(5) 2 by (simp add: lists_def)
    ultimately show ?thesis using 2 s Cons.prems(5) by (simp add: h)
  next
    case 3
    have out: "s \<notin> owners" using Cons.prems(4) 3 by simp
    have "map_of m (f s) = None" using Cons.prems(5) 3 s by (simp add: lists_def)
    then have step: "hash_ents A args apex owner (s # ss) m =
        hash_ents A args apex owner ss (hm_insert (f s) (s, True) m)"
      using 3 s by (simp add: h)
    have m': "lists f owners (ns \<union> insert s extra) (hm_insert (f s) (s, True) m)"
      using lists_insert [OF Cons.prems(5) inj, of s] out by simp
    have "distinct (sx_suffixes A owner)" using laws by (simp add: suffix_laws_def)
    then have "s \<notin> set ss" using Cons.prems(1) by simp
    then have "\<exists>m'. hash_ents A args apex owner ss (hm_insert (f s) (s, True) m) = Ok m' \<and>
        lists f owners (ns \<union> insert s extra \<union> set (takeWhile (\<lambda>s. s \<noteq> apex) ss)) m'"
      using Cons.prems 3 m' by (intro Cons.IH [of "xs @ [s]"]) auto
    with 3 step show ?thesis by simp
  qed
qed simp

section \<open>The walk\<close>

definition in_order :: "(name \<Rightarrow> name \<Rightarrow> bool) \<Rightarrow> rrset_keys \<Rightarrow> bool" where
  "in_order before sets \<longleftrightarrow> sorted_wrt (\<lambda>a b. fst a = fst b \<or> before (fst a) (fst b)) sets"

text \<open>What the remembered names say after the RRsets \<open>past\<close>, with \<open>rest\<close> to come.\<close>

definition remembers ::
  "signer \<Rightarrow> sign_args \<Rightarrow> name \<Rightarrow> rrset_keys \<Rightarrow> rrset_keys \<Rightarrow> name option \<Rightarrow> name option \<Rightarrow> bool" where
  "remembers A args apex past rest prev delegation \<longleftrightarrow>
     (\<forall>d. delegation = Some d \<longrightarrow> (d, RT_NS) \<in> set past \<and> d \<noteq> apex) \<and>
     (\<forall>k \<in> fst ` set rest. cut_below A apex past k \<longrightarrow>
        (\<exists>d. delegation = Some d \<and> k \<noteq> d \<and> sx_ends_with A k d)) \<and>
     (\<forall>n. prev = Some n \<longrightarrow> (delegation = None \<or> delegation = Some n) \<and>
        n \<in> hashed_owners A args apex (past @ rest) past)"

lemma cut_below_append:
  "cut_below A apex (past @ [(owner, t)]) k \<longleftrightarrow>
     cut_below A apex past k \<or> (t = RT_NS \<and> owner \<noteq> apex \<and> k \<noteq> owner \<and> sx_ends_with A k owner)"
  by (auto simp: cut_below_def)

lemma hashed_owners_append:
  "hashed_owners A args apex all (past @ [(owner, t)]) = hashed_owners A args apex all past \<union>
     (if cut_below A apex all owner \<or> (sz_opt_out args \<and> t = RT_NS \<and> owner \<noteq> apex) then {} else {owner})"
  by (auto simp: hashed_owners_def)

lemma hashed_owners_append_new:
  assumes "\<not> cut_below A apex all owner" and "\<not> (sz_opt_out args \<and> t = RT_NS \<and> owner \<noteq> apex)"
  shows "hashed_owners A args apex all (past @ [(owner, t)]) = insert owner (hashed_owners A args apex all past)"
proof -
  have "(cut_below A apex all owner \<or> (sz_opt_out args \<and> t = RT_NS \<and> owner \<noteq> apex)) = False"
    using assms by blast
  then show ?thesis by (simp only: hashed_owners_append if_False) simp
qed

text \<open>A name that is below no delegation seen so far is below none.\<close>

lemma not_cut_below:
  assumes canon: "canonical before (sx_ends_with A)" and order: "in_order before (past @ (owner, t) # rest)"
    and no: "\<not> cut_below A apex past owner"
  shows "\<not> cut_below A apex (past @ (owner, t) # rest) owner"
proof
  assume "cut_below A apex (past @ (owner, t) # rest) owner"
  then obtain d where d: "(d, RT_NS) \<in> set (past @ (owner, t) # rest)" "d \<noteq> apex" "owner \<noteq> d"
      "sx_ends_with A owner d" by (auto simp: cut_below_def)
  have "before d owner" using canonicalD(4) [OF canon d(4)] d(3) by simp
  moreover have "(d, RT_NS) \<in> set rest" using d no by (auto simp: cut_below_def)
  then have "owner = d \<or> before owner d" using order by (auto simp: in_order_def sorted_wrt_append)
  ultimately show False using d(3) canonicalD(1,2) [OF canon] by blast
qed

lemma walk_same_owner:
  assumes canon: "canonical before (sx_ends_with A)"
    and known: "remembers A args apex past ((owner, t) # rest) (Some owner) delegation"
  shows "remembers A args apex (past @ [(owner, t)]) rest (Some owner)
     (if t = RT_NS \<and> owner \<noteq> apex then Some owner else delegation)"
proof -
  have "delegation = None \<or> delegation = Some owner"
    and hashed: "owner \<in> hashed_owners A args apex (past @ (owner, t) # rest) past"
    and del: "\<And>d. delegation = Some d \<Longrightarrow> (d, RT_NS) \<in> set past \<and> d \<noteq> apex"
    and cut: "\<And>k. k \<in> fst ` set rest \<Longrightarrow> cut_below A apex past k \<Longrightarrow>
      \<exists>d. delegation = Some d \<and> k \<noteq> d \<and> sx_ends_with A k d"
    using known by (auto simp: remembers_def)
  then show ?thesis
    unfolding remembers_def cut_below_append hashed_owners_append by auto
qed

lemma walk_cut:
  assumes canon: "canonical before (sx_ends_with A)"
    and known: "remembers A args apex past ((owner, t) # rest) prev delegation"
    and cut: "delegation = Some d" "owner \<noteq> d" "sx_ends_with A owner d"
  shows "remembers A args apex (past @ [(owner, t)]) rest prev delegation"
    and "cut_below A apex (past @ (owner, t) # rest) owner"
proof -
  have d: "(d, RT_NS) \<in> set past" "d \<noteq> apex" using known cut(1) by (auto simp: remembers_def)
  then show "cut_below A apex (past @ (owner, t) # rest) owner" using cut by (auto simp: cut_below_def)
  have "k \<noteq> d \<and> sx_ends_with A k d" if "sx_ends_with A k owner" for k
    using canonicalD(3) [OF canon that cut(3)] canonicalD(1,2,4) [OF canon] that cut(2,3) by metis
  then show "remembers A args apex (past @ [(owner, t)]) rest prev delegation"
    using known cut(1) unfolding remembers_def cut_below_append hashed_owners_append by auto
qed

lemma walk_new_owner:
  assumes canon: "canonical before (sx_ends_with A)" and order: "in_order before (past @ (owner, t) # rest)"
    and known: "remembers A args apex past ((owner, t) # rest) prev delegation"
    and free: "\<And>d. delegation = Some d \<Longrightarrow> owner \<noteq> d \<Longrightarrow> \<not> sx_ends_with A owner d"
  defines "delegation1 \<equiv> (case delegation of Some d \<Rightarrow> if owner \<noteq> d then None else Some d | None \<Rightarrow> None)"
  defines "delegation2 \<equiv> (if t = RT_NS \<and> owner \<noteq> apex then Some owner else delegation1)"
  shows "\<not> cut_below A apex (past @ (owner, t) # rest) owner"
    and "remembers A args apex (past @ [(owner, t)]) rest None delegation2"
    and "\<not> (sz_opt_out args \<and> t = RT_NS \<and> owner \<noteq> apex) \<Longrightarrow>
       remembers A args apex (past @ [(owner, t)]) rest (Some owner) delegation2"
proof -
  have del: "\<And>d. delegation = Some d \<Longrightarrow> (d, RT_NS) \<in> set past \<and> d \<noteq> apex"
    and cut: "\<And>k. k \<in> insert owner (fst ` set rest) \<Longrightarrow> cut_below A apex past k \<Longrightarrow>
      \<exists>d. delegation = Some d \<and> k \<noteq> d \<and> sx_ends_with A k d"
    using known by (auto simp: remembers_def)
  have "\<not> cut_below A apex past owner" using cut [of owner] free by blast
  then show no: "\<not> cut_below A apex (past @ (owner, t) # rest) owner"
    by (rule not_cut_below [OF canon order])
  have later: "delegation1 = Some d" if k: "k \<in> fst ` set rest" "delegation = Some d" "k \<noteq> d" "sx_ends_with A k d" for k d
  proof (rule ccontr)
    assume "delegation1 \<noteq> Some d"
    then have "owner \<noteq> d" using k(2) by (auto simp: delegation1_def split: if_splits)
    then have "\<not> sx_ends_with A owner d" using free k(2) by blast
    moreover have "before d owner"
      using del [OF k(2)] order \<open>owner \<noteq> d\<close> by (fastforce simp: in_order_def sorted_wrt_append)
    moreover have "owner = k \<or> before owner k" using order k(1) by (fastforce simp: in_order_def sorted_wrt_append)
    ultimately show False using canonicalD(5) [OF canon, of d owner k] k(4) by blast
  qed
  have del2: "delegation2 = Some d \<Longrightarrow> (d, RT_NS) \<in> set (past @ [(owner, t)]) \<and> d \<noteq> apex" for d
    using del by (auto simp: delegation1_def delegation2_def split: if_splits option.splits)
  have own2: "delegation2 = None \<or> delegation2 = Some owner"
    by (auto simp: delegation1_def delegation2_def split: option.split)
  have cut2: "\<exists>d. delegation2 = Some d \<and> k \<noteq> d \<and> sx_ends_with A k d"
    if k: "k \<in> fst ` set rest" "cut_below A apex (past @ [(owner, t)]) k" for k
  proof (cases "t = RT_NS \<and> owner \<noteq> apex \<and> k \<noteq> owner \<and> sx_ends_with A k owner")
    case True then show ?thesis by (simp add: delegation2_def)
  next
    case False
    then have "cut_below A apex past k" using k(2) cut_below_append by blast
    then obtain d where d: "delegation = Some d" "k \<noteq> d" "sx_ends_with A k d" using cut k(1) by blast
    with later [OF k(1)] have "delegation1 = Some d" by blast
    then have "d = owner" by (auto simp: delegation1_def split: option.splits if_splits)
    with d \<open>delegation1 = Some d\<close> show ?thesis by (simp add: delegation2_def)
  qed
  show "remembers A args apex (past @ [(owner, t)]) rest None delegation2"
    using del2 cut2 by (simp add: remembers_def)
  show "remembers A args apex (past @ [(owner, t)]) rest (Some owner) delegation2"
    if "\<not> (sz_opt_out args \<and> t = RT_NS \<and> owner \<noteq> apex)"
    using del2 cut2 own2 hashed_owners_append_new [OF no that] by (simp add: remembers_def)
qed

lemma with_ancestors_insert:
  "with_ancestors A apex (insert n ns) =
     insert n (with_ancestors A apex ns) \<union> (if n = apex then {} else set (ancestors A apex n))"
  by (auto simp: with_ancestors_def)

lemma hash_names_walk:
  assumes canon: "canonical before (sx_ends_with A)" and laws: "suffix_laws before A"
    and hash: "hashes_to A args apex f" and order: "in_order before (past @ rest)"
    and known: "remembers A args apex past rest prev delegation"
    and m: "lists f (hashed_owners A args apex (past @ rest) (past @ rest))
       (with_ancestors A apex (hashed_owners A args apex (past @ rest) past)) m"
  shows "\<exists>m'. hash_names A args apex rest prev delegation m = Ok m' \<and>
     lists f (hashed_owners A args apex (past @ rest) (past @ rest))
       (with_ancestors A apex (hashed_owners A args apex (past @ rest) (past @ rest))) m'"
  using order known m
proof (induction rest arbitrary: past prev delegation m)
  case (Cons p rest)
  obtain owner t where p: "p = (owner, t)" by (cases p)
  let ?all = "past @ (owner, t) # rest"
  let ?H = "hashed_owners A args apex ?all" and ?past = "past @ [(owner, t)]"
  note order = Cons.prems(1) [unfolded p] and known = Cons.prems(2) [unfolded p] and m = Cons.prems(3) [unfolded p]
  have IH: "\<exists>m'. hash_names A args apex rest prev delegation m = Ok m' \<and>
      lists f (?H ?all) (with_ancestors A apex (?H ?all)) m'"
    if "remembers A args apex ?past rest prev delegation"
      and "lists f (?H ?all) (with_ancestors A apex (?H ?past)) m" for prev delegation m
    using Cons.IH [of ?past] order that by simp
  show ?case
  proof (cases "prev = Some owner")
    case True
    then have "owner \<in> ?H past" using known by (simp add: remembers_def)
    then have "?H ?past = ?H past" by (auto simp: hashed_owners_append)
    with IH [OF walk_same_owner [OF canon known [unfolded True]]] m True p show ?thesis by simp
  next
    case new: False
    show ?thesis
    proof (cases "\<exists>d. delegation = Some d \<and> owner \<noteq> d \<and> sx_ends_with A owner d")
      case True
      then obtain d where d: "delegation = Some d" "owner \<noteq> d" "sx_ends_with A owner d" by blast
      note cut = walk_cut [OF canon known d]
      have "?H ?past = ?H past" using cut(2) by (simp add: hashed_owners_append)
      with IH [OF cut(1)] m new d p show ?thesis by simp
    next
      case False
      let ?d1 = "case delegation of Some d \<Rightarrow> if owner \<noteq> d then None else Some d | None \<Rightarrow> None"
      let ?d2 = "if t = RT_NS \<and> owner \<noteq> apex then Some owner else ?d1"
      note step = walk_new_owner [OF canon order known]
      have free: "\<And>d. delegation = Some d \<Longrightarrow> owner \<noteq> d \<Longrightarrow> \<not> sx_ends_with A owner d" using False by blast
      have test: "(case delegation of Some d \<Rightarrow> owner \<noteq> d \<and> sx_ends_with A owner d | None \<Rightarrow> False) = False"
        using False by (auto split: option.split)
      show ?thesis
      proof (cases "sz_opt_out args \<and> t = RT_NS \<and> owner \<noteq> apex")
        case True
        then have "?H ?past = ?H past" by (simp add: hashed_owners_append)
        with IH [OF step(2) [OF free]] m new True test p show ?thesis by simp
      next
        case hashed: False
        have later: "(t = RT_NS \<and> owner \<noteq> apex \<and> sz_opt_out args) = False" using hashed by blast
        have H: "?H ?past = insert owner (?H past)"
          by (rule hashed_owners_append_new [OF step(1) [OF free] hashed])
        have owner: "owner \<in> ?H ?all" using step(1) [OF free] hashed by (auto simp: hashed_owners_def)
        have W: "with_ancestors A apex (?H ?past) = (with_ancestors A apex (?H past) \<union> {owner}) \<union>
            (if owner = apex then {} else set (ancestors A apex owner))"
          by (simp add: H with_ancestors_insert)
        let ?m1 = "hm_insert (f owner) (owner, False) m"
        let ?ns = "with_ancestors A apex (?H past)"
        have m1: "lists f (?H ?all) (?ns \<union> {owner}) ?m1"
          using lists_insert [OF m hashes_toD(1) [OF hash], of owner] owner by simp
        have "\<exists>m2. (if owner = apex then Ok ?m1 else hash_ents A args apex owner (sx_suffixes A owner) ?m1) = Ok m2 \<and>
            lists f (?H ?all) (with_ancestors A apex (?H ?past)) m2"
        proof (cases "owner = apex")
          case True then show ?thesis unfolding W using m1 by simp
        next
          case sub: False
          have suffixes: "sx_suffixes A owner = [owner] @ tl (sx_suffixes A owner)" "owner \<notin> set (tl (sx_suffixes A owner))"
            using laws unfolding suffix_laws_def by (metis append_Cons append_Nil distinct.simps(2) list.collapse)+
          have fresh: "s \<notin> ?H ?all" if s: "s \<in> set (ancestors A apex owner) - ?ns" for s
          proof
            assume "s \<in> ?H ?all"
            then obtain u where u: "(s, u) \<in> set ?all" and h: "\<not> cut_below A apex ?all s"
              "\<not> (sz_opt_out args \<and> u = RT_NS \<and> s \<noteq> apex)" by (auto simp: hashed_owners_def)
            have less: "before s owner" using s ancestors_closed(3) [OF laws] by blast
            have irrefl: "\<not> before s s" by (rule canonicalD(1) [OF canon])
            have "owner = s \<or> before owner s" if "(s, u) \<in> set rest"
              using order that by (auto simp: in_order_def sorted_wrt_append)
            then have "(s, u) \<notin> set rest"
              using less irrefl canonicalD(2) [OF canon less, of s] by metis
            moreover have "s \<noteq> owner" using less irrefl by metis
            ultimately have "(s, u) \<notin> set ((owner, t) # rest)" by simp
            then have "s \<in> ?H past" using u h by (auto simp: hashed_owners_def)
            with s show False by (simp add: with_ancestors_def)
          qed
          have "\<exists>m2. hash_ents A args apex owner (tl (sx_suffixes A owner)) ?m1 = Ok m2 \<and>
              lists f (?H ?all) (?ns \<union> {owner} \<union> set (ancestors A apex owner)) m2"
            unfolding ancestors_def
            by (rule hash_ents_lists [OF hash laws suffixes closed_with_ancestors [OF laws] _ _ m1])
              (use suffixes(2) fresh in \<open>auto simp: ancestors_def\<close>)
          moreover have "hash_ents A args apex owner (sx_suffixes A owner) ?m1 =
              hash_ents A args apex owner (tl (sx_suffixes A owner)) ?m1"
            by (subst suffixes(1)) simp
          ultimately show ?thesis unfolding W using sub by simp
        qed
        then obtain m2 where m2: "(if owner = apex then Ok ?m1 else hash_ents A args apex owner (sx_suffixes A owner) ?m1) = Ok m2"
          "lists f (?H ?all) (with_ancestors A apex (?H ?past)) m2" by blast
        have "hash_names A args apex (p # rest) prev delegation m = hash_names A args apex rest (Some owner) ?d2 m2"
          unfolding p hash_names.simps(2)
          by (simp only: new test later if_False Let_def hashes_toD(2) [OF hash] bind_res.simps m2(1))
        with IH [OF step(3) [OF free hashed] m2(2)] p show ?thesis by simp
      qed
    qed
  qed
qed simp

text \<open>
  Property C14. The walk over the sorted RRsets lists exactly the names that are hashed: the
  owners that are not below a delegation (with opt-out only if they own more than the
  delegation) and the names between these and the apex, of which precisely those that are no
  such owners are marked as empty non-terminals.
\<close>

theorem hash_names_reference:
  fixes A args apex sets
  defines "owners \<equiv> hashed_owners A args apex sets sets"
  assumes canon: "canonical before (sx_ends_with A)" and laws: "suffix_laws before A"
    and hash: "hashes_to A args apex f" and order: "in_order before sets"
  shows "\<exists>m. hash_names A args apex sets None None [] = Ok m \<and>
     dom (map_of m) = f ` with_ancestors A apex owners \<and>
     (\<forall>n \<in> with_ancestors A apex owners. map_of m (f n) = Some (n, n \<notin> owners))"
proof -
  have "remembers A args apex [] sets None None" by (simp add: remembers_def cut_below_def)
  moreover have "lists f owners (with_ancestors A apex (hashed_owners A args apex sets [])) []"
    by (simp add: lists_def with_ancestors_def hashed_owners_def)
  ultimately have "\<exists>m. hash_names A args apex sets None None [] = Ok m \<and>
      lists f owners (with_ancestors A apex owners) m"
    using hash_names_walk [OF canon laws hash, of "[]" sets None None "[]"] order
    unfolding owners_def append_Nil by blast
  then obtain m where m: "hash_names A args apex sets None None [] = Ok m"
    "lists f owners (with_ancestors A apex owners) m" by blast
  moreover have "dom (map_of m) = f ` with_ancestors A apex owners"
    by (rule lists_dom [OF m(2)])
  ultimately show ?thesis by (auto simp: lists_def)
qed

end
