(* ===== verification/Sign_Demo.thy ===== *)
theory Sign_Demo
  imports Sign_Command_Correct Hash_List_Correct
begin

text \<open>
  A concrete signer that has the documented properties of the crates, and the properties of
  \<open>dnst signzone\<close> applied to it. A name is a list of one letter labels.
\<close>

section \<open>The signer\<close>

fun demo_suffixes :: "name \<Rightarrow> name list" where
  "demo_suffixes [] = [[]]"
| "demo_suffixes (c # cs) = (c # cs) # demo_suffixes cs"

fun runs_by :: "(zrec \<Rightarrow> 'a) \<Rightarrow> zrec list \<Rightarrow> zrec list list" where
  "runs_by f [] = []"
| "runs_by f (r # rs) = (case runs_by f rs of
      [] \<Rightarrow> [[r]]
    | g # gs \<Rightarrow> if f (hd g) = f r then (r # g) # gs else [r] # g # gs)"

fun remove_one :: "('a \<Rightarrow> bool) \<Rightarrow> 'a list \<Rightarrow> 'a list" where
  "remove_one P [] = []"
| "remove_one P (x # xs) = (if P x then xs else x # remove_one P xs)"

definition demo_ends_with :: "name \<Rightarrow> name \<Rightarrow> bool" where
  "demo_ends_with a b = starts_with (demo_order a) (demo_order b)"

definition demo_soa :: zrec where
  "demo_soa = ZRec ''e'' 1 3600 (ZSoa (SoaFields ''e'' ''e'' 7 1 1 1 1))"

definition demo_addr :: zrec where
  "demo_addr = ZRec ''bae'' 1 3600 (ZOther RT_A ''1'')"

definition demo_rrsig :: "zrec list \<Rightarrow> u32 \<Rightarrow> u32 \<Rightarrow> signing_key \<Rightarrow> rrsig" where
  "demo_rrsig rs i e k = RrsigData (z_rtype (hd rs)) 13 0 i e (sk_pair k)"

definition demo_signer :: signer where
  "demo_signer = \<lparr>
     sr_from = id,
     sr_insert = \<lambda>r rs. if r \<in> set rs then None else Some (rs @ [r]),
     sr_update_data = \<lambda>P d. map (\<lambda>r. if P r then ZRec (z_owner r) (z_class r) (z_ttl r) d else r),
     sr_remove_first = \<lambda>n t. remove_one (\<lambda>r. z_owner r = n \<and> z_rtype r = t),
     sr_remove_all = \<lambda>n t. filter (\<lambda>r. \<not> (z_owner r = n \<and> z_rtype r = t)),
     sr_find_apex_rtype = \<lambda>n t rs. case filter (\<lambda>r. z_owner r = n \<and> z_rtype r = t) rs of [] \<Rightarrow> None | l \<Rightarrow> Some l,
     sr_rrsets = runs_by (\<lambda>r. (z_owner r, z_rtype r)),
     sr_owner_rrs = runs_by z_owner,
     sr_in_zone = \<lambda>apex g. demo_ends_with (z_owner (hd g)) apex,
     sr_sign_zone = \<lambda>apex c ks rs. Inr rs,
     sr_par_sort = \<lambda>cmp gs. gs,
     sx_sign_rrset = \<lambda>k rs i e. Inr (z_owner (hd rs), z_class (hd rs), z_ttl (hd rs), demo_rrsig rs i e k),
     sx_rrset_ok = \<lambda>rs. rs \<noteq> [],
     sx_rrset_sign = \<lambda>apex ks rs i e. Inr (map (demo_rrsig rs i e) ks),
     sx_key_algorithm = \<lambda>k. if sk_pair k = ''k'' then 8 else 13,
     sx_key_dnskey = \<lambda>k. DnskeyData (sk_flags k) 3 13 (sk_pair k),
     sx_key_sep = \<lambda>k. sk_flags k = 257,
     sx_dnskey_sep = \<lambda>d. dk_flags d = 257,
     sx_dnskey_zone_key = \<lambda>d. True,
     sx_dnskey_size = \<lambda>d. Inr 256,
     sx_dnskey_tag = \<lambda>d. 0,
     sx_parse_zone = \<lambda>origin text. [Inr (ZoneRecord demo_soa), Inr (ZoneRecord demo_addr)],
     sx_parse_from_bind = \<lambda>text. Inr (''e'', DnskeyData 256 3 13 text),
     sx_secret_parse = Inr,
     sx_keypair = \<lambda>s d. if dk_public_key d = s then Inr s else Inl ''mismatch'',
     sx_nsec3_owner = \<lambda>n alg it salt apex. Inr (CHR ''H'' # n),
     sx_append_chars = Some,
     sx_append_origin = \<lambda>b n. Some (b @ n),
     sx_suffixes = demo_suffixes,
     sx_ends_with = demo_ends_with,
     sx_name_cmp = \<lambda>a b. 0,
     sx_sort_hashes = id,
     sx_fmt_with_dot = \<lambda>n. n @ ''.'',
     sx_serial_gt = \<lambda>a b. a \<noteq> b \<and> unat (a - b) < 2 ^ 31,
     sx_serial_add = \<lambda>a b. a + b,
     sx_set_order = remdups,
     sx_compose_canonical = z_owner,
     sx_sha384 = \<lambda>s. CHR ''3'' # s,
     sx_sha512 = \<lambda>s. CHR ''5'' # s,
     sx_show_record = z_owner,
     sx_display = \<lambda>r items. z_owner r,
     sx_show_type = \<lambda>t. ''type'',
     sx_show_algorithm = show_nat,
     sx_show_ttl = \<lambda>t. ''ttl'',
     sx_date_text = \<lambda>t. ''date'',
     sx_base64 = id,
     sx_rrsig_labels = \<lambda>s. 1,
     sx_rrsig_original_ttl = \<lambda>s. 3600,
     sx_rrsig_signer = \<lambda>s. ''e'',
     sx_nsec3_algorithm = \<lambda>n. 1,
     sx_nsec3_flags = \<lambda>n. 0,
     sx_nsec3_iterations = \<lambda>n. 0,
     sx_nsec3_salt = n3_rest,
     sx_nsec3_types = n3_rest,
     sx_zonemd_scheme_mnemonic = \<lambda>n. None,
     sx_zonemd_scheme_from_mnemonic = \<lambda>s. None,
     sx_zonemd_alg_mnemonic = \<lambda>n. None,
     sx_zonemd_alg_from_mnemonic = \<lambda>s. None,
     sx_timestamp_from_str = \<lambda>s. Inl ''none'',
     sx_in_cwd = id\<rparr>"

lemma demo_signer_sel:
  "sr_insert demo_signer r rs = (if r \<in> set rs then None else Some (rs @ [r]))"
  "sr_update_data demo_signer P d = map (\<lambda>r. if P r then ZRec (z_owner r) (z_class r) (z_ttl r) d else r)"
  "sr_remove_first demo_signer n t = remove_one (\<lambda>r. z_owner r = n \<and> z_rtype r = t)"
  "sr_rrsets demo_signer = runs_by (\<lambda>r. (z_owner r, z_rtype r))"
  "sr_owner_rrs demo_signer = runs_by z_owner"
  "sr_in_zone demo_signer apex g = demo_ends_with (z_owner (hd g)) apex"
  "sr_par_sort demo_signer cmp gs = gs"
  "sx_rrset_ok demo_signer rs \<longleftrightarrow> rs \<noteq> []"
  "sx_rrset_sign demo_signer apex ks rs i e = Inr (map (demo_rrsig rs i e) ks)"
  "sx_key_sep demo_signer k \<longleftrightarrow> sk_flags k = 257"
  "sx_key_algorithm demo_signer k = (if sk_pair k = ''k'' then 8 else 13)"
  "sx_nsec3_owner demo_signer n alg it salt apex = Inr (CHR ''H'' # n)"
  "sx_suffixes demo_signer = demo_suffixes"
  "sx_ends_with demo_signer = demo_ends_with"
  "sx_serial_gt demo_signer a b \<longleftrightarrow> a \<noteq> b \<and> unat (a - b) < 2 ^ 31"
  "sx_serial_add demo_signer a b = a + b"
  "sx_compose_canonical demo_signer = z_owner"
  "sx_sha384 demo_signer s = CHR ''3'' # s"
  by (simp_all add: demo_signer_def)

section \<open>Its laws\<close>

lemma concat_runs_by: "concat (runs_by f rs) = rs"
  by (induction rs) (auto split: list.splits)

lemma uniform_single: "uniform f [r]"
  by (simp add: uniform_def)

lemma uniform_Cons: "uniform f g \<Longrightarrow> f (hd g) = f r \<Longrightarrow> uniform f (r # g)"
  unfolding uniform_def by (metis list.distinct(1) list.sel(1) set_ConsD)

lemma uniform_runs_by: "g \<in> set (runs_by f rs) \<Longrightarrow> uniform f g"
proof (induction rs arbitrary: g)
  case (Cons r rs)
  show ?case
  proof (cases "runs_by f rs")
    case Nil
    with Cons.prems show ?thesis by (simp add: uniform_single)
  next
    case runs: (Cons h gs)
    then have "uniform f h" by (intro Cons.IH) simp
    with Cons.prems Cons.IH runs show ?thesis
      by (cases "f (hd h) = f r") (auto intro: uniform_single uniform_Cons)
  qed
qed simp

lemma demo_runs_law: "runs_law demo_signer"
  by (simp add: runs_law_def demo_signer_sel concat_runs_by uniform_runs_by)

lemma demo_insert_law: "insert_law demo_signer"
  by (auto simp: insert_law_def demo_signer_sel)

lemma demo_update_law: "update_law demo_signer"
  by (auto simp: update_law_def demo_signer_sel list_all2_map2 list.rel_refl)

lemma demo_signer_laws: "zone_laws demo_signer"
  by (simp add: zone_laws_def demo_runs_law demo_insert_law demo_update_law in_zone_law_def demo_signer_sel)

lemma demo_sign_law: "sign_law demo_signer"
  by (auto simp: sign_law_def demo_signer_sel demo_rrsig_def)

lemma demo_serial_laws: "serial_laws demo_signer"
  by (simp add: serial_laws_def demo_signer_sel)

lemma demo_suffixes_head: "demo_suffixes n \<noteq> [] \<and> hd (demo_suffixes n) = n"
  by (cases n) simp_all

lemma demo_suffixes_append: "s \<in> set (demo_suffixes n) \<Longrightarrow> \<exists>us. n = us @ s"
proof (induction n)
  case (Cons c cs)
  show ?case
  proof (cases "s = c # cs")
    case False
    with Cons obtain us where "cs = us @ s" by auto
    then have "c # cs = (c # us) @ s" by simp
    then show ?thesis by blast
  qed simp
qed simp

lemma demo_suffixes_distinct: "distinct (demo_suffixes n)"
proof (induction n)
  case (Cons c cs)
  moreover have "c # cs \<notin> set (demo_suffixes cs)" using demo_suffixes_append by fastforce
  ultimately show ?case by simp
qed simp

lemma demo_suffixes_split: "demo_suffixes n = xs @ s # ys \<Longrightarrow> demo_suffixes s = s # ys"
proof (induction n arbitrary: xs)
  case Nil
  then show ?case by (cases xs) simp_all
next
  case (Cons c cs)
  then show ?case by (cases xs) auto
qed

lemma lex_less_append: "ys \<noteq> [] \<Longrightarrow> lex_less xs (xs @ ys)"
  by (induction xs) (auto simp: neq_Nil_conv)

lemma demo_suffixes_before:
  assumes "s \<in> set (tl (demo_suffixes n))"
  shows "lex_less (demo_order s) (demo_order n)"
proof -
  have "s \<in> set (demo_suffixes n)" using assms by (cases "demo_suffixes n") simp_all
  then obtain us where n: "n = us @ s" using demo_suffixes_append by blast
  have "s \<noteq> n"
    using assms demo_suffixes_head [of n] demo_suffixes_distinct [of n] by (cases "demo_suffixes n") auto
  with n have "us \<noteq> []" by auto
  then show ?thesis by (simp add: demo_order_def n lex_less_append)
qed

lemma demo_suffix_laws: "suffix_laws (\<lambda>a b. lex_less (demo_order a) (demo_order b)) demo_signer"
  unfolding suffix_laws_def demo_signer_sel
  by (intro conjI allI impI)
    (use demo_suffixes_head demo_suffixes_distinct demo_suffixes_split demo_suffixes_before in \<open>blast+\<close>)

lemma demo_canonical:
  "canonical (\<lambda>a b. lex_less (demo_order a) (demo_order b)) (sx_ends_with demo_signer)"
proof -
  have "sx_ends_with demo_signer = (\<lambda>a b. starts_with (demo_order a) (demo_order b))"
    by (simp add: demo_signer_sel demo_ends_with_def fun_eq_iff)
  then show ?thesis by (simp only: demo_order_canonical)
qed

lemma demo_hashes_to: "hashes_to demo_signer args apex (\<lambda>n. CHR ''H'' # n)"
  by (simp add: hashes_to_def demo_signer_sel inj_def)

section \<open>Witnesses\<close>

definition demo_args :: sign_args where
  "demo_args = \<lparr>sz_extra_comments = False, sz_do_not_add_keys = False, sz_expiration = 20,
     sz_out_file = Some ''out'', sz_inception = 10, sz_origin = None, sz_serial_to_epoch = True,
     sz_use_nsec3 = False, sz_sign_dnskeys_with_all_keys = False, sz_every_unique_algorithm = True,
     sz_zonemd = [], sz_zonemd_without_signing = True, sz_algorithm = 1, sz_iterations = 0,
     sz_salt = [], sz_opt_out_flags_only = False, sz_opt_out = False, sz_hash_only = False,
     sz_hash_list = False, sz_order_nsec3 = False, sz_order_rrsigs = True, sz_rrsig_dates = False,
     sz_zonefile = ''zone'', sz_key_paths = [''k'', ''k''], sz_as_ldns = False\<rparr>"

lemma demo_args_sel:
  "sz_every_unique_algorithm demo_args" "\<not> sz_sign_dnskeys_with_all_keys demo_args"
  "\<not> sz_do_not_add_keys demo_args" "sz_key_paths demo_args = [''k'', ''k'']" "\<not> sz_as_ldns demo_args"
  "sz_order_rrsigs demo_args" "sz_inception demo_args = 10" "sz_expiration demo_args = 20"
  "\<not> sz_hash_only demo_args" "sz_zonemd_without_signing demo_args" "sz_zonefile demo_args = ''zone''"
  "sz_origin demo_args = None" "sz_serial_to_epoch demo_args" "sz_out_file demo_args = Some ''out''"
  "sz_zonemd demo_args = []" "\<not> sz_use_nsec3 demo_args" "\<not> sz_extra_comments demo_args"
  "\<not> sz_rrsig_dates demo_args" "\<not> sz_opt_out demo_args" "\<not> sz_order_nsec3 demo_args"
  by (simp_all add: demo_args_def)

definition ksk_k :: signing_key where "ksk_k = SigningKey ''e'' 257 ''k''"
definition zsk_z :: signing_key where "zsk_z = SigningKey ''e'' 256 ''z''"

lemma key_roles_complete_witness:
  "fst (key_roles demo_signer demo_args [ksk_k, zsk_z]) = [ksk_k, zsk_z] \<and>
   sx_key_algorithm demo_signer ` set (snd (key_roles demo_signer demo_args [ksk_k, zsk_z])) = {8, 13}"
proof
  show "fst (key_roles demo_signer demo_args [ksk_k, zsk_z]) = [ksk_k, zsk_z]"
    by (simp add: key_roles_def Let_def demo_args_sel demo_signer_sel ksk_k_def zsk_z_def unique_algorithms_def)
  show "sx_key_algorithm demo_signer ` set (snd (key_roles demo_signer demo_args [ksk_k, zsk_z])) = {8, 13}"
    using key_roles_complete [of demo_signer demo_args "[ksk_k, zsk_z]"
      "fst (key_roles demo_signer demo_args [ksk_k, zsk_z])" "snd (key_roles demo_signer demo_args [ksk_k, zsk_z])"]
    by (simp add: demo_args_sel demo_signer_sel ksk_k_def zsk_z_def insert_commute)
qed

lemma bumped_serial_increases_witness:
  "bumped_serial demo_signer 5 (- 1) = 5 \<and> sx_serial_gt demo_signer 5 (- 1)"
proof -
  have "sx_serial_gt demo_signer 5 (- 1)" by (simp add: demo_signer_sel)
  with bumped_serial_increases [OF demo_serial_laws, of 5 "- 1"] show ?thesis by simp
qed

definition sign_world :: world where
  "sign_world = \<lparr>w_files = [''zone'' \<mapsto> ''z'', ''k.private'' \<mapsto> ''k'', ''k.key'' \<mapsto> ''k'', ''out'' \<mapsto> ''old''],
     w_denied = \<lambda>p. False, w_write_fails = \<lambda>p. None, w_clock = 0, w_generated = 0,
     w_stdout = [], w_commands = []\<rparr>"

lemma demo_load_key:
  "fst (load_signing_key_at demo_signer ''e'' [] ''k'' sign_world) = Ok (SigningKey ''e'' 256 ''k'')"
  by (simp add: load_signing_key_at_def load_private_key_def load_public_key_def mk_private_key_path_def
      mk_public_key_path_def path_extension_def file_name_def demo_signer_def sign_world_def
      read_file_def fs_read_def bindP_def lift_res_def ret_def mk_signing_key_def Let_def)

lemma demo_no_dnskeys: "rrset_records (sr_find_apex_rtype demo_signer ''e'' RT_DNSKEY [demo_soa]) = []"
  by (simp add: rrset_records_def demo_signer_def demo_soa_def z_rtype_def)

lemma repeated_key_panics_witness:
  "is_panic (fst (use_keys demo_signer demo_args HashAndSign ''e'' 1 3600 [demo_soa] sign_world))"
  by (rule repeated_key_panics [OF demo_insert_law, of demo_args "[]" "''k''" "[]" "[]" ])
    (simp_all add: demo_args_sel demo_no_dnskeys demo_load_key has_dnskey_def)

lemma demo_apex_run:
  "\<exists>final. sign_apex demo_signer demo_args ''e'' 1 3600 [demo_soa] [ksk_k, zsk_z] = Ok final"
  by (simp add: sign_apex_def Let_def key_roles_def demo_args_sel ksk_k_def zsk_z_def unique_algorithms_def
      dnskey_extra_def has_dnskey_def rrset_records_def sign_option_def rrsig_record_def demo_soa_def z_rtype_def
      demo_rrsig_def demo_signer_def)


definition demo_placeholder :: zrec where
  "demo_placeholder = ZRec ''e'' 1 3600 (ZZonemd (ZonemdFields 7 0 0 []))"

definition placeholder_sig :: "signing_key \<Rightarrow> zrec" where
  "placeholder_sig k = ZRec ''e'' 1 3600 (ZRrsig (RrsigData RT_ZONEMD 13 0 10 20 (CHR ''p'' # sk_pair k)))"

lemma demo_zonemd_run:
  "\<exists>final. finish_zonemd demo_signer demo_args HashAndSign ''e'' 1 7 3600 [ksk_k, zsk_z] [(1, 1)]
     [demo_soa, demo_placeholder, placeholder_sig ksk_k, placeholder_sig zsk_z, demo_addr] = Ok final"
  by (simp add: finish_zonemd_def Let_def create_zonemd_digest_simple_def ZONEMD_SIMPLE_def
      ZONEMD_SHA384_def update_zonemd_rrsig_def demo_signer_sel)

lemma zonemd_verifies_witness:
  "\<exists>final digest. finish_zonemd demo_signer demo_args HashAndSign ''e'' 1 7 3600 [ksk_k, zsk_z] [(1, 1)]
       [demo_soa, demo_placeholder, placeholder_sig ksk_k, placeholder_sig zsk_z, demo_addr] = Ok final \<and>
     ZRec ''e'' 1 3600 (ZZonemd (ZonemdFields 7 1 1 digest)) \<in> set final \<and>
     create_zonemd_digest_simple demo_signer ''e'' final 1 = Ok digest"
proof -
  obtain final where run: "finish_zonemd demo_signer demo_args HashAndSign ''e'' 1 7 3600 [ksk_k, zsk_z] [(1, 1)]
       [demo_soa, demo_placeholder, placeholder_sig ksk_k, placeholder_sig zsk_z, demo_addr] = Ok final"
    using demo_zonemd_run by blast
  from zonemd_verifies [OF demo_signer_laws demo_sign_law run, of 1 1] run show ?thesis by auto
qed

lemma zonemd_last_signature_witness:
  "\<exists>final sigs. finish_zonemd demo_signer demo_args HashAndSign ''e'' 1 7 3600 [ksk_k, zsk_z] [(1, 1)]
       [demo_soa, demo_placeholder, placeholder_sig ksk_k, placeholder_sig zsk_z, demo_addr] = Ok final \<and>
     length sigs = 2 \<and> (\<forall>s \<in> set sigs. s \<noteq> last sigs \<longrightarrow> (\<forall>r \<in> set final. z_data r = ZRrsig s \<longrightarrow>
       r \<in> set (sr_remove_first demo_signer ''e'' RT_ZONEMD
         [demo_soa, demo_placeholder, placeholder_sig ksk_k, placeholder_sig zsk_z, demo_addr])))"
proof -
  obtain final where run: "finish_zonemd demo_signer demo_args HashAndSign ''e'' 1 7 3600 [ksk_k, zsk_z] [(1, 1)]
       [demo_soa, demo_placeholder, placeholder_sig ksk_k, placeholder_sig zsk_z, demo_addr] = Ok final"
    using demo_zonemd_run by blast
  from zonemd_last_signature [OF demo_signer_laws demo_sign_law _ run] obtain sigs where
    "length sigs = length [ksk_k, zsk_z]" "\<forall>s \<in> set sigs. s \<noteq> last sigs \<longrightarrow> (\<forall>r \<in> set final. z_data r = ZRrsig s \<longrightarrow>
       r \<in> set (sr_remove_first demo_signer ''e'' RT_ZONEMD
         [demo_soa, demo_placeholder, placeholder_sig ksk_k, placeholder_sig zsk_z, demo_addr]))"
    by auto
  then show ?thesis using run by (intro exI [of _ final] exI [of _ sigs]) simp
qed

definition sig_at :: "name \<Rightarrow> rtype \<Rightarrow> string \<Rightarrow> zrec" where
  "sig_at n t s = ZRec n 1 3600 (ZRrsig (RrsigData t 13 0 10 20 s))"

lemma sig_at_simps [simp]:
  "z_owner (sig_at n t s) = n" "z_rtype (sig_at n t s) = RT_RRSIG" "covers u (sig_at n t s) \<longleftrightarrow> u = t"
  by (auto simp: sig_at_def z_rtype_def covers_def)

lemma demo_rec_simps [simp]:
  "z_owner demo_soa = ''e''" "z_rtype demo_soa = RT_SOA" "\<not> covers t demo_soa"
  "z_owner demo_addr = ''bae''" "z_rtype demo_addr = RT_A" "\<not> covers t demo_addr"
  by (simp_all add: demo_soa_def demo_addr_def z_rtype_def covers_def)

lemma demo_printable:
  "printable demo_signer [demo_soa, sig_at ''e'' RT_SOA ''s'', demo_addr, sig_at ''bae'' RT_A ''a'']"
  by (simp add: printable_def demo_signer_sel at_most_once_def set_type_def uniform_single signatures_cover_def)

lemma output_complete_witness:
  "mset (lines_of (zone_chunks demo_signer demo_args None ''e''
     [demo_soa, sig_at ''e'' RT_SOA ''s'', demo_addr, sig_at ''bae'' RT_A ''a'']))
   = {#demo_soa, sig_at ''e'' RT_SOA ''s'', demo_addr, sig_at ''bae'' RT_A ''a''#}"
  using output_complete [OF demo_printable demo_args_sel(5)] by simp

definition demo_nsec :: zrec where
  "demo_nsec = ZRec ''e'' 1 3600 (ZOther RT_NSEC ''n'')"

lemma ldns_apex_nsec_signature_witness:
  "length (filter (covers RT_NSEC) [demo_nsec, sig_at ''e'' RT_NSEC ''1'', sig_at ''e'' RT_NSEC ''2'']) = 2 \<and>
   length (filter (covers RT_NSEC) (lines_of (owner_chunks demo_signer (demo_args\<lparr>sz_as_ldns := True\<rparr>) None ''e''
     [demo_nsec, sig_at ''e'' RT_NSEC ''1'', sig_at ''e'' RT_NSEC ''2'']))) \<le> 1"
proof
  show "length (filter (covers RT_NSEC) [demo_nsec, sig_at ''e'' RT_NSEC ''1'', sig_at ''e'' RT_NSEC ''2'']) = 2"
    by (simp add: demo_nsec_def covers_def [of _ "ZRec _ _ _ _"])
  show "length (filter (covers RT_NSEC) (lines_of (owner_chunks demo_signer (demo_args\<lparr>sz_as_ldns := True\<rparr>) None ''e''
     [demo_nsec, sig_at ''e'' RT_NSEC ''1'', sig_at ''e'' RT_NSEC ''2'']))) \<le> 1"
    by (rule ldns_apex_nsec_signature [OF _ _ demo_runs_law])
      (simp_all add: demo_args_sel uniform_def demo_nsec_def)
qed

definition demo_prepared :: prepared where
  "demo_prepared = \<lparr>pr_mode = NoSigning, pr_apex = ''e'', pr_class = 1, pr_serial = 8, pr_ttl = 3600,
     pr_records = [ZRec ''e'' 1 3600 (ZSoa (SoaFields ''e'' ''e'' 8 1 1 1 1)), demo_addr], pr_zsks = []\<rparr>"

lemma demo_prepare: "fst (sign_prepare demo_signer demo_args w) = Ok demo_prepared"
  if "w_files w ''zone'' = Some ''z''" "w_clock w = 0"
  using that
  by (simp add: sign_prepare_def signing_mode_of_def demo_args_sel load_zone_def read_file_def fs_read_def
      demo_signer_def bindP_def lift_res_def gets_def ret_def kept_def find_apex_def process_soa_def
      mk_bumped_soa_rdata_def bump_def bumped_serial_def seconds_since_epoch_def as_secs_def
      use_keys_def demo_prepared_def demo_soa_def demo_addr_def z_rtype_def)

lemma demo_sign_prepared:
  "sign_prepared demo_signer demo_args demo_prepared = Ok (pr_records demo_prepared, None)"
  by (simp add: sign_prepared_def sign_records_def Let_def demo_args_sel nsec3_hashes_def demo_signer_def)

lemma demo_out: "out_file_of demo_args = ''out''" "sx_in_cwd demo_signer p = p"
  by (simp_all add: out_file_of_def demo_args_sel demo_signer_def)

definition demo_chunks :: "chunk list" where
  "demo_chunks = zone_chunks demo_signer demo_args None ''e'' (pr_records demo_prepared)"

lemma demo_chunks_text:
  "Fails \<notin> set demo_chunks" "chunks_text demo_signer demo_args demo_chunks = ''e'' @ newline @ ''bae'' @ newline"
  by (simp_all add: demo_chunks_def zone_chunks_def header_chunks_def soa_chunks_def owner_groups_def
      owner_chunks_def ordered_owner_chunks_def Let_def demo_args_sel demo_signer_sel set_chunks_def
      set_type_def z_rtype_def demo_prepared_def demo_addr_def writeln_rr_def covering_rrsigs_def
      commented_rr_def withheld_def apex_nsec_chunks_def chunks_text_def write_rr_def covers_def demo_signer_def)

lemma sign_output_file_witness:
  "sign_execute demo_signer demo_args sign_world =
     (Ok (), sign_world\<lparr>w_files := (w_files sign_world)(''out'' \<mapsto> ''e'' @ newline @ ''bae'' @ newline)\<rparr>)"
proof -
  have "fst (sign_prepare demo_signer demo_args sign_world) = Ok demo_prepared"
    by (rule demo_prepare) (simp_all add: sign_world_def)
  from sign_output_file [OF this demo_sign_prepared] show ?thesis
    using demo_chunks_text unfolding demo_out demo_chunks_def
    by (simp add: sign_world_def demo_prepared_def)
qed

lemma full_disk_unnoticed_witness:
  "\<exists>w. sign_execute demo_signer demo_args (sign_world\<lparr>w_write_fails := \<lambda>p. Some 1\<rparr>) = (Ok (), w)
     \<and> w_files w ''out'' = Some ''e''"
proof -
  let ?w = "sign_world\<lparr>w_write_fails := \<lambda>p. Some 1\<rparr>"
  have "fst (sign_prepare demo_signer demo_args ?w) = Ok demo_prepared"
    by (rule demo_prepare) (simp_all add: sign_world_def)
  from full_disk_unnoticed [OF this demo_sign_prepared, of 1] show ?thesis
    using demo_chunks_text unfolding demo_out demo_chunks_def
    by (simp add: sign_world_def demo_prepared_def newline_def BUF_CAPACITY_def)
qed

lemma failed_signing_empties_output_witness:
  "\<exists>e w. sign_execute (demo_signer\<lparr>sr_sign_zone := \<lambda>apex c ks rs. Inl ''no''\<rparr>) demo_args sign_world = (Err e, w)
     \<and> w_files w ''out'' = Some []"
proof -
  let ?A = "demo_signer\<lparr>sr_sign_zone := \<lambda>apex c ks rs. Inl ''no''\<rparr>"
  have "fst (sign_prepare ?A demo_args sign_world) = Ok demo_prepared"
    by (simp add: sign_prepare_def signing_mode_of_def demo_args_sel load_zone_def read_file_def fs_read_def
      demo_signer_def bindP_def lift_res_def gets_def ret_def kept_def find_apex_def process_soa_def
      mk_bumped_soa_rdata_def bump_def bumped_serial_def seconds_since_epoch_def as_secs_def
      use_keys_def demo_prepared_def demo_soa_def demo_addr_def z_rtype_def sign_world_def)
  moreover have "sign_prepared ?A demo_args demo_prepared = Err ''Signing failed: no''"
    by (simp add: sign_prepared_def sign_records_def Let_def demo_args_sel nsec3_hashes_def demo_signer_def)
  ultimately show ?thesis
    using failed_signing_empties_output [of ?A demo_args sign_world demo_prepared "''Signing failed: no''"]
    by (simp add: out_file_of_def demo_args_sel demo_signer_def sign_world_def)
qed

lemma hash_names_reference_witness:
  "\<exists>m. hash_names demo_signer demo_args ''e'' [(''e'', RT_SOA), (''bae'', RT_A)] None None [] = Ok m \<and>
     map_of m ''Hae'' = Some (''ae'', True) \<and> map_of m ''Hbae'' = Some (''bae'', False)"
proof -
  let ?sets = "[(''e'', RT_SOA), (''bae'', RT_A)]"
  have "in_order (\<lambda>a b. lex_less (demo_order a) (demo_order b)) ?sets"
    by (simp add: in_order_def demo_order_def)
  from hash_names_reference [OF demo_canonical demo_suffix_laws demo_hashes_to this, of demo_args "''e''"]
  obtain m where m: "hash_names demo_signer demo_args ''e'' ?sets None None [] = Ok m"
    "\<forall>n \<in> with_ancestors demo_signer ''e'' (hashed_owners demo_signer demo_args ''e'' ?sets ?sets).
       map_of m (CHR ''H'' # n) = Some (n, n \<notin> hashed_owners demo_signer demo_args ''e'' ?sets ?sets)"
    by blast
  have owners: "hashed_owners demo_signer demo_args ''e'' ?sets ?sets = {''e'', ''bae''}"
    by (auto simp: hashed_owners_def cut_below_def demo_args_sel)
  have "with_ancestors demo_signer ''e'' {''e'', ''bae''} = {''e'', ''bae'', ''ae''}"
    by (auto simp: with_ancestors_def ancestors_def demo_signer_sel)
  with m owners show ?thesis by auto
qed

end
