(* ===== verification/Net_Api.thy ===== *)
theory Net_Api
  imports Logging
begin

text \<open>
  What \<open>dnst update\<close> and \<open>dnst notify\<close> (src/commands/update.rs, src/commands/notify.rs) use of
  the crates \<open>domain\<close> and \<open>tokio\<close>: messages as lists of records, the resolver, sending one
  request, and the parsers of names, types, addresses and records, as the fields of the record
  \<open>net\<close>. The answer to a request may depend on how many requests were sent before it. The state
  is the console and the list of requests sent.
\<close>

section \<open>Classes, types and messages\<close>

definition CLASS_NONE :: nat where "CLASS_NONE = 254"
definition CLASS_ANY :: nat where "CLASS_ANY = 255"

abbreviation RT_ANY :: rtype where "RT_ANY \<equiv> RT_OTHER 255"
abbreviation RT_OPT :: rtype where "RT_OPT \<equiv> RT_OTHER 41"

definition OPCODE_NOTIFY :: nat where "OPCODE_NOTIFY = 4"
definition OPCODE_UPDATE :: nat where "OPCODE_UPDATE = 5"

definition NOERROR :: nat where "NOERROR = 0"
definition SERVFAIL :: nat where "SERVFAIL = 2"
definition NOTIMP :: nat where "NOTIMP = 4"

record question =
  qu_name :: name
  qu_type :: rtype
  qu_class :: nat

record dns_msg =
  dm_id :: u16
  dm_opcode :: nat
  dm_qr :: bool
  dm_aa :: bool
  dm_question :: "question list"
  dm_answer :: "rr list"
  dm_authority :: "rr list"
  dm_additional :: "rr list"

text \<open>
  A received message: the fields of its header, its EDNS record, and the items of its sections as
  the iterators of the crate yield them; the step from one section to the next fails if the
  section before it is malformed.
\<close>

datatype opt_data =
  OptNsid string | OptDau string | OptDhu string | OptN3u string | OptExpire string
| OptTcpKeepalive "string option" | OptPadding string | OptClientSubnet string
| OptCookie string | OptChain string | OptKeyTag string | OptExtendedError string
| OptOther string | OptUnknown

record edns =
  ed_version :: nat
  ed_do :: bool
  ed_udp_size :: u16
  ed_options :: "(string + opt_data) list"

record response =
  rs_opcode :: string
  rs_rcode :: nat
  rs_id :: u16
  rs_flags :: string
  rs_counts :: "nat \<times> nat \<times> nat \<times> nat"
  rs_opt :: "edns option"
  rs_questions :: "(string + string) list"
  rs_answer :: "string + (string + rr) list"
  rs_authority :: "string + (string + rr) list"
  rs_additional :: "string + (string + rr) list"
  rs_length :: nat
  rs_text :: string

section \<open>Sending\<close>

text \<open>Name, secret and algorithm of a TSIG key as given on the command line.\<close>

record tsig_info =
  ti_name :: name
  ti_key :: string
  ti_algorithm :: tsig_algorithm

type_synonym socket = "addr \<times> nat"

record request =
  rq_src :: socket
  rq_dst :: socket
  rq_tsig :: "tsig_key option"
  rq_retries :: "nat option"
  rq_msg :: dns_msg

record console =
  co_out :: "string list"
  co_err :: "err_line list"
  co_sent :: "request list"

definition out_ln :: "string \<Rightarrow> (console, unit) prog" where
  "out_ln l = modify (\<lambda>c. c\<lparr>co_out := co_out c @ [l]\<rparr>)"

definition err_ln :: "string \<Rightarrow> (console, unit) prog" where
  "err_ln l = modify (\<lambda>c. c\<lparr>co_err := co_err c @ [Plain l]\<rparr>)"

text \<open>\<open>warn!\<close>\<close>

definition warn_ln :: "string \<Rightarrow> (console, unit) prog" where
  "warn_ln l = modify (\<lambda>c. c\<lparr>co_err := co_err c @ [Event LvWarn l]\<rparr>)"

section \<open>The operations of the crates\<close>

text \<open>A domain name that may be relative.\<close>

datatype uncertain_name = AbsoluteName name | RelativeName string

record net =
  nt_query :: "socket option \<Rightarrow> question \<Rightarrow> string + response"
  nt_lookup_host :: "name \<Rightarrow> string + addr list"
  nt_is_ipv4 :: "addr \<Rightarrow> bool"
  nt_send :: "nat \<Rightarrow> request \<Rightarrow> string + response"
  nt_push_error :: "dns_msg \<Rightarrow> rr \<Rightarrow> string option"
  nt_tsig_new :: "tsig_info \<Rightarrow> string + tsig_key"
  nt_tsig_algorithm :: "string \<Rightarrow> (string + tsig_algorithm)"
  nt_base64 :: "string \<Rightarrow> string + string"
  nt_name :: "string \<Rightarrow> string + name"
  nt_addr :: "string \<Rightarrow> string + addr"
  nt_socket :: "string \<Rightarrow> string + socket"
  nt_rtype :: "string \<Rightarrow> string + rtype"
  nt_uncertain :: "string \<Rightarrow> string + uncertain_name"
  nt_chain :: "uncertain_name \<Rightarrow> name \<Rightarrow> name option"
  nt_next_entry :: "name option \<Rightarrow> nat option \<Rightarrow> string \<Rightarrow> string + entry option"
  nt_rdlen :: "rdata \<Rightarrow> nat"
  nt_show_data :: "rdata \<Rightarrow> string option"
  nt_show_rtype :: "rtype \<Rightarrow> string"
  nt_show_class :: "nat \<Rightarrow> string"
  nt_show_rcode :: "nat \<Rightarrow> string"
  nt_show_name :: "name \<Rightarrow> string"
  nt_show_question :: "question \<Rightarrow> string"
  nt_show_msg :: "dns_msg \<Rightarrow> string"
  nt_hexdump :: "dns_msg \<Rightarrow> string"
  nt_msg_opt :: "dns_msg \<Rightarrow> edns option"
  nt_random_id :: u16
  nt_elapsed_ms :: "nat \<Rightarrow> nat"
  nt_when :: "nat \<Rightarrow> string"

text \<open>The unspecified address from which a request to \<open>a\<close> is sent.\<close>

definition any_source :: "net \<Rightarrow> addr \<Rightarrow> socket" where
  "any_source N a = (if nt_is_ipv4 N a then (''0.0.0.0'', 0) else (''::'', 0))"

definition show_socket :: "net \<Rightarrow> socket \<Rightarrow> string" where
  "show_socket N s =
     (if nt_is_ipv4 N (fst s) then fst s else ''['' @ fst s @ '']'') @ '':'' @ show_nat (snd s)"

definition send_request :: "net \<Rightarrow> request \<Rightarrow> (console, string + response) prog" where
  "send_request N r c =
     (Ok (nt_send N (length (co_sent c)) r), c\<lparr>co_sent := co_sent c @ [r]\<rparr>)"

text \<open>Appending a record to the section that is being built.\<close>

definition push_answer :: "net \<Rightarrow> (string \<Rightarrow> string) \<Rightarrow> rr \<Rightarrow> dns_msg \<Rightarrow> dns_msg res" where
  "push_answer N f r m = (case nt_push_error N m r of
      Some e \<Rightarrow> Err (f e) | None \<Rightarrow> Ok (m\<lparr>dm_answer := dm_answer m @ [r]\<rparr>))"

definition push_authority :: "net \<Rightarrow> (string \<Rightarrow> string) \<Rightarrow> rr \<Rightarrow> dns_msg \<Rightarrow> dns_msg res" where
  "push_authority N f r m = (case nt_push_error N m r of
      Some e \<Rightarrow> Err (f e) | None \<Rightarrow> Ok (m\<lparr>dm_authority := dm_authority m @ [r]\<rparr>))"

text \<open>A TSIG key from the options, if one is given.\<close>

definition tsig_key_of :: "net \<Rightarrow> tsig_info option \<Rightarrow> tsig_key option res" where
  "tsig_key_of N t = (case t of
      None \<Rightarrow> Ok None
    | Some i \<Rightarrow> bind_res (map_err (\<lambda>e. ''TSIG key is invalid: '' @ e) (nt_tsig_new N i)) (\<lambda>k. Ok (Some k)))"

end
