(* ===== verification/Tsig_Option.thy ===== *)
theory Tsig_Option
  imports Net_Api Cli
begin

text \<open>
  TSIG keys on the command line of \<open>dnst update\<close> and \<open>dnst notify\<close> (src/parse.rs):
  \<open>name:key[:algorithm]\<close>, or \<open>algorithm:name:key\<close> as \<open>dig\<close> has it.
\<close>

definition parse_name :: "net \<Rightarrow> string \<Rightarrow> string + name" where
  "parse_name N arg = nt_name N (to_lowercase arg)"

definition is_err :: "string + 'a \<Rightarrow> bool" where
  "is_err r \<longleftrightarrow> (case r of Inl _ \<Rightarrow> True | Inr _ \<Rightarrow> False)"

lemma is_err_simps [simp]: "is_err (Inl e)" "\<not> is_err (Inr x)"
  by (simp_all add: is_err_def)

text \<open>The name, the key and the algorithm that the text stands for.\<close>

definition tsig_fields :: "net \<Rightarrow> string \<Rightarrow> (string \<times> string \<times> string) option" where
  "tsig_fields N s =
     (case split_once (CHR '':'') s of
        None \<Rightarrow> None
      | Some (name, rest) \<Rightarrow>
         (let (key, alg) =
            (case split_once (CHR '':'') rest of Some (k, a) \<Rightarrow> (k, a) | None \<Rightarrow> (rest, ''hmac-sha256''))
          in if is_err (nt_tsig_algorithm N alg) \<and> \<not> is_err (nt_tsig_algorithm N name)
             then Some (key, alg, name) else Some (name, key, alg)))"

definition tsig_info_from_str :: "net \<Rightarrow> string \<Rightarrow> string + tsig_info" where
  "tsig_info_from_str N s =
     (case tsig_fields N s of
        None \<Rightarrow> Inl ''should contain at least one `:`''
      | Some (name, key, alg) \<Rightarrow>
         (case nt_tsig_algorithm N alg of
            Inl e \<Rightarrow> Inl (''Unsupported TSIG algorithm: '' @ alg)
          | Inr a \<Rightarrow>
             (case nt_base64 N key of
                Inl e \<Rightarrow> Inl (''TSIG key is invalid base64: '' @ e)
              | Inr k \<Rightarrow>
                 (case nt_name N name of
                    Inl e \<Rightarrow> Inl (''TSIG name is invalid: '' @ e)
                  | Inr n \<Rightarrow> Inr \<lparr>ti_name = n, ti_key = k, ti_algorithm = a\<rparr>))))"

lemma split_once_append: "c \<notin> set a \<Longrightarrow> split_once c (a @ c # b) = Some (a, b)"
  by (induction a) auto

lemma split_once_absent: "c \<notin> set a \<Longrightarrow> split_once c a = None"
  by (induction a) auto

lemma tsig_fields_three:
  assumes "CHR '':'' \<notin> set x" "CHR '':'' \<notin> set y"
  shows "tsig_fields N (x @ '':'' @ y @ '':'' @ z) =
    (if is_err (nt_tsig_algorithm N z) \<and> \<not> is_err (nt_tsig_algorithm N x)
     then Some (y, z, x) else Some (x, y, z))"
  using split_once_append [OF assms(1), of "y @ CHR '':'' # z"] split_once_append [OF assms(2), of z]
  by (simp add: tsig_fields_def)

text \<open>
  The order of \<open>dig\<close> and the order of \<open>ldns\<close> give the same TSIG key, and without
  an algorithm it is hmac-sha256: for a known algorithm and a key that is not the name of one.
\<close>

theorem tsig_orders_agree:
  assumes colons: "CHR '':'' \<notin> set name" "CHR '':'' \<notin> set key" "CHR '':'' \<notin> set alg"
    and known: "nt_tsig_algorithm N alg = Inr a"
    and key: "nt_tsig_algorithm N key = Inl e"
    and default: "nt_tsig_algorithm N ''hmac-sha256'' = Inr TsigSha256"
  shows "tsig_info_from_str N (alg @ '':'' @ name @ '':'' @ key)
           = tsig_info_from_str N (name @ '':'' @ key @ '':'' @ alg) \<and>
         tsig_info_from_str N (name @ '':'' @ key)
           = tsig_info_from_str N (name @ '':'' @ key @ '':'' @ ''hmac-sha256'')"
proof -
  have "tsig_fields N (alg @ '':'' @ name @ '':'' @ key) = Some (name, key, alg)"
    unfolding tsig_fields_three [OF colons(3) colons(1)] using known key by simp
  moreover have "tsig_fields N (name @ '':'' @ key @ '':'' @ alg) = Some (name, key, alg)"
    unfolding tsig_fields_three [OF colons(1) colons(2)] using known by simp
  moreover have "tsig_fields N (name @ '':'' @ key @ '':'' @ ''hmac-sha256'') = Some (name, key, ''hmac-sha256'')"
    unfolding tsig_fields_three [OF colons(1) colons(2)] using default by simp
  moreover have "tsig_fields N (name @ '':'' @ key) = Some (name, key, ''hmac-sha256'')"
    using split_once_append [OF colons(1), of key] split_once_absent [OF colons(2)] default
    by (simp add: tsig_fields_def)
  ultimately show ?thesis by (simp add: tsig_info_from_str_def)
qed

end
