(* ===== verification/Update.thy ===== *)
theory Update
  imports Tsig_Option
begin

text \<open>
  \<open>dnst update\<close> and \<open>ldns-update\<close> (src/commands/update.rs): the options, finding the zone and
  its name servers, the prerequisites, the UPDATE message and sending it. \<open>Update_Print\<close> holds
  the dig-style texts of messages, \<open>Update_Run\<close> the exchange with the servers.
\<close>

section \<open>Serial numbers and TTLs\<close>

definition SOA_SERIAL_CUTOFF :: u32 where "SOA_SERIAL_CUTOFF = push_bit 31 1"

datatype ordering = Less | Equal | Greater

definition compare_serial :: "u32 \<Rightarrow> u32 \<Rightarrow> ordering" where
  "compare_serial a b =
     (if a = b then Equal
      else if (a < b \<and> b - a < SOA_SERIAL_CUTOFF) \<or> (a > b \<and> a - b > SOA_SERIAL_CUTOFF) then Less
      else Greater)"

definition verify_soa_serial_increment :: "soa \<Rightarrow> soa \<Rightarrow> bool" where
  "verify_soa_serial_increment old new \<longleftrightarrow> compare_serial (soa_serial new) (soa_serial old) = Greater"

definition strip_suffix :: "char \<Rightarrow> string \<Rightarrow> string option" where
  "strip_suffix c s = (if s \<noteq> [] \<and> last s = c then Some (butlast s) else None)"

definition parse_u32 :: "string \<Rightarrow> string + u32" where
  "parse_u32 s = (case parse_uint (2 ^ 32) s of
      Some n \<Rightarrow> Inr (of_nat n) | None \<Rightarrow> Inl (parse_int_error s))"

definition map_ok :: "('a \<Rightarrow> 'b) \<Rightarrow> string + 'a \<Rightarrow> string + 'b" where
  "map_ok f r = (case r of Inl e \<Rightarrow> Inl e | Inr x \<Rightarrow> Inr (f x))"

text \<open>The multiplication wraps, as in a release build.\<close>

definition parse_ttl :: "string \<Rightarrow> ttl res" where
  "parse_ttl arg =
     map_err (\<lambda>e. ''Invalid TTL: '' @ e)
       (case strip_suffix (CHR ''s'') arg of Some t \<Rightarrow> parse_u32 t | None \<Rightarrow>
       (case strip_suffix (CHR ''m'') arg of Some t \<Rightarrow> map_ok (\<lambda>t. t * 60) (parse_u32 t) | None \<Rightarrow>
       (case strip_suffix (CHR ''h'') arg of Some t \<Rightarrow> map_ok (\<lambda>t. t * 3600) (parse_u32 t) | None \<Rightarrow>
       (case strip_suffix (CHR ''d'') arg of Some t \<Rightarrow> map_ok (\<lambda>t. t * 86400) (parse_u32 t) | None \<Rightarrow>
        parse_u32 arg))))"

section \<open>Options\<close>

datatype update_action =
  AddRecords rtype "string list" | DeleteRecords rtype "string list" | ClearDomain

record update_args =
  up_domain :: name
  up_action :: update_action
  up_class :: nat
  up_ttl :: ttl
  up_nameservers :: "addr option"
  up_zone :: "name option"
  up_tsig :: "tsig_info option"
  up_rrset_exists :: "string list option"
  up_rrset_exists_exact :: "string list option"
  up_rrset_non_existent :: "string list option"
  up_name_in_use :: "string list option"
  up_name_not_in_use :: "string list option"

record prerequisites =
  pq_rrset_exists :: "(name \<times> rtype) list option"
  pq_rrset_exists_exact :: "rr list option"
  pq_rrset_non_existent :: "(name \<times> rtype) list option"
  pq_name_in_use :: "name list option"
  pq_name_not_in_use :: "name list option"

section \<open>Prerequisites\<close>

text \<open>Conversions that stop at the first error, for the loops that push into a vector.\<close>

fun collect_res :: "'a list \<Rightarrow> ('a \<Rightarrow> 'b res) \<Rightarrow> 'b list res" where
  "collect_res [] f = Ok []"
| "collect_res (x # xs) f = bind_res (f x) (\<lambda>y. bind_res (collect_res xs f) (\<lambda>ys. Ok (y # ys)))"

definition chain_name :: "net \<Rightarrow> string \<Rightarrow> name \<Rightarrow> name res" where
  "chain_name N n origin =
     bind_res (map_err (\<lambda>e. ''Invalid domain name '' @ [CHR 0x27] @ n @ [CHR 0x27] @ '': '' @ e) (nt_uncertain N n))
       (\<lambda>u. case nt_chain N u origin of
          Some full \<Rightarrow> Ok full
        | None \<Rightarrow> Err (''Combining '' @ n @ ''.'' @ nt_show_name N origin @ '' is too long for a domain name''))"

definition prerequisite_name_type :: "net \<Rightarrow> name \<Rightarrow> string \<Rightarrow> (name \<times> rtype) res" where
  "prerequisite_name_type N origin arg =
     (case split_once (CHR '' '') arg of
        Some (n, typ) \<Rightarrow>
          bind_res (map_err (\<lambda>e. ''Invalid resource record type '' @ [CHR 0x27] @ typ @ [CHR 0x27] @ '': '' @ e) (nt_rtype N typ)) (\<lambda>t.
          bind_res (chain_name N n origin) (\<lambda>full. Ok (full, t)))
      | None \<Rightarrow> Err (''Invalid prerequisite argument format. Expected format '' @ [CHR 0x27] @ ''<DOMAIN_NAME> <TYPE>''
          @ [CHR 0x27] @ '', was '' @ [CHR 0x27] @ arg @ [CHR 0x27] @ ''.''))"

definition parse_prerequisite_name_type :: "net \<Rightarrow> string list \<Rightarrow> name \<Rightarrow> (name \<times> rtype) list res" where
  "parse_prerequisite_name_type N args origin = collect_res args (prerequisite_name_type N origin)"

definition parse_prerequisite_name :: "net \<Rightarrow> string list \<Rightarrow> name \<Rightarrow> name list res" where
  "parse_prerequisite_name N args origin = collect_res args (\<lambda>n. chain_name N n origin)"

definition set_ttl :: "ttl \<Rightarrow> rr \<Rightarrow> rr" where
  "set_ttl t r = RR (rr_owner r) (rr_class r) t (rr_data r)"

definition prerequisite_record :: "net \<Rightarrow> name \<Rightarrow> nat \<Rightarrow> string \<Rightarrow> rr res" where
  "prerequisite_record N origin class arg =
     (case nt_next_entry N (Some origin) (Some class) (arg @ [CHR 0x0A]) of
        Inr (Some (EntryRecord r)) \<Rightarrow> Ok (set_ttl 0 r)
      | _ \<Rightarrow> Err (''Provided argument is not a valid resource record: '' @ arg))"

definition parse_prerequisite_rrset_exists_exact :: "net \<Rightarrow> string list \<Rightarrow> name \<Rightarrow> nat \<Rightarrow> rr list res" where
  "parse_prerequisite_rrset_exists_exact N args origin class =
     collect_res args (prerequisite_record N origin class)"

definition parse_opt :: "'a option \<Rightarrow> ('a \<Rightarrow> 'b res) \<Rightarrow> 'b option res" where
  "parse_opt v f = (case v of None \<Rightarrow> Ok None | Some x \<Rightarrow> bind_res (f x) (\<lambda>y. Ok (Some y)))"

definition parse_prerequisites :: "net \<Rightarrow> update_args \<Rightarrow> name \<Rightarrow> prerequisites res" where
  "parse_prerequisites N args origin =
     bind_res (parse_opt (up_rrset_exists args) (\<lambda>v. parse_prerequisite_name_type N v origin)) (\<lambda>ex.
     bind_res (parse_opt (up_rrset_exists_exact args)
                 (\<lambda>v. parse_prerequisite_rrset_exists_exact N v origin (up_class args))) (\<lambda>exact.
     bind_res (parse_opt (up_rrset_non_existent args) (\<lambda>v. parse_prerequisite_name_type N v origin)) (\<lambda>nex.
     bind_res (parse_opt (up_name_in_use args) (\<lambda>v. parse_prerequisite_name N v origin)) (\<lambda>used.
     bind_res (parse_opt (up_name_not_in_use args) (\<lambda>v. parse_prerequisite_name N v origin)) (\<lambda>unused.
     Ok \<lparr>pq_rrset_exists = ex, pq_rrset_exists_exact = exact, pq_rrset_non_existent = nex,
       pq_name_in_use = used, pq_name_not_in_use = unused\<rparr>)))))"

section \<open>Records of the message\<close>

text \<open>\<open>UnknownRecordData\<close> without octets.\<close>

definition empty_data :: "rtype \<Rightarrow> rdata" where
  "empty_data t = OtherData t []"

definition create_rr_addition :: "name \<Rightarrow> nat \<Rightarrow> ttl \<Rightarrow> rdata \<Rightarrow> rr" where
  "create_rr_addition domain class ttl rdata = RR domain class ttl rdata"

definition create_rr_deletion :: "name \<Rightarrow> rdata \<Rightarrow> rr" where
  "create_rr_deletion domain rdata = RR domain CLASS_NONE 0 rdata"

definition create_rrset_deletion :: "name \<Rightarrow> rtype \<Rightarrow> rr" where
  "create_rrset_deletion domain t = RR domain CLASS_ANY 0 (empty_data t)"

definition create_all_rrset_deletion :: "name \<Rightarrow> rr" where
  "create_all_rrset_deletion domain = RR domain CLASS_ANY 0 (empty_data RT_ANY)"

definition create_prereq_rrset_exists :: "name \<Rightarrow> rtype \<Rightarrow> rr" where
  "create_prereq_rrset_exists domain t = RR domain CLASS_ANY 0 (empty_data t)"

definition create_prereq_rrset_non_existent :: "name \<Rightarrow> rtype \<Rightarrow> rr" where
  "create_prereq_rrset_non_existent domain t = RR domain CLASS_NONE 0 (empty_data t)"

definition create_prereq_name_in_use :: "name \<Rightarrow> rr" where
  "create_prereq_name_in_use domain = RR domain CLASS_ANY 0 (empty_data RT_ANY)"

definition create_prereq_name_not_in_use :: "name \<Rightarrow> rr" where
  "create_prereq_name_not_in_use domain = RR domain CLASS_NONE 0 (empty_data RT_ANY)"

section \<open>The message\<close>

fun push_all :: "(rr \<Rightarrow> dns_msg \<Rightarrow> dns_msg res) \<Rightarrow> rr list \<Rightarrow> dns_msg \<Rightarrow> dns_msg res" where
  "push_all push [] m = Ok m"
| "push_all push (r # rs) m = bind_res (push r m) (push_all push rs)"

definition these :: "'a list option \<Rightarrow> 'a list" where
  "these v = (case v of None \<Rightarrow> [] | Some xs \<Rightarrow> xs)"

text \<open>The loops over the prerequisites, one after the other.\<close>

definition prerequisite_rrs :: "prerequisites \<Rightarrow> rr list" where
  "prerequisite_rrs p =
     map (\<lambda>(domain, t). create_prereq_rrset_exists domain t) (these (pq_rrset_exists p))
     @ these (pq_rrset_exists_exact p)
     @ map (\<lambda>(domain, t). create_prereq_rrset_non_existent domain t) (these (pq_rrset_non_existent p))
     @ map create_prereq_name_in_use (these (pq_name_in_use p))
     @ map create_prereq_name_not_in_use (these (pq_name_not_in_use p))"

definition add_failed :: "string \<Rightarrow> string" where
  "add_failed e = ''Failed to add RR to UPDATE message: '' @ e"

definition insert_prerequisites :: "net \<Rightarrow> prerequisites \<Rightarrow> dns_msg \<Rightarrow> dns_msg res" where
  "insert_prerequisites N p m = push_all (push_answer N add_failed) (prerequisite_rrs p) m"

definition parse_rdata :: "net \<Rightarrow> rtype \<Rightarrow> string \<Rightarrow> rdata res" where
  "parse_rdata N t rdata =
     (case nt_next_entry N None None (''. 1 IN '' @ nt_show_rtype N t @ '' '' @ rdata @ [CHR 0x0A]) of
        Inr (Some (EntryRecord r)) \<Rightarrow> Ok (rr_data r)
      | Inr _ \<Rightarrow> Panic ''We always create a record''
      | Inl e \<Rightarrow> Err (''Failed to parse rdata for '' @ nt_show_rtype N t @ '' '' @ rdata @ '' -- Error: '' @ e))"

definition soa_increment_error :: "u32 \<Rightarrow> u32 \<Rightarrow> string" where
  "soa_increment_error old new =
     ''SOA serial is only allowed to be incremented (and maximally by '' @ show_nat (unat SOA_SERIAL_CUTOFF)
     @ '' at once), got old serial = '' @ show_nat (unat old) @ '' and new serial = '' @ show_nat (unat new)"

fun insert_add_loop :: "net \<Rightarrow> update_args \<Rightarrow> rtype \<Rightarrow> soa \<Rightarrow> string list \<Rightarrow> dns_msg \<Rightarrow> dns_msg res" where
  "insert_add_loop N args t soa [] m = Ok m"
| "insert_add_loop N args t soa (r # rs) m =
     bind_res (parse_rdata N t r) (\<lambda>rdata.
     bind_res (case rdata of
         Soa new_soa \<Rightarrow> if verify_soa_serial_increment soa new_soa then Ok ()
           else Err (soa_increment_error (soa_serial soa) (soa_serial new_soa))
       | _ \<Rightarrow> Ok ()) (\<lambda>_.
     bind_res (push_authority N add_failed
         (create_rr_addition (up_domain args) (up_class args) (up_ttl args) rdata) m) (\<lambda>m'.
     insert_add_loop N args t soa rs m')))"

definition insert_add_updates ::
  "net \<Rightarrow> update_args \<Rightarrow> rtype \<Rightarrow> string list \<Rightarrow> soa \<Rightarrow> dns_msg \<Rightarrow> dns_msg res" where
  "insert_add_updates N args t rdata soa m =
     (if rdata = [] then Err ''Provide at least one RDATA item to add''
      else insert_add_loop N args t soa rdata m)"

definition rr_deletion_failed :: "string \<Rightarrow> string" where
  "rr_deletion_failed e = ''Failed to add RR deletion RR to UPDATE message: '' @ e"

definition rrset_deletion_failed :: "string \<Rightarrow> string" where
  "rrset_deletion_failed e = ''Failed to add RRset deletion RR to UPDATE message: '' @ e"

fun insert_delete_loop :: "net \<Rightarrow> update_args \<Rightarrow> rtype \<Rightarrow> string list \<Rightarrow> dns_msg \<Rightarrow> dns_msg res" where
  "insert_delete_loop N args t [] m = Ok m"
| "insert_delete_loop N args t (r # rs) m =
     bind_res (parse_rdata N t r) (\<lambda>rdata.
     bind_res (push_authority N rr_deletion_failed (create_rr_deletion (up_domain args) rdata) m) (\<lambda>m'.
     insert_delete_loop N args t rs m'))"

definition insert_delete_updates :: "net \<Rightarrow> update_args \<Rightarrow> rtype \<Rightarrow> string list \<Rightarrow> dns_msg \<Rightarrow> dns_msg res" where
  "insert_delete_updates N args t rdata m =
     (if rdata = [] then
        push_authority N rrset_deletion_failed (create_rrset_deletion (up_domain args) t) m
      else insert_delete_loop N args t rdata m)"

text \<open>The header and the zone section; the class of the zone is always IN.\<close>

definition update_header :: "name \<Rightarrow> dns_msg" where
  "update_header zone =
     \<lparr>dm_id = 0, dm_opcode = OPCODE_UPDATE, dm_qr = False, dm_aa = False,
      dm_question = [\<lparr>qu_name = zone, qu_type = RT_SOA, qu_class = class_IN\<rparr>],
      dm_answer = [], dm_authority = [], dm_additional = []\<rparr>"

definition create_update_message ::
  "net \<Rightarrow> update_args \<Rightarrow> name \<Rightarrow> prerequisites \<Rightarrow> soa \<Rightarrow> dns_msg res" where
  "create_update_message N args zone p soa =
     bind_res (insert_prerequisites N p (update_header zone)) (\<lambda>m.
     case up_action args of
       AddRecords t rdata \<Rightarrow> insert_add_updates N args t rdata soa m
     | DeleteRecords t rdata \<Rightarrow> insert_delete_updates N args t rdata m
     | ClearDomain \<Rightarrow> push_authority N rrset_deletion_failed (create_all_rrset_deletion (up_domain args)) m)"

section \<open>\<open>ldns-update\<close>\<close>

record ldns_update =
  lu_domain :: name
  lu_ip :: "addr option"
  lu_zone :: "name option"
  lu_tsig :: "tsig_info option"

definition parse_ldns_tsig :: "net \<Rightarrow> (os_string \<times> os_string \<times> os_string) option \<Rightarrow> tsig_info option res" where
  "parse_ldns_tsig N tsig = parse_opt tsig (\<lambda>(n, alg, key).
     bind_res (parse_os_with ''TSIG name'' (nt_name N) n) (\<lambda>n.
     bind_res (parse_os_with ''TSIG key'' (nt_base64 N) key) (\<lambda>k.
     bind_res (parse_os_with ''TSIG algorithm'' (nt_tsig_algorithm N) alg) (\<lambda>a.
     Ok \<lparr>ti_name = n, ti_key = k, ti_algorithm = a\<rparr>))))"

definition update_fields ::
  "os_string list \<Rightarrow> (os_string \<times> os_string option \<times> os_string \<times> (os_string \<times> os_string \<times> os_string) option) res" where
  "update_fields args =
     (case args of
        [domain, ip] \<Rightarrow> Ok (domain, None, ip, None)
      | [domain, zone, ip] \<Rightarrow> Ok (domain, Some zone, ip, None)
      | [domain, ip, n, alg, key] \<Rightarrow> Ok (domain, None, ip, Some (n, alg, key))
      | [domain, zone, ip, n, alg, key] \<Rightarrow> Ok (domain, Some zone, ip, Some (n, alg, key))
      | _ \<Rightarrow> Err (if length args < 2 then ''Not enough arguments. ldns-update requires at least 2 arguments''
                 else if 6 < length args then ''Too many arguments. ldns-update requires at most 6 arguments''
                 else ''Cannot take 4 arguments. ldns-update needs 2, 3, 5 or 6 arguments''))"

definition update_parse_ldns :: "net \<Rightarrow> os_string list \<Rightarrow> ldns_update res" where
  "update_parse_ldns N args =
     bind_res (update_fields args) (\<lambda>(domain, zone, ip, tsig).
     bind_res (parse_os_with ''domain name'' (nt_name N) domain) (\<lambda>domain.
     bind_res (if ip \<noteq> Unicode ''none'' then parse_opt (Some ip) (parse_os_with ''IP address'' (nt_addr N)) else Ok None) (\<lambda>ip.
     bind_res (parse_opt zone (parse_os_with ''zone'' (nt_name N))) (\<lambda>zone.
     bind_res (parse_ldns_tsig N tsig) (\<lambda>tsig.
     Ok \<lparr>lu_domain = domain, lu_ip = ip, lu_zone = zone, lu_tsig = tsig\<rparr>)))))"

text \<open>The records for an address, by its family.\<close>

definition address_data :: "net \<Rightarrow> addr \<Rightarrow> rdata" where
  "address_data N ip = OtherData (if nt_is_ipv4 N ip then RT_A else RT_AAAA) ip"

definition ldns_update_message :: "net \<Rightarrow> ldns_update \<Rightarrow> name \<Rightarrow> dns_msg" where
  "ldns_update_message N u zone =
     (update_header zone)\<lparr>dm_authority :=
        (case lu_ip u of
           Some ip \<Rightarrow> [RR (lu_domain u) class_IN 300 (address_data N ip)]
         | None \<Rightarrow> [RR (lu_domain u) CLASS_ANY 0 (empty_data RT_A), RR (lu_domain u) CLASS_ANY 0 (empty_data RT_AAAA)])\<rparr>"

end
