(* ===== verification/Update_Print.thy ===== *)
theory Update_Print
  imports Update
begin

text \<open>
  The dig-style texts of messages of \<open>dnst update\<close> (src/commands/update.rs,
  \<open>update_to_dig_fmt\<close> and \<open>answer_to_dig_fmt\<close>). Both are computed for every request, whether
  or not they are logged, so that their panics are panics of the command.
\<close>

section \<open>Records\<close>

definition lf :: string where "lf = [CHR 0x0A]"

definition data_text :: "net \<Rightarrow> rdata \<Rightarrow> string" where
  "data_text N d = (case nt_show_data N d of Some s \<Rightarrow> s | None \<Rightarrow> ''<invalid data>'')"

text \<open>Fields separated by two spaces.\<close>

fun columns :: "string list \<Rightarrow> string" where
  "columns [] = lf"
| "columns [s] = s @ lf"
| "columns (s # ss) = s @ ''  '' @ columns ss"

definition write_record_item :: "net \<Rightarrow> rr \<Rightarrow> string" where
  "write_record_item N r =
     (if nt_show_data N (rr_data r) = None then ''; '' else [])
     @ columns [nt_show_name N (rr_owner r), show_nat (unat (rr_ttl r)), nt_show_class N (rr_class r),
         nt_show_rtype N (rtype_of (rr_data r)), data_text N (rr_data r)]"

definition write_record_item_update :: "net \<Rightarrow> nat \<Rightarrow> rr \<Rightarrow> string" where
  "write_record_item_update N class r =
     (let owner = nt_show_name N (rr_owner r); t = nt_show_rtype N (rtype_of (rr_data r));
          cls = nt_show_class N class; zero = (rr_ttl r = 0); empty = (nt_rdlen N (rr_data r) = 0)
      in ''; '' @
        (if rr_class r = CLASS_ANY \<and> zero \<and> rtype_of (rr_data r) = RT_ANY \<and> empty
         then ''Clearing domain:  '' @ columns [owner]
         else if rr_class r = CLASS_ANY \<and> zero \<and> empty
         then ''Deleting RRset:  '' @ columns [owner, cls, t]
         else if rr_class r = CLASS_NONE \<and> zero
         then ''Deleting RR:  '' @ columns [owner, cls, t, data_text N (rr_data r)]
         else ''Adding RR:  '' @ columns [owner, show_nat (unat (rr_ttl r)), cls, t, data_text N (rr_data r)]))"

definition write_record_item_prerequisite :: "net \<Rightarrow> nat \<Rightarrow> rr \<Rightarrow> string res" where
  "write_record_item_prerequisite N class r =
     (let owner = nt_show_name N (rr_owner r); t = nt_show_rtype N (rtype_of (rr_data r));
          any = (rtype_of (rr_data r) = RT_ANY); empty = (nt_rdlen N (rr_data r) = 0)
      in if rr_ttl r \<noteq> 0 then Panic ''Prerequisites all have a TTL of 0''
         else Ok (''; '' @
           (if rr_class r = CLASS_ANY \<and> any \<and> empty then ''Name is in use:  '' @ columns [owner]
            else if rr_class r = CLASS_NONE \<and> any \<and> empty then ''Name is NOT in use:  '' @ columns [owner]
            else if rr_class r = CLASS_ANY \<and> empty
            then ''RRset exists (regardless of content):  '' @ columns [owner, t]
            else if rr_class r = CLASS_NONE \<and> empty then ''RRset does not exist:  '' @ columns [owner, t]
            else ''RRset exists with exact members:  ''
              @ columns [owner, nt_show_class N class, t, data_text N (rr_data r)])))"

section \<open>The UPDATE message\<close>

fun concat_res :: "('a \<Rightarrow> string res) \<Rightarrow> 'a list \<Rightarrow> string res" where
  "concat_res f [] = Ok []"
| "concat_res f (x # xs) = bind_res (f x) (\<lambda>s. bind_res (concat_res f xs) (\<lambda>t. Ok (s @ t)))"

definition opt_header :: "edns option \<Rightarrow> string" where
  "opt_header opt = (case opt of None \<Rightarrow> []
     | Some e \<Rightarrow> lf @ '';; OPT PSEUDOSECTION:'' @ lf
         @ ''; EDNS: version '' @ show_nat (ed_version e) @ '', flags: '' @ (if ed_do e then ''do'' else [])
         @ ''; udp: '' @ show_nat (unat (ed_udp_size e)) @ lf)"

definition section_text :: "string \<Rightarrow> bool \<Rightarrow> string res \<Rightarrow> string res" where
  "section_text title shown body =
     (if shown then bind_res body (\<lambda>b. Ok (lf @ '';; '' @ title @ '' SECTION:'' @ lf @ b)) else Ok [])"

definition update_to_dig_fmt :: "net \<Rightarrow> dns_msg \<Rightarrow> string res" where
  "update_to_dig_fmt N m =
     (let counts = ''; ZONE: '' @ show_nat (length (dm_question m)) @ '', PREREQUISITE: '' @ show_nat (length (dm_answer m))
            @ '', UPDATE: '' @ show_nat (length (dm_authority m)) @ '', ADDITIONAL: '' @ show_nat (length (dm_additional m)) @ lf;
          zone = '';; ZONE SECTION:'' @ lf @ concat (map (\<lambda>q. ''; '' @ nt_show_question N q @ lf) (dm_question m))
      in if dm_question m = [] then Panic ''There is always a zone section''
         else
           let class = qu_class (last (dm_question m)) in
           bind_res (section_text ''PREREQUISITE'' (dm_answer m \<noteq> [])
                      (concat_res (write_record_item_prerequisite N class) (dm_answer m))) (\<lambda>prereq.
           bind_res (section_text ''UPDATE'' (dm_authority m \<noteq> [])
                      (Ok (concat (map (write_record_item_update N class) (dm_authority m))))) (\<lambda>upd.
           bind_res (section_text ''ADDITIONAL'' (dm_additional m \<noteq> [])
                      (Ok (concat (map (write_record_item N)
                        (filter (\<lambda>r. rtype_of (rr_data r) \<noteq> RT_OPT) (dm_additional m)))))) (\<lambda>add.
           Ok (counts @ opt_header (nt_msg_opt N m) @ zone @ prereq @ upd @ add)))))"

section \<open>The answer\<close>

fun option_text :: "string + opt_data \<Rightarrow> string" where
  "option_text (Inl e) = ''; ERROR: bad option: '' @ e @ ''.'' @ lf"
| "option_text (Inr (OptNsid s)) = ''; NSID: '' @ s @ lf"
| "option_text (Inr (OptDau s)) = ''; DAU: '' @ s @ lf"
| "option_text (Inr (OptDhu s)) = ''; DHU: '' @ s @ lf"
| "option_text (Inr (OptN3u s)) = ''; N3U: '' @ s @ lf"
| "option_text (Inr (OptExpire s)) = ''; EXPIRE: '' @ s @ lf"
| "option_text (Inr (OptTcpKeepalive t)) =
     ''; TCP KEEPALIVE: '' @ (case t of None \<Rightarrow> [] | Some secs \<Rightarrow> secs @ '' secs'') @ lf"
| "option_text (Inr (OptPadding s)) = ''; PADDING: '' @ s @ lf"
| "option_text (Inr (OptClientSubnet s)) = ''; CLIENTSUBNET: '' @ s @ lf"
| "option_text (Inr (OptCookie s)) = ''; COOKIE: '' @ s @ lf"
| "option_text (Inr (OptChain s)) = ''; CHAIN: '' @ s @ lf"
| "option_text (Inr (OptKeyTag s)) = ''; KEYTAG: '' @ s @ lf"
| "option_text (Inr (OptExtendedError s)) = ''; EDE: '' @ s @ lf"
| "option_text (Inr (OptOther s)) = ''; '' @ s @ lf"
| "option_text (Inr OptUnknown) = ''Unknown OPT'' @ lf"

definition EXPECT_VALID :: string where
  "EXPECT_VALID = ''we created this message, it should be valid''"

text \<open>The items of a section, each of them expected to be valid.\<close>

definition item_text :: "('a \<Rightarrow> string) \<Rightarrow> string + 'a \<Rightarrow> string res" where
  "item_text f item = (case item of Inl e \<Rightarrow> Panic EXPECT_VALID | Inr x \<Rightarrow> Ok (f x))"

definition expect_section :: "string + 'a \<Rightarrow> 'a res" where
  "expect_section s = (case s of Inl e \<Rightarrow> Panic EXPECT_VALID | Inr x \<Rightarrow> Ok x)"

definition answer_to_dig_fmt :: "net \<Rightarrow> response \<Rightarrow> socket \<Rightarrow> string res" where
  "answer_to_dig_fmt N m socket =
     (case rs_counts m of (qd, an, ns, ar) \<Rightarrow>
      let header = '';; ->>HEADER<<- opcode: '' @ rs_opcode m @ '', rcode: '' @ nt_show_rcode N (rs_rcode m)
            @ '', id: '' @ show_nat (unat (rs_id m)) @ lf @ '';; flags: '' @ rs_flags m
            @ ''; QUERY: '' @ show_nat qd @ '', ANSWER: '' @ show_nat an @ '', AUTHORITY: '' @ show_nat ns
            @ '', ADDITIONAL: '' @ show_nat ar @ lf;
          opt = opt_header (rs_opt m)
            @ (case rs_opt m of None \<Rightarrow> [] | Some e \<Rightarrow> concat (map option_text (ed_options e)));
          item = item_text (write_record_item N)
      in
      bind_res (if 0 < qd then bind_res (concat_res (item_text (\<lambda>q. '';'' @ q @ lf)) (rs_questions m))
                    (\<lambda>q. Ok ('';; QUESTION SECTION:'' @ lf @ q)) else Ok []) (\<lambda>questions.
      bind_res (expect_section (rs_answer m)) (\<lambda>answer.
      bind_res (section_text ''ANSWER'' (0 < an) (concat_res item answer)) (\<lambda>ans.
      bind_res (expect_section (rs_authority m)) (\<lambda>authority.
      bind_res (section_text ''AUTHORITY'' (0 < ns) (concat_res item authority)) (\<lambda>auth.
      bind_res (expect_section (rs_additional m)) (\<lambda>additional.
      bind_res (section_text ''ADDITIONAL'' (1 < ar \<or> (rs_opt m = None \<and> 0 < ar))
                  (concat_res (item_text (\<lambda>r. if rtype_of (rr_data r) \<noteq> RT_OPT then write_record_item N r else []))
                     additional)) (\<lambda>add.
      Ok (header @ opt @ questions @ ans @ auth @ add
        @ '';; SERVER: '' @ fst socket @ ''#'' @ show_nat (snd socket) @ lf
        @ '';; MSG SIZE  rcvd: '' @ show_nat (rs_length m) @ lf))))))))) "

end
