(* ===== verification/Update_Run.thy ===== *)
theory Update_Run
  imports Update_Print
begin

text \<open>
  The exchange of \<open>dnst update\<close> and \<open>ldns-update\<close> with the resolver and the name servers
  (src/commands/update.rs, the module \<open>update_helpers\<close>, both \<open>send_update\<close> and both \<open>run\<close>).
\<close>

section \<open>Finding the zone and its name servers\<close>

text \<open>The first SOA record among the items, or the first item that is malformed.\<close>

fun first_soa :: "bool \<Rightarrow> (string + rr) list \<Rightarrow> (string + rr \<times> soa) option" where
  "first_soa in_class [] = None"
| "first_soa in_class (Inl e # items) = Some (Inl e)"
| "first_soa in_class (Inr r # items) =
     (case rr_data r of
        Soa s \<Rightarrow> if in_class \<longrightarrow> rr_class r = class_IN then Some (Inr (r, s)) else first_soa in_class items
      | _ \<Rightarrow> first_soa in_class items)"

definition query_soa :: "net \<Rightarrow> socket option \<Rightarrow> name \<Rightarrow> response res" where
  "query_soa N server n =
     map_err (\<lambda>e. ''unable to lookup '' @ nt_show_name N n @ ''/SOA: '' @ e)
       (nt_query N server \<lparr>qu_name = n, qu_type = RT_SOA, qu_class = class_IN\<rparr>)"

definition find_mname_and_soa :: "net \<Rightarrow> name \<Rightarrow> (name \<times> soa) res" where
  "find_mname_and_soa N zone =
     bind_res (query_soa N None zone) (\<lambda>response.
     bind_res (map_err id (rs_answer response)) (\<lambda>answer.
     case first_soa False answer of
       Some (Inr (r, soa)) \<Rightarrow> Ok (soa_mname soa, soa)
     | _ \<Rightarrow> Err (''No SOA record found for '' @ nt_show_name N zone)))"

text \<open>The SOA record of the answer section, or else of the authority section.\<close>

definition soa_of_response :: "response \<Rightarrow> (rr \<times> soa) res" where
  "soa_of_response response =
     bind_res (map_err id (rs_answer response)) (\<lambda>answer.
     bind_res (map_err id (rs_authority response)) (\<lambda>authority.
     case first_soa True (answer @ authority) of
       None \<Rightarrow> Err ''no SOA found''
     | Some item \<Rightarrow> map_err id item))"

definition find_mname_and_zone_and_soa :: "net \<Rightarrow> name \<Rightarrow> (name \<times> name \<times> soa) res" where
  "find_mname_and_zone_and_soa N n =
     bind_res (query_soa N None n) (\<lambda>response.
     bind_res (soa_of_response response) (\<lambda>(_, soa).
     bind_res (map_err (\<lambda>e. ''unable to look up addresses for '' @ nt_show_name N (soa_mname soa) @ '': '' @ e)
                 (nt_lookup_host N (soa_mname soa))) (\<lambda>addrs.
     case addrs of
       [] \<Rightarrow> Err (''No A or AAAA record found for '' @ nt_show_name N (soa_mname soa))
     | ip # _ \<Rightarrow>
         bind_res (query_soa N (Some (ip, 53)) n) (\<lambda>response.
         bind_res (soa_of_response response) (\<lambda>(r, soa).
         Ok (rr_owner r, soa_mname soa, soa))))))"

fun authority_names :: "(string + rr) list \<Rightarrow> name list res" where
  "authority_names [] = Ok []"
| "authority_names (Inl e # items) = Err e"
| "authority_names (Inr r # items) =
     (case rr_data r of
        Ns n \<Rightarrow> if rr_class r = class_IN then bind_res (authority_names items) (\<lambda>ns. Ok (n # ns)) else authority_names items
      | _ \<Rightarrow> authority_names items)"

fun position :: "'a \<Rightarrow> 'a list \<Rightarrow> nat option" where
  "position x [] = None"
| "position x (y # ys) = (if y = x then Some 0 else map_option Suc (position x ys))"

definition swap :: "nat \<Rightarrow> nat \<Rightarrow> 'a list \<Rightarrow> 'a list" where
  "swap i j xs = xs[i := xs ! j, j := xs ! i]"

definition primary_first :: "name \<Rightarrow> name list \<Rightarrow> name list" where
  "primary_first mname ns = (case position mname ns of Some i \<Rightarrow> swap 0 i ns | None \<Rightarrow> ns)"

definition determine_nsnames :: "net \<Rightarrow> name \<Rightarrow> name \<Rightarrow> name list res" where
  "determine_nsnames N zone mname =
     bind_res (map_err (\<lambda>e. ''unable to lookup '' @ nt_show_name N zone @ ''/NS: '' @ e)
                 (nt_query N None \<lparr>qu_name = zone, qu_type = RT_NS, qu_class = class_IN\<rparr>)) (\<lambda>response.
     bind_res (map_err id (rs_answer response)) (\<lambda>answer.
     bind_res (authority_names answer) (\<lambda>ns. Ok (primary_first mname ns))))"

section \<open>Sending\<close>

definition update_request :: "net \<Rightarrow> tsig_key option \<Rightarrow> dns_msg \<Rightarrow> socket \<Rightarrow> request" where
  "update_request N key msg socket =
     \<lparr>rq_src = any_source N (fst socket), rq_dst = socket, rq_tsig = key, rq_retries = None, rq_msg = msg\<rparr>"

definition connect_and_send_request ::
  "net \<Rightarrow> socket \<Rightarrow> dns_msg \<Rightarrow> tsig_key option \<Rightarrow> (console, string + response) prog" where
  "connect_and_send_request N socket msg key =
     bindP (lift_res (update_to_dig_fmt N msg)) (\<lambda>_. send_request N (update_request N key msg socket))"

text \<open>One name server: whether one of its addresses took the update.\<close>

fun send_to_sockets ::
  "net \<Rightarrow> name \<Rightarrow> dns_msg \<Rightarrow> tsig_key option \<Rightarrow> socket list \<Rightarrow> (console, bool) prog" where
  "send_to_sockets N name msg key [] = ret False"
| "send_to_sockets N name msg key (socket # sockets) =
     bindP (connect_and_send_request N socket msg key) (\<lambda>answer.
     case answer of
       Inl e \<Rightarrow> thenP (err_ln (nt_show_name N name @ '' @ '' @ show_socket N socket @ '': '' @ e))
                 (send_to_sockets N name msg key sockets)
     | Inr resp \<Rightarrow>
         bindP (lift_res (answer_to_dig_fmt N resp socket)) (\<lambda>_.
         if rs_rcode resp = SERVFAIL \<or> rs_rcode resp = NOTIMP then
           thenP (err_ln (''Skipping '' @ nt_show_name N name @ '' @ '' @ show_socket N socket @ '': ''
                   @ nt_show_rcode N (rs_rcode resp)))
                 (send_to_sockets N name msg key sockets)
         else if rs_rcode resp \<noteq> NOERROR then
           thenP (out_ln (''UPDATE response was '' @ nt_show_rcode N (rs_rcode resp))) (ret True)
         else ret True))"

definition addresses_of :: "net \<Rightarrow> (string \<Rightarrow> string) \<Rightarrow> name \<Rightarrow> socket list res" where
  "addresses_of N f name =
     bind_res (map_err f (nt_lookup_host N name)) (\<lambda>addrs. Ok (map (\<lambda>a. (a, 53)) addrs))"

definition lookup_failed :: "net \<Rightarrow> string \<Rightarrow> name \<Rightarrow> string \<Rightarrow> string" where
  "lookup_failed N how name e = ''unable to '' @ how @ '' addresses for '' @ nt_show_name N name @ '': '' @ e"

fun send_to_names ::
  "net \<Rightarrow> dns_msg \<Rightarrow> tsig_key option \<Rightarrow> name list \<Rightarrow> (console, bool) prog" where
  "send_to_names N msg key [] = ret False"
| "send_to_names N msg key (name # names) =
     bindP (lift_res (addresses_of N (lookup_failed N ''lookup'' name) name)) (\<lambda>sockets.
     bindP (send_to_sockets N name msg key sockets) (\<lambda>taken.
     if taken then ret True else send_to_names N msg key names))"

definition send_to_server ::
  "net \<Rightarrow> addr \<Rightarrow> dns_msg \<Rightarrow> tsig_key option \<Rightarrow> (console, bool) prog" where
  "send_to_server N ip msg key =
     bindP (connect_and_send_request N (ip, 53) msg key) (\<lambda>answer.
     case answer of
       Inl e \<Rightarrow> fail (''Unable to send update to '' @ show_socket N (ip, 53) @ '': '' @ e)
     | Inr resp \<Rightarrow>
         bindP (lift_res (answer_to_dig_fmt N resp (ip, 53))) (\<lambda>_.
         if rs_rcode resp = SERVFAIL \<or> rs_rcode resp = NOTIMP then
           fail (''Name server '' @ show_socket N (ip, 53) @ '' was unable to handle the update. Got response: ''
             @ nt_show_rcode N (rs_rcode resp))
         else if rs_rcode resp \<noteq> NOERROR then
           thenP (out_ln (''UPDATE response was '' @ nt_show_rcode N (rs_rcode resp))) (ret True)
         else ret True))"

definition send_update ::
  "net \<Rightarrow> update_args \<Rightarrow> dns_msg \<Rightarrow> name list option \<Rightarrow> (console, unit) prog" where
  "send_update N args msg nsnames =
     bindP (lift_res (tsig_key_of N (up_tsig args))) (\<lambda>key.
     bindP (case nsnames of
         Some names \<Rightarrow> send_to_names N msg key names
       | None \<Rightarrow> (case up_nameservers args of
             Some ip \<Rightarrow> send_to_server N ip msg key
           | None \<Rightarrow> ret False)) (\<lambda>taken.
     if taken then ret () else out_ln ''No successful responses''))"

section \<open>The commands\<close>

definition update_run :: "net \<Rightarrow> update_args \<Rightarrow> (console, unit) prog" where
  "update_run N args =
     bindP (case up_zone args of
         Some zone \<Rightarrow> bindP (in_context ''fetching the SOA record'' (lift_res (find_mname_and_soa N zone)))
           (\<lambda>(mname, soa). ret (zone, mname, soa))
       | None \<Rightarrow> in_context ''fetching the SOA record and determining the zone apex''
           (lift_res (find_mname_and_zone_and_soa N (up_domain args)))) (\<lambda>(apex, mname, soa).
     bindP (in_context ''parsing the prerequisite arguments'' (lift_res (parse_prerequisites N args apex))) (\<lambda>p.
     bindP (case up_nameservers args of
         None \<Rightarrow> bindP (in_context ''fetching the authoritative nameservers for the zone''
             (lift_res (determine_nsnames N apex mname))) (\<lambda>names. ret (Some names))
       | Some _ \<Rightarrow> ret None) (\<lambda>nsnames.
     bindP (lift_res (create_update_message N args apex p soa)) (\<lambda>msg.
     send_update N args msg nsnames))))"

fun ldns_send_to_sockets ::
  "net \<Rightarrow> name \<Rightarrow> dns_msg \<Rightarrow> tsig_key option \<Rightarrow> socket list \<Rightarrow> (console, bool) prog" where
  "ldns_send_to_sockets N name msg key [] = ret False"
| "ldns_send_to_sockets N name msg key (socket # sockets) =
     bindP (send_request N (update_request N key msg socket)) (\<lambda>answer.
     case answer of
       Inl e \<Rightarrow> thenP (err_ln (nt_show_name N name @ '' @ '' @ show_socket N socket @ '': '' @ e))
                 (ldns_send_to_sockets N name msg key sockets)
     | Inr resp \<Rightarrow>
         if rs_rcode resp \<noteq> NOERROR then
           thenP (out_ln ('';; UPDATE response was '' @ nt_show_rcode N (rs_rcode resp))) (ret True)
         else ret True)"

fun ldns_send_to_names ::
  "net \<Rightarrow> dns_msg \<Rightarrow> tsig_key option \<Rightarrow> name list \<Rightarrow> (console, bool) prog" where
  "ldns_send_to_names N msg key [] = ret False"
| "ldns_send_to_names N msg key (name # names) =
     bindP (lift_res (addresses_of N (lookup_failed N ''look up'' name) name)) (\<lambda>sockets.
     bindP (ldns_send_to_sockets N name msg key sockets) (\<lambda>taken.
     if taken then ret True else ldns_send_to_names N msg key names))"

definition ldns_send_update ::
  "net \<Rightarrow> ldns_update \<Rightarrow> dns_msg \<Rightarrow> name list \<Rightarrow> (console, unit) prog" where
  "ldns_send_update N u msg nsnames =
     bindP (lift_res (tsig_key_of N (lu_tsig u))) (\<lambda>key.
     bindP (ldns_send_to_names N msg key nsnames) (\<lambda>taken.
     if taken then ret () else out_ln '';; No responses''))"

definition ldns_update_run :: "net \<Rightarrow> ldns_update \<Rightarrow> (console, unit) prog" where
  "ldns_update_run N u =
     thenP (out_ln ('';; trying UPDATE with FQDN '' @ [CHR 0x22] @ nt_show_name N (lu_domain u) @ [CHR 0x22]
              @ '' and IP '' @ [CHR 0x22] @ (case lu_ip u of None \<Rightarrow> ''<none>'' | Some ip \<Rightarrow> ip) @ [CHR 0x22]))
    (bindP (case lu_zone u of
         Some zone \<Rightarrow> bindP (lift_res (find_mname_and_soa N zone)) (\<lambda>(mname, _). ret (zone, mname))
       | None \<Rightarrow> bindP (lift_res (find_mname_and_zone_and_soa N (lu_domain u)))
           (\<lambda>(zone, mname, _). ret (zone, mname))) (\<lambda>(zone, mname).
     bindP (lift_res (determine_nsnames N zone mname)) (\<lambda>nsnames.
     ldns_send_update N u (ldns_update_message N u zone) nsnames)))"

end
