(* ===== verification/Update_Correct.thy ===== *)
theory Update_Correct
  imports Update_Run "HOL-Library.Multiset"
begin

text \<open>
  The UPDATE message means what was asked for: the prerequisites and the changes, as a server
  reads them by RFC 2136 (sections 3.2 and 3.4), are those of the command line. Serial numbers,
  TTLs and the order of the name servers.
\<close>

section \<open>What a server reads\<close>

datatype prereq_meaning =
  NameInUse name | NameNotInUse name | RrsetExists name rtype | RrsetMissing name rtype
| RrsetExactly rr

datatype update_meaning =
  AddRR rr | DeleteRrset name rtype | DeleteName name | DeleteRR name rdata

text \<open>\<open>None\<close> is the answer FORMERR.\<close>

definition server_prereq :: "net \<Rightarrow> nat \<Rightarrow> rr \<Rightarrow> prereq_meaning option" where
  "server_prereq N zclass r =
     (let empty = (nt_rdlen N (rr_data r) = 0); t = rtype_of (rr_data r)
      in if rr_ttl r \<noteq> 0 then None
         else if rr_class r = CLASS_ANY then
           (if \<not> empty then None else if t = RT_ANY then Some (NameInUse (rr_owner r))
            else Some (RrsetExists (rr_owner r) t))
         else if rr_class r = CLASS_NONE then
           (if \<not> empty then None else if t = RT_ANY then Some (NameNotInUse (rr_owner r))
            else Some (RrsetMissing (rr_owner r) t))
         else if rr_class r = zclass then Some (RrsetExactly r)
         else None)"

definition server_update :: "net \<Rightarrow> nat \<Rightarrow> rr \<Rightarrow> update_meaning option" where
  "server_update N zclass r =
     (let empty = (nt_rdlen N (rr_data r) = 0); t = rtype_of (rr_data r)
      in if rr_class r = zclass then Some (AddRR r)
         else if rr_class r = CLASS_ANY then
           (if rr_ttl r \<noteq> 0 \<or> \<not> empty then None else if t = RT_ANY then Some (DeleteName (rr_owner r))
            else Some (DeleteRrset (rr_owner r) t))
         else if rr_class r = CLASS_NONE then
           (if rr_ttl r \<noteq> 0 then None else Some (DeleteRR (rr_owner r) (rr_data r)))
         else None)"

section \<open>What was asked for\<close>

definition requested_prereqs :: "prerequisites \<Rightarrow> prereq_meaning list" where
  "requested_prereqs p =
     map (\<lambda>(n, t). RrsetExists n t) (these (pq_rrset_exists p))
     @ map RrsetExactly (these (pq_rrset_exists_exact p))
     @ map (\<lambda>(n, t). RrsetMissing n t) (these (pq_rrset_non_existent p))
     @ map NameInUse (these (pq_name_in_use p))
     @ map NameNotInUse (these (pq_name_not_in_use p))"

definition requested_updates :: "net \<Rightarrow> update_args \<Rightarrow> update_meaning list res" where
  "requested_updates N args =
     (case up_action args of
        AddRecords t rs \<Rightarrow> bind_res (collect_res rs (parse_rdata N t))
          (\<lambda>ds. Ok (map (\<lambda>d. AddRR (RR (up_domain args) (up_class args) (up_ttl args) d)) ds))
      | DeleteRecords t [] \<Rightarrow> Ok [DeleteRrset (up_domain args) t]
      | DeleteRecords t rs \<Rightarrow> bind_res (collect_res rs (parse_rdata N t))
          (\<lambda>ds. Ok (map (DeleteRR (up_domain args)) ds))
      | ClearDomain \<Rightarrow> Ok [DeleteName (up_domain args)])"

text \<open>The types and classes that have a meaning of their own in UPDATE messages are not used as data.\<close>

definition plain_prereqs :: "prerequisites \<Rightarrow> bool" where
  "plain_prereqs p \<longleftrightarrow>
     RT_ANY \<notin> snd ` set (these (pq_rrset_exists p)) \<and>
     RT_ANY \<notin> snd ` set (these (pq_rrset_non_existent p)) \<and>
     (\<forall>r \<in> set (these (pq_rrset_exists_exact p)). rr_class r = class_IN)"

definition plain_action :: "update_args \<Rightarrow> bool" where
  "plain_action args \<longleftrightarrow> (\<forall>rs. up_action args \<noteq> DeleteRecords RT_ANY rs) \<and> up_class args = class_IN"

definition empty_rdlen :: "net \<Rightarrow> bool" where
  "empty_rdlen N \<longleftrightarrow> (\<forall>t. nt_rdlen N (OtherData t []) = 0)"

section \<open>Building the sections\<close>

lemma push_all_answer:
  "push_all (push_answer N f) rs m = Ok m' \<Longrightarrow> m' = m\<lparr>dm_answer := dm_answer m @ rs\<rparr>"
proof (induction rs arbitrary: m)
  case (Cons r rs)
  then obtain m1 where m1: "push_answer N f r m = Ok m1" and rest: "push_all (push_answer N f) rs m1 = Ok m'"
    by (auto simp: bind_res_Ok_iff)
  from m1 have "m1 = m\<lparr>dm_answer := dm_answer m @ [r]\<rparr>" by (simp add: push_answer_def split: option.splits)
  with Cons.IH [OF rest] show ?case by simp
qed simp

lemma push_authority_Ok:
  "push_authority N f r m = Ok m' \<Longrightarrow> m' = m\<lparr>dm_authority := dm_authority m @ [r]\<rparr>"
  by (auto simp: push_authority_def split: option.splits)

lemma insert_add_loop_Ok:
  "insert_add_loop N args t soa rs m = Ok m' \<Longrightarrow>
     \<exists>ds. collect_res rs (parse_rdata N t) = Ok ds \<and>
       m' = m\<lparr>dm_authority := dm_authority m @
         map (\<lambda>d. create_rr_addition (up_domain args) (up_class args) (up_ttl args) d) ds\<rparr>"
proof (induction rs arbitrary: m)
  case (Cons r rs)
  then obtain d m1 where d: "parse_rdata N t r = Ok d"
    and m1: "push_authority N add_failed (create_rr_addition (up_domain args) (up_class args) (up_ttl args) d) m = Ok m1"
    and rest: "insert_add_loop N args t soa rs m1 = Ok m'"
    by (auto simp: bind_res_Ok_iff)
  from Cons.IH [OF rest] obtain ds where "collect_res rs (parse_rdata N t) = Ok ds"
    "m' = m1\<lparr>dm_authority := dm_authority m1 @
         map (\<lambda>d. create_rr_addition (up_domain args) (up_class args) (up_ttl args) d) ds\<rparr>" by blast
  with d push_authority_Ok [OF m1] show ?case by (intro exI [of _ "d # ds"]) simp
qed simp

lemma insert_delete_loop_Ok:
  "insert_delete_loop N args t rs m = Ok m' \<Longrightarrow>
     \<exists>ds. collect_res rs (parse_rdata N t) = Ok ds \<and>
       m' = m\<lparr>dm_authority := dm_authority m @ map (create_rr_deletion (up_domain args)) ds\<rparr>"
proof (induction rs arbitrary: m)
  case (Cons r rs)
  then obtain d m1 where d: "parse_rdata N t r = Ok d"
    and m1: "push_authority N rr_deletion_failed (create_rr_deletion (up_domain args) d) m = Ok m1"
    and rest: "insert_delete_loop N args t rs m1 = Ok m'"
    by (auto simp: bind_res_Ok_iff)
  from Cons.IH [OF rest] obtain ds where "collect_res rs (parse_rdata N t) = Ok ds"
    "m' = m1\<lparr>dm_authority := dm_authority m1 @ map (create_rr_deletion (up_domain args)) ds\<rparr>" by blast
  with d push_authority_Ok [OF m1] show ?case by (intro exI [of _ "d # ds"]) simp
qed simp

text \<open>The message of a successful call.\<close>

lemma create_update_message_Ok:
  assumes "create_update_message N args zone p soa = Ok m"
  shows "dm_question m = [\<lparr>qu_name = zone, qu_type = RT_SOA, qu_class = class_IN\<rparr>] \<and>
    dm_answer m = prerequisite_rrs p \<and> dm_additional m = []"
    "\<exists>ds. (case up_action args of
        AddRecords t rs \<Rightarrow> collect_res rs (parse_rdata N t) = Ok ds \<and>
          dm_authority m = map (\<lambda>d. create_rr_addition (up_domain args) (up_class args) (up_ttl args) d) ds
      | DeleteRecords t [] \<Rightarrow> dm_authority m = [create_rrset_deletion (up_domain args) t]
      | DeleteRecords t rs \<Rightarrow> collect_res rs (parse_rdata N t) = Ok ds \<and>
          dm_authority m = map (create_rr_deletion (up_domain args)) ds
      | ClearDomain \<Rightarrow> dm_authority m = [create_all_rrset_deletion (up_domain args)])"
proof -
  obtain m0 where m0: "insert_prerequisites N p (update_header zone) = Ok m0"
    and act: "(case up_action args of
       AddRecords t rdata \<Rightarrow> insert_add_updates N args t rdata soa m0
     | DeleteRecords t rdata \<Rightarrow> insert_delete_updates N args t rdata m0
     | ClearDomain \<Rightarrow> push_authority N rrset_deletion_failed (create_all_rrset_deletion (up_domain args)) m0) = Ok m"
    using assms by (auto simp: create_update_message_def bind_res_Ok_iff)
  have m0': "m0 = (update_header zone)\<lparr>dm_answer := prerequisite_rrs p\<rparr>"
    using push_all_answer [OF m0 [unfolded insert_prerequisites_def]] by (simp add: update_header_def)
  have upd: "(\<exists>u. m = m0\<lparr>dm_authority := u\<rparr>) \<and> (\<exists>ds. (case up_action args of
        AddRecords t rs \<Rightarrow> collect_res rs (parse_rdata N t) = Ok ds \<and>
          dm_authority m = map (\<lambda>d. create_rr_addition (up_domain args) (up_class args) (up_ttl args) d) ds
      | DeleteRecords t [] \<Rightarrow> dm_authority m = [create_rrset_deletion (up_domain args) t]
      | DeleteRecords t rs \<Rightarrow> collect_res rs (parse_rdata N t) = Ok ds \<and>
          dm_authority m = map (create_rr_deletion (up_domain args)) ds
      | ClearDomain \<Rightarrow> dm_authority m = [create_all_rrset_deletion (up_domain args)]))"
  proof (cases "up_action args")
    case (AddRecords t rs)
    with act have "insert_add_loop N args t soa rs m0 = Ok m"
      by (simp add: insert_add_updates_def split: if_splits)
    from insert_add_loop_Ok [OF this] AddRecords show ?thesis
      by (auto simp: m0' update_header_def)
  next
    case (DeleteRecords t rs)
    show ?thesis
    proof (cases rs)
      case Nil
      with act DeleteRecords have "push_authority N rrset_deletion_failed (create_rrset_deletion (up_domain args) t) m0 = Ok m"
        by (simp add: insert_delete_updates_def)
      from push_authority_Ok [OF this] Nil DeleteRecords show ?thesis
        by (auto simp: m0' update_header_def)
    next
      case (Cons r rs')
      with act DeleteRecords have "insert_delete_loop N args t rs m0 = Ok m"
        by (simp add: insert_delete_updates_def)
      from insert_delete_loop_Ok [OF this] Cons DeleteRecords show ?thesis
        by (auto simp: m0' update_header_def)
    qed
  next
    case ClearDomain
    with act have "push_authority N rrset_deletion_failed (create_all_rrset_deletion (up_domain args)) m0 = Ok m"
      by simp
    from push_authority_Ok [OF this] ClearDomain show ?thesis by (auto simp: m0' update_header_def)
  qed
  then show "dm_question m = [\<lparr>qu_name = zone, qu_type = RT_SOA, qu_class = class_IN\<rparr>] \<and>
    dm_answer m = prerequisite_rrs p \<and> dm_additional m = []"
    by (auto simp: m0' update_header_def)
  from upd show "\<exists>ds. (case up_action args of
        AddRecords t rs \<Rightarrow> collect_res rs (parse_rdata N t) = Ok ds \<and>
          dm_authority m = map (\<lambda>d. create_rr_addition (up_domain args) (up_class args) (up_ttl args) d) ds
      | DeleteRecords t [] \<Rightarrow> dm_authority m = [create_rrset_deletion (up_domain args) t]
      | DeleteRecords t rs \<Rightarrow> collect_res rs (parse_rdata N t) = Ok ds \<and>
          dm_authority m = map (create_rr_deletion (up_domain args)) ds
      | ClearDomain \<Rightarrow> dm_authority m = [create_all_rrset_deletion (up_domain args)])" by blast
qed

section \<open>The meaning of the message\<close>

lemma rtype_of_empty_data [simp]: "rtype_of (empty_data t) = t"
  by (simp add: empty_data_def)

lemma classes [simp]:
  "CLASS_ANY \<noteq> CLASS_NONE" "CLASS_NONE \<noteq> CLASS_ANY" "class_IN \<noteq> CLASS_ANY" "class_IN \<noteq> CLASS_NONE"
  "CLASS_ANY \<noteq> class_IN" "CLASS_NONE \<noteq> class_IN"
  by (simp_all add: CLASS_ANY_def CLASS_NONE_def class_IN_def)

lemmas rr_creators =
  create_rr_addition_def create_rr_deletion_def create_rrset_deletion_def
  create_all_rrset_deletion_def create_prereq_rrset_exists_def
  create_prereq_rrset_non_existent_def create_prereq_name_in_use_def
  create_prereq_name_not_in_use_def

lemma collect_res_all:
  "collect_res xs f = Ok ys \<Longrightarrow> y \<in> set ys \<Longrightarrow> \<exists>x\<in>set xs. f x = Ok y"
proof (induction xs arbitrary: ys)
  case (Cons x xs)
  then obtain z zs where "f x = Ok z" "collect_res xs f = Ok zs" "ys = z # zs"
    by (auto simp: bind_res_Ok_iff)
  with Cons show ?case by auto
qed simp

text \<open>Exact prerequisites have a TTL of zero.\<close>

lemma exact_prerequisites_ttl:
  assumes "parse_prerequisites N args origin = Ok p"
  shows "\<forall>r \<in> set (these (pq_rrset_exists_exact p)). rr_ttl r = 0"
proof -
  obtain e where e: "parse_opt (up_rrset_exists_exact args)
      (\<lambda>v. parse_prerequisite_rrset_exists_exact N v origin (up_class args)) = Ok e"
    and p: "pq_rrset_exists_exact p = e"
    using assms by (auto simp: parse_prerequisites_def bind_res_Ok_iff)
  show ?thesis
  proof (cases "up_rrset_exists_exact args")
    case None
    with e p show ?thesis by (simp add: parse_opt_def these_def)
  next
    case (Some v)
    with e obtain rs where rs: "collect_res v (prerequisite_record N origin (up_class args)) = Ok rs"
      and "e = Some rs"
      by (auto simp: parse_opt_def parse_prerequisite_rrset_exists_exact_def bind_res_Ok_iff)
    moreover have "rr_ttl r = 0" if "prerequisite_record N origin (up_class args) x = Ok r" for x r
      using that by (auto simp: prerequisite_record_def set_ttl_def split: sum.splits option.splits entry.splits)
    ultimately show ?thesis using p collect_res_all [OF rs] by (fastforce simp: these_def)
  qed
qed

lemma prereqs_meaning:
  assumes law: "empty_rdlen N" and plain: "plain_prereqs p"
    and ttl: "\<forall>r \<in> set (these (pq_rrset_exists_exact p)). rr_ttl r = 0"
  shows "map (server_prereq N class_IN) (prerequisite_rrs p) = map Some (requested_prereqs p)"
proof -
  have empty: "nt_rdlen N (empty_data t) = 0" for t
    using law by (simp add: empty_rdlen_def empty_data_def)
  have "map (server_prereq N class_IN) (map (\<lambda>(domain, t). create_prereq_rrset_exists domain t) (these (pq_rrset_exists p)))
      = map Some (map (\<lambda>(n, t). RrsetExists n t) (these (pq_rrset_exists p)))"
    using plain empty by (force simp: plain_prereqs_def server_prereq_def rr_creators)
  moreover have "map (server_prereq N class_IN) (map (\<lambda>(domain, t). create_prereq_rrset_non_existent domain t) (these (pq_rrset_non_existent p)))
      = map Some (map (\<lambda>(n, t). RrsetMissing n t) (these (pq_rrset_non_existent p)))"
    using plain empty by (force simp: plain_prereqs_def server_prereq_def rr_creators)
  moreover have "map (server_prereq N class_IN) (these (pq_rrset_exists_exact p))
      = map Some (map RrsetExactly (these (pq_rrset_exists_exact p)))"
    using plain ttl by (simp add: plain_prereqs_def server_prereq_def)
  moreover have "map (server_prereq N class_IN) (map create_prereq_name_in_use (these (pq_name_in_use p)))
      = map Some (map NameInUse (these (pq_name_in_use p)))"
    using empty by (simp add: server_prereq_def rr_creators)
  moreover have "map (server_prereq N class_IN) (map create_prereq_name_not_in_use (these (pq_name_not_in_use p)))
      = map Some (map NameNotInUse (these (pq_name_not_in_use p)))"
    using empty by (simp add: server_prereq_def rr_creators)
  ultimately show ?thesis by (simp add: prerequisite_rrs_def requested_prereqs_def)
qed

lemma updates_meaning:
  assumes law: "empty_rdlen N" and plain: "plain_action args"
    and m: "create_update_message N args zone p soa = Ok m"
  shows "\<exists>us. requested_updates N args = Ok us \<and> map (server_update N class_IN) (dm_authority m) = map Some us"
proof -
  have empty: "nt_rdlen N (empty_data t) = 0" for t
    using law by (simp add: empty_rdlen_def empty_data_def)
  obtain ds where ds: "(case up_action args of
        AddRecords t rs \<Rightarrow> collect_res rs (parse_rdata N t) = Ok ds \<and>
          dm_authority m = map (\<lambda>d. create_rr_addition (up_domain args) (up_class args) (up_ttl args) d) ds
      | DeleteRecords t [] \<Rightarrow> dm_authority m = [create_rrset_deletion (up_domain args) t]
      | DeleteRecords t rs \<Rightarrow> collect_res rs (parse_rdata N t) = Ok ds \<and>
          dm_authority m = map (create_rr_deletion (up_domain args)) ds
      | ClearDomain \<Rightarrow> dm_authority m = [create_all_rrset_deletion (up_domain args)])"
    using create_update_message_Ok(2) [OF m] by blast
  show ?thesis
  proof (cases "up_action args")
    case (AddRecords t rs)
    with ds plain show ?thesis
      by (simp add: requested_updates_def server_update_def rr_creators plain_action_def comp_def)
  next
    case (DeleteRecords t rs)
    with plain have "t \<noteq> RT_ANY" by (auto simp: plain_action_def)
    with DeleteRecords ds empty show ?thesis
      by (cases rs) (simp_all add: requested_updates_def server_update_def rr_creators comp_def)
  next
    case ClearDomain
    with ds empty show ?thesis
      by (simp add: requested_updates_def server_update_def rr_creators)
  qed
qed

text \<open>
  The UPDATE message of a successful call has the zone section of the zone, and a
  server that reads it by RFC 2136 sees exactly the prerequisites and the changes of the command
  line, in their order.
\<close>

theorem update_message_meaning:
  assumes law: "empty_rdlen N" and plain: "plain_prereqs p" "plain_action args"
    and p: "parse_prerequisites N args zone = Ok p"
    and m: "create_update_message N args zone p soa = Ok m"
  shows "dm_question m = [\<lparr>qu_name = zone, qu_type = RT_SOA, qu_class = class_IN\<rparr>] \<and>
    map (server_prereq N class_IN) (dm_answer m) = map Some (requested_prereqs p) \<and>
    (\<exists>us. requested_updates N args = Ok us \<and> map (server_update N class_IN) (dm_authority m) = map Some us)"
  using create_update_message_Ok(1) [OF m] prereqs_meaning [OF law plain(1) exact_prerequisites_ttl [OF p]]
    updates_meaning [OF law plain(2) m] by simp

text \<open>
  With a class other than IN the zone section still says IN, so that a server takes
  every added record as malformed.
\<close>

theorem other_class_rejected:
  assumes m: "create_update_message N args zone p soa = Ok m"
    and add: "up_action args = AddRecords t rs"
    and cls: "up_class args \<notin> {class_IN, CLASS_ANY, CLASS_NONE}"
  shows "dm_authority m \<noteq> [] \<and>
    (\<forall>q \<in> set (dm_question m). \<forall>r \<in> set (dm_authority m). server_update N (qu_class q) r = None)"
proof -
  obtain ds where ds: "collect_res rs (parse_rdata N t) = Ok ds"
      "dm_authority m = map (\<lambda>d. create_rr_addition (up_domain args) (up_class args) (up_ttl args) d) ds"
    using create_update_message_Ok(2) [OF m] add by auto
  have "rs \<noteq> []" using m add by (auto simp: create_update_message_def bind_res_Ok_iff insert_add_updates_def)
  then have "ds \<noteq> []" using ds(1) by (cases rs) (auto simp: bind_res_Ok_iff)
  then show ?thesis
    using ds cls create_update_message_Ok(1) [OF m] by (auto simp: server_update_def rr_creators)
qed

lemma concat_res_no_panic:
  "(\<And>x. x \<in> set xs \<Longrightarrow> \<exists>s. f x = Ok s) \<Longrightarrow> \<exists>s. concat_res f xs = Ok s"
proof (induction xs)
  case (Cons x xs)
  then obtain s t where "f x = Ok s" "concat_res f xs = Ok t" by fastforce
  then show ?case by simp
qed simp

text \<open>
  A message that is sent is printed without reaching the \<open>unreachable!\<close> of the
  prerequisites.
\<close>

theorem update_print_no_panic:
  assumes p: "parse_prerequisites N args zone = Ok p"
    and m: "create_update_message N args zone p soa = Ok m"
  shows "\<exists>text. update_to_dig_fmt N m = Ok text"
proof -
  have ttl: "rr_ttl r = 0" if "r \<in> set (dm_answer m)" for r
    using that create_update_message_Ok(1) [OF m] exact_prerequisites_ttl [OF p]
    by (auto simp: prerequisite_rrs_def rr_creators)
  obtain s where "concat_res (write_record_item_prerequisite N class_IN) (dm_answer m) = Ok s"
    using concat_res_no_panic [of "dm_answer m" "write_record_item_prerequisite N class_IN"] ttl
    by (auto simp: write_record_item_prerequisite_def Let_def)
  then show ?thesis
    using create_update_message_Ok(1) [OF m]
    by (simp add: update_to_dig_fmt_def section_text_def Let_def)
qed

end
