(* ===== verification/Update_Send_Correct.thy ===== *)
theory Update_Send_Correct
  imports Update_Correct
begin

text \<open>
  Sending the UPDATE message: serial numbers and TTLs, the order of the name servers, which
  requests are sent, and what malformed answers do.
\<close>

section \<open>Numbers\<close>

text \<open>
  Property C40. A new serial is accepted exactly if it is ahead of the old one by 1 to 2147483648,
  one more than RFC 1982 allows.
\<close>

theorem serial_increment_bounds:
  "verify_soa_serial_increment old new \<longleftrightarrow>
     1 \<le> soa_serial new - soa_serial old \<and> soa_serial new - soa_serial old \<le> 2147483648"
proof -
  have cutoff: "SOA_SERIAL_CUTOFF = 2147483648" by (simp add: SOA_SERIAL_CUTOFF_def)
  have eq: "compare_serial a b = Greater \<longleftrightarrow> 1 \<le> a - b \<and> a - b \<le> 2147483648" for a b :: u32
  proof -
    have ua: "uint a < 2 ^ 32" "uint b < 2 ^ 32" using uint_lt2p [of a] uint_lt2p [of b] by simp_all
    have pos: "0 \<le> uint a" "0 \<le> uint b" by simp_all
    have wrap: "(x - y) mod 2 ^ 32 = x - y + 2 ^ 32" if "x < y" "0 \<le> x" "y < 2 ^ 32" for x y :: int
    proof -
      have "(x - y) mod 2 ^ 32 = (x - y + 2 ^ 32) mod 2 ^ 32" by simp
      also have "\<dots> = x - y + 2 ^ 32" using that by (intro mod_pos_pos_trivial) auto
      finally show ?thesis .
    qed
    have keep: "(x - y) mod 2 ^ 32 = x - y" if "y < x" "0 \<le> y" "x < 2 ^ 32" for x y :: int
      using that by (intro mod_pos_pos_trivial) auto
    have d: "uint (a - b) = (uint a - uint b) mod 2 ^ 32" "uint (b - a) = (uint b - uint a) mod 2 ^ 32"
      by (simp_all add: uint_word_ariths)
    consider "a = b" | "a < b" | "b < a" using less_linear by blast
    then show ?thesis
    proof cases
      case 1
      then show ?thesis by (simp add: compare_serial_def word_le_def)
    next
      case 2
      then have l: "uint a < uint b" by (simp add: word_less_def)
      then have "uint (b - a) = uint b - uint a" "uint (a - b) = uint a - uint b + 2 ^ 32"
        using d wrap [OF l pos(1) ua(2)] keep [OF l pos(1) ua(2)] by simp_all
      moreover have "1 \<le> uint a - uint b + 2 ^ 32" using pos ua by linarith
      ultimately show ?thesis
        using 2 l ua by (auto simp: compare_serial_def cutoff word_le_def word_less_def)
    next
      case 3
      then have l: "uint b < uint a" by (simp add: word_less_def)
      then have "uint (a - b) = uint a - uint b" using d keep [OF l pos(2) ua(1)] by simp
      with 3 l ua show ?thesis
        by (auto simp: compare_serial_def cutoff word_le_def word_less_def)
    qed
  qed
  show ?thesis by (simp add: verify_soa_serial_increment_def eq)
qed

definition ttl_unit :: "char \<Rightarrow> nat option" where
  "ttl_unit c =
     (if c = CHR ''s'' then Some 1 else if c = CHR ''m'' then Some 60
      else if c = CHR ''h'' then Some 3600 else if c = CHR ''d'' then Some 86400 else None)"

lemma parse_u32_show_nat: "n < 2 ^ 32 \<Longrightarrow> parse_u32 (show_nat n) = Inr (of_nat n)"
  by (simp add: parse_u32_def parse_uint_show_nat)

lemma strip_suffix_append [simp]:
  "strip_suffix c (s @ [d]) = (if d = c then Some s else None)"
  by (simp add: strip_suffix_def)

text \<open>
  A TTL with a unit is the number times the unit modulo 2^32: a product that does not
  fit wraps around and is not refused.
\<close>

theorem ttl_wraps:
  assumes n: "n < 2 ^ 32" and unit: "ttl_unit c = Some k"
  shows "\<exists>t. parse_ttl (show_nat n @ [c]) = Ok t \<and> unat t = (n * k) mod 2 ^ 32"
proof -
  have "parse_ttl (show_nat n @ [c]) = Ok (of_nat (n * k))"
    using unit parse_u32_show_nat [OF n]
    by (auto simp: parse_ttl_def ttl_unit_def map_ok_def mult.commute split: if_splits)
  moreover have "unat (of_nat (n * k) :: u32) = (n * k) mod 2 ^ 32"
    unfolding unat_of_nat by simp
  ultimately show ?thesis by blast
qed

section \<open>The order of the name servers\<close>

lemma position_Some: "position x ys = Some i \<Longrightarrow> i < length ys \<and> ys ! i = x"
  by (induction ys arbitrary: i) (auto split: if_splits)

lemma position_None: "position x ys = None \<longleftrightarrow> x \<notin> set ys"
  by (induction ys) (auto split: if_splits)

text \<open>
  The names of the servers are those of the NS records, reordered so that the primary
  comes first if it is one of them.
\<close>

theorem nsnames_primary_first:
  assumes "determine_nsnames N zone mname = Ok names"
  shows "\<exists>response items ns.
    nt_query N None \<lparr>qu_name = zone, qu_type = RT_NS, qu_class = class_IN\<rparr> = Inr response \<and>
    rs_answer response = Inr items \<and> authority_names items = Ok ns \<and> mset names = mset ns \<and>
    (if mname \<in> set ns then hd names = mname else names = ns)"
proof -
  obtain response items ns where q: "nt_query N None \<lparr>qu_name = zone, qu_type = RT_NS, qu_class = class_IN\<rparr> = Inr response"
    and items: "rs_answer response = Inr items" "authority_names items = Ok ns" and names: "names = primary_first mname ns"
    using assms by (auto simp: determine_nsnames_def bind_res_Ok_iff)
  have "mset names = mset ns \<and> (if mname \<in> set ns then hd names = mname else names = ns)"
  proof (cases "position mname ns")
    case None
    with names show ?thesis by (simp add: primary_first_def position_None)
  next
    case (Some i)
    from position_Some [OF this] have i: "i < length ns" "ns ! i = mname" by auto
    then have "mset (swap 0 i ns) = mset ns" unfolding swap_def by (intro mset_swap) auto
    moreover have "hd (swap 0 i ns) = mname"
      using i by (cases ns; cases i) (auto simp: swap_def hd_conv_nth)
    moreover have "mname \<in> set ns" using i nth_mem by blast
    ultimately show ?thesis using names Some by (simp add: primary_first_def)
  qed
  with q items show ?thesis by blast
qed

section \<open>The requests\<close>

definition nth_answer :: "net \<Rightarrow> dns_msg \<Rightarrow> tsig_key option \<Rightarrow> console \<Rightarrow> socket list \<Rightarrow> nat \<Rightarrow> string + response" where
  "nth_answer N msg key c sockets i =
     nt_send N (length (co_sent c) + i) (update_request N key msg (sockets ! i))"

text \<open>The requests to the first \<open>k\<close> addresses are sent, and all but an accepted last one are refused.\<close>

definition tried ::
  "(string + response \<Rightarrow> bool) \<Rightarrow> net \<Rightarrow> dns_msg \<Rightarrow> tsig_key option \<Rightarrow> socket list \<Rightarrow> console \<Rightarrow> bool \<Rightarrow> console \<Rightarrow> bool" where
  "tried refuses N msg key sockets c taken t \<longleftrightarrow>
     (\<exists>k \<le> length sockets.
        co_sent t = co_sent c @ map (update_request N key msg) (take k sockets) \<and>
        (if taken then 0 < k \<and> \<not> refuses (nth_answer N msg key c sockets (k - 1)) else k = length sockets) \<and>
        (\<forall>i < (if taken then k - 1 else k). refuses (nth_answer N msg key c sockets i)))"

lemma tried_Nil: "tried refuses N msg key [] c False c"
  by (simp add: tried_def)

lemma tried_taken:
  assumes "co_sent t = co_sent c @ [update_request N key msg s]"
    and "\<not> refuses (nt_send N (length (co_sent c)) (update_request N key msg s))"
  shows "tried refuses N msg key (s # sockets) c True t"
  unfolding tried_def using assms by (intro exI [of _ 1]) (simp add: nth_answer_def)

lemma tried_refused:
  assumes "co_sent t = co_sent c @ [update_request N key msg s]"
    and "refuses (nt_send N (length (co_sent c)) (update_request N key msg s))"
  shows "tried refuses N msg key [s] c False t"
  unfolding tried_def using assms by (intro exI [of _ 1]) (simp add: nth_answer_def)

lemma tried_append:
  assumes first: "tried refuses N msg key xs c False u" and rest: "tried refuses N msg key ys u taken t"
  shows "tried refuses N msg key (xs @ ys) c taken t"
proof -
  have sent: "co_sent u = co_sent c @ map (update_request N key msg) xs"
    and ref: "\<And>i. i < length xs \<Longrightarrow> refuses (nth_answer N msg key c xs i)"
    using first by (auto simp: tried_def)
  obtain k where k: "k \<le> length ys" "co_sent t = co_sent u @ map (update_request N key msg) (take k ys)"
    "if taken then 0 < k \<and> \<not> refuses (nth_answer N msg key u ys (k - 1)) else k = length ys"
    "\<And>i. i < (if taken then k - 1 else k) \<Longrightarrow> refuses (nth_answer N msg key u ys i)"
    using rest unfolding tried_def by auto
  have shift: "nth_answer N msg key c (xs @ ys) (length xs + i) = nth_answer N msg key u ys i" for i
    by (simp add: nth_answer_def sent add.assoc)
  have left: "nth_answer N msg key c (xs @ ys) i = nth_answer N msg key c xs i" if "i < length xs" for i
    using that by (simp add: nth_answer_def nth_append)
  have all: "refuses (nth_answer N msg key c (xs @ ys) i)" if "i < length xs + (if taken then k - 1 else k)" for i
  proof (cases "i < length xs")
    case False
    then obtain j where "i = length xs + j" by (metis le_Suc_ex not_less)
    with that k(4) [of j] shift [of j] show ?thesis by simp
  qed (use left ref in simp)
  show ?thesis
    unfolding tried_def
  proof (intro exI [of _ "length xs + k"] conjI)
    show "co_sent t = co_sent c @ map (update_request N key msg) (take (length xs + k) (xs @ ys))"
      by (simp add: k(2) sent)
    show "if taken then 0 < length xs + k \<and> \<not> refuses (nth_answer N msg key c (xs @ ys) (length xs + k - 1))
        else length xs + k = length (xs @ ys)"
      using k(3) shift [of "k - 1"] by (auto split: if_splits)
    show "\<forall>i < (if taken then length xs + k - 1 else length xs + k). refuses (nth_answer N msg key c (xs @ ys) i)"
      using all k(3) by (auto split: if_splits)
  qed (use k(1) in simp)
qed

text \<open>The addresses of the servers in the order in which they are tried.\<close>

definition all_sockets :: "net \<Rightarrow> name list \<Rightarrow> socket list" where
  "all_sockets N names =
     concat (map (\<lambda>n. case nt_lookup_host N n of Inr addrs \<Rightarrow> map (\<lambda>a. (a, 53)) addrs | Inl e \<Rightarrow> []) names)"

text \<open>
  The contract of the two commands that send an update: what is done with one address, and
  how the addresses and the names follow one another. Only what counts as a refusal differs.
\<close>

locale delivery =
  fixes N :: net and msg :: dns_msg and key :: "tsig_key option"
    and refuses :: "string + response \<Rightarrow> bool"
    and to_sockets :: "name \<Rightarrow> socket list \<Rightarrow> (console, bool) prog"
    and to_names :: "name list \<Rightarrow> (console, bool) prog"
    and failed :: "name \<Rightarrow> string \<Rightarrow> string"
  assumes sockets_Nil: "to_sockets name [] = ret False"
    and sockets_Cons: "to_sockets name (s # ss) c = (Ok taken, t) \<Longrightarrow>
      \<exists>u. co_sent u = co_sent c @ [update_request N key msg s] \<and>
        (if refuses (nt_send N (length (co_sent c)) (update_request N key msg s))
         then to_sockets name ss u = (Ok taken, t) else taken \<and> co_sent t = co_sent u)"
    and names_Nil: "to_names [] = ret False"
    and names_Cons: "to_names (name # names) =
      bindP (lift_res (addresses_of N (failed name) name)) (\<lambda>sockets.
      bindP (to_sockets name sockets) (\<lambda>taken. if taken then ret True else to_names names))"
begin

lemma sockets_tried:
  "to_sockets name sockets c = (Ok taken, t) \<Longrightarrow> tried refuses N msg key sockets c taken t"
proof (induction sockets arbitrary: c)
  case Nil
  then show ?case by (simp add: sockets_Nil ret_def tried_Nil)
next
  case (Cons s ss)
  from sockets_Cons [OF Cons.prems] obtain u where u: "co_sent u = co_sent c @ [update_request N key msg s]"
    "if refuses (nt_send N (length (co_sent c)) (update_request N key msg s))
     then to_sockets name ss u = (Ok taken, t) else taken \<and> co_sent t = co_sent u" by blast
  show ?case
  proof (cases "refuses (nt_send N (length (co_sent c)) (update_request N key msg s))")
    case True
    have "tried refuses N msg key [s] c False u" by (intro tried_refused u(1) True)
    from tried_append [OF this, of ss taken t] show ?thesis using u True Cons.IH [of u] by simp
  next
    case False
    with u tried_taken [of t c N key msg s refuses ss] show ?thesis by simp
  qed
qed

lemma tries_in_order:
  assumes "to_names names c = (Ok taken, t)"
  shows "if taken then \<exists>pre post. names = pre @ post \<and> tried refuses N msg key (all_sockets N pre) c True t
    else tried refuses N msg key (all_sockets N names) c False t"
  using assms
proof (induction names arbitrary: c)
  case Nil
  then show ?case by (simp add: names_Nil ret_def tried_Nil all_sockets_def)
next
  case (Cons n ns)
  obtain addrs b u where addrs: "nt_lookup_host N n = Inr addrs"
    and b: "to_sockets n (map (\<lambda>a. (a, 53)) addrs) c = (Ok b, u)"
    and rest: "(if b then ret True else to_names ns) u = (Ok taken, t)"
    using Cons.prems by (auto simp: names_Cons bindP_Ok_iff lift_res_def addresses_of_def bind_res_Ok_iff)
  note one = sockets_tried [OF b]
  have socks: "all_sockets N (n # ms) = map (\<lambda>a. (a, 53)) addrs @ all_sockets N ms" for ms
    using addrs by (simp add: all_sockets_def)
  show ?case
  proof (cases b)
    case True
    with rest have "taken" "u = t" by (auto simp: ret_def)
    with one True have "n # ns = [n] @ ns \<and> tried refuses N msg key (all_sockets N [n]) c True t"
      using socks [of "[]"] by (simp add: all_sockets_def)
    with \<open>taken\<close> show ?thesis by (simp add: exI [of _ "[n]"])
  next
    case False
    with rest have "to_names ns u = (Ok taken, t)" by simp
    note IH = Cons.IH [OF this]
    have first: "tried refuses N msg key (map (\<lambda>a. (a, 53)) addrs) c False u" using one False by simp
    show ?thesis
    proof (cases taken)
      case True
      with IH obtain pre post where "ns = pre @ post" "tried refuses N msg key (all_sockets N pre) u True t" by auto
      then have "n # ns = (n # pre) @ post \<and> tried refuses N msg key (all_sockets N (n # pre)) c True t"
        using tried_append [OF first] by (simp add: socks)
      then have "\<exists>pre post. n # ns = pre @ post \<and> tried refuses N msg key (all_sockets N pre) c True t" by (intro exI)
      with True show ?thesis by simp
    next
      case notaken: False
      with IH show ?thesis by (simp add: socks tried_append [OF first])
    qed
  qed
qed

end

lemma err_ln_sent [simp]: "err_ln l c = (Ok (), c\<lparr>co_err := co_err c @ [Plain l]\<rparr>)"
  by (simp add: err_ln_def modify_def)

lemma out_ln_sent [simp]: "out_ln l c = (Ok (), c\<lparr>co_out := co_out c @ [l]\<rparr>)"
  by (simp add: out_ln_def modify_def)

lemma connect_and_send_Ok:
  "connect_and_send_request N socket msg key c = (Ok a, u) \<Longrightarrow>
     a = nt_send N (length (co_sent c)) (update_request N key msg socket) \<and>
     u = c\<lparr>co_sent := co_sent c @ [update_request N key msg socket]\<rparr>"
  by (auto simp: connect_and_send_request_def send_request_def prog_Ok)

text \<open>What counts as a refusal: for \<open>dnst update\<close> also two response codes.\<close>

definition refused :: "string + response \<Rightarrow> bool" where
  "refused a = (case a of Inl e \<Rightarrow> True | Inr r \<Rightarrow> rs_rcode r \<in> {SERVFAIL, NOTIMP})"

definition unanswered :: "string + response \<Rightarrow> bool" where
  "unanswered a = (case a of Inl e \<Rightarrow> True | Inr r \<Rightarrow> False)"

lemma send_to_sockets_Cons:
  assumes "send_to_sockets N name msg key (s # ss) c = (Ok taken, t)"
  shows "\<exists>u. co_sent u = co_sent c @ [update_request N key msg s] \<and>
    (if refused (nt_send N (length (co_sent c)) (update_request N key msg s))
     then send_to_sockets N name msg key ss u = (Ok taken, t) else taken \<and> co_sent t = co_sent u)"
proof -
  obtain a u where a: "connect_and_send_request N s msg key c = (Ok a, u)"
    and rest: "(case a of
       Inl e \<Rightarrow> thenP (err_ln (nt_show_name N name @ '' @ '' @ show_socket N s @ '': '' @ e))
                 (send_to_sockets N name msg key ss)
     | Inr resp \<Rightarrow>
         bindP (lift_res (answer_to_dig_fmt N resp s)) (\<lambda>_.
         if rs_rcode resp = SERVFAIL \<or> rs_rcode resp = NOTIMP then
           thenP (err_ln (''Skipping '' @ nt_show_name N name @ '' @ '' @ show_socket N s @ '': ''
                   @ nt_show_rcode N (rs_rcode resp)))
                 (send_to_sockets N name msg key ss)
         else if rs_rcode resp \<noteq> NOERROR then
           thenP (out_ln (''UPDATE response was '' @ nt_show_rcode N (rs_rcode resp))) (ret True)
         else ret True)) u = (Ok taken, t)"
    using assms unfolding send_to_sockets.simps bindP_Ok_iff by blast
  note sent = connect_and_send_Ok [OF a]
  show ?thesis
  proof (cases "refused a")
    case True
    then have "\<exists>l. send_to_sockets N name msg key ss (u\<lparr>co_err := co_err u @ [l]\<rparr>) = (Ok taken, t)"
      using rest by (auto simp: refused_def thenP_Ok_iff bindP_Ok_iff lift_res_def split: sum.splits if_splits)
    then obtain l where "send_to_sockets N name msg key ss (u\<lparr>co_err := co_err u @ [l]\<rparr>) = (Ok taken, t)" ..
    with True sent show ?thesis by (intro exI [of _ "u\<lparr>co_err := co_err u @ [l]\<rparr>"]) simp
  next
    case False
    then have "taken \<and> co_sent t = co_sent u"
      using rest by (auto simp: refused_def thenP_Ok_iff bindP_Ok_iff lift_res_def ret_def split: sum.splits if_splits)
    with False sent show ?thesis by (intro exI [of _ u]) simp
  qed
qed

interpretation update_delivery:
  delivery N msg key refused "\<lambda>name. send_to_sockets N name msg key" "send_to_names N msg key" "lookup_failed N ''lookup''"
  for N msg key
  by unfold_locales (simp_all only: send_to_sockets.simps(1) send_to_names.simps send_to_sockets_Cons)

interpretation ldns_delivery:
  delivery N msg key unanswered "\<lambda>name. ldns_send_to_sockets N name msg key" "ldns_send_to_names N msg key"
    "lookup_failed N ''look up''"
  for N msg key
proof
  show "\<exists>u. co_sent u = co_sent c @ [update_request N key msg s] \<and>
      (if unanswered (nt_send N (length (co_sent c)) (update_request N key msg s))
       then ldns_send_to_sockets N name msg key ss u = (Ok taken, t) else taken \<and> co_sent t = co_sent u)"
    if "ldns_send_to_sockets N name msg key (s # ss) c = (Ok taken, t)" for name s ss c taken t
    using that
    by (cases "nt_send N (length (co_sent c)) (update_request N key msg s)")
      (auto simp: unanswered_def send_request_def thenP_def bindP_def ret_def split: if_splits
        intro!: exI [of _ "c\<lparr>co_sent := _, co_err := _\<rparr>"])
qed simp_all

text \<open>
  Property C23. The update goes to the addresses of the servers one after the other until one of
  them takes it: every request before the last was refused, and if none was taken, all addresses
  were tried.
\<close>

theorem update_tries_in_order:
  assumes "send_to_names N msg key names c = (Ok taken, t)"
  shows "if taken then \<exists>pre post. names = pre @ post \<and> tried refused N msg key (all_sockets N pre) c True t
    else tried refused N msg key (all_sockets N names) c False t"
  using assms by (rule update_delivery.tries_in_order)

text \<open>\<open>ldns-update\<close> takes any answer as the end, also one that refuses the update.\<close>

theorem ldns_update_tries_in_order:
  assumes "ldns_send_to_names N msg key names c = (Ok taken, t)"
  shows "if taken then \<exists>pre post. names = pre @ post \<and> tried unanswered N msg key (all_sockets N pre) c True t
    else tried unanswered N msg key (all_sockets N names) c False t"
  using assms by (rule ldns_delivery.tries_in_order)

section \<open>Malformed answers\<close>

definition bad_items :: "(string + 'a) list \<Rightarrow> bool" where
  "bad_items items \<longleftrightarrow> (\<exists>e. Inl e \<in> set items)"

definition bad_section :: "bool \<Rightarrow> string + (string + rr) list \<Rightarrow> bool" where
  "bad_section shown s = (case s of Inl e \<Rightarrow> True | Inr items \<Rightarrow> shown \<and> bad_items items)"

definition malformed :: "response \<Rightarrow> bool" where
  "malformed m = (case rs_counts m of (qd, an, ns, ar) \<Rightarrow>
     (0 < qd \<and> bad_items (rs_questions m)) \<or> bad_section (0 < an) (rs_answer m) \<or>
     bad_section (0 < ns) (rs_authority m) \<or>
     bad_section (1 < ar \<or> (rs_opt m = None \<and> 0 < ar)) (rs_additional m))"

lemma concat_items:
  "(if bad_items items then concat_res (item_text f) items = Panic EXPECT_VALID
    else \<exists>s. concat_res (item_text f) items = Ok s)"
  by (induction items) (auto simp: bad_items_def item_text_def split: sum.splits if_splits)

lemma section_items:
  "(if shown \<and> bad_items items
    then section_text title shown (concat_res (item_text f) items) = Panic EXPECT_VALID
    else \<exists>s. section_text title shown (concat_res (item_text f) items) = Ok s)"
  using concat_items [of items f] by (auto simp: section_text_def split: if_splits)

text \<open>A section of the answer is either printed or ends the process.\<close>

lemma bind_section:
  "bind_res (expect_section s) (\<lambda>items. bind_res (section_text title shown (concat_res (item_text f) items)) g) =
     (if bad_section shown s then Panic EXPECT_VALID
      else g (case section_text title shown (concat_res (item_text f) (case s of Inr items \<Rightarrow> items | Inl e \<Rightarrow> [])) of
                Ok t \<Rightarrow> t | _ \<Rightarrow> []))"
proof (cases s)
  case (Inr items)
  then show ?thesis
    using section_items [of shown items title f]
    by (cases "shown \<and> bad_items items") (auto simp: expect_section_def bad_section_def)
qed (simp add: expect_section_def bad_section_def)

lemma answer_printed:
  "if malformed m then answer_to_dig_fmt N m socket = Panic EXPECT_VALID
   else \<exists>text. answer_to_dig_fmt N m socket = Ok text"
proof -
  obtain qd an ns ar where counts: "rs_counts m = (qd, an, ns, ar)" by (cases "rs_counts m") auto
  have q: "if 0 < qd \<and> bad_items (rs_questions m)
      then (if 0 < qd then bind_res (concat_res (item_text f) (rs_questions m)) (\<lambda>q. Ok (g q)) else Ok []) = Panic EXPECT_VALID
      else \<exists>s. (if 0 < qd then bind_res (concat_res (item_text f) (rs_questions m)) (\<lambda>q. Ok (g q)) else Ok []) = Ok s"
    for f g :: "string \<Rightarrow> string"
    using concat_items [of "rs_questions m" f] by (auto split: if_splits)
  show ?thesis
    using q [of "\<lambda>q. '';'' @ q @ lf" "\<lambda>q. '';; QUESTION SECTION:'' @ lf @ q"]
    by (auto simp: answer_to_dig_fmt_def counts malformed_def Let_def bind_section split: if_splits)
qed

text \<open>
  Whatever answer a server sends, if it cannot be read to its end then it makes the
  command panic instead of being reported as an error.
\<close>

theorem malformed_answer_panics:
  assumes shown: "update_to_dig_fmt N msg = Ok text"
    and answer: "nt_send N (length (co_sent c)) (update_request N key msg (ip, 53)) = Inr resp"
  shows "is_panic (fst (send_to_server N ip msg key c)) \<longleftrightarrow> malformed resp"
  using answer_printed [of resp N "(ip, 53)"] shown answer
  by (auto simp: send_to_server_def connect_and_send_request_def send_request_def bindP_def
      lift_res_def thenP_def ret_def fail_def out_ln_def modify_def split: if_splits)

section \<open>No server answers\<close>

lemma unanswered_sockets:
  assumes shown: "update_to_dig_fmt N msg = Ok text" and silent: "\<And>n q. nt_send N n q = Inl e"
  shows "\<exists>t. send_to_sockets N name msg key sockets c = (Ok False, t) \<and> co_out t = co_out c"
proof (induction sockets arbitrary: c)
  case (Cons s ss)
  show ?case
    using shown silent Cons.IH [of "c\<lparr>co_sent := co_sent c @ [update_request N key msg s],
        co_err := co_err c @ [Plain (nt_show_name N name @ '' @ '' @ show_socket N s @ '': '' @ e)]\<rparr>"]
    by (simp add: connect_and_send_request_def send_request_def bindP_def lift_res_def thenP_def)
qed (simp add: ret_def)

lemma unanswered_names:
  assumes shown: "update_to_dig_fmt N msg = Ok text" and silent: "\<And>n q. nt_send N n q = Inl e"
    and known: "\<And>n. n \<in> set names \<Longrightarrow> \<exists>addrs. nt_lookup_host N n = Inr addrs"
  shows "\<exists>t. send_to_names N msg key names c = (Ok False, t) \<and> co_out t = co_out c"
  using known
proof (induction names arbitrary: c)
  case (Cons n ns)
  obtain addrs where addrs: "nt_lookup_host N n = Inr addrs" using Cons.prems by auto
  obtain u where u: "send_to_sockets N n msg key (map (\<lambda>a. (a, 53)) addrs) c = (Ok False, u)" "co_out u = co_out c"
    using unanswered_sockets [OF shown silent] by blast
  obtain t where "send_to_names N msg key ns u = (Ok False, t)" "co_out t = co_out u"
    using Cons.IH [of u] Cons.prems by auto
  with u addrs show ?case by (simp add: addresses_of_def bindP_def lift_res_def)
qed (simp add: ret_def)

text \<open>
  If no server answers, the command prints a line and succeeds, with the exit status
  of an update that was made; only with a server given by its address it fails.
\<close>

theorem unanswered_update_succeeds:
  assumes shown: "update_to_dig_fmt N msg = Ok text" and silent: "\<And>n q. nt_send N n q = Inl e"
    and known: "\<And>n. n \<in> set names \<Longrightarrow> \<exists>addrs. nt_lookup_host N n = Inr addrs"
    and key: "tsig_key_of N (up_tsig args) = Ok key"
  shows "(\<exists>t. send_update N args msg (Some names) c = (Ok (), t) \<and>
      co_out t = co_out c @ [''No successful responses'']) \<and>
    (up_nameservers args = Some ip \<longrightarrow> (\<exists>err t. send_update N args msg None c = (Err err, t)))"
proof (intro conjI impI)
  obtain t where "send_to_names N msg key names c = (Ok False, t)" "co_out t = co_out c"
    using unanswered_names [OF shown silent known] by blast
  then show "\<exists>t. send_update N args msg (Some names) c = (Ok (), t) \<and>
      co_out t = co_out c @ [''No successful responses'']"
    using key by (simp add: send_update_def bindP_def lift_res_def)
  show "\<exists>err t. send_update N args msg None c = (Err err, t)" if "up_nameservers args = Some ip"
    using that key shown silent
    by (simp add: send_update_def send_to_server_def connect_and_send_request_def send_request_def
        bindP_def lift_res_def fail_def)
qed

section \<open>Every request means what was asked\<close>

lemma bindP_with:
  "bindP (bindP m (\<lambda>(a, b). ret (z, a, b))) f = bindP m (\<lambda>(a, b). f (z, a, b))"
  "bindP (bindP m (\<lambda>(a, b). ret (z, a))) g = bindP m (\<lambda>(a, b). g (z, a))"
  by (auto simp: bindP_def ret_def fun_eq_iff split: prod.split res.split)

definition sends :: "(request \<Rightarrow> bool) \<Rightarrow> console \<Rightarrow> console \<Rightarrow> bool" where
  "sends P c t \<longleftrightarrow> (\<exists>new. co_sent t = co_sent c @ new \<and> (\<forall>q\<in>set new. P q))"

interpretation sends: step_frame "sends P" for P
proof
  show "sends P s s" for s by (simp add: sends_def)
  show "sends P s u" if st: "sends P s t" and tu: "sends P t u" for s t u
  proof -
    obtain xs ys where "co_sent t = co_sent s @ xs" "co_sent u = co_sent t @ ys"
      "\<forall>q\<in>set xs. P q" "\<forall>q\<in>set ys. P q"
      using st tu unfolding sends_def by blast
    then show ?thesis unfolding sends_def by (intro exI [of _ "xs @ ys"]) auto
  qed
qed

lemma sends_lines: "steps (sends P) (out_ln l)" "steps (sends P) (err_ln l)"
  by (simp_all add: steps_def sends_def)

lemma sends_lift:
  "(\<And>x. r = Ok x \<Longrightarrow> steps (sends P) (g x)) \<Longrightarrow> steps (sends P) (bindP (lift_res r) g)"
  by (cases r) (auto simp: steps_def bindP_def lift_res_def sends_def)

lemma sends_context:
  "(\<And>x. r = Ok x \<Longrightarrow> steps (sends P) (g x)) \<Longrightarrow> steps (sends P) (bindP (in_context l (lift_res r)) g)"
  by (cases r) (auto simp: steps_def bindP_def lift_res_def in_context_def sends_def)

lemma sends_connect:
  "P (update_request N key msg s) \<Longrightarrow> steps (sends P) (connect_and_send_request N s msg key)"
  unfolding connect_and_send_request_def
  by (rule sends_lift) (simp add: steps_def sends_def send_request_def)

lemma sends_request: "P q \<Longrightarrow> steps (sends P) (send_request N q)"
  by (simp add: steps_def sends_def send_request_def)

lemma sends_case_sum:
  "(\<And>e. steps R (f e)) \<Longrightarrow> (\<And>x. steps R (g x)) \<Longrightarrow> steps R (case v of Inl e \<Rightarrow> f e | Inr x \<Rightarrow> g x)"
  by (cases v) simp_all

lemmas sends_rules = sends.steps_intros sends_lines sends_connect sends_case_sum

lemma sends_sockets:
  "(\<And>s. P (update_request N key msg s)) \<Longrightarrow> steps (sends P) (send_to_sockets N name msg key sockets)"
  by (induction sockets) (auto intro!: sends_rules)

lemma sends_names:
  "(\<And>s. P (update_request N key msg s)) \<Longrightarrow> steps (sends P) (send_to_names N msg key names)"
  by (induction names) (auto intro!: sends_rules sends_sockets)

lemma sends_update:
  assumes "\<And>key s. P (update_request N key msg s)"
  shows "steps (sends P) (send_update N args msg nsnames)"
  unfolding send_update_def send_to_server_def
  by (intro sends_rules sends_names assms)


lemma sends_ldns_sockets:
  "(\<And>s. P (update_request N key msg s)) \<Longrightarrow> steps (sends P) (ldns_send_to_sockets N name msg key sockets)"
  by (induction sockets) (auto intro!: sends_rules sends_request)

lemma sends_ldns_names:
  "(\<And>s. P (update_request N key msg s)) \<Longrightarrow> steps (sends P) (ldns_send_to_names N msg key names)"
  by (induction names) (auto intro!: sends_rules sends_ldns_sockets)

text \<open>What \<open>ldns-update\<close> asks for: one address record, or no address records.\<close>

definition ldns_requested :: "net \<Rightarrow> ldns_update \<Rightarrow> update_meaning list" where
  "ldns_requested N u =
     (case lu_ip u of
        Some ip \<Rightarrow> [AddRR (RR (lu_domain u) class_IN 300 (address_data N ip))]
      | None \<Rightarrow> [DeleteRrset (lu_domain u) RT_A, DeleteRrset (lu_domain u) RT_AAAA])"

lemma ldns_message_meaning:
  "empty_rdlen N \<Longrightarrow> map (server_update N class_IN) (dm_authority (ldns_update_message N u zone)) = map Some (ldns_requested N u)"
  by (simp add: ldns_update_message_def ldns_requested_def server_update_def Let_def empty_rdlen_def empty_data_def
      split: option.split)

text \<open>
  Every request of \<open>ldns-update\<close> asks to add the one address record, leaving others as they
  are, or to delete both address RRsets; there are no prerequisites.
\<close>

theorem ldns_update_requests_meaning:
  assumes law: "empty_rdlen N" and run: "ldns_update_run N u c = (r, t)"
  shows "\<exists>new. co_sent t = co_sent c @ new \<and> (\<forall>q \<in> set new. \<exists>zone.
    (\<forall>z. lu_zone u = Some z \<longrightarrow> zone = z) \<and> dm_answer (rq_msg q) = [] \<and>
    dm_question (rq_msg q) = [\<lparr>qu_name = zone, qu_type = RT_SOA, qu_class = class_IN\<rparr>] \<and>
    map (server_update N class_IN) (dm_authority (rq_msg q)) = map Some (ldns_requested N u))"
proof -
  define P where "P q \<longleftrightarrow> (\<exists>zone.
    (\<forall>z. lu_zone u = Some z \<longrightarrow> zone = z) \<and> dm_answer (rq_msg q) = [] \<and>
    dm_question (rq_msg q) = [\<lparr>qu_name = zone, qu_type = RT_SOA, qu_class = class_IN\<rparr>] \<and>
    map (server_update N class_IN) (dm_authority (rq_msg q)) = map Some (ldns_requested N u))" for q :: request
  have msg: "P (update_request N key (ldns_update_message N u zone) s)"
    if "\<forall>z. lu_zone u = Some z \<longrightarrow> zone = z" for zone key s
    unfolding P_def update_request_def using that ldns_message_meaning [OF law, of u zone]
    by (intro exI [of _ zone]) (simp add: ldns_update_message_def update_header_def)
  have sent: "steps (sends P) (ldns_send_update N u (ldns_update_message N u zone) names)"
    if "\<forall>z. lu_zone u = Some z \<longrightarrow> zone = z" for zone names
    unfolding ldns_send_update_def by (intro sends_rules sends_ldns_names msg that)
  have "steps (sends P) (ldns_update_run N u)"
  proof (cases "lu_zone u")
    case None
    then show ?thesis
      unfolding ldns_update_run_def by (auto intro!: sends_rules sends_lift sent)
  next
    case (Some z)
    then show ?thesis
      unfolding ldns_update_run_def by (auto simp: bindP_with intro!: sends_rules sends_lift sent)
  qed
  from stepsD [OF this run] show ?thesis unfolding sends_def P_def .
qed

end
