(* ===== verification/Update_Demo.thy ===== *)
theory Update_Demo
  imports Update_Send_Correct
begin

text \<open>
  Concrete instances: a resolver, two name servers and the parsers of one small update, on which
  the theorems about \<open>dnst update\<close> apply.
\<close>

definition demo_response :: "nat \<Rightarrow> (string + rr) list \<Rightarrow> response" where
  "demo_response rcode items =
     \<lparr>rs_opcode = ''UPDATE'', rs_rcode = rcode, rs_id = 7, rs_flags = ''QR'', rs_counts = (1, length items, 0, 0),
      rs_opt = None, rs_questions = [Inr ''example. IN SOA''], rs_answer = Inr items, rs_authority = Inr [],
      rs_additional = Inr [], rs_length = 12, rs_text = ''''\<rparr>"

fun demo_query :: "question \<Rightarrow> string + response" where
  "demo_query q =
     (if qu_type q = RT_SOA
      then Inr (demo_response 0 [Inr (RR ''example'' class_IN 3600 (Soa (SoaData ''ns1'' 7)))])
      else Inr (demo_response 0 [Inr (RR ''example'' class_IN 3600 (Ns ''ns2'')), Inr (RR ''example'' class_IN 3600 (Ns ''ns1''))]))"

fun demo_chain :: "uncertain_name \<Rightarrow> name \<Rightarrow> name option" where
  "demo_chain (AbsoluteName n) origin = Some n"
| "demo_chain (RelativeName n) origin = Some (n @ ''.'' @ origin)"

fun demo_rdlen :: "rdata \<Rightarrow> nat" where
  "demo_rdlen (OtherData t s) = length s"
| "demo_rdlen d = 1"

definition demo_algorithm :: "string \<Rightarrow> string + tsig_algorithm" where
  "demo_algorithm s = (if s = ''hmac-sha256'' then Inr TsigSha256
     else if s = ''hmac-sha512'' then Inr TsigSha512 else Inl ''unknown'')"

definition demo_net :: net where
  "demo_net =
     \<lparr>nt_query = (\<lambda>server q. demo_query q),
      nt_lookup_host = (\<lambda>n. Inr [if n = ''ns1'' then ''192.0.2.1'' else ''192.0.2.2'']),
      nt_is_ipv4 = (\<lambda>a. CHR '':'' \<notin> set a),
      nt_send = (\<lambda>n q. if n = 0 then Inl ''timeout'' else Inr (demo_response 0 [])),
      nt_push_error = (\<lambda>m r. None),
      nt_tsig_new = (\<lambda>i. Inr (TsigKey (ti_algorithm i) (ti_key i) (ti_name i))),
      nt_tsig_algorithm = demo_algorithm,
      nt_base64 = (\<lambda>s. if s = [] then Inl ''empty'' else Inr s),
      nt_name = Inr, nt_addr = (\<lambda>s. if CHR ''.'' \<in> set s then Inr s else Inl ''invalid IP address syntax''),
      nt_socket = (\<lambda>s. Inr (s, 0)),
      nt_rtype = (\<lambda>s. if s = ''A'' then Inr RT_A else Inl ''unknown record type''),
      nt_uncertain = (\<lambda>s. Inr (RelativeName s)), nt_chain = demo_chain,
      nt_next_entry = (\<lambda>origin cls s. Inr (Some (EntryRecord (RR [] class_IN 1 (OtherData RT_A ''192.0.2.7''))))),
      nt_rdlen = demo_rdlen, nt_show_data = (\<lambda>d. Some ''data''), nt_show_rtype = (\<lambda>t. ''TYPE''),
      nt_show_class = show_nat, nt_show_rcode = show_nat, nt_show_name = id,
      nt_show_question = qu_name, nt_show_msg = (\<lambda>m. ''message''), nt_hexdump = (\<lambda>m. ''00''),
      nt_msg_opt = (\<lambda>m. None), nt_random_id = 1,
      nt_elapsed_ms = id, nt_when = show_nat\<rparr>"

definition demo_update :: update_args where
  "demo_update =
     \<lparr>up_domain = ''www.example'', up_action = AddRecords RT_A [''192.0.2.7''], up_class = class_IN, up_ttl = 3600,
      up_nameservers = None, up_zone = Some ''example'', up_tsig = None,
      up_rrset_exists = Some [''mail A''], up_rrset_exists_exact = Some [''www A 192.0.2.9''],
      up_rrset_non_existent = None, up_name_in_use = None, up_name_not_in_use = Some [''old'']\<rparr>"

definition demo_prereqs :: prerequisites where
  "demo_prereqs =
     \<lparr>pq_rrset_exists = Some [(''mail.example'', RT_A)],
      pq_rrset_exists_exact = Some [RR [] class_IN 0 (OtherData RT_A ''192.0.2.7'')],
      pq_rrset_non_existent = None, pq_name_in_use = None, pq_name_not_in_use = Some [''old.example'']\<rparr>"

definition demo_message :: dns_msg where
  "demo_message = (update_header ''example'')
     \<lparr>dm_answer := prerequisite_rrs demo_prereqs,
      dm_authority := [RR ''www.example'' class_IN 3600 (OtherData RT_A ''192.0.2.7'')]\<rparr>"

definition demo_console :: console where
  "demo_console = \<lparr>co_out = [], co_err = [], co_sent = []\<rparr>"

lemma demo_net_simps [simp]:
  "nt_query demo_net server q = demo_query q"
  "nt_lookup_host demo_net n = Inr [if n = ''ns1'' then ''192.0.2.1'' else ''192.0.2.2'']"
  "nt_send demo_net k r = (if k = 0 then Inl ''timeout'' else Inr (demo_response 0 []))"
  "nt_push_error demo_net m rec = None"
  "nt_tsig_algorithm demo_net s = demo_algorithm s"
  "nt_base64 demo_net s = (if s = [] then Inl ''empty'' else Inr s)"
  "nt_name demo_net s = Inr s"
  "nt_rtype demo_net s = (if s = ''A'' then Inr RT_A else Inl ''unknown record type'')"
  "nt_uncertain demo_net s = Inr (RelativeName s)"
  "nt_chain demo_net = demo_chain"
  "nt_next_entry demo_net origin cls s = Inr (Some (EntryRecord (RR [] class_IN 1 (OtherData RT_A ''192.0.2.7''))))"
  "nt_rdlen demo_net = demo_rdlen"
  by (simp_all add: demo_net_def)

lemma demo_parse: "parse_prerequisites demo_net demo_update ''example'' = Ok demo_prereqs"
  by (simp add: parse_prerequisites_def demo_update_def parse_opt_def parse_prerequisite_name_type_def
      prerequisite_name_type_def chain_name_def parse_prerequisite_rrset_exists_exact_def
      prerequisite_record_def set_ttl_def parse_prerequisite_name_def demo_prereqs_def)

lemma demo_create:
  "create_update_message demo_net demo_update ''example'' demo_prereqs (SoaData ''ns1'' 7) = Ok demo_message"
  by (simp add: create_update_message_def demo_update_def insert_prerequisites_def demo_prereqs_def
      prerequisite_rrs_def these_def push_answer_def push_authority_def insert_add_updates_def
      parse_rdata_def create_rr_addition_def demo_message_def update_header_def)

lemma demo_empty_rdlen: "empty_rdlen demo_net"
  by (simp add: empty_rdlen_def demo_net_def)

lemma demo_plain: "plain_prereqs demo_prereqs" "plain_action demo_update"
  by (simp_all add: plain_prereqs_def demo_prereqs_def these_def plain_action_def demo_update_def)

lemma tsig_orders_agree_witness:
  "tsig_info_from_str demo_net ''hmac-sha512:key:c2VjcmV0''
     = Inr \<lparr>ti_name = ''key'', ti_key = ''c2VjcmV0'', ti_algorithm = TsigSha512\<rparr> \<and>
   tsig_info_from_str demo_net ''key:c2VjcmV0''
     = Inr \<lparr>ti_name = ''key'', ti_key = ''c2VjcmV0'', ti_algorithm = TsigSha256\<rparr>"
proof -
  have "tsig_info_from_str demo_net ''key:c2VjcmV0:hmac-sha512''
     = Inr \<lparr>ti_name = ''key'', ti_key = ''c2VjcmV0'', ti_algorithm = TsigSha512\<rparr>"
    "tsig_info_from_str demo_net ''key:c2VjcmV0:hmac-sha256''
     = Inr \<lparr>ti_name = ''key'', ti_key = ''c2VjcmV0'', ti_algorithm = TsigSha256\<rparr>"
    by (simp_all add: tsig_info_from_str_def tsig_fields_def demo_algorithm_def)
  then show ?thesis
    using tsig_orders_agree [of "''key''" "''c2VjcmV0''" "''hmac-sha512''" demo_net TsigSha512 "''unknown''"]
    by (simp add: demo_net_def demo_algorithm_def)
qed

lemma update_message_meaning_witness:
  "map (server_prereq demo_net class_IN) (dm_answer demo_message) = map Some (requested_prereqs demo_prereqs) \<and>
   length (requested_prereqs demo_prereqs) = 3 \<and>
   (\<exists>us. requested_updates demo_net demo_update = Ok us \<and>
     map (server_update demo_net class_IN) (dm_authority demo_message) = map Some us)"
  using update_message_meaning [OF demo_empty_rdlen demo_plain demo_parse demo_create]
  by (simp add: requested_prereqs_def demo_prereqs_def these_def)

lemma other_class_rejected_witness:
  "\<forall>r \<in> set (dm_authority (demo_message\<lparr>dm_authority := [RR ''www.example'' 3 3600 (OtherData RT_A ''192.0.2.7'')]\<rparr>)).
     server_update demo_net class_IN r = None"
proof -
  let ?m = "demo_message\<lparr>dm_authority := [RR ''www.example'' 3 3600 (OtherData RT_A ''192.0.2.7'')]\<rparr>"
  have "create_update_message demo_net (demo_update\<lparr>up_class := 3\<rparr>) ''example'' demo_prereqs (SoaData ''ns1'' 7) = Ok ?m"
    by (simp add: create_update_message_def demo_update_def insert_prerequisites_def demo_prereqs_def
      prerequisite_rrs_def these_def push_answer_def push_authority_def insert_add_updates_def
      parse_rdata_def create_rr_addition_def demo_message_def update_header_def)
  moreover have "up_action (demo_update\<lparr>up_class := 3\<rparr>) = AddRecords RT_A [''192.0.2.7'']"
    by (simp add: demo_update_def)
  moreover have "up_class (demo_update\<lparr>up_class := 3\<rparr>) \<notin> {class_IN, CLASS_ANY, CLASS_NONE}"
    by (simp add: class_IN_def CLASS_ANY_def CLASS_NONE_def)
  ultimately have "\<forall>q \<in> set (dm_question ?m). \<forall>r \<in> set (dm_authority ?m). server_update demo_net (qu_class q) r = None"
    using other_class_rejected by blast
  then show ?thesis by (simp add: demo_message_def update_header_def)
qed

lemma update_print_no_panic_witness: "\<exists>text. update_to_dig_fmt demo_net demo_message = Ok text"
  using update_print_no_panic [OF demo_parse demo_create] .

lemma ttl_wraps_witness: "\<exists>t. parse_ttl ''71582789m'' = Ok t \<and> unat t = 44"
proof -
  have "show_nat 71582789 @ [CHR ''m''] = ''71582789m''" by (simp add: show_nat.simps) code_simp
  then show ?thesis using ttl_wraps [of 71582789 "CHR ''m''" 60] by (simp add: ttl_unit_def)
qed

lemma nsnames_primary_first_witness:
  "determine_nsnames demo_net ''example'' ''ns1'' = Ok [''ns1'', ''ns2''] \<and>
   mset [''ns1'', ''ns2''] = mset [''ns2'', ''ns1'']"
proof -
  have run: "determine_nsnames demo_net ''example'' ''ns1'' = Ok [''ns1'', ''ns2'']"
    by (simp add: determine_nsnames_def demo_response_def primary_first_def swap_def)
  from nsnames_primary_first [OF run] have "\<exists>ns. mset [''ns1'', ''ns2''] = mset ns" by blast
  then show ?thesis using run by (simp add: add_mset_commute)
qed

lemma demo_shown: "\<exists>out. update_to_dig_fmt N demo_message = Ok out"
  by (simp add: update_to_dig_fmt_def demo_message_def update_header_def section_text_def Let_def
      prerequisite_rrs_def demo_prereqs_def these_def rr_creators write_record_item_prerequisite_def)

lemma demo_sent:
  "\<exists>t. send_to_names demo_net demo_message None [''ns1'', ''ns2''] demo_console = (Ok True, t)"
proof -
  obtain out where "update_to_dig_fmt demo_net demo_message = Ok out" using demo_shown by blast
  then show ?thesis
    by (simp add: addresses_of_def connect_and_send_request_def send_request_def bindP_def lift_res_def
        demo_console_def thenP_def ret_def answer_to_dig_fmt_def demo_response_def Let_def
        expect_section_def section_text_def item_text_def SERVFAIL_def NOTIMP_def NOERROR_def)
qed

lemma update_tries_in_order_witness:
  "\<exists>t pre post. [''ns1'', ''ns2''] = pre @ post \<and>
     tried refused demo_net demo_message None (all_sockets demo_net pre) demo_console True t"
proof -
  obtain t where "send_to_names demo_net demo_message None [''ns1'', ''ns2''] demo_console = (Ok True, t)"
    using demo_sent by blast
  from update_tries_in_order [OF this] show ?thesis unfolding if_True by blast
qed

lemma ldns_update_tries_in_order_witness:
  "\<exists>t pre post. [''ns1'', ''ns2''] = pre @ post \<and>
     tried unanswered demo_net demo_message None (all_sockets demo_net pre) demo_console True t"
proof -
  have "\<exists>t. ldns_send_to_names demo_net demo_message None [''ns1'', ''ns2''] demo_console = (Ok True, t)"
    by (simp add: addresses_of_def send_request_def bindP_def lift_res_def demo_console_def thenP_def ret_def)
  then obtain t where "ldns_send_to_names demo_net demo_message None [''ns1'', ''ns2''] demo_console = (Ok True, t)" ..
  from ldns_update_tries_in_order [OF this] show ?thesis unfolding if_True by blast
qed

lemma malformed_answer_panics_witness:
  "is_panic (fst (send_to_server
     (demo_net\<lparr>nt_send := (\<lambda>n q. Inr ((demo_response 0 [])\<lparr>rs_answer := Inl ''short input''\<rparr>))\<rparr>)
     ''192.0.2.1'' demo_message None demo_console))"
proof -
  let ?N = "demo_net\<lparr>nt_send := (\<lambda>n q. Inr ((demo_response 0 [])\<lparr>rs_answer := Inl ''short input''\<rparr>))\<rparr>"
  have "malformed ((demo_response 0 [])\<lparr>rs_answer := Inl ''short input''\<rparr>)"
    by (simp add: malformed_def demo_response_def bad_section_def)
  moreover obtain out where "update_to_dig_fmt ?N demo_message = Ok out" using demo_shown by blast
  ultimately show ?thesis
    using malformed_answer_panics [of ?N demo_message out demo_console None "''192.0.2.1''"] by simp
qed

lemma unanswered_update_succeeds_witness:
  "\<exists>t. send_update (demo_net\<lparr>nt_send := (\<lambda>n q. Inl ''timeout'')\<rparr>) demo_update demo_message
      (Some [''ns1'', ''ns2'']) demo_console = (Ok (), t) \<and> co_out t = [''No successful responses'']"
proof -
  let ?N = "demo_net\<lparr>nt_send := (\<lambda>n q. Inl ''timeout'')\<rparr>"
  obtain out where shown: "update_to_dig_fmt ?N demo_message = Ok out" using demo_shown by blast
  have "tsig_key_of ?N (up_tsig demo_update) = Ok None" by (simp add: tsig_key_of_def demo_update_def)
  from unanswered_update_succeeds [OF shown _ _ this, of "''timeout''" "[''ns1'', ''ns2'']" demo_console]
  show ?thesis by (simp add: demo_net_def demo_console_def)
qed


definition demo_ldns_update :: ldns_update where
  "demo_ldns_update = \<lparr>lu_domain = ''www.example'', lu_ip = None, lu_zone = Some ''example'', lu_tsig = None\<rparr>"

lemma ldns_update_requests_meaning_witness:
  "\<exists>t. ldns_update_run demo_net demo_ldns_update demo_console = (Ok (), t) \<and> length (co_sent t) = 2 \<and>
     (\<forall>q \<in> set (co_sent t). map (server_update demo_net class_IN) (dm_authority (rq_msg q))
        = [Some (DeleteRrset ''www.example'' RT_A), Some (DeleteRrset ''www.example'' RT_AAAA)])"
proof -
  obtain t where run: "ldns_update_run demo_net demo_ldns_update demo_console = (Ok (), t)" and n: "length (co_sent t) = 2"
    by (simp add: ldns_update_run_def demo_ldns_update_def find_mname_and_soa_def query_soa_def
        determine_nsnames_def primary_first_def swap_def ldns_send_update_def tsig_key_of_def
        addresses_of_def send_request_def bindP_def lift_res_def demo_console_def thenP_def ret_def demo_response_def NOERROR_def)
  have "ldns_requested demo_net demo_ldns_update = [DeleteRrset ''www.example'' RT_A, DeleteRrset ''www.example'' RT_AAAA]"
    by (simp add: ldns_requested_def demo_ldns_update_def)
  with ldns_update_requests_meaning [OF demo_empty_rdlen run] n run show ?thesis
    by (fastforce simp: demo_console_def)
qed

end
