(* ===== verification/Key2ds.thy ===== *)
theory Key2ds
  imports Cli
begin

text \<open>
  \<open>dnst key2ds\<close> (src/commands/key2ds.rs): DS records from the DNSKEY records of a key file. The
  operations of the crate \<open>domain\<close> that \<open>key2ds\<close> and \<open>keygen\<close> use are the fields of the record
  \<open>key_tools\<close>; algorithms are their numbers.
\<close>

section \<open>The operations of the crates\<close>

datatype ds_rr =
  DsRR (dr_owner: name) (dr_class: nat) (dr_ttl: ttl) (dr_key_tag: u16) (dr_algorithm: nat)
    (dr_digest_type: nat) (dr_digest: string)

record key_tools =
  kt_in_cwd :: "string \<Rightarrow> string"
  kt_load :: "string \<Rightarrow> string + (string + entry) list"
  kt_sep :: "dnskey \<Rightarrow> bool"
  kt_tag :: "dnskey \<Rightarrow> u16"
  kt_digest :: "dnskey \<Rightarrow> name \<Rightarrow> nat \<Rightarrow> string + string"
  kt_fmt_with_dot :: "name \<Rightarrow> string"
  kt_show_ds :: "ds_rr \<Rightarrow> string"
  kt_show_ds_ldns :: "ds_rr \<Rightarrow> string"
  kt_show_ds_data :: "ds_rr \<Rightarrow> string"
  kt_show_dnskey :: "dnskey \<Rightarrow> string"
  kt_show_secret :: "string \<Rightarrow> string"
  kt_digest_mnemonic :: "nat \<Rightarrow> string option"
  kt_digest_from_mnemonic :: "string \<Rightarrow> nat option"
  kt_name :: "string \<Rightarrow> string + name"
  kt_generate :: "nat \<Rightarrow> generate_params \<Rightarrow> u16 \<Rightarrow> string + (string \<times> dnskey)"

definition DIGEST_SHA1 :: nat where "DIGEST_SHA1 = 1"
definition DIGEST_SHA256 :: nat where "DIGEST_SHA256 = 2"
definition DIGEST_GOST :: nat where "DIGEST_GOST = 3"
definition DIGEST_SHA384 :: nat where "DIGEST_SHA384 = 4"

definition RSASHA256 :: nat where "RSASHA256 = 8"
definition RSASHA512 :: nat where "RSASHA512 = 10"
definition ECC_GOST :: nat where "ECC_GOST = 12"
definition ECDSAP256SHA256 :: nat where "ECDSAP256SHA256 = 13"
definition ECDSAP384SHA384 :: nat where "ECDSAP384SHA384 = 14"
definition ED25519 :: nat where "ED25519 = 15"
definition ED448 :: nat where "ED448 = 16"

lemmas algorithm_numbers =
  DIGEST_SHA1_def DIGEST_SHA256_def DIGEST_GOST_def DIGEST_SHA384_def RSASHA256_def RSASHA512_def
  ECC_GOST_def ECDSAP256SHA256_def ECDSAP384SHA384_def ED25519_def ED448_def

text \<open>\<open>K<name>+<alg>+<tag>\<close>\<close>

definition key_file_base :: "key_tools \<Rightarrow> name \<Rightarrow> nat \<Rightarrow> u16 \<Rightarrow> string" where
  "key_file_base T owner alg tag =
     ''K'' @ kt_fmt_with_dot T owner @ ''+'' @ zero_pad 3 (show_nat alg) @ ''+'' @ zero_pad 5 (show_nat (unat tag))"

section \<open>Options\<close>

record key2ds_args =
  kd_ignore_sep :: bool
  kd_write_to_stdout :: bool
  kd_force_overwrite :: bool
  kd_algorithm :: "nat option"
  kd_keyfile :: string
  kd_as_ldns :: bool

definition parse_digest_alg :: "key_tools \<Rightarrow> string \<Rightarrow> string + nat" where
  "parse_digest_alg T arg = (case parse_uint 256 arg of
     Some num \<Rightarrow> if kt_digest_mnemonic T num \<noteq> None then Inr num else Inl ''unknown algorithm number''
   | None \<Rightarrow> (case kt_digest_from_mnemonic T arg of
       Some a \<Rightarrow> Inr a | None \<Rightarrow> Inl ''unknown algorithm mnemonic''))"

record key2ds_opts =
  ko_ignore_sep :: bool
  ko_write_to_stdout :: bool
  ko_algorithm :: "nat option"
  ko_keyfile :: "os_string option"

definition key2ds_defaults :: key2ds_opts where
  "key2ds_defaults =
     \<lparr>ko_ignore_sep = False, ko_write_to_stdout = False, ko_algorithm = None, ko_keyfile = None\<rparr>"

fun key2ds_arg :: "arg \<Rightarrow> ('l \<times> key2ds_opts, string option) prog" where
  "key2ds_arg (Short c) =
     (if c = CHR ''1'' then set_opt (ko_algorithm_update (\<lambda>_. Some DIGEST_SHA1))
      else if c = CHR ''2'' then set_opt (ko_algorithm_update (\<lambda>_. Some DIGEST_SHA256))
      else if c = CHR ''4'' then set_opt (ko_algorithm_update (\<lambda>_. Some DIGEST_SHA384))
      else if c = CHR ''f'' then set_opt (ko_ignore_sep_update (\<lambda>_. True))
      else if c = CHR ''n'' then set_opt (ko_write_to_stdout_update (\<lambda>_. True))
      else fail (invalid_short c))"
| "key2ds_arg (Long x) = fail (no_long x)"
| "key2ds_arg (Value x) =
     bindP (gets (\<lambda>s. ko_keyfile (snd s))) (\<lambda>k.
     if k \<noteq> None then fail ''Only one keyfile is allowed''
     else set_opt (ko_keyfile_update (\<lambda>_. Some x)))"

definition key2ds_finish :: "key2ds_opts \<Rightarrow> key2ds_args ldns_args res" where
  "key2ds_finish opts = (case ko_keyfile opts of
      None \<Rightarrow> Err ''No keyfile given''
    | Some f \<Rightarrow> Ok (LdnsRun \<lparr>kd_ignore_sep = ko_ignore_sep opts, kd_write_to_stdout = ko_write_to_stdout opts,
        kd_force_overwrite = True, kd_algorithm = ko_algorithm opts, kd_keyfile = os_text f, kd_as_ldns = True\<rparr>))"

definition key2ds_parse_ldns :: "'l lexer \<Rightarrow> os_string list \<Rightarrow> key2ds_args ldns_args res option" where
  "key2ds_parse_ldns L = ldns_parse L key2ds_arg key2ds_defaults key2ds_finish"

interpretation key2ds: ldns_command "\<lambda>L. key2ds_arg"
proof
  show "steady len (key2ds_arg a)" for len :: "'l \<Rightarrow> nat" and a
    by (cases a) (auto intro!: steady_handlers)
qed simp

section \<open>One key\<close>

definition determine_hash_from_sec_alg :: "nat \<Rightarrow> nat res" where
  "determine_hash_from_sec_alg alg =
     (if alg \<in> {RSASHA256, RSASHA512, ED25519, ED448, ECDSAP256SHA256} then Ok DIGEST_SHA256
      else if alg = ECDSAP384SHA384 then Ok DIGEST_SHA384
      else if alg = ECC_GOST then Ok DIGEST_GOST
      else Err (''Unable to derive digest algorithm from used key algorithm. ''
        @ ''Please select a digest algorithm using --algorithm.''))"

definition digest_alg_of :: "key2ds_args \<Rightarrow> nat \<Rightarrow> nat res" where
  "digest_alg_of args alg =
     (case kd_algorithm args of
        Some a \<Rightarrow> Ok a
      | None \<Rightarrow> if kd_as_ldns args then unwrap_or_else (determine_hash_from_sec_alg alg) (\<lambda>_. DIGEST_SHA1)
          else determine_hash_from_sec_alg alg)"

definition ds_of :: "key_tools \<Rightarrow> key2ds_args \<Rightarrow> rr \<Rightarrow> dnskey \<Rightarrow> ds_rr res" where
  "ds_of T args r d =
     bind_res (digest_alg_of args (dk_algorithm d)) (\<lambda>digest_alg.
     if digest_alg = DIGEST_GOST
     then Err ''Error: the GOST algorithm is deprecated and must not be used. Try a different algorithm.''
     else bind_res (map_err (\<lambda>e. ''Error computing digest: '' @ e) (kt_digest T d (rr_owner r) digest_alg)) (\<lambda>digest.
       Ok (DsRR (rr_owner r) (rr_class r) (rr_ttl r) (kt_tag T d) (dk_algorithm d) digest_alg digest)))"

definition ds_line :: "key_tools \<Rightarrow> key2ds_args \<Rightarrow> ds_rr \<Rightarrow> string" where
  "ds_line T args ds = (if kd_as_ldns args then kt_show_ds_ldns T ds else kt_show_ds T ds)"

definition ds_name :: "key_tools \<Rightarrow> ds_rr \<Rightarrow> string" where
  "ds_name T ds = key_file_base T (dr_owner ds) (dr_algorithm ds) (dr_key_tag ds)"

definition create_ds_file :: "key_tools \<Rightarrow> key2ds_args \<Rightarrow> string \<Rightarrow> (world, unit) prog" where
  "create_ds_file T args filename =
     (if kd_force_overwrite args
      then io (fs_create_truncate (kt_in_cwd T filename))
        (\<lambda>e. ''Could not create file '' @ [CHR 0x22] @ filename @ [CHR 0x22] @ '': '' @ e)
      else io (fs_create_new (kt_in_cwd T filename))
        (\<lambda>e. if e = EEXIST
             then ''The file '' @ [CHR 0x27] @ filename @ [CHR 0x27] @ '' already exists, use the --force to overwrite''
             else ''Could not create file '' @ [CHR 0x22] @ filename @ [CHR 0x22] @ '': '' @ e))"

definition write_ds :: "key_tools \<Rightarrow> key2ds_args \<Rightarrow> ds_rr \<Rightarrow> (world, unit) prog" where
  "write_ds T args ds =
     (if kd_write_to_stdout args then modify (println (ds_line T args ds))
      else
        let filename = ds_name T ds @ ''.ds'' in
        thenP (create_ds_file T args filename)
       (thenP (io (fs_write_all (kt_in_cwd T filename) (ds_line T args ds @ [CHR 0x0A]))
                (\<lambda>e. ''Could not write to file '' @ [CHR 0x22] @ filename @ [CHR 0x22] @ '': '' @ e))
              (modify (println (ds_name T ds)))))"

text \<open>The entries that count: DNSKEY records, with the SEP flag unless any key is wanted.\<close>

definition wanted_key :: "key_tools \<Rightarrow> key2ds_args \<Rightarrow> entry \<Rightarrow> (rr \<times> dnskey) option" where
  "wanted_key T args e =
     (case e of
        EntryRecord r \<Rightarrow>
          (case rr_data r of
             Dnskey d \<Rightarrow> if \<not> kd_ignore_sep args \<and> \<not> kt_sep T d then None else Some (r, d)
           | _ \<Rightarrow> None)
      | EntryInclude \<Rightarrow> None)"

fun key2ds_loop :: "key_tools \<Rightarrow> key2ds_args \<Rightarrow> (string + entry) list \<Rightarrow> (world, unit) prog" where
  "key2ds_loop T args [] = ret ()"
| "key2ds_loop T args (Inl e # es) =
     fail (''Error while reading public key from file '' @ [CHR 0x22] @ kd_keyfile args @ [CHR 0x22] @ '': '' @ e)"
| "key2ds_loop T args (Inr e # es) =
     (case wanted_key T args e of
        None \<Rightarrow> key2ds_loop T args es
      | Some (r, d) \<Rightarrow>
          bindP (lift_res (ds_of T args r d)) (\<lambda>ds.
          thenP (write_ds T args ds) (key2ds_loop T args es)))"

text \<open>A file that can be opened but not read ends the process (\<open>unwrap\<close>).\<close>

definition key2ds_execute :: "key_tools \<Rightarrow> key2ds_args \<Rightarrow> (world, unit) prog" where
  "key2ds_execute T args =
     bindP (read_file (kt_in_cwd T (kd_keyfile args))
       (\<lambda>e. ''Failed to open public key file '' @ [CHR 0x22] @ kd_keyfile args @ [CHR 0x22] @ '': '' @ e)) (\<lambda>text.
     case kt_load T text of
       Inl e \<Rightarrow> panic ''unwrap (Zonefile::load)''
     | Inr entries \<Rightarrow> key2ds_loop T args entries)"

section \<open>What the command writes\<close>

text \<open>The DS records of the wanted keys.\<close>

fun all_ds :: "key_tools \<Rightarrow> key2ds_args \<Rightarrow> (string + entry) list \<Rightarrow> ds_rr list res" where
  "all_ds T args [] = Ok []"
| "all_ds T args (Inl e # es) = Err e"
| "all_ds T args (Inr e # es) =
     (case wanted_key T args e of
        None \<Rightarrow> all_ds T args es
      | Some (r, d) \<Rightarrow> bind_res (ds_of T args r d) (\<lambda>ds. bind_res (all_ds T args es) (\<lambda>dss. Ok (ds # dss))))"

definition ds_path :: "key_tools \<Rightarrow> ds_rr \<Rightarrow> string" where
  "ds_path T ds = kt_in_cwd T (ds_name T ds @ ''.ds'')"

lemma write_ds_file:
  assumes "write_ds T args ds w = (Ok u, t)" "\<not> kd_write_to_stdout args"
  shows "w_files t = (w_files w)(ds_path T ds \<mapsto> ds_line T args ds @ [CHR 0x0A])"
    and "w_stdout t = w_stdout w @ [ds_name T ds]"
  using assms
  by (auto simp: write_ds_def create_ds_file_def ds_path_def Let_def thenP_Ok_iff bindP_Ok_iff io_def
      fs_create_truncate_def fs_create_new_def fs_write_all_def modify_def println_def
      split: if_splits option.splits)

text \<open>
  On success a DS record was made for exactly the wanted DNSKEY records of the file, in
  their order: printed, or written to the file of the key, whose base name is printed; no other file
  changes.
\<close>

theorem key2ds_output:
  assumes run: "key2ds_execute T args w = (Ok u, t)"
  shows "\<exists>text entries dss.
    w_files w (kt_in_cwd T (kd_keyfile args)) = Some text \<and> kt_load T text = Inr entries \<and>
    all_ds T args entries = Ok dss \<and>
    (if kd_write_to_stdout args
     then w_files t = w_files w \<and> w_stdout t = w_stdout w @ map (ds_line T args) dss
     else w_files t = foldl (\<lambda>m ds. m(ds_path T ds \<mapsto> ds_line T args ds @ [CHR 0x0A])) (w_files w) dss \<and>
       w_stdout t = w_stdout w @ map (ds_name T) dss)"
proof -
  have loop: "key2ds_loop T args entries w = (Ok u, t) \<Longrightarrow> \<exists>dss. all_ds T args entries = Ok dss \<and>
    (if kd_write_to_stdout args
     then w_files t = w_files w \<and> w_stdout t = w_stdout w @ map (ds_line T args) dss
     else w_files t = foldl (\<lambda>m ds. m(ds_path T ds \<mapsto> ds_line T args ds @ [CHR 0x0A])) (w_files w) dss \<and>
       w_stdout t = w_stdout w @ map (ds_name T) dss)" for entries w
  proof (induction T args entries arbitrary: w rule: key2ds_loop.induct)
    case (3 T args e es)
    show ?case
    proof (cases "wanted_key T args e")
      case None
      with 3 show ?thesis by simp
    next
      case (Some rd)
      obtain r d where rd: "rd = (r, d)" by (cases rd)
      with Some 3(3) obtain ds v where ds: "ds_of T args r d = Ok ds"
        and one: "write_ds T args ds w = (Ok (), v)" and rest: "key2ds_loop T args es v = (Ok u, t)"
        by (auto simp: bindP_Ok_iff thenP_Ok_iff lift_res_def)
      note IH = 3(2) [OF Some rd [symmetric] rest]
      show ?thesis
      proof (cases "kd_write_to_stdout args")
        case True
        then have "v = println (ds_line T args ds) w" using one by (simp add: write_ds_def modify_def)
        with IH True Some rd ds show ?thesis by (auto simp: println_def)
      next
        case False
        from write_ds_file [OF one False] IH False Some rd ds show ?thesis by auto
      qed
    qed
  qed (auto simp: ret_def fail_def)
  from run obtain contents entries where "w_files w (kt_in_cwd T (kd_keyfile args)) = Some contents"
    "kt_load T contents = Inr entries" "key2ds_loop T args entries w = (Ok u, t)"
    by (auto simp: key2ds_execute_def bindP_Ok_iff read_file_def fs_read_def panic_def
        split: option.splits sum.splits)
  with loop show ?thesis by blast
qed

text \<open>The files that may be overwritten.\<close>

definition ds_files :: "key_tools \<Rightarrow> key2ds_args \<Rightarrow> string set" where
  "ds_files T args =
     (if kd_force_overwrite args \<and> \<not> kd_write_to_stdout args then range (ds_path T) else {})"

text \<open>
  No existing file is changed but, with \<open>--force\<close>, files of DS records, however the command ends.
\<close>

theorem key2ds_keeps_files:
  assumes old: "w_files w p \<noteq> None" and free: "p \<notin> ds_files T args"
  shows "w_files (snd (key2ds_execute T args w)) p = w_files w p"
proof -
  have other: "kt_in_cwd T (ds_name T ds @ ''.ds'') \<noteq> p"
    if "kd_force_overwrite args" "\<not> kd_write_to_stdout args" for ds
    using free that by (auto simp: ds_files_def ds_path_def)
  have one: "w_files (snd (write_ds T args ds w)) p = w_files w p" if "w_files w p \<noteq> None" for ds w
    using that other [of ds]
    by (auto simp: write_ds_def create_ds_file_def Let_def thenP_def bindP_def io_def fs_create_new_def
        fs_create_truncate_def fs_write_all_def modify_def split: option.splits)
  have loop: "w_files (snd (key2ds_loop T args entries w)) p = w_files w p" if "w_files w p \<noteq> None" for entries w
    using that
  proof (induction entries arbitrary: w)
    case (Cons x es)
    show ?case
    proof (cases x)
      case (Inr e)
      show ?thesis
      proof (cases "wanted_key T args e")
        case (Some rd)
        obtain r d where rd: "rd = (r, d)" by (cases rd)
        show ?thesis
        proof (cases "ds_of T args r d")
          case (Ok ds)
          obtain q v where v: "write_ds T args ds w = (q, v)" by (cases "write_ds T args ds w")
          with one [OF Cons.prems, of ds] have "w_files v p = w_files w p" by simp
          with Cons.IH [of v] Cons.prems v Some rd Ok Inr show ?thesis
            by (cases q) (simp_all add: bindP_def thenP_def lift_res_def)
        qed (use Inr Some rd in \<open>simp_all add: bindP_def lift_res_def\<close>)
      qed (use Inr Cons in simp)
    qed (simp add: fail_def)
  qed (simp add: ret_def)
  show ?thesis
    using loop [OF old]
    by (auto simp: key2ds_execute_def bindP_def read_file_def panic_def split: sum.split res.split)
qed

end
