(* ===== verification/Keygen.thy ===== *)
theory Keygen
  imports Key2ds
begin

text \<open>
  \<open>dnst keygen\<close> (src/commands/keygen.rs, src/util.rs): the options, the key files, the symlinks
  with constant names. The state adds the symlinks to the file system: a path is a file, a
  symlink, or free. File permissions are not part of the model.
\<close>

section \<open>Files and symlinks\<close>

record desk =
  dk_world :: world
  dk_links :: "string \<rightharpoonup> string"

definition set_files :: "(string \<rightharpoonup> string) \<Rightarrow> desk \<Rightarrow> desk" where
  "set_files f d = d\<lparr>dk_world := (dk_world d)\<lparr>w_files := f\<rparr>\<rparr>"

definition d_files :: "desk \<Rightarrow> string \<rightharpoonup> string" where
  "d_files d = w_files (dk_world d)"

definition on_desk :: "(desk \<Rightarrow> (string + 'a) \<times> desk) \<Rightarrow> (string \<Rightarrow> string) \<Rightarrow> (desk, 'a) prog" where
  "on_desk f g d = (case f d of (r, d') \<Rightarrow> (map_err g r, d'))"

definition desk_create_new :: "string \<Rightarrow> desk \<Rightarrow> (string + unit) \<times> desk" where
  "desk_create_new p d =
     (if dk_links d p \<noteq> None then (Inl EEXIST, d)
      else case fs_create_new p (dk_world d) of (r, w) \<Rightarrow> (r, d\<lparr>dk_world := w\<rparr>))"

definition desk_write_all :: "string \<Rightarrow> string \<Rightarrow> desk \<Rightarrow> (string + unit) \<times> desk" where
  "desk_write_all p s d = (case fs_write_all p s (dk_world d) of (r, w) \<Rightarrow> (r, d\<lparr>dk_world := w\<rparr>))"

definition desk_symlink :: "string \<Rightarrow> string \<Rightarrow> desk \<Rightarrow> (string + unit) \<times> desk" where
  "desk_symlink target p d =
     (if dk_links d p \<noteq> None \<or> d_files d p \<noteq> None then (Inl EEXIST, d)
      else if w_denied (dk_world d) p then (Inl EACCES, d)
      else (Inr (), d\<lparr>dk_links := (dk_links d)(p \<mapsto> target)\<rparr>))"

text \<open>\<open>rename\<close> of a symlink: it replaces what is at the new path.\<close>

definition desk_rename_link :: "string \<Rightarrow> string \<Rightarrow> desk \<Rightarrow> (string + unit) \<times> desk" where
  "desk_rename_link old p d =
     (case dk_links d old of
        None \<Rightarrow> (Inl ENOENT, d)
      | Some target \<Rightarrow>
          if w_denied (dk_world d) p then (Inl EACCES, d)
          else (Inr (), set_files ((d_files d)(p := None))
                 (d\<lparr>dk_links := ((dk_links d)(old := None))(p \<mapsto> target)\<rparr>)))"

definition create_file :: "key_tools \<Rightarrow> string \<Rightarrow> (desk, unit) prog" where
  "create_file T p = on_desk (desk_create_new (kt_in_cwd T p))
     (\<lambda>e. ''cannot create '' @ [CHR 0x27] @ p @ [CHR 0x27] @ '': '' @ e)"

definition quoted :: "string \<Rightarrow> string" where
  "quoted s = [CHR 0x27] @ s @ [CHR 0x27]"

definition util_symlink :: "key_tools \<Rightarrow> string \<Rightarrow> string \<Rightarrow> (desk, unit) prog" where
  "util_symlink T target link = on_desk (desk_symlink (kt_in_cwd T target) (kt_in_cwd T link))
     (\<lambda>e. ''could not create symlink '' @ quoted link @ '' to '' @ quoted target @ '': '' @ e)"

definition rename_path :: "key_tools \<Rightarrow> string \<Rightarrow> string \<Rightarrow> (desk, unit) prog" where
  "rename_path T old p = on_desk (desk_rename_link (kt_in_cwd T old) (kt_in_cwd T p))
     (\<lambda>e. ''could not move '' @ quoted old @ '' to '' @ quoted p @ '': '' @ e)"

definition symlink_force :: "key_tools \<Rightarrow> string \<Rightarrow> string \<Rightarrow> (desk, unit) prog" where
  "symlink_force T target link =
     in_context (''creating symlink '' @ quoted link @ '' to '' @ quoted target)
       (thenP (util_symlink T target (link @ ''.new'')) (rename_path T (link @ ''.new'') link))"

section \<open>Options\<close>

datatype symlink_arg = NoLinks | Links | ForceLinks

record keygen_args =
  kg_algorithm :: nat
  kg_bits :: "u32 option"
  kg_make_ksk :: bool
  kg_symlink :: symlink_arg
  kg_name :: name
  kg_as_ldns :: bool

definition DEFAULT_RSA_KEYLEN :: u32 where "DEFAULT_RSA_KEYLEN = 2048"

definition keygen_algorithm :: "string \<Rightarrow> nat option" where
  "keygen_algorithm s =
     (if s \<in> {''RSASHA256'', ''8''} then Some RSASHA256
      else if s \<in> {''ECDSAP256SHA256'', ''13''} then Some ECDSAP256SHA256
      else if s \<in> {''ECDSAP384SHA384'', ''14''} then Some ECDSAP384SHA384
      else if s \<in> {''ED25519'', ''15''} then Some ED25519
      else if s \<in> {''ED448'', ''16''} then Some ED448
      else None)"

definition parse_algorithm :: "string \<Rightarrow> string + nat" where
  "parse_algorithm s = (case keygen_algorithm s of
     Some a \<Rightarrow> Inr a | None \<Rightarrow> Inl (''unrecognized algorithm '' @ quoted s))"

definition parse_algorithm_ldns :: "string \<Rightarrow> string + nat" where
  "parse_algorithm_ldns s = (case keygen_algorithm s of
     Some a \<Rightarrow> Inr a | None \<Rightarrow> Inl ''unknown algorithm mnemonic or number'')"

text \<open>The list of algorithms; ED448 needs the openssl feature.\<close>

definition ldns_algs_help :: "bool \<Rightarrow> string" where
  "ldns_algs_help openssl =
     (let item = (\<lambda>s. [CHR 0x0A] @ ''- '' @ s) in
      ''Supported algorithms:'' @ item ''RSASHA256 (8)'' @ item ''ECDSAP256SHA256 (13)''
      @ item ''ECDSAP384SHA384 (14)'' @ item ''ED25519 (15)'' @ (if openssl then item ''ED448 (16)'' else []))"

record keygen_opts =
  kgo_algorithm :: "nat option"
  kgo_make_ksk :: bool
  kgo_bits :: u32
  kgo_create_symlinks :: bool
  kgo_force_symlinks :: bool
  kgo_name :: "name option"

definition keygen_defaults :: keygen_opts where
  "keygen_defaults = \<lparr>kgo_algorithm = None, kgo_make_ksk = False, kgo_bits = 2048,
     kgo_create_symlinks = False, kgo_force_symlinks = False, kgo_name = None\<rparr>"

fun keygen_arg :: "key_tools \<Rightarrow> 'l lexer \<Rightarrow> bool \<Rightarrow> string \<Rightarrow> arg \<Rightarrow> ('l \<times> keygen_opts, string option) prog" where
  "keygen_arg T L openssl version (Short c) =
     (if c = CHR ''a'' then
        bindP (gets (\<lambda>s. kgo_algorithm (snd s))) (\<lambda>a.
        if a \<noteq> None then fail ''cannot specify algorithm (-a) more than once''
        else bindP (lex_value L Ok) (\<lambda>v.
          if v = Unicode ''list'' then report (ldns_algs_help openssl)
          else store_value (parse_os_with ''algorithm (-a)'' parse_algorithm_ldns v)
            (\<lambda>a. kgo_algorithm_update (\<lambda>_. Some a))))
      else if c = CHR ''k'' then set_opt (kgo_make_ksk_update (\<lambda>_. True))
      else if c = CHR ''b'' then store L (parse_os_with ''bits (-b)'' (parse_num (2 ^ 32))) (\<lambda>v. kgo_bits_update (\<lambda>_. of_nat v))
      else if c = CHR ''r'' then fail ''a custom source of randomness (-r) is not supported''
      else if c = CHR ''s'' then set_opt (kgo_create_symlinks_update (\<lambda>_. True))
      else if c = CHR ''f'' then set_opt (kgo_force_symlinks_update (\<lambda>_. True))
      else if c = CHR ''v'' then report (report_version ''keygen'' version ''1.8.4'')
      else fail (invalid_short c))"
| "keygen_arg T L openssl version (Long x) = fail (no_long x)"
| "keygen_arg T L openssl version (Value x) =
     bindP (gets (\<lambda>s. kgo_name (snd s))) (\<lambda>n.
     if n \<noteq> None then fail ''cannot specify multiple domain names''
     else store_value (parse_os_with ''domain name'' (kt_name T) x) (\<lambda>v. kgo_name_update (\<lambda>_. Some v)))"

definition keygen_finish :: "keygen_opts \<Rightarrow> keygen_args ldns_args res" where
  "keygen_finish opts =
     (case kgo_algorithm opts of
        None \<Rightarrow> Err ''Missing algorithm (-a) option''
      | Some a \<Rightarrow>
         (case kgo_name opts of
            None \<Rightarrow> Err ''Missing domain name argument''
          | Some n \<Rightarrow> Ok (LdnsRun
              \<lparr>kg_algorithm = a, kg_bits = Some (kgo_bits opts), kg_make_ksk = kgo_make_ksk opts,
               kg_symlink = (if kgo_create_symlinks opts then if kgo_force_symlinks opts then ForceLinks else Links else NoLinks),
               kg_name = n, kg_as_ldns = True\<rparr>)))"

definition keygen_parse_ldns ::
  "key_tools \<Rightarrow> 'l lexer \<Rightarrow> bool \<Rightarrow> string \<Rightarrow> os_string list \<Rightarrow> keygen_args ldns_args res option" where
  "keygen_parse_ldns T L openssl version =
     ldns_parse L (keygen_arg T L openssl version) keygen_defaults keygen_finish"

interpretation keygen: ldns_command "\<lambda>L. keygen_arg T L openssl version" for T openssl version
proof
  show "steady len (keygen_arg T L openssl version a)" if "lexer_laws len L" for len L a
    by (cases a) (simp_all only: keygen_arg.simps, (intro steady_if steady_handlers that)+)
qed simp

section \<open>The command\<close>

definition bits_allowed :: "keygen_args \<Rightarrow> unit res" where
  "bits_allowed args =
     (if \<not> kg_as_ldns args \<and> kg_bits args \<noteq> None \<and> kg_algorithm args \<noteq> RSASHA256
      then Err ''the --bits option is only allowed for RSA keys'' else Ok ())"

definition keygen_params :: "keygen_args \<Rightarrow> generate_params res" where
  "keygen_params args =
     (let a = kg_algorithm args in
      if a = RSASHA256 then Ok (GenRsaSha256 (case kg_bits args of Some b \<Rightarrow> b | None \<Rightarrow> DEFAULT_RSA_KEYLEN))
      else if a = ECDSAP256SHA256 then Ok GenEcdsaP256Sha256
      else if a = ECDSAP384SHA384 then Ok GenEcdsaP384Sha384
      else if a = ED25519 then Ok GenEd25519
      else if a = ED448 then Ok GenEd448
      else Panic ''unreachable! (algorithm)'')"

fun keygen_digest_alg :: "generate_params \<Rightarrow> nat res" where
  "keygen_digest_alg (GenRsaSha256 _) = Ok DIGEST_SHA256"
| "keygen_digest_alg GenEcdsaP256Sha256 = Ok DIGEST_SHA256"
| "keygen_digest_alg GenEcdsaP384Sha384 = Ok DIGEST_SHA384"
| "keygen_digest_alg GenEd25519 = Ok DIGEST_SHA256"
| "keygen_digest_alg GenEd448 = Ok DIGEST_SHA256"
| "keygen_digest_alg (GenRsaSha512 _) = Panic ''unreachable! (digest)''"

text \<open>\<open>domain::crypto::sign::generate\<close>: a fresh key pair for each call.\<close>

definition generate_pair :: "key_tools \<Rightarrow> generate_params \<Rightarrow> u16 \<Rightarrow> (desk, string \<times> dnskey) prog" where
  "generate_pair T params flags d =
     (let n = w_generated (dk_world d) in
      (map_err (\<lambda>e. ''an implementation error occurred: '' @ e) (kt_generate T n params flags),
       d\<lparr>dk_world := (dk_world d)\<lparr>w_generated := n + 1\<rparr>\<rparr>))"

record new_key =
  nk_base :: string
  nk_secret :: string
  nk_public :: string
  nk_digest :: "string option"

text \<open>The base name and the texts of the files.\<close>

definition new_key_of :: "key_tools \<Rightarrow> keygen_args \<Rightarrow> nat \<Rightarrow> string \<times> dnskey \<Rightarrow> new_key res" where
  "new_key_of T args digest_alg pair =
     (case pair of (secret, public) \<Rightarrow>
      let owner = kt_fmt_with_dot T (kg_name args) in
      bind_res (if kg_make_ksk args then
           (case kt_digest T public (kg_name args) digest_alg of
              Inl e \<Rightarrow> Panic ''only supported digest algorithms are used''
            | Inr digest \<Rightarrow> Ok (Some (owner @ '' IN DS ''
                @ kt_show_ds_data T (DsRR (kg_name args) class_IN 0 (kt_tag T public) (dk_algorithm public) digest_alg digest)
                @ [CHR 0x0A])))
         else Ok None) (\<lambda>digest.
      Ok \<lparr>nk_base = key_file_base T (kg_name args) (dk_algorithm public) (kt_tag T public),
          nk_secret = kt_show_secret T secret,
          nk_public = owner @ '' IN DNSKEY '' @ kt_show_dnskey T public @ [CHR 0x0A],
          nk_digest = digest\<rparr>))"

definition keygen_symlink :: "key_tools \<Rightarrow> symlink_arg \<Rightarrow> string \<Rightarrow> string \<Rightarrow> (desk, unit) prog" where
  "keygen_symlink T how target link =
     (case how of
        NoLinks \<Rightarrow> ret ()
      | Links \<Rightarrow> util_symlink T target link
      | ForceLinks \<Rightarrow> symlink_force T target link)"

definition write_key_file :: "key_tools \<Rightarrow> string \<Rightarrow> string \<Rightarrow> string \<Rightarrow> (desk, unit) prog" where
  "write_key_file T kind p s = on_desk (desk_write_all (kt_in_cwd T p) s)
     (\<lambda>e. ''error while writing '' @ kind @ '' file '' @ quoted p @ '': '' @ e)"

definition create_key_files :: "key_tools \<Rightarrow> new_key \<Rightarrow> (desk, unit) prog" where
  "create_key_files T k =
     thenP (create_file T (nk_base k @ ''.private''))
    (thenP (create_file T (nk_base k @ ''.key''))
           (whenP (nk_digest k \<noteq> None) (create_file T (nk_base k @ ''.ds''))))"

definition link_key_files :: "key_tools \<Rightarrow> symlink_arg \<Rightarrow> new_key \<Rightarrow> (desk, unit) prog" where
  "link_key_files T how k =
     thenP (keygen_symlink T how (nk_base k @ ''.private'') ''.private'')
    (thenP (keygen_symlink T how (nk_base k @ ''.key'') ''.key'')
           (whenP (nk_digest k \<noteq> None) (keygen_symlink T how (nk_base k @ ''.ds'') ''.ds'')))"

definition fill_key_files :: "key_tools \<Rightarrow> new_key \<Rightarrow> (desk, unit) prog" where
  "fill_key_files T k =
     thenP (write_key_file T ''private key'' (nk_base k @ ''.private'') (nk_secret k))
    (thenP (write_key_file T ''public key'' (nk_base k @ ''.key'') (nk_public k))
           (case nk_digest k of
              None \<Rightarrow> ret ()
            | Some s \<Rightarrow> write_key_file T ''digest'' (nk_base k @ ''.ds'') s))"

definition keygen_execute :: "key_tools \<Rightarrow> keygen_args \<Rightarrow> (desk, unit) prog" where
  "keygen_execute T args =
     thenP (lift_res (bits_allowed args))
    (bindP (lift_res (keygen_params args)) (\<lambda>params.
     bindP (lift_res (keygen_digest_alg params)) (\<lambda>digest_alg.
     bindP (in_context ''generating a cryptographic keypair''
              (generate_pair T params (if kg_make_ksk args then 257 else 256))) (\<lambda>pair.
     bindP (lift_res (new_key_of T args digest_alg pair)) (\<lambda>k.
     thenP (create_key_files T k)
    (thenP (link_key_files T (kg_symlink args) k)
    (thenP (fill_key_files T k)
           (modify (\<lambda>d. d\<lparr>dk_world := println (nk_base k) (dk_world d)\<rparr>)))))))))"

end
