(* ===== verification/Keygen_Correct.thy ===== *)
theory Keygen_Correct
  imports Keygen
begin

text \<open>
  \<open>dnst keygen\<close> never overwrites a file; on success the key files hold the new key; a symlink that
  cannot be made leaves empty key files behind.
\<close>

section \<open>Existing files\<close>

text \<open>The paths that forced symlinks replace.\<close>

definition link_paths :: "key_tools \<Rightarrow> keygen_args \<Rightarrow> string set" where
  "link_paths T args =
     (if kg_symlink args = ForceLinks then {kt_in_cwd T ''.private'', kt_in_cwd T ''.key'', kt_in_cwd T ''.ds''} else {})"

definition kept_from :: "string set \<Rightarrow> desk \<Rightarrow> desk \<Rightarrow> bool" where
  "kept_from S d t \<longleftrightarrow> (\<forall>p. d_files d p \<noteq> None \<longrightarrow> p \<notin> S \<longrightarrow> d_files t p = d_files d p)"

lemma keptD: "kept_from S d t \<Longrightarrow> d_files d p \<noteq> None \<Longrightarrow> p \<notin> S \<Longrightarrow> d_files t p = d_files d p"
  by (simp add: kept_from_def)

lemma kept_refl: "kept_from S d d"
  by (simp add: kept_from_def)

lemma on_desk_snd [simp]: "snd (on_desk f g d) = snd (f d)"
  by (simp add: on_desk_def split: prod.split)

lemma on_desk_Ok: "on_desk f g d = (Ok u, t) \<longleftrightarrow> f d = (Inr u, t)"
  by (auto simp: on_desk_def split: prod.splits)

lemma create_file_kept: "preserves (kept_from S d) (create_file T p)"
  by (auto simp: preserves_def create_file_def desk_create_new_def fs_create_new_def kept_from_def
      d_files_def split: if_splits)

lemma create_file_free:
  "create_file T p d = (Ok u, t) \<Longrightarrow> d_files d (kt_in_cwd T p) = None \<and> d_files t = (d_files d)(kt_in_cwd T p \<mapsto> []) \<and>
     dk_links t = dk_links d \<and> dk_links d (kt_in_cwd T p) = None"
  by (auto simp: create_file_def on_desk_Ok desk_create_new_def fs_create_new_def d_files_def split: if_splits)

text \<open>A path that could be created holds no file that has to be kept.\<close>

lemma created_not_kept:
  assumes "create_file T p d1 = (Ok u, d2)" "kept_from S d d1"
  shows "d_files d (kt_in_cwd T p) = None \<or> kt_in_cwd T p \<in> S"
  using create_file_free [OF assms(1)] keptD [OF assms(2), of "kt_in_cwd T p"] by metis

lemma write_key_file_kept:
  assumes "d_files d (kt_in_cwd T p) = None \<or> kt_in_cwd T p \<in> S"
  shows "preserves (kept_from S d) (write_key_file T kind p s)"
  using assms
  by (auto simp: preserves_def write_key_file_def desk_write_all_def fs_write_all_def kept_from_def
      d_files_def split: option.splits)

lemma in_context_snd [simp]: "snd (in_context l m d) = snd (m d)"
  by (auto simp: in_context_def split: prod.split res.split)

lemma util_symlink_kept: "preserves (kept_from S d) (util_symlink T target link)"
  by (auto simp: preserves_def util_symlink_def desk_symlink_def kept_from_def d_files_def)

lemma keygen_symlink_kept:
  assumes "how = ForceLinks \<Longrightarrow> kt_in_cwd T link \<in> S"
  shows "preserves (kept_from S d) (keygen_symlink T how target link)"
proof (cases how)
  case ForceLinks
  then have S: "kt_in_cwd T link \<in> S" by (rule assms)
  have "preserves (kept_from S d) (rename_path T (link @ ''.new'') link)"
    using S by (auto simp: preserves_def rename_path_def desk_rename_link_def kept_from_def d_files_def
        set_files_def split: option.splits)
  then have "preserves (kept_from S d)
      (thenP (util_symlink T target (link @ ''.new'')) (rename_path T (link @ ''.new'') link))"
    by (intro preserves_thenP util_symlink_kept)
  then show ?thesis using ForceLinks by (simp add: keygen_symlink_def symlink_force_def preserves_def)
qed (simp_all add: keygen_symlink_def util_symlink_kept preserves_pure)

lemma preserves_then_known:
  assumes "preserves P m" "\<And>x s t. P s \<Longrightarrow> m s = (Ok x, t) \<Longrightarrow> P t \<Longrightarrow> P (snd (n t))"
  shows "preserves P (thenP m n)"
  unfolding preserves_def
proof (intro allI impI)
  fix s assume s: "P s"
  obtain r t where m: "m s = (r, t)" by (cases "m s")
  then have "P t" using assms(1) s by (auto simp: preserves_def)
  with m assms(2) [OF s] show "P (snd (thenP m n s))"
    by (cases r) (auto simp: thenP_def bindP_def)
qed

lemma create_key_files_Ok:
  assumes run: "create_key_files T k d1 = (Ok u, t)" and kept: "kept_from S d d1"
  shows "\<forall>e \<in> {''.private'', ''.key''} \<union> (if nk_digest k \<noteq> None then {''.ds''} else {}).
    d_files d (kt_in_cwd T (nk_base k @ e)) = None \<or> kt_in_cwd T (nk_base k @ e) \<in> S"
proof -
  obtain d2 d3 where c1: "create_file T (nk_base k @ ''.private'') d1 = (Ok (), d2)"
    and c2: "create_file T (nk_base k @ ''.key'') d2 = (Ok (), d3)"
    and c3: "whenP (nk_digest k \<noteq> None) (create_file T (nk_base k @ ''.ds'')) d3 = (Ok u, t)"
    using run by (auto simp: create_key_files_def thenP_Ok_iff)
  have k2: "kept_from S d d2" using create_file_kept kept c1 by (rule preservesD)
  have k3: "kept_from S d d3" using create_file_kept k2 c2 by (rule preservesD)
  have "nk_digest k \<noteq> None \<Longrightarrow>
      d_files d (kt_in_cwd T (nk_base k @ ''.ds'')) = None \<or> kt_in_cwd T (nk_base k @ ''.ds'') \<in> S"
    using c3 created_not_kept [OF _ k3] by (auto simp: whenP_Ok_iff)
  with created_not_kept [OF c1 kept] created_not_kept [OF c2 k2] show ?thesis by auto
qed

lemma fill_key_files_kept:
  assumes "\<forall>e \<in> {''.private'', ''.key''} \<union> (if nk_digest k \<noteq> None then {''.ds''} else {}).
    d_files d (kt_in_cwd T (nk_base k @ e)) = None \<or> kt_in_cwd T (nk_base k @ e) \<in> S"
  shows "preserves (kept_from S d) (fill_key_files T k)"
  using assms unfolding fill_key_files_def
  by (intro preserves_thenP write_key_file_kept)
    (auto intro: write_key_file_kept preserves_pure split: option.split if_splits)

lemma link_key_files_kept:
  assumes "how = ForceLinks \<Longrightarrow> {kt_in_cwd T ''.private'', kt_in_cwd T ''.key'', kt_in_cwd T ''.ds''} \<subseteq> S"
  shows "preserves (kept_from S d) (link_key_files T how k)"
  unfolding link_key_files_def
  by (intro preserves_thenP preserves_whenP keygen_symlink_kept) (use assms in auto)

lemma create_key_files_kept: "preserves (kept_from S d) (create_key_files T k)"
  unfolding create_key_files_def by (intro preserves_thenP preserves_whenP create_file_kept)

lemma preserves_files:
  "(\<And>s. d_files (snd (m s)) = d_files s) \<Longrightarrow> preserves (kept_from S d) m"
  by (auto simp: preserves_def kept_from_def)

text \<open>
  Whatever its outcome, \<open>keygen\<close> changes no existing file; only with forced symlinks
  a file with one of the constant names is replaced.
\<close>

theorem keygen_keeps_files:
  assumes old: "d_files d p \<noteq> None" and free: "p \<notin> link_paths T args"
  shows "d_files (snd (keygen_execute T args d)) p = d_files d p"
proof -
  define S where "S = link_paths T args"
  have links: "preserves (kept_from S d) (link_key_files T (kg_symlink args) k)" for k
    by (rule link_key_files_kept) (simp add: S_def link_paths_def)
  have files: "preserves (kept_from S d)
      (thenP (create_key_files T k) (thenP (link_key_files T (kg_symlink args) k)
        (thenP (fill_key_files T k) (modify (\<lambda>d. d\<lparr>dk_world := println (nk_base k) (dk_world d)\<rparr>)))))" for k
  proof (rule preserves_then_known [OF create_key_files_kept])
    fix x :: unit and s t
    assume s: "kept_from S d s" and run: "create_key_files T k s = (Ok x, t)" and t: "kept_from S d t"
    have "preserves (kept_from S d) (thenP (link_key_files T (kg_symlink args) k)
        (thenP (fill_key_files T k) (modify (\<lambda>d. d\<lparr>dk_world := println (nk_base k) (dk_world d)\<rparr>))))"
      by (intro preserves_thenP links fill_key_files_kept create_key_files_Ok [OF run s] preserves_modify)
        (simp add: kept_from_def d_files_def)
    with t show "kept_from S d (snd (thenP (link_key_files T (kg_symlink args) k)
        (thenP (fill_key_files T k) (modify (\<lambda>d. d\<lparr>dk_world := println (nk_base k) (dk_world d)\<rparr>))) t))"
      by (auto simp: preserves_def)
  qed
  have gen: "preserves (kept_from S d) (in_context l (generate_pair T params flags))" for l params flags
    by (rule preserves_files) (simp add: generate_pair_def d_files_def Let_def)
  have "preserves (kept_from S d) (keygen_execute T args)"
    unfolding keygen_execute_def by (intro preserves_thenP preserves_bindP preserves_pure gen files)
  with kept_refl [of S d] have "kept_from S d (snd (keygen_execute T args d))" by (auto simp: preserves_def)
  from keptD [OF this old] free show ?thesis by (simp add: S_def)
qed

section \<open>The new files\<close>

text \<open>The steps before the first file is created.\<close>

definition keygen_prepares :: "key_tools \<Rightarrow> keygen_args \<Rightarrow> desk \<Rightarrow> new_key \<Rightarrow> desk \<Rightarrow> bool" where
  "keygen_prepares T args d k d' \<longleftrightarrow>
     bits_allowed args = Ok () \<and>
     (\<exists>params digest_alg pair. keygen_params args = Ok params \<and> keygen_digest_alg params = Ok digest_alg \<and>
        generate_pair T params (if kg_make_ksk args then 257 else 256) d = (Ok pair, d') \<and>
        new_key_of T args digest_alg pair = Ok k)"

lemma keygen_run:
  assumes "keygen_prepares T args d k d'"
  shows "keygen_execute T args d =
    thenP (create_key_files T k) (thenP (link_key_files T (kg_symlink args) k)
      (thenP (fill_key_files T k) (modify (\<lambda>d. d\<lparr>dk_world := println (nk_base k) (dk_world d)\<rparr>)))) d'"
  using assms
  by (auto simp: keygen_prepares_def keygen_execute_def bindP_def thenP_def lift_res_def in_context_def)

lemma generate_pair_state:
  "generate_pair T params flags d = (r, d') \<Longrightarrow>
     d_files d' = d_files d \<and> dk_links d' = dk_links d \<and> w_stdout (dk_world d') = w_stdout (dk_world d) \<and>
     w_denied (dk_world d') = w_denied (dk_world d)"
  by (auto simp: generate_pair_def d_files_def Let_def)

lemma in_context_Ok: "in_context l m d = (Ok x, t) \<longleftrightarrow> m d = (Ok x, t)"
  by (auto simp: in_context_def split: prod.splits res.splits)

lemma keygen_prepared:
  assumes "keygen_execute T args d = (Ok u, t)"
  shows "\<exists>k d'. keygen_prepares T args d k d' \<and> d_files d' = d_files d \<and> w_stdout (dk_world d') = w_stdout (dk_world d)"
proof -
  obtain params alg pair d' k where "bits_allowed args = Ok ()" "keygen_params args = Ok params"
    "keygen_digest_alg params = Ok alg"
    and pair: "generate_pair T params (if kg_make_ksk args then 257 else 256) d = (Ok pair, d')"
    and "new_key_of T args alg pair = Ok k"
    using assms unfolding keygen_execute_def thenP_Ok_iff bindP_Ok_iff in_context_Ok lift_res_def by auto
  with generate_pair_state [OF pair] show ?thesis unfolding keygen_prepares_def by blast
qed

lemma write_key_file_Ok:
  "write_key_file T kind p s d = (Ok u, t) \<Longrightarrow>
     d_files t = (d_files d)(kt_in_cwd T p \<mapsto> s) \<and> w_stdout (dk_world t) = w_stdout (dk_world d)"
  by (auto simp: write_key_file_def on_desk_Ok desk_write_all_def fs_write_all_def d_files_def
      split: option.splits)

lemma unchanged_stdout:
  "unchanged (\<lambda>d. w_stdout (dk_world d)) (create_file T p)"
  "unchanged (\<lambda>d. w_stdout (dk_world d)) (keygen_symlink T how target link)"
  by (auto simp: unchanged_def create_file_def desk_create_new_def fs_create_new_def keygen_symlink_def
      ret_def util_symlink_def desk_symlink_def symlink_force_def rename_path_def desk_rename_link_def
      set_files_def thenP_def bindP_def on_desk_def
      split: symlink_arg.split res.split prod.split option.split sum.split)

text \<open>
  On success the files of the new key hold its private key, its DNSKEY record and, for
  a key signing key, its DS record, and its base name is printed.
\<close>

theorem keygen_files:
  assumes run: "keygen_execute T args d = (Ok u, t)" and inj: "inj (kt_in_cwd T)"
  shows "\<exists>k d'. keygen_prepares T args d k d' \<and>
    d_files t (kt_in_cwd T (nk_base k @ ''.private'')) = Some (nk_secret k) \<and>
    d_files t (kt_in_cwd T (nk_base k @ ''.key'')) = Some (nk_public k) \<and>
    (nk_digest k \<noteq> None \<longrightarrow> d_files t (kt_in_cwd T (nk_base k @ ''.ds'')) = nk_digest k) \<and>
    w_stdout (dk_world t) = w_stdout (dk_world d) @ [nk_base k]"
proof -
  obtain k d' where prep: "keygen_prepares T args d k d'" "w_stdout (dk_world d') = w_stdout (dk_world d)"
    using keygen_prepared [OF run] by blast
  obtain d1 d2 d3 where c: "create_key_files T k d' = (Ok (), d1)"
    and l: "link_key_files T (kg_symlink args) k d1 = (Ok (), d2)"
    and f: "fill_key_files T k d2 = (Ok (), d3)"
    and t: "t = d3\<lparr>dk_world := println (nk_base k) (dk_world d3)\<rparr>"
    using run unfolding keygen_run [OF prep(1)] by (auto simp: thenP_Ok_iff modify_def)
  have "unchanged (\<lambda>d. w_stdout (dk_world d)) (create_key_files T k)"
    "unchanged (\<lambda>d. w_stdout (dk_world d)) (link_key_files T (kg_symlink args) k)"
    unfolding create_key_files_def link_key_files_def
    by (intro unchanged_thenP unchanged_whenP unchanged_stdout)+
  then have out: "w_stdout (dk_world d2) = w_stdout (dk_world d')"
    using unchangedD c l by metis
  obtain d4 d5 where w: "write_key_file T ''private key'' (nk_base k @ ''.private'') (nk_secret k) d2 = (Ok (), d4)"
    "write_key_file T ''public key'' (nk_base k @ ''.key'') (nk_public k) d4 = (Ok (), d5)"
    and ds: "(case nk_digest k of None \<Rightarrow> ret ()
            | Some s \<Rightarrow> write_key_file T ''digest'' (nk_base k @ ''.ds'') s) d5 = (Ok (), d3)"
    using f by (auto simp: fill_key_files_def thenP_Ok_iff)
  have neq: "kt_in_cwd T (nk_base k @ a) = kt_in_cwd T (nk_base k @ b) \<longleftrightarrow> a = b" for a b
    using inj by (simp add: inj_eq)
  have files: "d_files d5 = (d_files d2)(kt_in_cwd T (nk_base k @ ''.private'') \<mapsto> nk_secret k,
      kt_in_cwd T (nk_base k @ ''.key'') \<mapsto> nk_public k)" "w_stdout (dk_world d5) = w_stdout (dk_world d2)"
    using write_key_file_Ok [OF w(1)] write_key_file_Ok [OF w(2)] by simp_all
  have "d_files t = d_files d3" "w_stdout (dk_world t) = w_stdout (dk_world d3) @ [nk_base k]"
    by (simp_all add: t d_files_def println_def)
  moreover have "d_files d3 = (case nk_digest k of None \<Rightarrow> d_files d5
      | Some s \<Rightarrow> (d_files d5)(kt_in_cwd T (nk_base k @ ''.ds'') \<mapsto> s))" "w_stdout (dk_world d3) = w_stdout (dk_world d5)"
    using ds write_key_file_Ok by (auto simp: ret_def split: option.splits)
  ultimately have "d_files t (kt_in_cwd T (nk_base k @ ''.private'')) = Some (nk_secret k) \<and>
    d_files t (kt_in_cwd T (nk_base k @ ''.key'')) = Some (nk_public k) \<and>
    (nk_digest k \<noteq> None \<longrightarrow> d_files t (kt_in_cwd T (nk_base k @ ''.ds'')) = nk_digest k) \<and>
    w_stdout (dk_world t) = w_stdout (dk_world d) @ [nk_base k]"
    using files out prep(2) by (auto simp: neq split: option.splits)
  with prep(1) show ?thesis by blast
qed

text \<open>
  If the symlink cannot be made because its name is taken, \<open>keygen\<close> fails and leaves
  the new private and public key files empty.
\<close>

theorem failed_symlink_leaves_empty_keys:
  assumes prep: "keygen_prepares T args d k d'" and inj: "inj (kt_in_cwd T)"
    and how: "kg_symlink args = Links"
    and taken: "d_files d (kt_in_cwd T ''.private'') \<noteq> None"
    and created: "create_key_files T k d' = (Ok (), d1)"
  shows "\<exists>e t. keygen_execute T args d = (Err e, t) \<and>
    d_files t (kt_in_cwd T (nk_base k @ ''.private'')) = Some [] \<and>
    d_files t (kt_in_cwd T (nk_base k @ ''.key'')) = Some []"
proof -
  obtain d2 d3 where c1: "create_file T (nk_base k @ ''.private'') d' = (Ok (), d2)"
    and c2: "create_file T (nk_base k @ ''.key'') d2 = (Ok (), d3)"
    and c3: "whenP (nk_digest k \<noteq> None) (create_file T (nk_base k @ ''.ds'')) d3 = (Ok (), d1)"
    using created by (auto simp: create_key_files_def thenP_Ok_iff)
  have neq: "kt_in_cwd T (nk_base k @ a) = kt_in_cwd T (nk_base k @ b) \<longleftrightarrow> a = b" for a b
    using inj by (simp add: inj_eq)
  have d': "d_files d' = d_files d"
    using prep generate_pair_state by (fastforce simp: keygen_prepares_def)
  have files: "d_files d1 (kt_in_cwd T (nk_base k @ ''.private'')) = Some []"
    "d_files d1 (kt_in_cwd T (nk_base k @ ''.key'')) = Some []"
    using create_file_free [OF c1] create_file_free [OF c2] c3 create_file_free [of T "nk_base k @ ''.ds''" d3]
    by (auto simp: neq whenP_Ok_iff split: if_splits)
  have "kept_from {} d d1"
    using preservesD [OF create_key_files_kept _ created, of "{}" d] d' by (simp add: kept_from_def)
  then have "d_files d1 (kt_in_cwd T ''.private'') \<noteq> None" using taken by (simp add: kept_from_def)
  then have "\<exists>e. util_symlink T (nk_base k @ ''.private'') ''.private'' d1 = (Err e, d1)"
    by (simp add: util_symlink_def on_desk_def desk_symlink_def)
  then obtain e where "link_key_files T (kg_symlink args) k d1 = (Err e, d1)"
    using how by (auto simp: link_key_files_def keygen_symlink_def thenP_def bindP_def)
  then have "keygen_execute T args d = (Err e, d1)"
    unfolding keygen_run [OF prep] using created by (simp add: thenP_def bindP_def)
  with files show ?thesis by blast
qed

end
