(* ===== verification/Nsec3_Hash.thy ===== *)
theory Nsec3_Hash
  imports Cli
begin

text \<open>
  \<open>dnst nsec3-hash\<close> (src/commands/nsec3hash.rs): the parsers of its options, the hash of a name,
  and the search for a name whose hash starts with given letters. The hash function, the builder
  of names and the parsers of the crate \<open>domain\<close> are the fields of the record \<open>hasher\<close>. The
  counter of the search is a 64-bit word that wraps, as in a release build.
\<close>

record hasher =
  nh_hash :: "name \<Rightarrow> nat \<Rightarrow> u16 \<Rightarrow> string \<Rightarrow> string + string"
  nh_prepend :: "string \<Rightarrow> name \<Rightarrow> name option"
  nh_mnemonic :: "nat \<Rightarrow> string option"
  nh_from_mnemonic :: "string \<Rightarrow> nat option"
  nh_salt :: "string \<Rightarrow> string + string"
  nh_name :: "string \<Rightarrow> string + name"

record nsec3_args =
  nx_algorithm :: nat
  nx_iterations :: u16
  nx_salt :: string
  nx_find_prefix :: "string option"
  nx_name :: name

definition NSEC3_SHA1 :: nat where "NSEC3_SHA1 = 1"

section \<open>Parsers\<close>

definition parse_salt :: "hasher \<Rightarrow> string \<Rightarrow> string + string" where
  "parse_salt H arg = (if 512 \<le> length arg then Inl ''Salt too long'' else nh_salt H arg)"

definition num_to_nsec3_alg :: "hasher \<Rightarrow> nat \<Rightarrow> string + nat" where
  "num_to_nsec3_alg H num = (case nh_mnemonic H num of
     Some _ \<Rightarrow> Inr num | None \<Rightarrow> Inl ''unknown algorithm number'')"

definition parse_nsec3_alg :: "hasher \<Rightarrow> string \<Rightarrow> string + nat" where
  "parse_nsec3_alg H arg = (case parse_uint 256 arg of
     Some num \<Rightarrow> num_to_nsec3_alg H num
   | None \<Rightarrow> (case nh_from_mnemonic H arg of Some a \<Rightarrow> Inr a | None \<Rightarrow> Inl ''unknown algorithm mnemonic''))"

definition parse_nsec3_alg_as_num :: "hasher \<Rightarrow> string \<Rightarrow> string + nat" where
  "parse_nsec3_alg_as_num H arg = (case parse_uint 256 arg of
     Some num \<Rightarrow> num_to_nsec3_alg H num | None \<Rightarrow> Inl ''malformed algorithm number'')"

section \<open>\<open>ldns-nsec3-hash\<close>\<close>

record nsec3_opts =
  nxo_algorithm :: nat
  nxo_iterations :: u16
  nxo_salt :: string
  nxo_name :: "name option"

definition nsec3_defaults :: nsec3_opts where
  "nsec3_defaults = \<lparr>nxo_algorithm = NSEC3_SHA1, nxo_iterations = 0, nxo_salt = [], nxo_name = None\<rparr>"

text \<open>Only the first domain name counts; later ones are not even parsed.\<close>

fun nsec3_arg :: "hasher \<Rightarrow> 'l lexer \<Rightarrow> arg \<Rightarrow> ('l \<times> nsec3_opts, string option) prog" where
  "nsec3_arg H L (Short c) =
     (if c = CHR ''a'' then store L (parse_os_with ''algorithm (-a)'' (parse_nsec3_alg_as_num H)) (\<lambda>v. nxo_algorithm_update (\<lambda>_. v))
      else if c = CHR ''s'' then store L (parse_os_with ''salt (-s)'' (parse_salt H)) (\<lambda>v. nxo_salt_update (\<lambda>_. v))
      else if c = CHR ''t'' then store L (parse_os_with ''iterations (-t)'' (parse_num (2 ^ 16)))
        (\<lambda>v. nxo_iterations_update (\<lambda>_. of_nat v))
      else fail (invalid_short c))"
| "nsec3_arg H L (Long x) = fail (no_long x)"
| "nsec3_arg H L (Value x) =
     bindP (gets (\<lambda>s. nxo_name (snd s))) (\<lambda>n.
     if n \<noteq> None then ret None
     else store_value (parse_os_with ''domain name'' (nh_name H) x) (\<lambda>v. nxo_name_update (\<lambda>_. Some v)))"

definition nsec3_finish :: "nsec3_opts \<Rightarrow> nsec3_args ldns_args res" where
  "nsec3_finish opts = (case nxo_name opts of
      None \<Rightarrow> Err ''Missing domain name argument''
    | Some n \<Rightarrow> Ok (LdnsRun \<lparr>nx_algorithm = nxo_algorithm opts, nx_iterations = nxo_iterations opts,
        nx_salt = nxo_salt opts, nx_find_prefix = None, nx_name = n\<rparr>))"

definition nsec3_parse_ldns :: "hasher \<Rightarrow> 'l lexer \<Rightarrow> os_string list \<Rightarrow> nsec3_args ldns_args res option" where
  "nsec3_parse_ldns H L = ldns_parse L (nsec3_arg H L) nsec3_defaults nsec3_finish"

interpretation nsec3_hash: ldns_command "nsec3_arg H" for H
proof
  show "lexer_laws len L \<Longrightarrow> steady len (nsec3_arg H L a)" for len L a
    by (cases a) (auto intro!: steady_handlers)
qed simp

section \<open>Hashing\<close>

definition nsec3_hash_of :: "hasher \<Rightarrow> nsec3_args \<Rightarrow> name \<Rightarrow> string res" where
  "nsec3_hash_of H args n =
     bind_res (map_err (\<lambda>e. ''Error creating NSEC3 hash: '' @ e)
       (nh_hash H n (nx_algorithm args) (nx_iterations args) (nx_salt args))) (\<lambda>h. Ok (to_lowercase h))"

fun label_digits :: "nat \<Rightarrow> string" where
  "label_digits n = (if n = 0 then [] else char_of (97 + n mod 26) # label_digits (n div 26))"

declare label_digits.simps [simp del]

definition number_to_label :: "64 word \<Rightarrow> string" where
  "number_to_label n = (if label_digits (unat n) = [] then ''a'' else label_digits (unat n))"

text \<open>The name for a number and its hash; the two calls of the builder are expected to succeed.\<close>

definition prefix_candidate :: "hasher \<Rightarrow> nsec3_args \<Rightarrow> 64 word \<Rightarrow> (name \<times> string) res" where
  "prefix_candidate H args u =
     (case nh_prepend H (number_to_label u) (nx_name args) of
        None \<Rightarrow> Panic ''should not fail''
      | Some n \<Rightarrow> bind_res (nsec3_hash_of H args n) (\<lambda>h. Ok (n, h)))"

definition starts_with_text :: "string \<Rightarrow> string \<Rightarrow> bool" where
  "starts_with_text p s \<longleftrightarrow> take (length p) s = p"

text \<open>The loop of \<open>find_prefix\<close>; a search that never ends is \<open>None\<close>.\<close>

partial_function (option) prefix_loop :: "hasher \<Rightarrow> nsec3_args \<Rightarrow> string \<Rightarrow> 64 word \<Rightarrow> (name \<times> string) res option" where
  "prefix_loop H args prefix u =
     (case prefix_candidate H args u of
        Ok (n, h) \<Rightarrow> if starts_with_text prefix h then Some (Ok (n, h)) else prefix_loop H args prefix (u + 1)
      | Err e \<Rightarrow> Some (Err e)
      | Panic p \<Rightarrow> Some (Panic p))"

definition find_prefix :: "hasher \<Rightarrow> nsec3_args \<Rightarrow> string \<Rightarrow> world \<Rightarrow> (unit res \<times> world) option" where
  "find_prefix H args prefix w =
     (case prefix_loop H args prefix 0 of
        None \<Rightarrow> None
      | Some r \<Rightarrow> Some (bindP (lift_res r) (\<lambda>(n, h).
          thenP (modify (println n)) (modify (println (''('' @ h @ '')'')))) w))"

definition nsec3_execute :: "hasher \<Rightarrow> nsec3_args \<Rightarrow> world \<Rightarrow> (unit res \<times> world) option" where
  "nsec3_execute H args w =
     (case nx_find_prefix args of
        Some prefix \<Rightarrow> find_prefix H args prefix w
      | None \<Rightarrow> Some (bindP (lift_res (nsec3_hash_of H args (nx_name args)))
          (\<lambda>h. modify (println (h @ ''.''))) w))"

section \<open>Labels\<close>

definition is_lower :: "char \<Rightarrow> bool" where
  "is_lower c \<longleftrightarrow> 97 \<le> (of_char c :: nat) \<and> (of_char c :: nat) \<le> 122"

lemma of_char_letter: "d < 26 \<Longrightarrow> (of_char (char_of (97 + d :: nat)) :: nat) = 97 + d"
  by simp

lemma label_digits_lower: "list_all is_lower (label_digits n)"
proof (induction n rule: label_digits.induct)
  case (1 n)
  have "is_lower (char_of (97 + n mod 26))"
    using of_char_letter [of "n mod 26"] mod_less_divisor [of 26 n] by (simp add: is_lower_def del: of_char_of)
  with 1 show ?case by (subst label_digits.simps) simp
qed

lemma label_digits_length: "n < 26 ^ k \<Longrightarrow> length (label_digits n) \<le> k"
proof (induction k arbitrary: n)
  case 0
  then show ?case by (simp add: label_digits.simps)
next
  case (Suc k)
  have "n div 26 < 26 ^ k" using Suc.prems by (simp add: div_less_iff_less_mult mult.commute)
  then have "length (label_digits (n div 26)) \<le> k" by (rule Suc.IH)
  then show ?case by (subst label_digits.simps) simp
qed

lemma label_digits_inj: "label_digits m = label_digits n \<Longrightarrow> m = n"
proof (induction m arbitrary: n rule: label_digits.induct)
  case (1 m)
  show ?case
  proof (cases "m = 0 \<or> n = 0")
    case True
    then show ?thesis
      using 1(2) label_digits.simps [of m] label_digits.simps [of n] by (simp split: if_splits)
  next
    case False
    have m: "label_digits m = char_of (97 + m mod 26) # label_digits (m div 26)"
      and n: "label_digits n = char_of (97 + n mod 26) # label_digits (n div 26)"
      using False label_digits.simps [of m] label_digits.simps [of n] by simp_all
    have heads: "(char_of (97 + m mod 26) :: char) = char_of (97 + n mod 26)"
      and tails: "label_digits (m div 26) = label_digits (n div 26)"
      using 1(2) unfolding m n by simp_all
    have "97 + m mod 26 = 97 + n mod 26"
      using arg_cong [OF heads, of "of_char :: char \<Rightarrow> nat"] of_char_letter [of "m mod 26"] of_char_letter [of "n mod 26"]
      by (simp del: of_char_of)
    moreover have "m div 26 = n div 26" using 1(1) [OF _ tails] False by simp
    ultimately show ?thesis by (metis add_left_cancel div_mult_mod_eq)
  qed
qed

text \<open>The last digit of a number is not zero, so that no label of a number but 0 is \<open>a\<close>.\<close>

lemma label_digits_not_a: "label_digits n \<noteq> ''a''"
proof
  assume a: "label_digits n = ''a''"
  then have n: "n \<noteq> 0" by (auto simp: label_digits.simps split: if_splits)
  then have "label_digits n = char_of (97 + n mod 26) # label_digits (n div 26)" by (subst label_digits.simps) simp
  with a have h: "(char_of (97 + n mod 26) :: char) = CHR ''a''" and t: "label_digits (n div 26) = []" by simp_all
  have "97 + n mod 26 = 97"
    using arg_cong [OF h, of "of_char :: char \<Rightarrow> nat"] of_char_letter [of "n mod 26"] by (simp del: of_char_of)
  moreover have "n div 26 = 0" using t by (auto simp: label_digits.simps [of "n div 26"] split: if_splits)
  ultimately show False using n by presburger
qed

lemma unat_64: "unat (u :: 64 word) < 2 ^ 64"
  using unsigned_less [of u] by simp

lemma labels_length: "length (number_to_label u) \<le> 14"
proof -
  have "unat u < 26 ^ 14" using unat_64 [of u] by simp
  then have "length (label_digits (unat u)) \<le> 14" by (rule label_digits_length)
  then show ?thesis by (simp add: number_to_label_def)
qed

text \<open>
  The label of every number is a label of 1 to 14 lower case letters, and different
  numbers have different labels, so that the search visits each name once.
\<close>

theorem labels_well_formed:
  "1 \<le> length (number_to_label u) \<and> length (number_to_label u) \<le> 14 \<and>
   list_all is_lower (number_to_label u) \<and>
   (number_to_label u = number_to_label v \<longleftrightarrow> u = v)"
proof -
  have "number_to_label u = number_to_label v \<Longrightarrow> u = v"
    using label_digits_inj [of "unat u" "unat v"] word_unat_eq_iff [of u v] label_digits_not_a [of "unat u"] label_digits_not_a [of "unat v"]
    by (auto simp: number_to_label_def split: if_splits)
  then show ?thesis
    using label_digits_lower [of "unat u"] labels_length [of u]
    by (auto simp: number_to_label_def is_lower_def Suc_le_eq)
qed

section \<open>The search\<close>

lemma prefix_loop_step:
  assumes "\<forall>i < k. \<exists>n h. prefix_candidate H args (u + of_nat i) = Ok (n, h) \<and> \<not> starts_with_text prefix h"
  shows "prefix_loop H args prefix u = prefix_loop H args prefix (u + of_nat k)"
  using assms
proof (induction k)
  case (Suc k)
  then have "prefix_loop H args prefix u = prefix_loop H args prefix (u + of_nat k)" by simp
  also have "\<dots> = prefix_loop H args prefix (u + of_nat (Suc k))"
  proof -
    obtain n h where "prefix_candidate H args (u + of_nat k) = Ok (n, h)" "\<not> starts_with_text prefix h"
      using Suc.prems by blast
    then show ?thesis by (subst prefix_loop.simps) (simp add: ac_simps)
  qed
  finally show ?case .
qed simp

text \<open>What the search relies on: there is room for the label, and hashing does not fail.\<close>

definition searchable :: "hasher \<Rightarrow> nsec3_args \<Rightarrow> bool" where
  "searchable H args \<longleftrightarrow>
     (\<forall>l. length l \<le> 14 \<longrightarrow> nh_prepend H l (nx_name args) \<noteq> None) \<and>
     (\<forall>n. \<exists>h. nh_hash H n (nx_algorithm args) (nx_iterations args) (nx_salt args) = Inr h)"

definition candidate_name :: "hasher \<Rightarrow> nsec3_args \<Rightarrow> 64 word \<Rightarrow> name" where
  "candidate_name H args u = the (nh_prepend H (number_to_label u) (nx_name args))"

definition hash_text :: "hasher \<Rightarrow> nsec3_args \<Rightarrow> name \<Rightarrow> string" where
  "hash_text H args n =
     (case nh_hash H n (nx_algorithm args) (nx_iterations args) (nx_salt args) of
        Inr h \<Rightarrow> to_lowercase h | Inl e \<Rightarrow> [])"

lemma searchable_candidate:
  assumes "searchable H args"
  shows "prefix_candidate H args u = Ok (candidate_name H args u, hash_text H args (candidate_name H args u))"
proof -
  have "length (number_to_label u) \<le> 14" using labels_length [of u] by simp
  with assms obtain n where n: "nh_prepend H (number_to_label u) (nx_name args) = Some n"
    unfolding searchable_def by blast
  moreover obtain h where "nh_hash H n (nx_algorithm args) (nx_iterations args) (nx_salt args) = Inr h"
    using assms unfolding searchable_def by blast
  ultimately show ?thesis
    by (simp add: prefix_candidate_def candidate_name_def hash_text_def nsec3_hash_of_def)
qed

text \<open>
  Property C27. If the hash of some candidate starts with the prefix, the search ends: it prints the
  first such candidate and its hash.
\<close>

theorem find_prefix_finds:
  assumes ok: "searchable H args"
    and hit: "starts_with_text prefix (hash_text H args (candidate_name H args u))"
  shows "\<exists>v. v \<le> u \<and>
    starts_with_text prefix (hash_text H args (candidate_name H args v)) \<and>
    (\<forall>i < v. \<not> starts_with_text prefix (hash_text H args (candidate_name H args i))) \<and>
    find_prefix H args prefix w = Some (Ok (),
      println (''('' @ hash_text H args (candidate_name H args v) @ '')'') (println (candidate_name H args v) w))"
proof -
  define P where "P k \<longleftrightarrow> starts_with_text prefix (hash_text H args (candidate_name H args (of_nat k)))" for k
  have "P (unat u)" using hit by (simp add: P_def)
  define k where "k = (LEAST k. P k)"
  have k: "P k" "k \<le> unat u"
    unfolding k_def using \<open>P (unat u)\<close> by (rule LeastI, rule Least_le)
  have least: "\<not> P i" if "i < k" for i
    using that unfolding k_def by (rule not_less_Least)
  have small: "k < 2 ^ 64" using k(2) unat_64 [of u] by simp
  define v :: "64 word" where "v = of_nat k"
  have uv: "unat v = k" using small by (simp add: v_def unat_of_nat)
  have "prefix_loop H args prefix 0 = prefix_loop H args prefix (0 + of_nat k)"
    using least by (intro prefix_loop_step) (auto simp: searchable_candidate [OF ok] P_def)
  also have "\<dots> = Some (Ok (candidate_name H args v, hash_text H args (candidate_name H args v)))"
    using k(1) by (subst prefix_loop.simps) (simp add: searchable_candidate [OF ok] P_def v_def)
  finally have "find_prefix H args prefix w = Some (Ok (),
      println (''('' @ hash_text H args (candidate_name H args v) @ '')'') (println (candidate_name H args v) w))"
    by (simp add: find_prefix_def bindP_def lift_res_def thenP_def modify_def)
  moreover have "v \<le> u" using k(2) uv by (simp add: word_le_nat_alt)
  moreover have "\<not> starts_with_text prefix (hash_text H args (candidate_name H args i))" if "i < v" for i
    using least [of "unat i"] that uv by (simp add: P_def word_less_nat_alt)
  ultimately show ?thesis using k(1) unfolding P_def v_def by blast
qed

text \<open>A search that ends has tested the last candidate.\<close>

lemma prefix_loop_result:
  assumes "prefix_loop H args prefix u = Some r"
  shows "\<exists>v. (case prefix_candidate H args v of
        Ok (n, h) \<Rightarrow> starts_with_text prefix h | Err e \<Rightarrow> True | Panic p \<Rightarrow> True)"
proof (induction rule: prefix_loop.raw_induct)
  case (1 loop H args prefix u r)
  show ?case
  proof (cases "prefix_candidate H args u")
    case (Ok c)
    obtain n h where c: "c = (n, h)" by (cases c)
    show ?thesis
    proof (cases "starts_with_text prefix h")
      case False
      with 1(2) Ok c have "loop H args prefix (u + 1) = Some r" by simp
      then show ?thesis by (rule 1(1))
    qed (use Ok c in \<open>auto intro: exI [of _ u]\<close>)
  qed (auto intro: exI [of _ u])
qed (rule assms)

text \<open>
  A prefix that is not in lower case is never found: the hashes are compared in lower
  case and the prefix is taken as it is, so that the search does not end.
\<close>

theorem uppercase_prefix_searches_forever:
  assumes ok: "searchable H args" and upper: "to_lowercase prefix \<noteq> prefix"
  shows "find_prefix H args prefix w = None"
proof -
  have lower: "lower_char (lower_char c) = lower_char c" for c by (simp add: lower_char_def)
  have no: "\<not> starts_with_text prefix (hash_text H args n)" for n
  proof
    assume s: "starts_with_text prefix (hash_text H args n)"
    have "map lower_char (hash_text H args n) = hash_text H args n"
      by (auto simp: hash_text_def to_lowercase_def lower split: sum.split)
    with s have "map lower_char prefix = prefix"
      unfolding starts_with_text_def by (metis take_map)
    with upper show False by (simp add: to_lowercase_def)
  qed
  have "prefix_loop H args prefix u \<noteq> Some r" for u r
    using prefix_loop_result [of H args prefix u r] no by (auto simp: searchable_candidate [OF ok])
  then show ?thesis by (auto simp: find_prefix_def split: option.split)
qed

end
