(* ===== verification/Sign_Cli.thy ===== *)
theory Sign_Cli
  imports Sign_Zone Nsec3_Hash
begin

text \<open>
  The options of \<open>ldns-signzone\<close> (src/commands/signzone.rs, \<open>parse_ldns\<close>). The time of the call
  is a parameter; adding four weeks to it wraps, as in a release build.
\<close>

definition FOUR_WEEKS_SECS :: u32 where "FOUR_WEEKS_SECS = 2419200"

text \<open>The options collected so far, and the zonefile.\<close>

type_synonym sign_opts = "sign_args \<times> string option"

definition sign_defaults :: "u32 \<Rightarrow> sign_opts" where
  "sign_defaults now =
     (\<lparr>sz_extra_comments = False, sz_do_not_add_keys = False, sz_expiration = now + FOUR_WEEKS_SECS,
       sz_out_file = None, sz_inception = now, sz_origin = None, sz_serial_to_epoch = False,
       sz_use_nsec3 = False, sz_sign_dnskeys_with_all_keys = False, sz_every_unique_algorithm = False,
       sz_zonemd = [], sz_zonemd_without_signing = False, sz_algorithm = NSEC3_SHA1, sz_iterations = 1,
       sz_salt = [], sz_opt_out_flags_only = False, sz_opt_out = False, sz_hash_only = False,
       sz_hash_list = False, sz_order_nsec3 = True, sz_order_rrsigs = True, sz_rrsig_dates = True,
       sz_zonefile = [], sz_key_paths = [], sz_as_ldns = True\<rparr>, None)"

definition to_sum :: "'a res \<Rightarrow> string + 'a" where
  "to_sum r = (case r of Ok x \<Rightarrow> Inr x | Err e \<Rightarrow> Inl e | Panic p \<Rightarrow> Inl p)"

text \<open>A value that is the number 0 leaves a timestamp unset; both options report errors as \<open>-e\<close>.\<close>

definition timestamp_value :: "signer \<Rightarrow> os_string \<Rightarrow> u32 option res" where
  "timestamp_value A v =
     (if parse_uint (2 ^ 64) (case v of Unicode s \<Rightarrow> s | NotUnicode s \<Rightarrow> []) = Some 0 then Ok None
      else bind_res (parse_os_with ''-e'' (\<lambda>s. to_sum (parse_timestamp A s)) v) (\<lambda>t. Ok (Some t)))"

definition on_args :: "(sign_args \<Rightarrow> sign_args) \<Rightarrow> sign_opts \<Rightarrow> sign_opts" where
  "on_args f opts = (f (fst opts), snd opts)"

fun sign_arg :: "signer \<Rightarrow> hasher \<Rightarrow> 'l lexer \<Rightarrow> string \<Rightarrow> arg \<Rightarrow> ('l \<times> sign_opts, string option) prog" where
  "sign_arg A H L version (Short c) =
     (if c = CHR ''b'' then set_opt (on_args (sz_extra_comments_update (\<lambda>_. True)))
      else if c = CHR ''d'' then set_opt (on_args (sz_do_not_add_keys_update (\<lambda>_. True)))
      else if c = CHR ''e'' then store L (timestamp_value A)
        (\<lambda>t. on_args (\<lambda>a. case t of None \<Rightarrow> a | Some t \<Rightarrow> a\<lparr>sz_expiration := t\<rparr>))
      else if c = CHR ''f'' then store L (parse_os_with ''-f'' Inr) (\<lambda>v. on_args (sz_out_file_update (\<lambda>_. Some v)))
      else if c = CHR ''i'' then store L (timestamp_value A)
        (\<lambda>t. on_args (\<lambda>a. case t of None \<Rightarrow> a | Some t \<Rightarrow> a\<lparr>sz_inception := t\<rparr>))
      else if c = CHR ''o'' then store L (parse_os_with ''-o'' (nh_name H)) (\<lambda>v. on_args (sz_origin_update (\<lambda>_. Some v)))
      else if c = CHR ''u'' then set_opt (on_args (sz_serial_to_epoch_update (\<lambda>_. True)))
      else if c = CHR ''z'' then store L (parse_os_with ''-z'' (\<lambda>s. to_sum (parse_zonemd_tuple_ldns s)))
        (\<lambda>v. on_args (sz_zonemd_update (\<lambda>zs. zs @ [v])))
      else if c = CHR ''Z'' then set_opt (on_args (sz_zonemd_without_signing_update (\<lambda>_. True)))
      else if c = CHR ''A'' then set_opt (on_args (sz_sign_dnskeys_with_all_keys_update (\<lambda>_. True)))
      else if c = CHR ''U'' then set_opt (on_args (sz_every_unique_algorithm_update (\<lambda>_. True)))
      else if c = CHR ''v'' then report (report_version ''signzone'' version ''1.8.4'')
      else if c = CHR ''n'' then set_opt (on_args (sz_use_nsec3_update (\<lambda>_. True)))
      else if c = CHR ''a'' then store L (parse_os_with ''-a'' (parse_nsec3_alg H)) (\<lambda>v. on_args (sz_algorithm_update (\<lambda>_. v)))
      else if c = CHR ''t'' then store L (parse_os_with ''-t'' (parse_num (2 ^ 16)))
        (\<lambda>v. on_args (sz_iterations_update (\<lambda>_. of_nat v)))
      else if c = CHR ''s'' then store L (parse_os_with ''-s'' (nh_salt H)) (\<lambda>v. on_args (sz_salt_update (\<lambda>_. v)))
      else if c = CHR ''p'' then set_opt (on_args (sz_opt_out_flags_only_update (\<lambda>_. True)))
      else fail (invalid_short c))"
| "sign_arg A H L version (Long x) = fail (no_long x)"
| "sign_arg A H L version (Value x) =
     bindP (gets (\<lambda>s. snd (snd s))) (\<lambda>zonefile.
     if zonefile = None then store_value (parse_os_with ''zonefile'' Inr x) (\<lambda>v opts. (fst opts, Some v))
     else store_value (parse_os_with ''key'' Inr x) (\<lambda>v. on_args (sz_key_paths_update (\<lambda>ks. ks @ [v]))))"

definition sign_finish :: "sign_opts \<Rightarrow> sign_args ldns_args res" where
  "sign_finish opts =
     (case opts of
        (a, None) \<Rightarrow> Err ''Missing zonefile argument''
      | (a, Some zonefile) \<Rightarrow>
          (let a1 = (if sz_out_file a = Some ''-'' then a\<lparr>sz_extra_comments := False\<rparr> else a)
           in if sz_key_paths a1 = [] \<and> \<not> sz_zonemd_without_signing a1
              then Err ''No keys to sign with. Aborting.''
              else Ok (LdnsRun (a1\<lparr>sz_hash_list := sz_hash_list a1 \<and> sz_extra_comments a1 \<and> sz_use_nsec3 a1,
                     sz_zonefile := zonefile\<rparr>))))"

definition sign_parse_ldns ::
  "signer \<Rightarrow> hasher \<Rightarrow> 'l lexer \<Rightarrow> string \<Rightarrow> u32 \<Rightarrow> os_string list \<Rightarrow> sign_args ldns_args res option" where
  "sign_parse_ldns A H L version now =
     ldns_parse L (sign_arg A H L version) (sign_defaults now) sign_finish"

interpretation signzone: ldns_command "\<lambda>L. sign_arg A H L version" for A H version
proof
  show "steady len (sign_arg A H L version a)" if "lexer_laws len L" for len L a
    by (cases a) (simp_all only: sign_arg.simps, (intro steady_if steady_handlers that)+)
qed simp

section \<open>Well-formed options\<close>

definition ldns_opts_ok :: "sign_args \<Rightarrow> bool" where
  "ldns_opts_ok a \<longleftrightarrow> sz_as_ldns a \<and> \<not> sz_hash_only a \<and> \<not> sz_opt_out a \<and> \<not> sz_hash_list a \<and>
     sz_order_rrsigs a \<and> sz_order_nsec3 a \<and> sz_rrsig_dates a"

lemma sign_arg_keeps: "keeps_opts (\<lambda>opts. ldns_opts_ok (fst opts)) (sign_arg A H L version a)"
  by (cases a) (simp_all only: sign_arg.simps,
    (intro keeps_if keeps_bind keeps_gets keeps_fail keeps_shown keeps_set_opt keeps_store keeps_store_value;
     simp add: on_args_def ldns_opts_ok_def split: option.split)+)

text \<open>
  Property C28. The options that \<open>ldns-signzone\<close> accepts are well formed: there is something to
  sign with or the zone is not to be signed, no comments go to standard output, the signing mode is
  defined, and the layout is that of \<open>ldns-signzone\<close>.
\<close>

theorem ldns_options_well_formed:
  assumes "sign_parse_ldns A H L version now args = Some (Ok (LdnsRun a))"
  shows "ldns_opts_ok a \<and> (sz_out_file a = Some ''-'' \<longrightarrow> \<not> sz_extra_comments a) \<and>
    signing_mode_of a = Ok (if sz_zonemd_without_signing a then NoSigning else HashAndSign) \<and>
    (signing_mode_of a = Ok HashAndSign \<longrightarrow> sz_key_paths a \<noteq> [])"
proof -
  obtain opts where loop: "lex_loop L (sign_arg A H L version) (lx_start L args, sign_defaults now) = Some (Ok None, opts)"
    and fin: "sign_finish opts = Ok (LdnsRun a)"
    using assms
    by (auto simp: sign_parse_ldns_def ldns_parse_def bind_res_Ok_iff split: option.splits)
  have init: "ldns_opts_ok (fst (sign_defaults now))" by (simp add: sign_defaults_def ldns_opts_ok_def)
  have "ldns_opts_ok (fst opts)"
    using lex_loop_keeps [OF loop, of "\<lambda>opts. ldns_opts_ok (fst opts)", THEN mp, THEN mp]
      sign_arg_keeps [of A H L version] init by simp
  with fin show ?thesis
    by (auto simp: sign_finish_def ldns_opts_ok_def signing_mode_of_def Let_def split: prod.splits option.splits if_splits)
qed

end
