(* ===== verification/Notify.thy ===== *)
theory Notify
  imports Tsig_Option
begin

text \<open>
  \<open>dnst notify\<close> (src/commands/notify.rs): the options, the NOTIFY message and the exchange with
  the servers. Warnings are lines on stderr, without the prefix of the logger. The fields of the
  SOA record besides the serial are constants of the source and are not part of the model.
\<close>

section \<open>Options\<close>

record notify_args =
  no_zone :: name
  no_source :: "socket option"
  no_soa_version :: "u32 option"
  no_tsig :: "tsig_info option"
  no_port :: nat
  no_debug :: bool
  no_retries :: nat
  no_servers :: "string list"

record notify_opts =
  nz_zone :: "name option"
  nz_source :: "socket option"
  nz_soa_version :: "u32 option"
  nz_tsig :: "tsig_info option"
  nz_port :: nat
  nz_debug :: bool
  nz_retries :: nat
  nz_servers :: "string list"

definition notify_defaults :: notify_opts where
  "notify_defaults =
     \<lparr>nz_zone = None, nz_source = None, nz_soa_version = None, nz_tsig = None, nz_port = 53,
      nz_debug = False, nz_retries = 15, nz_servers = []\<rparr>"

fun notify_arg :: "net \<Rightarrow> 'l lexer \<Rightarrow> string \<Rightarrow> string \<Rightarrow> arg \<Rightarrow> ('l \<times> notify_opts, string option) prog" where
  "notify_arg N L help version (Short c) =
     (if c = CHR ''z'' then store L (parse_os_with ''zone (-z)'' (nt_name N)) (\<lambda>v. nz_zone_update (\<lambda>_. Some v))
      else if c = CHR ''I'' then store L (parse_os_with ''ip (-I)'' (nt_socket N)) (\<lambda>v. nz_source_update (\<lambda>_. Some v))
      else if c = CHR ''s'' then store L (parse_os_with ''soa version (-s)'' (parse_num (2 ^ 32)))
        (\<lambda>v. nz_soa_version_update (\<lambda>_. Some (of_nat v)))
      else if c = CHR ''y'' then store L (parse_os_with ''tsig key (-y)'' (tsig_info_from_str N))
        (\<lambda>v. nz_tsig_update (\<lambda>_. Some v))
      else if c = CHR ''p'' then store L (parse_os_with ''port (-p)'' (parse_num (2 ^ 16))) (\<lambda>v. nz_port_update (\<lambda>_. v))
      else if c = CHR ''d'' then set_opt (nz_debug_update (\<lambda>_. True))
      else if c = CHR ''r'' then store L (parse_os_with ''retries (-r)'' (parse_num (2 ^ 8))) (\<lambda>v. nz_retries_update (\<lambda>_. v))
      else if c = CHR ''h'' then report help
      else if c = CHR ''v'' then report (report_version ''notify'' version ''1.8.4'')
      else fail (invalid_short c))"
| "notify_arg N L help version (Long x) = fail (no_long x)"
| "notify_arg N L help version (Value x) =
     store_value (parse_os_with ''server'' Inr x) (\<lambda>v. nz_servers_update (\<lambda>s. s @ [v]))"

definition notify_finish :: "notify_opts \<Rightarrow> notify_args ldns_args res" where
  "notify_finish opts =
     (case nz_zone opts of
        None \<Rightarrow> Err ''Missing zone name argument''
      | Some zone \<Rightarrow>
          if nz_servers opts = [] then Err ''Missing servers''
          else Ok (LdnsRun
            \<lparr>no_zone = zone, no_source = nz_source opts, no_soa_version = nz_soa_version opts, no_tsig = nz_tsig opts,
             no_port = nz_port opts, no_debug = nz_debug opts, no_retries = nz_retries opts, no_servers = nz_servers opts\<rparr>))"

definition notify_parse_ldns ::
  "net \<Rightarrow> 'l lexer \<Rightarrow> string \<Rightarrow> string \<Rightarrow> os_string list \<Rightarrow> notify_args ldns_args res option" where
  "notify_parse_ldns N L help version =
     ldns_parse L (notify_arg N L help version) notify_defaults notify_finish"

interpretation notify: ldns_command "\<lambda>L. notify_arg N L usage version" for N usage version
proof
  show "lexer_laws len L \<Longrightarrow> steady len (notify_arg N L usage version a)" for len L a
    by (cases a) (auto intro!: steady_handlers)
qed simp

section \<open>The message\<close>

definition notify_header :: "net \<Rightarrow> notify_args \<Rightarrow> dns_msg" where
  "notify_header N args =
     \<lparr>dm_id = nt_random_id N, dm_opcode = OPCODE_NOTIFY, dm_qr = False, dm_aa = True,
      dm_question = [\<lparr>qu_name = no_zone args, qu_type = RT_SOA, qu_class = class_IN\<rparr>],
      dm_answer = [], dm_authority = [], dm_additional = []\<rparr>"

definition notify_message :: "net \<Rightarrow> notify_args \<Rightarrow> dns_msg res" where
  "notify_message N args =
     (case no_soa_version args of
        None \<Rightarrow> Ok (notify_header N args)
      | Some version \<Rightarrow>
          push_answer N (\<lambda>e. ''could not add SOA record: '' @ e)
            (RR (no_zone args) class_IN 3600 (Soa (SoaData [] version))) (notify_header N args))"

section \<open>The exchange\<close>

definition notify_request :: "net \<Rightarrow> notify_args \<Rightarrow> tsig_key option \<Rightarrow> dns_msg \<Rightarrow> socket \<Rightarrow> request" where
  "notify_request N args key msg dest =
     \<lparr>rq_src = (case no_source args of Some local \<Rightarrow> local | None \<Rightarrow> any_source N (fst dest)),
      rq_dst = dest, rq_tsig = key, rq_retries = Some (no_retries args), rq_msg = msg\<rparr>"

definition notify_host ::
  "net \<Rightarrow> notify_args \<Rightarrow> dns_msg \<Rightarrow> string \<Rightarrow> tsig_key option \<Rightarrow> socket \<Rightarrow> (console, unit) prog" where
  "notify_host N args msg server key dest =
     bindP (gets (\<lambda>c. length (co_sent c))) (\<lambda>n.
     bindP (send_request N (notify_request N args key msg dest)) (\<lambda>answer.
     case answer of
       Inr m \<Rightarrow>
         thenP (out_ln (''# reply from '' @ server @ '' at '' @ show_socket N dest @ '':''))
        (thenP (out_ln (rs_text m))
        (thenP (out_ln ('';; Query time: '' @ show_nat (nt_elapsed_ms N n) @ '' msec''))
        (thenP (out_ln ('';; Server: '' @ fst dest @ ''#'' @ show_nat (snd dest)))
        (thenP (out_ln ('';; WHEN: '' @ nt_when N n))
               (out_ln ('';; MSG SIZE  rcvd: '' @ show_nat (rs_length m)))))))
     | Inl e \<Rightarrow> warn_ln (''reply was not received or erroneous from: '' @ show_socket N dest @ '': '' @ e)))"

text \<open>The sockets behind one argument, or the warning for it.\<close>

definition notify_targets :: "net \<Rightarrow> notify_args \<Rightarrow> string \<Rightarrow> string + socket list" where
  "notify_targets N args server =
     (case nt_addr N server of
        Inr a \<Rightarrow> Inr [(a, no_port args)]
      | Inl _ \<Rightarrow>
         (case nt_name N server of
            Inl _ \<Rightarrow> Inl (''invalid domain name '' @ debug_str server @ '', skipping.'')
          | Inr n \<Rightarrow>
             (case nt_lookup_host N n of
                Inl _ \<Rightarrow> Inl (''could not resolve host '' @ debug_str (nt_show_name N n) @ '', skipping.'')
              | Inr [] \<Rightarrow> Inl (''skipping bad address: '' @ nt_show_name N n @ '': Name or service not known'')
              | Inr hosts \<Rightarrow> Inr (map (\<lambda>a. (a, no_port args)) hosts))))"

definition notify_server ::
  "net \<Rightarrow> notify_args \<Rightarrow> dns_msg \<Rightarrow> tsig_key option \<Rightarrow> string \<Rightarrow> (console, unit) prog" where
  "notify_server N args msg key server =
     thenP (out_ln (''# sending to '' @ server))
     (case notify_targets N args server of
        Inl warning \<Rightarrow> warn_ln warning
      | Inr sockets \<Rightarrow> forP sockets (notify_host N args msg server key))"

definition notify_run :: "net \<Rightarrow> notify_args \<Rightarrow> (console, unit) prog" where
  "notify_run N args =
     bindP (lift_res (notify_message N args)) (\<lambda>msg.
     bindP (lift_res (tsig_key_of N (no_tsig args))) (\<lambda>key.
     thenP (out_ln ''# Sending packet:'')
    (thenP (out_ln (nt_show_msg N msg))
    (thenP (whenP (no_debug args)
        (thenP (out_ln ''Hexdump of notify packet:'') (out_ln (nt_hexdump N msg))))
    (forP (no_servers args) (notify_server N args msg key))))))"

section \<open>All servers are notified\<close>

lemma notify_host_runs:
  "\<exists>t. notify_host N args msg server key dest c = (Ok (), t) \<and>
     co_sent t = co_sent c @ [notify_request N args key msg dest]"
  by (auto simp: notify_host_def send_request_def bindP_def gets_def thenP_def out_ln_def warn_ln_def
      modify_def split: sum.split)

lemma notify_hosts_run:
  "\<exists>t. forP sockets (notify_host N args msg server key) c = (Ok (), t) \<and>
     co_sent t = co_sent c @ map (notify_request N args key msg) sockets"
proof (induction sockets arbitrary: c)
  case (Cons s ss)
  obtain u where "notify_host N args msg server key s c = (Ok (), u)"
    "co_sent u = co_sent c @ [notify_request N args key msg s]" using notify_host_runs by blast
  with Cons.IH [of u] show ?case by (auto simp: thenP_def bindP_def)
qed (simp add: ret_def)

definition known_targets :: "net \<Rightarrow> notify_args \<Rightarrow> string \<Rightarrow> socket list" where
  "known_targets N args server = (case notify_targets N args server of Inl _ \<Rightarrow> [] | Inr ss \<Rightarrow> ss)"

lemma notify_server_runs:
  "\<exists>t. notify_server N args msg key server c = (Ok (), t) \<and>
     co_sent t = co_sent c @ map (notify_request N args key msg) (known_targets N args server)"
  using notify_hosts_run [of _ N args msg server key]
  by (fastforce simp: notify_server_def known_targets_def thenP_def bindP_def out_ln_def warn_ln_def
      modify_def split: sum.split)

lemma notify_servers_run:
  "\<exists>t. forP servers (notify_server N args msg key) c = (Ok (), t) \<and>
     co_sent t = co_sent c @ map (notify_request N args key msg) (concat (map (known_targets N args) servers))"
proof (induction servers arbitrary: c)
  case (Cons s ss)
  obtain u where "notify_server N args msg key s c = (Ok (), u)"
    "co_sent u = co_sent c @ map (notify_request N args key msg) (known_targets N args s)"
    using notify_server_runs by blast
  with Cons.IH [of u] show ?case by (auto simp: thenP_def bindP_def)
qed (simp add: ret_def)


end
