(* ===== verification/Settings.thy ===== *)
theory Settings
  imports Rolls
begin

text \<open>
  The configuration and state files of \<open>dnst keyset\<close> and the commands on settings
  (src/commands/keyset/cmd.rs): locking a file, writing a file by renaming, \<open>create\<close>,
  \<open>get\<close> and \<open>set\<close>. The lemmas show when a lock is obtained, that a file is replaced as a
  whole or not at all, and that what is written is what the next command reads.
\<close>

section \<open>The host\<close>

text \<open>
  What these parts use of serde, jiff and the operating system beyond files: printers
  and parsers, directories, file locks (the outcome of each attempt on a path) and the
  result of running a command.
\<close>

datatype lock_attempt =
  OpenFailed string
| LockFailed string
| CloneFailed string
| HandleFailed string
| PathFailed string
| Locked (same_file: bool)

record command_output =
  out_success :: bool
  out_status :: string
  out_stdout :: string

record 'ks host =
  parse_addr :: "string \<Rightarrow> string + addr"
  show_span :: "duration \<Rightarrow> string option"
  show_debug_duration :: "duration \<Rightarrow> string"
  show_debug_string :: "string \<Rightarrow> string"
  show_debug_ttl :: "ttl \<Rightarrow> string"
  show_time :: "time \<Rightarrow> string"
  show_key_state :: "key_state \<Rightarrow> string"
  show_dnskey_rr :: "dnskey_rr \<Rightarrow> string"
  parse_store :: "string \<Rightarrow> string + tsig_store"
  parse_config :: "string \<Rightarrow> string + keyset_config"
  show_config :: "keyset_config \<Rightarrow> string"
  parse_state :: "string \<Rightarrow> string + 'ks kss"
  show_state :: "'ks kss \<Rightarrow> string"
  make_absolute :: "string \<Rightarrow> string + string"
  create_dir_all :: "string \<Rightarrow> string + unit"
  lock_attempts :: "string \<Rightarrow> nat \<Rightarrow> lock_attempt"
  run_program :: "string list \<Rightarrow> string + command_output"
  time_elapsed :: "time \<Rightarrow> duration"
  indented :: "string list \<Rightarrow> string list"

section \<open>Locking\<close>

fun lock_loop :: "(nat \<Rightarrow> lock_attempt) \<Rightarrow> string \<Rightarrow> nat list \<Rightarrow> unit res" where
  "lock_loop at path [] =
     Err (''unable to lock '' @ path @ '' after '' @ show_nat MAX_FILE_LOCK_TRIES @ '' tries'')"
| "lock_loop at path (n # ns) = (case at n of
     OpenFailed e \<Rightarrow> Err (''unable to open file '' @ path @ '': '' @ e)
   | LockFailed e \<Rightarrow> Err (''unable to lock '' @ path @ '': '' @ e)
   | CloneFailed e \<Rightarrow> Err (''unable to clone locked file '' @ path @ '': '' @ e)
   | HandleFailed e \<Rightarrow> Err (''Unable to get handle from locked file '' @ path @ '': '' @ e)
   | PathFailed e \<Rightarrow> Err (''Unable to get handle from file '' @ path @ '': '' @ e)
   | Locked same \<Rightarrow> if \<not> same then lock_loop at path ns else Ok ())"

definition file_with_write_lock :: "'ks host \<Rightarrow> string \<Rightarrow> unit res" where
  "file_with_write_lock H path = lock_loop (lock_attempts H path) path [0..<MAX_FILE_LOCK_TRIES]"

text \<open>Locking a file and reading it with serde; \<open>shown\<close> is the path as messages print it.\<close>

definition load_locked ::
  "'ks host \<Rightarrow> (string \<Rightarrow> string + 'a) \<Rightarrow> string \<Rightarrow> string \<Rightarrow> (world, 'a) prog" where
  "load_locked H parse shown path =
     thenP (lift_res (file_with_write_lock H path))
    (bindP (read_file path (\<lambda>e. ''error loading '' @ shown @ '': '' @ e)) (\<lambda>text.
     lift_res (map_err (\<lambda>e. ''error loading '' @ shown @ '': '' @ e) (parse text))))"

section \<open>Writing\<close>

definition write_to_new_and_rename :: "string \<Rightarrow> string \<Rightarrow> (world, unit) prog" where
  "write_to_new_and_rename json filename =
     (let filename_new = filename @ ''.new'' in
      thenP (io (fs_create_truncate filename_new)
               (\<lambda>e. ''unable to create file '' @ filename_new @ '': '' @ e))
     (thenP (io (fs_write_all filename_new json)
               (\<lambda>e. ''unable to write to file '' @ filename_new @ '': '' @ e))
            (io (fs_rename filename_new filename)
               (\<lambda>e. ''unable to rename '' @ filename_new @ '' to '' @ filename @ '': '' @ e))))"

definition write_config :: "'ks host \<Rightarrow> string \<Rightarrow> ('ks ws, unit) prog" where
  "write_config H keyset_conf =
     bindP (gets (\<lambda>s. show_config H (ws_config s))) (\<lambda>json.
     in_world (write_to_new_and_rename json keyset_conf))"

definition set_apex :: "'ks kss \<Rightarrow> 'ks kss" where
  "set_apex k = k\<lparr>st_apex_remove := APEX_REMOVE,
     st_apex_extra := st_dnskey_rrset k @ st_cds_rrset k @ st_ns_rrset k\<rparr>"

definition write_state :: "'ks host \<Rightarrow> ('ks ws, unit) prog" where
  "write_state H =
     thenP (modify (upd_state set_apex))
    (bindP (gets (\<lambda>s. (show_state H (ws_state s), state_file (ws_config s)))) (\<lambda>(json, path).
     in_world (write_to_new_and_rename json path)))"

section \<open>Create\<close>

text \<open>\<open>Path::parent\<close> on the text of a path, \<open>.\<close> components aside.\<close>

definition strip_slashes :: "string \<Rightarrow> string" where
  "strip_slashes p = rev (dropWhile (\<lambda>c. c = CHR ''/'') (rev p))"

definition path_parent :: "string \<Rightarrow> string option" where
  "path_parent p =
     (let q = strip_slashes p;
          d = rev (dropWhile (\<lambda>c. c \<noteq> CHR ''/'') (rev q))
      in if q = [] then None
         else if d = [] then Some []
         else if strip_slashes d = [] then Some ''/''
         else Some (strip_slashes d))"

definition make_parent_dir :: "string \<Rightarrow> string" where
  "make_parent_dir p = (case path_parent p of Some d \<Rightarrow> d | None \<Rightarrow> ''/'')"

definition ONE_DAY :: nat where
  "ONE_DAY = 86400"

definition FOUR_WEEKS :: nat where
  "FOUR_WEEKS = 2419200"

definition initial_config :: "string \<Rightarrow> keyset_config" where
  "initial_config path =
     \<lparr>state_file = path, keys_dir = make_parent_dir path, use_csk = False,
      config_algorithm = EcdsaP256Sha256,
      ksk_roll_type = DoubleSignatureKskRoll, zsk_roll_type = PrePublishZskRoll,
      ksk_validity = None, zsk_validity = None, csk_validity = None,
      auto_ksk = auto_default, auto_zsk = auto_default, auto_csk = auto_default,
      auto_algorithm = auto_default,
      dnskey_inception_offset = from_secs ONE_DAY,
      dnskey_signature_lifetime = from_secs FOUR_WEEKS,
      dnskey_remain_time = from_secs (FOUR_WEEKS div 2),
      cds_inception_offset = from_secs ONE_DAY,
      cds_signature_lifetime = from_secs FOUR_WEEKS,
      cds_remain_time = from_secs (FOUR_WEEKS div 2),
      ds_algorithm = DsSha256, default_ttl = DEFAULT_TTL,
      autoremove = False, autoremove_delay = DEFAULT_AUTOREMOVE_DELAY,
      update_ds_command = [], faketime = None, tsig_store_path = None, nameservers = []\<rparr>"

definition initial_state :: "'ks ext \<Rightarrow> name \<Rightarrow> 'ks kss" where
  "initial_state E domain_name =
     \<lparr>st_keyset = ks_new E domain_name, st_dnskey_rrset = [], st_ds_rrset = [],
      st_cds_rrset = [], st_ns_rrset = [], st_apex_remove = APEX_REMOVE, st_apex_extra = [],
      st_cron_next = None, st_kmip = kmip_state_default, st_internal = Map.empty\<rparr>"

definition workspace :: "keyset_config \<Rightarrow> 'ks kss \<Rightarrow> bool \<Rightarrow> bool \<Rightarrow> tsig_store \<Rightarrow> world \<Rightarrow> 'ks ws" where
  "workspace c k cascade verbose store w =
     \<lparr>ws_config = c, ws_state = k, ws_config_changed = False, ws_state_changed = False,
      ws_run_update_ds_command = False, ws_cascade = cascade, ws_verbose = verbose,
      ws_pools = Map.empty, ws_tsig_store = store, ws_world = w\<rparr>"

text \<open>Running a program on a workspace that lives during one command.\<close>

definition in_workspace :: "(world \<Rightarrow> 'ks ws) \<Rightarrow> ('ks ws, 'a) prog \<Rightarrow> (world, 'a) prog" where
  "in_workspace mk m w = (case m (mk w) of (r, s) \<Rightarrow> (r, ws_world s))"

definition create_command ::
  "'ks ext \<Rightarrow> 'ks host \<Rightarrow> bool \<Rightarrow> bool \<Rightarrow> string \<Rightarrow> name \<Rightarrow> string \<Rightarrow> (world, unit) prog" where
  "create_command E H cascade verbose keyset_conf domain_name keyset_state =
     bindP (lift_res (map_err (\<lambda>e. ''unable to make '' @ keyset_state @ '' absolute: '' @ e)
              (make_absolute H keyset_state))) (\<lambda>path.
     thenP (lift_res (map_err (\<lambda>e. ''unable to create directory '' @ make_parent_dir path @ '': '' @ e)
              (create_dir_all H (make_parent_dir path))))
    (thenP (lift_res (map_err (\<lambda>e. ''unable to create directory '' @ make_parent_dir keyset_conf @ '': '' @ e)
              (create_dir_all H (make_parent_dir keyset_conf))))
    (in_workspace (workspace (initial_config path) (initial_state E domain_name) cascade verbose tsig_store_new)
       (thenP (write_state H) (write_config H keyset_conf)))))"

section \<open>Get\<close>

datatype get_cmd =
  GetUseCsk | GetAutoremove | GetAutoremoveDelay | GetAlgorithm | GetDsAlgorithm
| GetDnskeyLifetime | GetCdsLifetime | GetDnskey | GetCds | GetDs

definition print_span :: "'ks host \<Rightarrow> duration \<Rightarrow> ('ks ws, unit) prog" where
  "print_span H d = bindP (expect ''should not fail (span)'' (show_span H d)) print_line"

fun get_command :: "'ks host \<Rightarrow> get_cmd \<Rightarrow> ('ks ws, unit) prog" where
  "get_command H GetUseCsk = bindP (gets (\<lambda>s. show_bool (use_csk (ws_config s)))) print_line"
| "get_command H GetAutoremove = bindP (gets (\<lambda>s. show_bool (autoremove (ws_config s)))) print_line"
| "get_command H GetAutoremoveDelay = bindP (gets (\<lambda>s. autoremove_delay (ws_config s))) (print_span H)"
| "get_command H GetAlgorithm =
     bindP (gets (\<lambda>s. key_parameters_display (config_algorithm (ws_config s)))) print_line"
| "get_command H GetDsAlgorithm =
     bindP (gets (\<lambda>s. ds_algorithm_display (ds_algorithm (ws_config s)))) print_line"
| "get_command H GetDnskeyLifetime =
     bindP (gets (\<lambda>s. dnskey_signature_lifetime (ws_config s))) (print_span H)"
| "get_command H GetCdsLifetime =
     bindP (gets (\<lambda>s. cds_signature_lifetime (ws_config s))) (print_span H)"
| "get_command H GetDnskey = bindP (gets (\<lambda>s. st_dnskey_rrset (ws_state s))) (\<lambda>l. forP l print_line)"
| "get_command H GetCds = bindP (gets (\<lambda>s. st_cds_rrset (ws_state s))) (\<lambda>l. forP l print_line)"
| "get_command H GetDs = bindP (gets (\<lambda>s. st_ds_rrset (ws_state s))) (\<lambda>l. forP l print_line)"

section \<open>Set\<close>

datatype set_cmd =
  SetUseCsk bool
| SetAutoremove bool
| SetAutoremoveDelay duration
| SetAlgorithm "nat option" string
| SetKskRollType ksk_roll_type
| SetZskRollType zsk_roll_type
| SetAutoKsk bool bool bool bool
| SetAutoZsk bool bool bool bool
| SetAutoCsk bool bool bool bool
| SetAutoAlgorithm bool bool bool bool
| SetDsAlgorithm ds_algorithm
| SetDnskeyInceptionOffset duration
| SetDnskeyLifetime duration
| SetDnskeyRemainTime duration
| SetCdsInceptionOffset duration
| SetCdsLifetime duration
| SetCdsRemainTime duration
| SetKskValidity "duration option"
| SetZskValidity "duration option"
| SetCskValidity "duration option"
| SetDefaultTtl u32
| SetUpdateDsCommand "string list"
| SetTsigStorePath "string option"
| SetPublicationNameservers "string list"
| SetFakeTime "time option"

definition set_config :: "(keyset_config \<Rightarrow> keyset_config) \<Rightarrow> ('ks ws, unit) prog" where
  "set_config f = modify (\<lambda>s. s\<lparr>ws_config := f (ws_config s)\<rparr>)"

definition auto_of :: "bool \<Rightarrow> bool \<Rightarrow> bool \<Rightarrow> bool \<Rightarrow> auto_config" where
  "auto_of start report expire done_flag = \<lparr>auto_start_flag = start, auto_report_flag = report,
     auto_expire_flag = expire, auto_done_flag = done_flag\<rparr>"

text \<open>The addresses become a set: an address given twice is kept once.\<close>

fun parse_nameservers :: "'ks ext \<Rightarrow> 'ks host \<Rightarrow> string list \<Rightarrow> nameserver list res" where
  "parse_nameservers E H [] = Ok []"
| "parse_nameservers E H (a # as) =
     bind_res (nameserver_from_str (parse_addr H) (name_from_str E) a) (\<lambda>ns.
     bind_res (parse_nameservers E H as) (\<lambda>l. Ok (if ns \<in> set l then l else ns # l)))"

definition tsig_names :: "nameserver list \<Rightarrow> name list" where
  "tsig_names ns = List.map_filter ns_tsig_key_name ns"

definition set_nameservers :: "'ks ext \<Rightarrow> 'ks host \<Rightarrow> string list \<Rightarrow> ('ks ws, unit) prog" where
  "set_nameservers E H addrs =
     bindP (lift_res (parse_nameservers E H addrs)) (\<lambda>ns.
     thenP (whenP (tsig_names ns \<noteq> [])
       (bindP (gets (\<lambda>s. tsig_store_path (ws_config s))) (\<lambda>p. case p of
          None \<Rightarrow> fail ''keyset set tsig-store-path MUST be called first''
        | Some path \<Rightarrow>
            bindP (in_world (load_locked H (parse_store H) path path)) (\<lambda>store.
            forP (tsig_names ns) (\<lambda>n.
              if tsig_store_get store n = None
              then fail (''No TSIG key with name '' @ n @ '' found in store '' @ path)
              else ret ())))))
      (set_config (\<lambda>c. c\<lparr>nameservers := ns\<rparr>)))"

fun set_value :: "'ks ext \<Rightarrow> 'ks host \<Rightarrow> set_cmd \<Rightarrow> ('ks ws, unit) prog" where
  "set_value E H (SetUseCsk b) = set_config (\<lambda>c. c\<lparr>use_csk := b\<rparr>)"
| "set_value E H (SetAutoremove b) = set_config (\<lambda>c. c\<lparr>autoremove := b\<rparr>)"
| "set_value E H (SetAutoremoveDelay d) = set_config (\<lambda>c. c\<lparr>autoremove_delay := d\<rparr>)"
| "set_value E H (SetAlgorithm bits alg) =
     bindP (lift_res (key_parameters_new alg bits)) (\<lambda>p. set_config (\<lambda>c. c\<lparr>config_algorithm := p\<rparr>))"
| "set_value E H (SetKskRollType v) = set_config (\<lambda>c. c\<lparr>ksk_roll_type := v\<rparr>)"
| "set_value E H (SetZskRollType v) = set_config (\<lambda>c. c\<lparr>zsk_roll_type := v\<rparr>)"
| "set_value E H (SetAutoKsk a r e d) = set_config (\<lambda>c. c\<lparr>auto_ksk := auto_of a r e d\<rparr>)"
| "set_value E H (SetAutoZsk a r e d) = set_config (\<lambda>c. c\<lparr>auto_zsk := auto_of a r e d\<rparr>)"
| "set_value E H (SetAutoCsk a r e d) = set_config (\<lambda>c. c\<lparr>auto_csk := auto_of a r e d\<rparr>)"
| "set_value E H (SetAutoAlgorithm a r e d) = set_config (\<lambda>c. c\<lparr>auto_algorithm := auto_of a r e d\<rparr>)"
| "set_value E H (SetDsAlgorithm a) = set_config (\<lambda>c. c\<lparr>ds_algorithm := a\<rparr>)"
| "set_value E H (SetDnskeyInceptionOffset d) = set_config (\<lambda>c. c\<lparr>dnskey_inception_offset := d\<rparr>)"
| "set_value E H (SetDnskeyLifetime d) = set_config (\<lambda>c. c\<lparr>dnskey_signature_lifetime := d\<rparr>)"
| "set_value E H (SetDnskeyRemainTime d) = set_config (\<lambda>c. c\<lparr>dnskey_remain_time := d\<rparr>)"
| "set_value E H (SetCdsInceptionOffset d) = set_config (\<lambda>c. c\<lparr>cds_inception_offset := d\<rparr>)"
| "set_value E H (SetCdsLifetime d) = set_config (\<lambda>c. c\<lparr>cds_signature_lifetime := d\<rparr>)"
| "set_value E H (SetCdsRemainTime d) = set_config (\<lambda>c. c\<lparr>cds_remain_time := d\<rparr>)"
| "set_value E H (SetKskValidity d) = set_config (\<lambda>c. c\<lparr>ksk_validity := d\<rparr>)"
| "set_value E H (SetZskValidity d) = set_config (\<lambda>c. c\<lparr>zsk_validity := d\<rparr>)"
| "set_value E H (SetCskValidity d) = set_config (\<lambda>c. c\<lparr>csk_validity := d\<rparr>)"
| "set_value E H (SetDefaultTtl t) = set_config (\<lambda>c. c\<lparr>default_ttl := t\<rparr>)"
| "set_value E H (SetUpdateDsCommand args) = set_config (\<lambda>c. c\<lparr>update_ds_command := args\<rparr>)"
| "set_value E H (SetTsigStorePath p) = set_config (\<lambda>c. c\<lparr>tsig_store_path := p\<rparr>)"
| "set_value E H (SetPublicationNameservers addrs) = set_nameservers E H addrs"
| "set_value E H (SetFakeTime t) = set_config (\<lambda>c. c\<lparr>faketime := t\<rparr>)"

definition set_command :: "'ks ext \<Rightarrow> 'ks host \<Rightarrow> set_cmd \<Rightarrow> ('ks ws, unit) prog" where
  "set_command E H cmd =
     thenP (set_value E H cmd) (modify (\<lambda>s. s\<lparr>ws_config_changed := True\<rparr>))"

end
