(* ===== verification/Propagation.thy ===== *)
theory Propagation
  imports Rolls
begin

text \<open>
  The checks of src/commands/keyset/cmd.rs that decide whether a change has reached the
  nameservers: the DNSKEY RRset and its signatures, the DS RRset at the parent, the zone
  signatures found in a zone transfer, and the SOA serials. The network is part of \<open>ext\<close>:
  during one command a query has one answer.

  A \<open>HashSet\<close> is a list without repetitions; its order stands for the iteration order.
  Records in a set are compared as the crate compares them, without their TTL.
\<close>

section \<open>Answers\<close>

text \<open>\<open>limit_to_in\<close>: records of class IN with the wanted data, parse errors included.\<close>

definition limit_to_in :: "(rdata \<Rightarrow> bool) \<Rightarrow> (string + rr) list \<Rightarrow> (string + rr) list" where
  "limit_to_in P rs = filter (\<lambda>x. case x of Inl e \<Rightarrow> True | Inr r \<Rightarrow> rr_class r = class_IN \<and> P (rr_data r)) rs"

fun is_soa :: "rdata \<Rightarrow> bool" where
  "is_soa (Soa s) = True"
| "is_soa _ = False"

fun is_ds :: "rdata \<Rightarrow> bool" where
  "is_ds (Ds d) = True"
| "is_ds _ = False"

fun is_rrsig :: "rdata \<Rightarrow> bool" where
  "is_rrsig (Rrsig s) = True"
| "is_rrsig _ = False"

text \<open>A loop over an iterator that leaves at the first parse error.\<close>

fun collect_ok :: "(string + 'a) list \<Rightarrow> 'a list res" where
  "collect_ok [] = Ok []"
| "collect_ok (Inl e # xs) = Err e"
| "collect_ok (Inr x # xs) = bind_res (collect_ok xs) (\<lambda>ys. Ok (x # ys))"

definition lift_sum :: "string + 'a \<Rightarrow> 'a res" where
  "lift_sum = map_err id"

text \<open>The first record of an answer, if there is one and it could be parsed.\<close>

fun first_record :: "(string + rr) list \<Rightarrow> rr option" where
  "first_record (Inr r # _) = Some r"
| "first_record _ = None"

definition NOERROR :: nat where
  "NOERROR = 0"

section \<open>Addresses\<close>

definition addresses_for_name :: "'ks ext \<Rightarrow> name \<Rightarrow> addr list res" where
  "addresses_for_name E n =
     bind_res (map_err (\<lambda>e. ''lookup of addresses for '' @ n @ '' failed: '' @ e) (lookup_host E n)) (\<lambda>res.
     if res = [] then Err (''no IP addresses found for '' @ n) else Ok res)"

fun all_addresses :: "'ks ext \<Rightarrow> name list \<Rightarrow> addr list res" where
  "all_addresses E [] = Ok []"
| "all_addresses E (n # ns) =
     bind_res (addresses_for_name E n) (\<lambda>a. bind_res (all_addresses E ns) (\<lambda>as. Ok (a @ as)))"

definition ns_names :: "name \<Rightarrow> rr list \<Rightarrow> name list" where
  "ns_names zone rs = List.map_filter (\<lambda>r. case rr_data r of
      Ns n \<Rightarrow> if rr_owner r = zone then Some n else None
    | _ \<Rightarrow> None) rs"

definition addresses_for_zone :: "'ks ext \<Rightarrow> name \<Rightarrow> addr list res" where
  "addresses_for_zone E zone =
     bind_res (map_err (\<lambda>e. ''lookup of '' @ zone @ ''/NS failed: '' @ e) (resolver_query E zone RT_NS)) (\<lambda>m.
     if opt_rcode m \<noteq> NOERROR then Err (zone @ ''/NS query failed: '' @ show_rcode E (opt_rcode m))
     else
       bind_res (lift_sum (answer m)) (\<lambda>rs.
       bind_res (collect_ok (limit_to_in (\<lambda>_. True) rs)) (\<lambda>records.
       let servers = ns_names zone records in
       if servers = [] then Err (zone @ '' has no NS records'')
       else bind_res (all_addresses E servers) (\<lambda>as. Ok (remdups as)))))"

definition soa_mname_of :: "'ks ext \<Rightarrow> name \<Rightarrow> soa res" where
  "soa_mname_of E zone =
     bind_res (map_err (\<lambda>e. ''lookup of '' @ zone @ ''/SOA failed: '' @ e) (resolver_query E zone RT_SOA)) (\<lambda>m.
     bind_res (lift_sum (answer m)) (\<lambda>rs.
     case first_record (limit_to_in is_soa rs) of
       Some r \<Rightarrow> (case rr_data r of Soa s \<Rightarrow> Ok s | _ \<Rightarrow> Panic ''not a SOA record'')
     | None \<Rightarrow>
         if opt_rcode m \<noteq> NOERROR then Err (''Unable to resolve '' @ zone @ ''/SOA: '' @ show_rcode E (opt_rcode m))
         else Err (''No result for '' @ zone @ ''/SOA'')))"

definition get_primary_addresses :: "'ks ext \<Rightarrow> name \<Rightarrow> addr list res" where
  "get_primary_addresses E zone = bind_res (soa_mname_of E zone) (\<lambda>s. addresses_for_name E (soa_mname s))"

definition parent_zone :: "'ks ext \<Rightarrow> name \<Rightarrow> name res" where
  "parent_zone E n = (case name_parent E n of
     None \<Rightarrow> Err (''unable to get parent of '' @ n)
   | Some parent \<Rightarrow>
       bind_res (map_err (\<lambda>e. ''lookup of '' @ parent @ ''/SOA failed: '' @ e) (resolver_query E parent RT_SOA)) (\<lambda>m.
       if opt_rcode m \<noteq> NOERROR then Err (parent @ ''/SOA query failed: '' @ show_rcode E (opt_rcode m))
       else
         bind_res (lift_sum (answer m)) (\<lambda>rs.
         case first_record (limit_to_in is_soa rs) of
           Some r \<Rightarrow> Ok (rr_owner r)
         | None \<Rightarrow>
             bind_res (lift_sum (authority m)) (\<lambda>as.
             case first_record (limit_to_in is_soa as) of
               Some r \<Rightarrow> Ok (rr_owner r)
             | None \<Rightarrow> Err (parent @ ''/SOA query failed'')))))"

definition lookup_name_rtype_at_address ::
  "'ks ext \<Rightarrow> (rdata \<Rightarrow> bool) \<Rightarrow> name \<Rightarrow> rtype \<Rightarrow> addr \<Rightarrow> rr list res" where
  "lookup_name_rtype_at_address E P n t address =
     bind_res (map_err (\<lambda>e. n @ ''/'' @ show_rtype E t @ '' request to '' @ address @ '' failed: '' @ e)
        (query_at E address n t)) (\<lambda>m.
     bind_res (lift_sum (answer m)) (\<lambda>rs. collect_ok (limit_to_in P rs)))"

section \<open>The DNSKEY RRset at one address\<close>

text \<open>Equality of records leaves the TTL out.\<close>

definition rr_same :: "rr \<Rightarrow> rr \<Rightarrow> bool" where
  "rr_same a b \<longleftrightarrow> rr_owner a = rr_owner b \<and> rr_class a = rr_class b \<and> rr_data a = rr_data b"

definition hs_insert :: "rr \<Rightarrow> rr list \<Rightarrow> rr list" where
  "hs_insert r l = (if list_ex (rr_same r) l then l else l @ [r])"

fun dnskey_loop :: "'ks ext \<Rightarrow> name \<Rightarrow> addr \<Rightarrow> time \<Rightarrow> rr list \<Rightarrow> rr list \<Rightarrow> ttl \<Rightarrow> auto_report_result" where
  "dnskey_loop E zone address now [] target max_ttl = (case target of
      r # _ \<Rightarrow> AWait (now + ttl_duration (rr_ttl r))
        (''Not all required DNSKEY records were found: '' @ show_rr E r @ '' is missing on server '' @ address)
    | [] \<Rightarrow> AReport max_ttl)"
| "dnskey_loop E zone address now (r # rs) target max_ttl =
    (case rr_data r of
       Dnskey d \<Rightarrow>
         if rr_owner r \<noteq> zone then dnskey_loop E zone address now rs target max_ttl
         else (case List.find (\<lambda>t. rr_data t = Dnskey d) target of
             Some t \<Rightarrow> dnskey_loop E zone address now rs (remove1 t target) (max max_ttl (rr_ttl r))
           | None \<Rightarrow> AWait (now + ttl_duration (rr_ttl r))
               (''Check DNSKEY RRset: DNSKEY record '' @ show_rr E r @ '' found on server '' @ address @
                '' that is not part of the target RRset''))
     | Rrsig s \<Rightarrow>
         if rr_owner r \<noteq> zone \<or> sig_type_covered s \<noteq> RT_DNSKEY then dnskey_loop E zone address now rs target max_ttl
         else (case List.find (\<lambda>t. rr_data t = Rrsig s) target of
             Some t \<Rightarrow> dnskey_loop E zone address now rs (remove1 t target) (max max_ttl (rr_ttl r))
           | None \<Rightarrow> AWait (now + ttl_duration (rr_ttl r))
               (''Check DNSKEY RRset: RRSIG record '' @ show_rr E r @ '' found on server '' @ address @
                '' that is not part of the target RRset''))
     | _ \<Rightarrow> dnskey_loop E zone address now rs target max_ttl)"

definition check_dnskey_for_address ::
  "'ks ext \<Rightarrow> name \<Rightarrow> rr list \<Rightarrow> time \<Rightarrow> addr \<Rightarrow> auto_report_result res" where
  "check_dnskey_for_address E zone target now address =
     bind_res (lookup_name_rtype_at_address E (\<lambda>_. True) zone RT_DNSKEY address) (\<lambda>records.
     Ok (dnskey_loop E zone address now records target 0))"

text \<open>
  The loop over the results of all addresses: an error is handed to \<open>on_err\<close>, the first
  \<open>Wait\<close> is the result, otherwise the largest TTL is reported.
\<close>

fun combine_reports ::
  "(string \<Rightarrow> auto_report_result res) \<Rightarrow> auto_report_result res list \<Rightarrow> ttl option \<Rightarrow> auto_report_result res" where
  "combine_reports on_err [] max_ttl = (case max_ttl of
      Some m \<Rightarrow> Ok (AReport m)
    | None \<Rightarrow> Panic ''cannot be None'')"
| "combine_reports on_err (r # rs) max_ttl = (case r of
      Err e \<Rightarrow> on_err e
    | Panic p \<Rightarrow> Panic p
    | Ok (AWait u n) \<Rightarrow> Ok (AWait u n)
    | Ok (AReport t) \<Rightarrow>
        combine_reports on_err rs (Some (max (case max_ttl of Some m \<Rightarrow> m | None \<Rightarrow> 0) t)))"

text \<open>The target set: the records of the stored RRset.\<close>

definition stored_record :: "'ks ext \<Rightarrow> string \<Rightarrow> rr option" where
  "stored_record E l = (case zonefile_entries E (l @ [CHR 0x0A]) of
      Inr (EntryRecord r) # _ \<Rightarrow> Some r
    | _ \<Rightarrow> None)"

definition target_set :: "'ks ext \<Rightarrow> string list \<Rightarrow> rr list" where
  "target_set E rrset = fold (\<lambda>l acc. case stored_record E l of Some r \<Rightarrow> hs_insert r acc | None \<Rightarrow> acc) rrset []"

definition report_dnskey_propagated :: "'ks ext \<Rightarrow> 'ks kss \<Rightarrow> time \<Rightarrow> auto_report_result res" where
  "report_dnskey_propagated E k now =
     (let target = target_set E (st_dnskey_rrset k); zone = ks_name E (st_keyset k) in
      case addresses_for_zone E zone of
        Err e \<Rightarrow> Ok (AWait (now + DEFAULT_WAIT) (''Getting nameserver addresses for '' @ zone @ '' failed: '' @ e))
      | Panic p \<Rightarrow> Panic p
      | Ok addresses \<Rightarrow>
          if addresses = [] then Panic ''assertion failed: !addresses.is_empty()''
          else combine_reports (\<lambda>e. Ok (AWait (now + DEFAULT_WAIT) (''DNSKEY check failed: '' @ e)))
                 (map (check_dnskey_for_address E zone target now) addresses) None)"

section \<open>The DS RRset at the parent\<close>

definition dr_same :: "dnskey_rr \<Rightarrow> dnskey_rr \<Rightarrow> bool" where
  "dr_same a b \<longleftrightarrow> kr_owner a = kr_owner b \<and> kr_class a = kr_class b \<and> kr_data a = kr_data b"

definition cdnskey_targets :: "'ks ext \<Rightarrow> string list \<Rightarrow> dnskey_rr list" where
  "cdnskey_targets E rrset = fold (\<lambda>l acc. case stored_record E l of
      Some r \<Rightarrow> (case rr_data r of
          Cdnskey d \<Rightarrow>
            (let t = DnskeyRR (rr_owner r) (rr_class r) (rr_ttl r) d
             in if list_ex (dr_same t) acc then acc else acc @ [t])
        | _ \<Rightarrow> acc)
    | None \<Rightarrow> acc) rrset []"

text \<open>\<open>find\<close> with a predicate that computes a digest, whose failure is an \<open>expect\<close>.\<close>

fun find_ds :: "'ks ext \<Rightarrow> name \<Rightarrow> ds \<Rightarrow> dnskey_rr list \<Rightarrow> dnskey_rr option res" where
  "find_ds E zone d [] = Ok None"
| "find_ds E zone d (t # ts) = (case dnskey_digest E (kr_data t) zone (ds_digest_type d) of
      Inl _ \<Rightarrow> Panic ''should not fail (digest)''
    | Inr digest \<Rightarrow>
        if ds.ds_algorithm d = dk_algorithm (kr_data t) \<and> ds_digest d = digest then Ok (Some t)
        else find_ds E zone d ts)"

fun ds_loop :: "'ks ext \<Rightarrow> name \<Rightarrow> addr \<Rightarrow> time \<Rightarrow> rr list \<Rightarrow> dnskey_rr list \<Rightarrow> ttl \<Rightarrow> auto_report_result res" where
  "ds_loop E zone address now [] target max_ttl = Ok (case target of
      t # _ \<Rightarrow> AWait (now + ttl_duration (kr_ttl t))
        (''Check DS RRset: DS record that corresponds to a DNSKEY with key tag '' @
         show_nat (unat (dnskey_key_tag E (kr_data t))) @ '' not present on server '' @ address)
    | [] \<Rightarrow> AReport max_ttl)"
| "ds_loop E zone address now (r # rs) target max_ttl =
    (if rr_owner r \<noteq> zone then ds_loop E zone address now rs target max_ttl
     else (case rr_data r of
       Ds d \<Rightarrow> bind_res (find_ds E zone d target) (\<lambda>found. case found of
           Some t \<Rightarrow> ds_loop E zone address now rs (remove1 t target) (max max_ttl (rr_ttl r))
         | None \<Rightarrow> Ok (AWait (now + ttl_duration (rr_ttl r))
             (''Check DS RRset: unexpected DS record '' @ show_rr E r @ '' found on server '' @ address)))
     | _ \<Rightarrow> Panic ''not a DS record''))"

definition check_ds_for_address ::
  "'ks ext \<Rightarrow> name \<Rightarrow> dnskey_rr list \<Rightarrow> time \<Rightarrow> addr \<Rightarrow> auto_report_result res" where
  "check_ds_for_address E zone target now address =
     bind_res (lookup_name_rtype_at_address E is_ds zone RT_DS address) (\<lambda>records.
     ds_loop E zone address now records target 0)"

definition report_ds_propagated :: "'ks ext \<Rightarrow> 'ks kss \<Rightarrow> time \<Rightarrow> auto_report_result res" where
  "report_ds_propagated E k now =
     (let target = cdnskey_targets E (st_cds_rrset k); zone = ks_name E (st_keyset k) in
      bind_res (parent_zone E zone) (\<lambda>parent.
      bind_res (addresses_for_zone E parent) (\<lambda>addresses.
      if addresses = [] then Panic ''assertion failed: !addresses.is_empty()''
      else combine_reports Err (map (check_ds_for_address E zone target now) addresses) None)))"

section \<open>SOA serials\<close>

definition check_soa_for_address ::
  "'ks ext \<Rightarrow> name \<Rightarrow> u32 \<Rightarrow> time \<Rightarrow> addr \<Rightarrow> auto_report_result res" where
  "check_soa_for_address E zone serial now address =
     bind_res (lookup_name_rtype_at_address E is_soa zone RT_SOA address) (\<lambda>records.
     if records = [] then
       Ok (AWait (now + DEFAULT_WAIT) (''no SOA record found for zone '' @ zone @ '' at server'' @ address))
     else (case List.map_filter (\<lambda>r. case rr_data r of
              Soa s \<Rightarrow> if serial_lt E (soa_serial s) serial then Some (rr_ttl r, soa_serial s) else None
            | _ \<Rightarrow> None) records of
         (t, current) # _ \<Rightarrow> Ok (AWait (now + ttl_duration t) (''server '' @ address @ '' has serial '' @ show_serial E current))
       | [] \<Rightarrow> Ok (AReport 0)))"

fun first_wait :: "auto_report_result res list \<Rightarrow> unit res" where
  "first_wait [] = Ok ()"
| "first_wait (r # rs) = bind_res r (\<lambda>x. case x of AWait _ notice \<Rightarrow> Err notice | AReport _ \<Rightarrow> first_wait rs)"

definition check_soa :: "'ks ext \<Rightarrow> u32 \<Rightarrow> 'ks kss \<Rightarrow> time \<Rightarrow> unit res" where
  "check_soa E serial k now =
     (let zone = ks_name E (st_keyset k) in
      bind_res (addresses_for_zone E zone) (\<lambda>addresses.
      first_wait (map (check_soa_for_address E zone serial now) addresses)))"

definition serial_le :: "'ks ext \<Rightarrow> u32 \<Rightarrow> u32 \<Rightarrow> bool" where
  "serial_le E a b \<longleftrightarrow> serial_lt E a b \<or> a = b"

fun next_serial_at :: "'ks ext \<Rightarrow> name \<Rightarrow> u32 \<Rightarrow> string \<Rightarrow> addr list \<Rightarrow> unit res" where
  "next_serial_at E zone serial failed [] = Err failed"
| "next_serial_at E zone serial failed (a # as) = (case query_at E a zone RT_SOA of
      Inl _ \<Rightarrow> next_serial_at E zone serial failed as
    | Inr m \<Rightarrow> bind_res (lift_sum (answer m)) (\<lambda>rs.
        case limit_to_in is_soa rs of
          Inl e # _ \<Rightarrow> Err e
        | Inr r # _ \<Rightarrow> (case rr_data r of
             Soa s \<Rightarrow> if serial_le E (soa_serial s) serial
               then Err (''server '' @ a @ '' has serial '' @ show_serial E (soa_serial s))
               else Ok ()
           | _ \<Rightarrow> Panic ''not a SOA record'')
        | [] \<Rightarrow> Err (''No SOA record in reply from server '' @ a @ '' to SOA query for zone '' @ zone)))"

definition show_addrs :: "addr list \<Rightarrow> string" where
  "show_addrs as = ''['' @ concat (map (\<lambda>a. a @ '' '') as) @ '']''"

definition check_next_serial :: "'ks ext \<Rightarrow> u32 \<Rightarrow> 'ks kss \<Rightarrow> unit res" where
  "check_next_serial E serial k =
     (let zone = ks_name E (st_keyset k) in
      bind_res (get_primary_addresses E zone) (\<lambda>addresses.
      next_serial_at E zone serial
        (''lookup of '' @ zone @ ''/SOA failed for all addresses '' @ show_addrs addresses) addresses))"

section \<open>Signatures by the zone signing keys\<close>

type_synonym sigs = "(nat \<times> u16) list"

definition set_insert :: "'a \<Rightarrow> 'a list \<Rightarrow> 'a list" where
  "set_insert x l = (if x \<in> set l then l else l @ [x])"

definition zsk_signer :: "key \<Rightarrow> bool" where
  "zsk_signer v = (case keytype v of Ksk _ \<Rightarrow> False | Include _ \<Rightarrow> False
     | Zsk st \<Rightarrow> signer st | Csk _ st \<Rightarrow> signer st)"

definition get_expected_zsk_key_tags :: "'ks ext \<Rightarrow> 'ks kss \<Rightarrow> sigs" where
  "get_expected_zsk_key_tags E k =
     remdups (map (\<lambda>(_, v). (algorithm v, key_tag v)) (filter (\<lambda>(_, v). zsk_signer v) (ks_keys E (st_keyset k))))"

fun rrsig_pairs :: "rtype \<Rightarrow> rr list \<Rightarrow> sigs" where
  "rrsig_pairs t [] = []"
| "rrsig_pairs t (r # rs) = (case rr_data r of
      Rrsig s \<Rightarrow> if sig_type_covered s = t then (sig_algorithm s, sig_key_tag s) # rrsig_pairs t rs
                else rrsig_pairs t rs
    | _ \<Rightarrow> rrsig_pairs t rs)"

fun record_at :: "'ks ext \<Rightarrow> name \<Rightarrow> rtype \<Rightarrow> sigs \<Rightarrow> string \<Rightarrow> addr list \<Rightarrow> unit res" where
  "record_at E n t expected failed [] = Err failed"
| "record_at E n t expected failed (a # as) = (case query_at E a n t of
      Inl _ \<Rightarrow> record_at E n t expected failed as
    | Inr m \<Rightarrow>
        bind_res (lift_sum (answer m)) (\<lambda>rs.
        bind_res (collect_ok (limit_to_in is_rrsig rs)) (\<lambda>records.
        let found = remdups (rrsig_pairs t records) in
        if set found \<noteq> set expected
        then Err (''found RRSIG records for '' @ show_debug_sigs E found @ '', expected  '' @ show_debug_sigs E expected)
        else Ok ())))"

definition check_record :: "'ks ext \<Rightarrow> name \<Rightarrow> rtype \<Rightarrow> 'ks kss \<Rightarrow> unit res" where
  "check_record E n t k =
     bind_res (get_primary_addresses E (ks_name E (st_keyset k))) (\<lambda>addresses.
     record_at E n t (get_expected_zsk_key_tags E k)
       (''lookup of '' @ n @ ''/'' @ show_rtype E t @ '' failed for all addresses '' @ show_addrs addresses) addresses)"

datatype check_rrsigs_result =
  RrsigsDone | RrsigsWaitRecord name rtype string | RrsigsWaitNextSerial string

text \<open>The zone: names in order with their types, and the signatures by name and type.\<close>

type_synonym treemap = "(name \<times> rtype list) list"
type_synonym sigmap = "((name \<times> rtype) \<times> sigs) list"

definition sigs_at :: "sigmap \<Rightarrow> name \<Rightarrow> rtype \<Rightarrow> sigs" where
  "sigs_at m n t = (case map_of m (n, t) of Some l \<Rightarrow> l | None \<Rightarrow> [])"

definition mismatch_notice :: "'ks ext \<Rightarrow> name \<Rightarrow> rtype \<Rightarrow> sigs \<Rightarrow> sigs \<Rightarrow> string" where
  "mismatch_notice E n t found expected =
     ''RRSIG mismatch for '' @ n @ ''/'' @ show_rtype E t @ '': found '' @ show_debug_sigs E found @
     '' expected '' @ show_debug_sigs E expected"

text \<open>
  The types that are checked at one name: at a delegation only DS and NSEC are
  authoritative, and the apex sets made by keyset are signed with the KSKs.
\<close>

definition skip_type :: "name \<Rightarrow> bool \<Rightarrow> name \<Rightarrow> rtype \<Rightarrow> bool" where
  "skip_type zone delegated n t \<longleftrightarrow>
     (delegated \<and> t \<notin> {RT_DS, RT_NSEC}) \<or> (t \<in> {RT_DNSKEY, RT_CDS, RT_CDNSKEY} \<and> n = zone)"

text \<open>The inner loop: \<open>Inl\<close> is the early return, \<open>Inr\<close> the result so far.\<close>

fun rrsigs_types ::
  "'ks ext \<Rightarrow> sigmap \<Rightarrow> name \<Rightarrow> sigs \<Rightarrow> bool \<Rightarrow> name \<Rightarrow> rtype list \<Rightarrow> check_rrsigs_result \<Rightarrow>
     check_rrsigs_result + check_rrsigs_result" where
  "rrsigs_types E sm zone expected delegated n [] result = Inr result"
| "rrsigs_types E sm zone expected delegated n (t # ts) result =
    (if skip_type zone delegated n t then rrsigs_types E sm zone expected delegated n ts result
     else if set (sigs_at sm n t) \<noteq> set expected then
       (if t \<noteq> RT_NSEC3
        then Inl (RrsigsWaitRecord n t (mismatch_notice E n t (sigs_at sm n t) expected))
        else rrsigs_types E sm zone expected delegated n ts
               (RrsigsWaitNextSerial (mismatch_notice E n t (sigs_at sm n t) expected)))
     else rrsigs_types E sm zone expected delegated n ts result)"

fun rrsigs_names ::
  "'ks ext \<Rightarrow> sigmap \<Rightarrow> name \<Rightarrow> sigs \<Rightarrow> treemap \<Rightarrow> name option \<Rightarrow> check_rrsigs_result \<Rightarrow> check_rrsigs_result" where
  "rrsigs_names E sm zone expected [] delegation result = result"
| "rrsigs_names E sm zone expected ((n, ts) # tm) delegation result =
    (if (case delegation of Some d \<Rightarrow> name_ends_with E n d | None \<Rightarrow> False)
     then rrsigs_names E sm zone expected tm delegation result
     else
       let delegation' = (if RT_NS \<in> set ts \<and> n \<noteq> zone then Some n else None) in
       (case rrsigs_types E sm zone expected (delegation' \<noteq> None) n ts result of
          Inl r \<Rightarrow> r
        | Inr result' \<Rightarrow> rrsigs_names E sm zone expected tm delegation' result'))"

definition check_rrsigs :: "'ks ext \<Rightarrow> treemap \<Rightarrow> sigmap \<Rightarrow> name \<Rightarrow> sigs \<Rightarrow> check_rrsigs_result" where
  "check_rrsigs E tm sm zone expected = rrsigs_names E sm zone expected tm None RrsigsDone"

section \<open>Checking a zone transfer\<close>

text \<open>\<open>BTreeMap\<close> insertion: the names stay in the order of \<open>name_less\<close>.\<close>

fun tm_insert :: "'ks ext \<Rightarrow> name \<Rightarrow> rtype \<Rightarrow> treemap \<Rightarrow> treemap" where
  "tm_insert E n t [] = [(n, [t])]"
| "tm_insert E n t ((m, ts) # tm) =
    (if n = m then (m, set_insert t ts) # tm
     else if name_less E n m then (n, [t]) # (m, ts) # tm
     else (m, ts) # tm_insert E n t tm)"

definition sm_insert :: "name \<Rightarrow> rtype \<Rightarrow> nat \<times> u16 \<Rightarrow> sigmap \<Rightarrow> sigmap" where
  "sm_insert n t v m = hm_insert (n, t) (set_insert v (sigs_at m n t)) m"

record axfr_state =
  ax_serial :: u32
  ax_first_soa :: bool
  ax_treemap :: treemap
  ax_sigmap :: sigmap
  ax_max_ttl :: ttl

text \<open>What the loops over replies and records do next.\<close>

datatype axfr_step = AxMore axfr_state | AxNextAddr | AxReturn "auto_rrsig_result res"

definition axfr_insert :: "'ks ext \<Rightarrow> rr \<Rightarrow> axfr_state \<Rightarrow> axfr_state" where
  "axfr_insert E r a = (case rr_data r of
      Rrsig s \<Rightarrow> a\<lparr>ax_sigmap := sm_insert (rr_owner r) (sig_type_covered s) (sig_algorithm s, sig_key_tag s) (ax_sigmap a),
                  ax_max_ttl := max (ax_max_ttl a) (rr_ttl r)\<rparr>
    | d \<Rightarrow> a\<lparr>ax_treemap := tm_insert E (rr_owner r) (rtype_of d) (ax_treemap a)\<rparr>)"

text \<open>The SOA that ends the transfer: the zone is checked, then the other nameservers.\<close>

definition axfr_end :: "'ks ext \<Rightarrow> 'ks kss \<Rightarrow> time \<Rightarrow> axfr_state \<Rightarrow> ttl \<Rightarrow> auto_rrsig_result res" where
  "axfr_end E k now a soa_ttl =
     (case check_rrsigs E (ax_treemap a) (ax_sigmap a) (ks_name E (st_keyset k)) (get_expected_zsk_key_tags E k) of
        RrsigsDone \<Rightarrow>
          (case check_soa E (ax_serial a) k now of
             Err e \<Rightarrow> Ok (RWaitSoa (now + ttl_duration soa_ttl) (ax_serial a) soa_ttl (ax_max_ttl a) e)
           | Panic p \<Rightarrow> Panic p
           | Ok _ \<Rightarrow> Ok (RReport (ax_max_ttl a)))
      | RrsigsWaitRecord n t notice \<Rightarrow> Ok (RWaitRecord (now + ttl_duration soa_ttl) n t soa_ttl notice)
      | RrsigsWaitNextSerial notice \<Rightarrow> Ok (RWaitNextSerial (now + ttl_duration soa_ttl) (ax_serial a) soa_ttl notice))"

fun axfr_records :: "'ks ext \<Rightarrow> 'ks kss \<Rightarrow> time \<Rightarrow> (string + rr) list \<Rightarrow> axfr_state \<Rightarrow> axfr_step" where
  "axfr_records E k now [] a = AxMore a"
| "axfr_records E k now (Inl e # rs) a = AxReturn (Err e)"
| "axfr_records E k now (Inr r # rs) a =
    (if \<not> ax_first_soa a then
       (case rr_data r of
          Soa s \<Rightarrow> axfr_records E k now rs (axfr_insert E r (a\<lparr>ax_first_soa := True, ax_serial := soa_serial s\<rparr>))
        | d \<Rightarrow> AxReturn (Err (''Wrong start of AXFR for '' @ ks_name E (st_keyset k) @
                  '', expected SOA found '' @ show_rtype E (rtype_of d))))
     else if rtype_of (rr_data r) = RT_SOA then AxReturn (axfr_end E k now a (rr_ttl r))
     else axfr_records E k now rs (axfr_insert E r a))"

fun axfr_replies_loop :: "'ks ext \<Rightarrow> 'ks kss \<Rightarrow> time \<Rightarrow> (string + message) list \<Rightarrow> axfr_state \<Rightarrow> axfr_step" where
  "axfr_replies_loop E k now [] a = AxReturn (Err (''Unexpected end of AXFR for '' @ ks_name E (st_keyset k)))"
| "axfr_replies_loop E k now (Inl e # ms) a = AxNextAddr"
| "axfr_replies_loop E k now (Inr m # ms) a =
    (if opt_rcode m \<noteq> NOERROR then AxNextAddr
     else (case answer m of
        Inl e \<Rightarrow> AxReturn (Err e)
      | Inr rs \<Rightarrow> (case axfr_records E k now rs a of
          AxMore a' \<Rightarrow> axfr_replies_loop E k now ms a'
        | step \<Rightarrow> step)))"

definition show_nameservers :: "nameserver list \<Rightarrow> string" where
  "show_nameservers l = show_addrs (map ns_addr l)"

fun axfr_servers :: "'ks ext \<Rightarrow> 'ks kss \<Rightarrow> time \<Rightarrow> tsig_store \<Rightarrow> string \<Rightarrow> u32 \<Rightarrow> nameserver list \<Rightarrow> auto_rrsig_result res" where
  "axfr_servers E k now store failed serial [] = Err failed"
| "axfr_servers E k now store failed serial (ns # rest) = (case tcp_connect E (ns_addr ns) of
      Inl _ \<Rightarrow> axfr_servers E k now store failed serial rest
    | Inr _ \<Rightarrow>
       (let go = (\<lambda>key. case axfr_replies_loop E k now (axfr_replies E (ns_addr ns) key (ks_name E (st_keyset k)))
                \<lparr>ax_serial = serial, ax_first_soa = False, ax_treemap = [], ax_sigmap = [], ax_max_ttl = 0\<rparr> of
              AxReturn r \<Rightarrow> r
            | _ \<Rightarrow> axfr_servers E k now store failed serial rest)
        in case ns_tsig_key_name ns of
             None \<Rightarrow> go None
           | Some n \<Rightarrow> (case tsig_store_get store n of
                Some key \<Rightarrow> go (Some key)
              | None \<Rightarrow> axfr_servers E k now store failed serial rest)))"

definition check_zone ::
  "'ks ext \<Rightarrow> 'ks kss \<Rightarrow> time \<Rightarrow> nameserver list \<Rightarrow> tsig_store \<Rightarrow> auto_rrsig_result res" where
  "check_zone E k now servers store =
     bind_res (soa_mname_of E (ks_name E (st_keyset k))) (\<lambda>s.
     bind_res (if servers \<noteq> [] then Ok servers
               else bind_res (addresses_for_name E (soa_mname s)) (\<lambda>as. Ok (map nameserver_from_ip (remdups as)))) (\<lambda>servers'.
     axfr_servers E k now store
       (''AXFR for '' @ ks_name E (st_keyset k) @ '' failed for all nameservers '' @ show_nameservers servers')
       (soa_serial s) servers'))"

definition report_rrsig_propagated ::
  "'ks ext \<Rightarrow> 'ks kss \<Rightarrow> time \<Rightarrow> nameserver list \<Rightarrow> tsig_store \<Rightarrow> auto_rrsig_result res" where
  "report_rrsig_propagated E k now servers store =
     bind_res (check_zone E k now servers store) (\<lambda>result. case result of
        RReport _ \<Rightarrow> Panic ''internal error: entered unreachable code''
      | RWait _ _ \<Rightarrow> Panic ''internal error: entered unreachable code''
      | RWaitSoa _ serial t report_ttl _ \<Rightarrow>
          (case check_soa E serial k now of
             Err e \<Rightarrow> Ok (RWaitSoa (now + ttl_duration t) serial t report_ttl e)
           | Panic p \<Rightarrow> Panic p
           | Ok _ \<Rightarrow> Ok (RReport report_ttl))
      | RWaitRecord _ _ _ _ _ \<Rightarrow> Ok result
      | RWaitNextSerial _ _ _ _ \<Rightarrow> Ok result)"

end
