(* ===== verification/Automation.thy ===== *)
theory Automation
  imports Propagation Roll_Records
begin

text \<open>
  The automatic part of \<open>dnst keyset\<close> (src/commands/keyset/cmd.rs): carrying out the Report
  and Wait actions of the rolls, moving rolls to their next state, deciding when
  signatures are renewed, and computing when \<open>cron\<close> has to run again.
\<close>

section \<open>Actions that report or wait\<close>

text \<open>
  The state is the \<open>ReportState\<close> of one phase of a roll together with the flag
  \<open>state_changed\<close>. Each check looks at the stored status first: it stops while the stored
  time is in the future, is done when a report is stored, and asks the network otherwise.
\<close>

type_synonym 'a reporting = "(report_state \<times> bool, 'a) prog"

definition store_dnskey :: "auto_report_result \<Rightarrow> unit reporting" where
  "store_dnskey x = modify (\<lambda>(rep, _). (rep\<lparr>rep_dnskey := Some x\<rparr>, True))"

definition store_ds :: "auto_report_result \<Rightarrow> unit reporting" where
  "store_ds x = modify (\<lambda>(rep, _). (rep\<lparr>rep_ds := Some x\<rparr>, True))"

definition store_rrsig :: "auto_rrsig_result \<Rightarrow> unit reporting" where
  "store_rrsig x = modify (\<lambda>(rep, _). (rep\<lparr>rep_rrsig := Some x\<rparr>, True))"

definition dnskey_action :: "'ks ext \<Rightarrow> 'ks kss \<Rightarrow> time \<Rightarrow> auto_report_result reporting" where
  "dnskey_action E k now =
     bindP (gets (\<lambda>(rep, _). rep_dnskey rep)) (\<lambda>status.
     let check = bindP (lift_res (report_dnskey_propagated E k now)) (\<lambda>result.
                 thenP (store_dnskey result) (ret result))
     in (case status of
          Some (AWait until notice) \<Rightarrow> if until > now then ret (AWait until notice) else check
        | Some (AReport t) \<Rightarrow> ret (AReport t)
        | None \<Rightarrow> check))"

definition ds_action :: "'ks ext \<Rightarrow> 'ks kss \<Rightarrow> time \<Rightarrow> auto_report_result reporting" where
  "ds_action E k now =
     bindP (gets (\<lambda>(rep, _). rep_ds rep)) (\<lambda>status.
     let check = bindP (lift_res (unwrap_or_else (report_ds_propagated E k now)
                     (\<lambda>e. AWait (now + DEFAULT_WAIT) (''Check DS propagation failed: '' @ e)))) (\<lambda>result.
                 thenP (store_ds result) (ret result))
     in (case status of
          Some (AWait until notice) \<Rightarrow> if until > now then ret (AWait until notice) else check
        | Some (AReport t) \<Rightarrow> ret (AReport t)
        | None \<Rightarrow> check))"

text \<open>An RRSIG status as a report or a time to wait for.\<close>

fun rrsig_outcome :: "auto_rrsig_result \<Rightarrow> auto_report_result" where
  "rrsig_outcome (RReport t) = AReport t"
| "rrsig_outcome (RWait until notice) = AWait until notice"
| "rrsig_outcome (RWaitSoa until serial t report_ttl notice) = AWait until notice"
| "rrsig_outcome (RWaitRecord until n t l notice) = AWait until notice"
| "rrsig_outcome (RWaitNextSerial until serial t notice) = AWait until notice"

definition rrsig_check ::
  "'ks ext \<Rightarrow> 'ks kss \<Rightarrow> time \<Rightarrow> nameserver list \<Rightarrow> tsig_store \<Rightarrow> auto_report_result reporting" where
  "rrsig_check E k now servers store =
     bindP (lift_res (unwrap_or_else (report_rrsig_propagated E k now servers store)
        (\<lambda>e. RWait (now + DEFAULT_WAIT) (''Check RRSIG propagation failed: '' @ e)))) (\<lambda>result.
     thenP (store_rrsig result) (ret (rrsig_outcome result)))"

text \<open>
  \<open>soa_until\<close> is the one difference between the two callers: after a failed SOA check
  \<open>auto_report_actions\<close> stores the new time, \<open>auto_wait_actions\<close> the old one.
\<close>

definition rrsig_action ::
  "(time \<Rightarrow> time \<Rightarrow> time) \<Rightarrow> 'ks ext \<Rightarrow> 'ks kss \<Rightarrow> time \<Rightarrow> nameserver list \<Rightarrow> tsig_store \<Rightarrow>
     auto_report_result reporting" where
  "rrsig_action soa_until E k now servers store =
     bindP (gets (\<lambda>(rep, _). rep_rrsig rep)) (\<lambda>status.
     let check = rrsig_check E k now servers store
     in (case status of
          None \<Rightarrow> check
        | Some (RReport t) \<Rightarrow> ret (AReport t)
        | Some (RWait until notice) \<Rightarrow> if until > now then ret (AWait until notice) else check
        | Some (RWaitSoa until serial t report_ttl notice) \<Rightarrow>
            if until > now then ret (AWait until notice)
            else (case check_soa E serial k now of
               Err e \<Rightarrow>
                 let next = now + ttl_duration t
                 in thenP (store_rrsig (RWaitSoa (soa_until until next) serial t report_ttl e)) (ret (AWait next e))
             | Panic p \<Rightarrow> panic p
             | Ok _ \<Rightarrow> thenP (store_rrsig (RReport report_ttl)) (ret (AReport report_ttl)))
        | Some (RWaitRecord until n rt t notice) \<Rightarrow>
            if until > now then ret (AWait until notice)
            else (case check_record E n rt k of
               Err e \<Rightarrow>
                 let next = now + ttl_duration t
                 in thenP (store_rrsig (RWaitRecord next n rt t e)) (ret (AWait next e))
             | Panic p \<Rightarrow> panic p
             | Ok _ \<Rightarrow> check)
        | Some (RWaitNextSerial until serial t notice) \<Rightarrow>
            if until > now then ret (AWait until notice)
            else (case check_next_serial E serial k of
               Err e \<Rightarrow>
                 let next = now + ttl_duration t
                 in thenP (store_rrsig (RWaitNextSerial until serial t e)) (ret (AWait next e))
             | Panic p \<Rightarrow> panic p
             | Ok _ \<Rightarrow> check)))"

datatype auto_actions_result = AutoOk | AutoWait time

fun auto_report_loop ::
  "'ks ext \<Rightarrow> 'ks kss \<Rightarrow> time \<Rightarrow> nameserver list \<Rightarrow> tsig_store \<Rightarrow> action list \<Rightarrow> ttl \<Rightarrow> auto_report_result reporting" where
  "auto_report_loop E k now servers store [] max_ttl = ret (AReport max_ttl)"
| "auto_report_loop E k now servers store (a # as) max_ttl =
     (let next = (\<lambda>m. bindP m (\<lambda>r. case r of
              AWait until notice \<Rightarrow> ret (AWait until notice)
            | AReport t \<Rightarrow> auto_report_loop E k now servers store as (max max_ttl t)))
      in (case a of
           ReportDnskeyPropagated \<Rightarrow> next (dnskey_action E k now)
         | ReportDsPropagated \<Rightarrow> next (ds_action E k now)
         | ReportRrsigPropagated \<Rightarrow> next (rrsig_action (\<lambda>old new. new) E k now servers store)
         | WaitDnskeyPropagated \<Rightarrow> panic ''internal error: entered unreachable code''
         | WaitDsPropagated \<Rightarrow> panic ''internal error: entered unreachable code''
         | WaitRrsigPropagated \<Rightarrow> panic ''internal error: entered unreachable code''
         | _ \<Rightarrow> auto_report_loop E k now servers store as max_ttl))"

definition auto_report_actions ::
  "'ks ext \<Rightarrow> action list \<Rightarrow> 'ks kss \<Rightarrow> time \<Rightarrow> nameserver list \<Rightarrow> tsig_store \<Rightarrow> auto_report_result reporting" where
  "auto_report_actions E actions k now servers store =
     thenP (guardP (actions \<noteq> []) ''assertion failed: !actions.is_empty()'')
           (auto_report_loop E k now servers store actions 0)"

fun auto_wait_actions ::
  "'ks ext \<Rightarrow> action list \<Rightarrow> 'ks kss \<Rightarrow> time \<Rightarrow> nameserver list \<Rightarrow> tsig_store \<Rightarrow> auto_actions_result reporting" where
  "auto_wait_actions E [] k now servers store = ret AutoOk"
| "auto_wait_actions E (a # as) k now servers store =
     (let next = (\<lambda>m. bindP m (\<lambda>r. case r of
              AWait until notice \<Rightarrow> ret (AutoWait until)
            | AReport t \<Rightarrow> auto_wait_actions E as k now servers store))
      in (case a of
           WaitDnskeyPropagated \<Rightarrow> next (dnskey_action E k now)
         | WaitDsPropagated \<Rightarrow> next (ds_action E k now)
         | WaitRrsigPropagated \<Rightarrow> next (rrsig_action (\<lambda>old new. old) E k now servers store)
         | ReportDnskeyPropagated \<Rightarrow> panic ''internal error: entered unreachable code''
         | ReportDsPropagated \<Rightarrow> panic ''internal error: entered unreachable code''
         | ReportRrsigPropagated \<Rightarrow> panic ''internal error: entered unreachable code''
         | _ \<Rightarrow> auto_wait_actions E as k now servers store))"

text \<open>What the stored statuses say, without asking the network.\<close>

fun report_pending :: "auto_report_result option \<Rightarrow> time \<Rightarrow> time option" where
  "report_pending None now = Some now"
| "report_pending (Some (AWait until _)) now = Some until"
| "report_pending (Some (AReport _)) now = None"

fun check_auto_actions :: "action list \<Rightarrow> report_state \<Rightarrow> time \<Rightarrow> auto_actions_result" where
  "check_auto_actions [] rep now = AutoOk"
| "check_auto_actions (a # as) rep now =
    (let next = (\<lambda>status. case report_pending status now of
            Some until \<Rightarrow> AutoWait until
          | None \<Rightarrow> check_auto_actions as rep now)
     in if a \<in> {ReportDnskeyPropagated, WaitDnskeyPropagated} then next (rep_dnskey rep)
        else if a \<in> {ReportDsPropagated, WaitDsPropagated} then next (rep_ds rep)
        else if a \<in> {ReportRrsigPropagated, WaitRrsigPropagated}
        then next (map_option rrsig_outcome (rep_rrsig rep))
        else check_auto_actions as rep now)"

section \<open>Moving rolls on\<close>

text \<open>The reports of one phase of the roll \<open>r\<close>, borrowed from \<open>internal\<close>.\<close>

definition in_reports ::
  "roll_type \<Rightarrow> (roll_state_reports \<Rightarrow> report_state) \<Rightarrow>
     (report_state \<Rightarrow> roll_state_reports \<Rightarrow> roll_state_reports) \<Rightarrow> 'a reporting \<Rightarrow> ('ks ws, 'a) prog" where
  "in_reports r phase put m =
     bindP (gets (\<lambda>s. st_internal (ws_state s) r)) (\<lambda>i.
     bindP (expect ''should not fail (internal)'' i) (\<lambda>reps.
     \<lambda>s. case m (phase reps, ws_state_changed s) of
       (res, rep, changed) \<Rightarrow> (res, (upd_state (\<lambda>st. st\<lparr>st_internal := (st_internal st)(r \<mapsto> put rep reps)\<rparr>) s)
          \<lparr>ws_state_changed := changed\<rparr>)))"

definition put_propagation1 :: "report_state \<Rightarrow> roll_state_reports \<Rightarrow> roll_state_reports" where
  "put_propagation1 rep reps = reps\<lparr>rsr_propagation1 := rep\<rparr>"

definition put_propagation2 :: "report_state \<Rightarrow> roll_state_reports \<Rightarrow> roll_state_reports" where
  "put_propagation2 rep reps = reps\<lparr>rsr_propagation2 := rep\<rparr>"

definition put_done :: "report_state \<Rightarrow> roll_state_reports \<Rightarrow> roll_state_reports" where
  "put_done rep reps = reps\<lparr>rsr_done := rep\<rparr>"

definition auto_report_phase ::
  "'ks ext \<Rightarrow> roll_type \<Rightarrow> (roll_state_reports \<Rightarrow> report_state) \<Rightarrow>
     (report_state \<Rightarrow> roll_state_reports \<Rightarrow> roll_state_reports) \<Rightarrow>
     (roll_type \<Rightarrow> ttl \<Rightarrow> 'ks \<Rightarrow> (ks_error + action list) \<times> 'ks) \<Rightarrow> ('ks ws, unit) prog" where
  "auto_report_phase E r phase put complete =
     bindP (gets (\<lambda>s. (ws_state s, faketime_or_now s, nameservers (ws_config s), ws_tsig_store s)))
       (\<lambda>(k, now, servers, store).
     bindP (in_reports r phase put (auto_report_actions E (ks_actions E (st_keyset k) r) k now servers store)) (\<lambda>res.
     case res of
       AWait _ _ \<Rightarrow> ret ()
     | AReport t \<Rightarrow>
         bindP (ks_try E (\<lambda>e. ''Error reporting propagation complete: '' @ e) (complete r t)) (\<lambda>actions.
         thenP (handle_actions E actions False) (modify set_state_changed))))"

definition roll_state_of :: "'ks ext \<Rightarrow> roll_type \<Rightarrow> 'ks ws \<Rightarrow> roll_state option" where
  "roll_state_of E r s = map_of (ks_rollstates E (ws_keyset s)) r"

definition auto_report_roll :: "'ks ext \<Rightarrow> roll_type \<Rightarrow> ('ks ws, unit) prog" where
  "auto_report_roll E r =
     bindP (gets (roll_state_of E r)) (\<lambda>state. case state of
       None \<Rightarrow> ret ()
     | Some st \<Rightarrow>
         bindP (gets (\<lambda>s. st_internal (ws_state s) r)) (\<lambda>i.
         bindP (expect ''should not fail (internal)'' i) (\<lambda>_.
         case st of
           Propagation1 \<Rightarrow> auto_report_phase E r rsr_propagation1 put_propagation1 (ks_propagation1_complete E)
         | Propagation2 \<Rightarrow> auto_report_phase E r rsr_propagation2 put_propagation2 (ks_propagation2_complete E)
         | _ \<Rightarrow> ret ())))"

definition auto_expire_step ::
  "'ks ext \<Rightarrow> roll_type \<Rightarrow> (roll_type \<Rightarrow> 'ks \<Rightarrow> (ks_error + action list) \<times> 'ks) \<Rightarrow> ('ks ws, unit) prog" where
  "auto_expire_step E r expired = bindP (ks_call (expired r)) (\<lambda>res. case res of
      Inl (KsWait _) \<Rightarrow> ret ()
    | Inl e \<Rightarrow> fail (''cache_expired[12] failed for state '' @ roll_type_debug r @ '': '' @ ks_show_error E e)
    | Inr actions \<Rightarrow> thenP (handle_actions E actions False) (modify set_state_changed))"

definition auto_expire_roll :: "'ks ext \<Rightarrow> roll_type \<Rightarrow> ('ks ws, unit) prog" where
  "auto_expire_roll E r =
     bindP (gets (roll_state_of E r)) (\<lambda>state. case state of
       Some (CacheExpire1 _) \<Rightarrow> auto_expire_step E r (ks_cache_expired1 E)
     | Some (CacheExpire2 _) \<Rightarrow> auto_expire_step E r (ks_cache_expired2 E)
     | _ \<Rightarrow> ret ())"

definition auto_done_roll :: "'ks ext \<Rightarrow> roll_type \<Rightarrow> ('ks ws, unit) prog" where
  "auto_done_roll E r =
     bindP (gets (roll_state_of E r)) (\<lambda>state. case state of
       Some Done \<Rightarrow>
         bindP (gets (\<lambda>s. (ws_state s, faketime_or_now s, nameservers (ws_config s), ws_tsig_store s)))
           (\<lambda>(k, now, servers, store).
         bindP (in_reports r rsr_done put_done
                  (auto_wait_actions E (ks_actions E (st_keyset k) r) k now servers store)) (\<lambda>res.
         case res of
           AutoOk \<Rightarrow> thenP (do_done E r) (modify set_state_changed)
         | AutoWait _ \<Rightarrow> ret ()))
     | _ \<Rightarrow> ret ())"

definition auto_report_expire_done :: "'ks ext \<Rightarrow> auto_config \<Rightarrow> roll_type list \<Rightarrow> ('ks ws, unit) prog" where
  "auto_report_expire_done E auto roll_list =
     thenP (whenP (auto_report_flag auto) (forP roll_list (auto_report_roll E)))
    (thenP (whenP (auto_expire_flag auto) (forP roll_list (auto_expire_roll E)))
           (whenP (auto_done_flag auto) (forP roll_list (auto_done_roll E))))"

section \<open>When to run again\<close>

text \<open>The loops push times on one list; each is given here by the times it pushes.\<close>

fun collect_res :: "'a list \<Rightarrow> ('a \<Rightarrow> 'b list res) \<Rightarrow> 'b list res" where
  "collect_res [] f = Ok []"
| "collect_res (x # xs) f = bind_res (f x) (\<lambda>ys. bind_res (collect_res xs f) (\<lambda>zs. Ok (ys @ zs)))"

definition cron_next_auto_start ::
  "'ks ext \<Rightarrow> duration option \<Rightarrow> auto_config \<Rightarrow> 'ks kss \<Rightarrow> (roll_type \<Rightarrow> bool) \<Rightarrow>
     (key_type \<Rightarrow> key_state option) \<Rightarrow> time option list" where
  "cron_next_auto_start E validity auto k conflicting match_keytype = (case validity of
      None \<Rightarrow> []
    | Some v \<Rightarrow>
        if auto_start_flag auto \<and> \<not> list_ex (\<lambda>(r, _). conflicting r) (ks_rollstates E (st_keyset k))
        then [min_opt (expiries match_keytype v (ks_keys E (st_keyset k)))]
        else [])"

definition pending_time :: "auto_actions_result \<Rightarrow> time \<Rightarrow> time" where
  "pending_time res now = (case res of AutoOk \<Rightarrow> now | AutoWait next \<Rightarrow> next)"

definition cron_report_roll :: "'ks ext \<Rightarrow> time \<Rightarrow> 'ks kss \<Rightarrow> roll_type \<Rightarrow> time option list res" where
  "cron_report_roll E now k r = (case map_of (ks_rollstates E (st_keyset k)) r of
      None \<Rightarrow> Ok []
    | Some state \<Rightarrow> (case st_internal k r of
        None \<Rightarrow> Panic ''should not fail (internal)''
      | Some reps \<Rightarrow>
          let at = (\<lambda>rep. Ok [Some (pending_time (check_auto_actions (ks_actions E (st_keyset k) r) rep now) now)])
          in (case state of
               Propagation1 \<Rightarrow> at (rsr_propagation1 reps)
             | Propagation2 \<Rightarrow> at (rsr_propagation2 reps)
             | _ \<Rightarrow> Ok [])))"

text \<open>The expiry is tried on a copy of the keyset, which the loop hands on.\<close>

fun cron_expire_rolls :: "'ks ext \<Rightarrow> time \<Rightarrow> roll_type list \<Rightarrow> 'ks \<Rightarrow> time option list res" where
  "cron_expire_rolls E now [] keyset = Ok []"
| "cron_expire_rolls E now (r # rs) keyset =
     (let try = (\<lambda>(res, keyset'). case res of
           Inl (KsWait remain) \<Rightarrow> bind_res (cron_expire_rolls E now rs keyset') (\<lambda>l. Ok (Some (now + remain) # l))
         | Inl e \<Rightarrow> Err (''cache_expired[12] failed for state '' @ roll_type_debug r @ '': '' @ ks_show_error E e)
         | Inr _ \<Rightarrow> bind_res (cron_expire_rolls E now rs keyset') (\<lambda>l. Ok (Some now # l)))
      in (case map_of (ks_rollstates E keyset) r of
           Some (CacheExpire1 _) \<Rightarrow> try (ks_cache_expired1 E r keyset)
         | Some (CacheExpire2 _) \<Rightarrow> try (ks_cache_expired2 E r keyset)
         | _ \<Rightarrow> cron_expire_rolls E now rs keyset))"

definition cron_done_roll :: "'ks ext \<Rightarrow> time \<Rightarrow> 'ks kss \<Rightarrow> roll_type \<Rightarrow> time option list res" where
  "cron_done_roll E now k r = (case map_of (ks_rollstates E (st_keyset k)) r of
      Some Done \<Rightarrow> (case st_internal k r of
        None \<Rightarrow> Panic ''should not fail (internal)''
      | Some reps \<Rightarrow> Ok [Some (pending_time (check_auto_actions (ks_actions E (st_keyset k) r) (rsr_done reps) now) now)])
    | _ \<Rightarrow> Ok [])"

definition cron_next_auto_report_expire_done ::
  "'ks ext \<Rightarrow> time \<Rightarrow> auto_config \<Rightarrow> roll_type list \<Rightarrow> 'ks kss \<Rightarrow> time option list res" where
  "cron_next_auto_report_expire_done E now auto roll_list k =
     bind_res (if auto_report_flag auto then collect_res roll_list (cron_report_roll E now k) else Ok []) (\<lambda>a.
     bind_res (if auto_expire_flag auto then cron_expire_rolls E now roll_list (st_keyset k) else Ok []) (\<lambda>b.
     bind_res (if auto_done_flag auto then collect_res roll_list (cron_done_roll E now k) else Ok []) (\<lambda>c.
     Ok (a @ b @ c))))"

section \<open>Signatures and keys that expire\<close>

definition rrset_text :: "string list \<Rightarrow> string" where
  "rrset_text rrset = concat (map (\<lambda>l. l @ [CHR 0x0A]) rrset)"

fun sig_renew_loop :: "nat \<Rightarrow> (string + entry) list \<Rightarrow> bool res" where
  "sig_renew_loop renew [] = Ok False"
| "sig_renew_loop renew (Inl e # es) = Panic ''should not fail (entry)''"
| "sig_renew_loop renew (Inr EntryInclude # es) = sig_renew_loop renew es"
| "sig_renew_loop renew (Inr (EntryRecord r) # es) = (case rr_data r of
      Rrsig s \<Rightarrow> if renew > unat (sig_expiration s) then Ok True else sig_renew_loop renew es
    | _ \<Rightarrow> sig_renew_loop renew es)"

definition sig_renew :: "'ks ext \<Rightarrow> string list \<Rightarrow> duration \<Rightarrow> time \<Rightarrow> bool res" where
  "sig_renew E rrset remain_time now =
     sig_renew_loop (as_secs now + as_secs remain_time) (zonefile_entries E (rrset_text rrset))"

fun expirations :: "(string + entry) list \<Rightarrow> u32 list res" where
  "expirations [] = Ok []"
| "expirations (Inl e # es) = Panic ''should not fail (entry)''"
| "expirations (Inr EntryInclude # es) = expirations es"
| "expirations (Inr (EntryRecord r) # es) = (case rr_data r of
      Rrsig s \<Rightarrow> bind_res (expirations es) (\<lambda>l. Ok (sig_expiration s # l))
    | _ \<Rightarrow> expirations es)"

text \<open>A time before the epoch becomes the epoch: subtraction on \<open>nat\<close> stops at 0.\<close>

definition compute_cron_next :: "'ks ext \<Rightarrow> string list \<Rightarrow> duration \<Rightarrow> time \<Rightarrow> time option res" where
  "compute_cron_next E rrset remain_time now =
     bind_res (expirations (zonefile_entries E (rrset_text rrset))) (\<lambda>es.
     Ok (map_option (\<lambda>t. t - remain_time) (min_opt (map (\<lambda>e. timestamp_to_system_time E e now) es))))"

text \<open>\<open>elapsed\<close> is the crate's \<open>UnixTime::elapsed\<close>.\<close>

definition key_expired :: "(time \<Rightarrow> duration) \<Rightarrow> key \<Rightarrow> keyset_config \<Rightarrow> bool \<times> string" where
  "key_expired elapsed k c = (case published (key_times k) of
      None \<Rightarrow> (False, '''')
    | Some timestamp \<Rightarrow>
        let expired = (\<lambda>st label validity. if stale st then (False, '''')
              else (case validity of None \<Rightarrow> (False, '''') | Some v \<Rightarrow> (elapsed timestamp > v, label)))
        in (case keytype k of
             Ksk st \<Rightarrow> expired st ''KSK'' (ksk_validity c)
           | Zsk st \<Rightarrow> expired st ''ZSK'' (zsk_validity c)
           | Csk st _ \<Rightarrow> expired st ''CSK'' (csk_validity c)
           | Include _ \<Rightarrow> (False, '''')))"

end
