(* ===== verification/Reporting.thy ===== *)
theory Reporting
  imports Settings Automation "HOL-Library.Product_Lexorder" "HOL-Library.Option_ord"
    "HOL-Library.List_Lexorder" "HOL-Library.Char_ord"
begin

text \<open>
  The commands that only report (src/commands/keyset/cmd.rs): \<open>status\<close> with
  \<open>show_automatic_roll_state\<close>, \<open>actions\<close>, \<open>keys\<close> and \<open>show\<close>. A text printed without a
  newline is part of the line that follows it.
\<close>

section \<open>Names for rolls and states\<close>

fun roll_subcommand :: "roll_type \<Rightarrow> string" where
  "roll_subcommand KskRoll = ''ksk''"
| "roll_subcommand KskDoubleDsRoll = ''ksk''"
| "roll_subcommand ZskRoll = ''zsk''"
| "roll_subcommand ZskDoubleSignatureRoll = ''zsk''"
| "roll_subcommand CskRoll = ''csk''"
| "roll_subcommand AlgorithmRoll = ''algorithm''"

fun roll_auto :: "keyset_config \<Rightarrow> roll_type \<Rightarrow> auto_config" where
  "roll_auto c KskRoll = auto_ksk c"
| "roll_auto c KskDoubleDsRoll = auto_ksk c"
| "roll_auto c ZskRoll = auto_zsk c"
| "roll_auto c ZskDoubleSignatureRoll = auto_zsk c"
| "roll_auto c CskRoll = auto_csk c"
| "roll_auto c AlgorithmRoll = auto_algorithm c"

fun state_subcommand :: "roll_state \<Rightarrow> string" where
  "state_subcommand Propagation1 = ''propagation1-complete <ttl>''"
| "state_subcommand (CacheExpire1 _) = ''cache-expired1''"
| "state_subcommand Propagation2 = ''propagation2-complete <ttl>''"
| "state_subcommand (CacheExpire2 _) = ''cache-expired2''"
| "state_subcommand Done = ''roll-done''"

fun state_auto :: "auto_config \<Rightarrow> roll_state \<Rightarrow> bool" where
  "state_auto a Propagation1 = auto_report_flag a"
| "state_auto a (CacheExpire1 _) = auto_expire_flag a"
| "state_auto a Propagation2 = auto_report_flag a"
| "state_auto a (CacheExpire2 _) = auto_expire_flag a"
| "state_auto a Done = auto_done_flag a"

fun roll_state_debug :: "'ks host \<Rightarrow> roll_state \<Rightarrow> string" where
  "roll_state_debug H Propagation1 = ''Propagation1''"
| "roll_state_debug H (CacheExpire1 t) = ''CacheExpire1('' @ show_debug_ttl H t @ '')''"
| "roll_state_debug H Propagation2 = ''Propagation2''"
| "roll_state_debug H (CacheExpire2 t) = ''CacheExpire2('' @ show_debug_ttl H t @ '')''"
| "roll_state_debug H Done = ''Done''"

definition actor :: "bool \<Rightarrow> string" where
  "actor cascade = (if cascade then ''The Cascade key manager'' else ''Dnst keyset'')"

definition print_lines :: "string list \<Rightarrow> ('ks ws, unit) prog" where
  "print_lines ls = forP ls print_line"

section \<open>The automatic state of one step\<close>

text \<open>The keys that sign the zone, one line each.\<close>

definition zone_signer :: "key \<Rightarrow> bool" where
  "zone_signer k = (case keytype k of
     Zsk st \<Rightarrow> signer st | Csk _ st \<Rightarrow> signer st | Ksk _ \<Rightarrow> False | Include _ \<Rightarrow> False)"

definition print_signers :: "'ks ext \<Rightarrow> 'ks host \<Rightarrow> string \<Rightarrow> ('ks ws, unit) prog" where
  "print_signers E H indent =
     bindP (gets (\<lambda>s. ks_keys E (ws_keyset s))) (\<lambda>keys.
     forP keys (\<lambda>(pubref, k). whenP (zone_signer k)
       (bindP (try_res (\<lambda>e. ''unable to parse '' @ pubref @ '' as URL: '' @ e) (url_parse E pubref)) (\<lambda>url.
        bindP (public_key_from_url E url) (\<lambda>public_key.
        print_line (indent @ show_dnskey_rr H public_key @ '' ; key tag ''
          @ show_nat (unat (dnskey_key_tag E (kr_data public_key)))))))))"

definition print_report :: "bool \<Rightarrow> ttl \<Rightarrow> ('ks ws, unit) prog" where
  "print_report report t =
     whenP report (print_line (tab @ ''Report (at least) TTL '' @ show_nat (unat t)))"

definition show_auto_dnskey :: "'ks host \<Rightarrow> bool \<Rightarrow> auto_report_result \<Rightarrow> ('ks ws, unit) prog" where
  "show_auto_dnskey H report status = (case status of
     AWait until notice \<Rightarrow>
       bindP (gets (\<lambda>s. (actor (ws_cascade s), st_dnskey_rrset (ws_state s)))) (\<lambda>(a, rrset).
       thenP (print_line (tab @ a @ '' will check that the following RRset has propagated to all name servers:''))
      (thenP (forP rrset (\<lambda>r. print_line (tab @ r)))
      (print_lines [[], tab @ ''Note: '' @ notice,
         tab @ ''Wait until the new DNSKEY RRset has propagated to all nameservers.'',
         tab @ ''The next check will be after '' @ show_time H until])))
   | AReport t \<Rightarrow>
       thenP (print_line (tab @ ''The new DNSKEY RRset has propagated to all nameservers.''))
             (print_report report t))"

definition show_auto_ds :: "'ks host \<Rightarrow> bool \<Rightarrow> auto_report_result \<Rightarrow> ('ks ws, unit) prog" where
  "show_auto_ds H report status = (case status of
     AWait until notice \<Rightarrow>
       bindP (gets (\<lambda>s. (actor (ws_cascade s), st_ds_rrset (ws_state s)))) (\<lambda>(a, rrset).
       thenP (print_line (tab @ a @ '' will check that all nameservers of the parent zone have the following RRset (or equivalent):''))
      (thenP (forP rrset (\<lambda>r. print_line (tab @ r)))
      (print_lines [[], tab @ ''Note: '' @ notice,
         tab @ ''Wait until the new DS RRset has propagated to all nameservers'',
         tab @ ''of the parent zone. The next check will be after '' @ show_time H until])))
   | AReport t \<Rightarrow>
       thenP (print_line (tab @ ''The new DS RRset has propagated to all nameservers.''))
             (print_report report t))"

definition show_auto_rrsig ::
  "'ks ext \<Rightarrow> 'ks host \<Rightarrow> bool \<Rightarrow> auto_rrsig_result \<Rightarrow> ('ks ws, unit) prog" where
  "show_auto_rrsig E H report status = (case status of
     RWait until notice \<Rightarrow>
       print_lines [tab @ ''Something went wrong transferring the zone to be verified:'',
         tab @ notice, tab @ ''The next check will be after '' @ show_time H until]
   | RWaitRecord until n rt t notice \<Rightarrow>
       bindP (gets (\<lambda>s. actor (ws_cascade s))) (\<lambda>a.
       thenP (print_line (tab @ a @ '' will check that all authoritative records in the zone have been signed with the following key(s) and that all nameservers of the zone serve that version or later:''))
      (thenP (print_signers E H tab)
      (print_lines [[], tab @ ''Notice: '' @ notice,
         tab @ ''Wait until '' @ n @ ''/'' @ show_rtype E rt @ '' is signed with the right keys.'',
         tab @ ''The next check will be after '' @ show_time H until])))
   | RWaitNextSerial until serial t notice \<Rightarrow>
       print_lines [tab @ ''Notice: '' @ notice,
         tab @ ''Wait for a zone with serial higher than '' @ show_serial E serial,
         tab @ ''The next check will be after '' @ show_time H until]
   | RWaitSoa until serial t1 t2 notice \<Rightarrow>
       print_lines [tab @ ''Notice: '' @ notice,
         tab @ ''Wait until the zone with at least serial '' @ show_serial E serial @ '' has propagated'',
         tab @ ''to all nameservers. The next check will be after '' @ show_time H until]
   | RReport t \<Rightarrow>
       thenP (print_line (tab @ ''The new RRSIG records have propagated to all nameservers.''))
             (print_report report t))"

definition show_automatic_roll_state ::
  "'ks ext \<Rightarrow> 'ks host \<Rightarrow> report_state \<Rightarrow> bool \<Rightarrow> ('ks ws, unit) prog" where
  "show_automatic_roll_state E H auto_state report =
     thenP (case rep_dnskey auto_state of None \<Rightarrow> ret ()
       | Some status \<Rightarrow> show_auto_dnskey H report status)
    (thenP (case rep_ds auto_state of None \<Rightarrow> ret ()
       | Some status \<Rightarrow> thenP (whenP (rep_dnskey auto_state \<noteq> None) (print_line []))
           (show_auto_ds H report status))
     (case rep_rrsig auto_state of None \<Rightarrow> ret ()
       | Some status \<Rightarrow>
           thenP (whenP (rep_dnskey auto_state \<noteq> None \<or> rep_ds auto_state \<noteq> None) (print_line []))
             (show_auto_rrsig E H report status)))"

section \<open>Status of one roll\<close>

definition print_rrset_block :: "string \<Rightarrow> string list \<Rightarrow> ('ks ws, unit) prog" where
  "print_rrset_block heading rrset =
     thenP (print_line heading) (thenP (print_lines rrset) (print_line []))"

definition status_action :: "'ks ext \<Rightarrow> 'ks host \<Rightarrow> bool \<Rightarrow> action \<Rightarrow> ('ks ws, unit) prog" where
  "status_action E H auto a =
     (if a \<in> {ReportDnskeyPropagated, WaitDnskeyPropagated} then
        whenP (\<not> auto) (bindP (gets (\<lambda>s. st_dnskey_rrset (ws_state s)))
          (print_rrset_block ''Check that the following RRset has propagated to all name servers:''))
      else if a \<in> {ReportDsPropagated, WaitDsPropagated} then
        whenP (\<not> auto) (bindP (gets (\<lambda>s. st_ds_rrset (ws_state s)))
          (print_rrset_block ''Check that all nameservers of the parent zone have the following RRset (or equivalent):''))
      else if a \<in> {ReportRrsigPropagated, WaitRrsigPropagated} then
        whenP (\<not> auto)
          (thenP (print_line ''Check that all authoritative records in the zone have been signed with the following key(s) and that all nameservers of the zone serve that version or later:'')
          (thenP (print_signers E H []) (print_line [])))
      else ret ())"

text \<open>The expiry of caches is tried on a copy of the keyset.\<close>

definition status_expiry ::
  "'ks ext \<Rightarrow> 'ks host \<Rightarrow> time \<Rightarrow> bool \<Rightarrow> roll_type \<Rightarrow> roll_state \<Rightarrow> ('ks ws, unit) prog" where
  "status_expiry E H now auto r state =
     bindP (gets (\<lambda>s. case state of
        CacheExpire1 _ \<Rightarrow> Some (fst (ks_cache_expired1 E r (ws_keyset s)))
      | CacheExpire2 _ \<Rightarrow> Some (fst (ks_cache_expired2 E r (ws_keyset s)))
      | _ \<Rightarrow> None)) (\<lambda>res.
     case res of
       None \<Rightarrow> ret ()
     | Some res \<Rightarrow>
        thenP (whenP auto (print_line ''Automatic key roll state:''))
         (case res of
            Inl (KsWait remain) \<Rightarrow>
              print_line (''Wait until '' @ show_time H (now + remain) @ '' to let caches expire'')
          | Inl e \<Rightarrow> fail (''cache_expired[12] failed for state '' @ roll_type_debug r @ '': '' @ ks_show_error E e)
          | Inr _ \<Rightarrow> print_line ''Caches have expired, continue with the next step''))"

definition status_auto_state ::
  "'ks ext \<Rightarrow> 'ks host \<Rightarrow> roll_state_reports \<Rightarrow> roll_state \<Rightarrow> ('ks ws, unit) prog" where
  "status_auto_state E H reps state =
     (let show = (\<lambda>rep report.
        if rep_dnskey rep = None \<and> rep_ds rep = None \<and> rep_rrsig rep = None then ret ()
        else thenP (print_line ''Automatic key roll state:'')
            (thenP (show_automatic_roll_state E H rep report) (print_line [])))
      in (case state of
           CacheExpire1 _ \<Rightarrow> print_line []
         | CacheExpire2 _ \<Rightarrow> print_line []
         | Propagation1 \<Rightarrow> show (rsr_propagation1 reps) True
         | Propagation2 \<Rightarrow> show (rsr_propagation2 reps) True
         | Done \<Rightarrow> show (rsr_done reps) False))"

definition status_roll ::
  "'ks ext \<Rightarrow> 'ks host \<Rightarrow> string \<Rightarrow> bool \<Rightarrow> time \<Rightarrow> roll_type \<times> roll_state \<Rightarrow> ('ks ws, unit) prog" where
  "status_roll E H keyset_conf verbose now = (\<lambda>(r, state).
     let heading = roll_type_debug r @ '': '' @ roll_state_debug H state in
     if \<not> verbose then print_line heading
     else
       bindP (gets (\<lambda>s. state_auto (roll_auto (ws_config s) r) state)) (\<lambda>auto.
       thenP (print_line (heading @ (if auto then '' (automation is enabled for this step.)''
                else '' (automation is disabled for this step.)'')))
      (thenP (print_line [])
      (thenP (status_expiry E H now auto r state)
      (bindP (gets (\<lambda>s. ks_actions E (ws_keyset s) r)) (\<lambda>actions.
       thenP (forP actions (status_action E H auto))
      (thenP (whenP (\<not> auto)
         (print_lines [''For the next step run:'',
            tab @ ''dnst keyset -c '' @ keyset_conf @ '' '' @ roll_subcommand r @ '' '' @ state_subcommand state, []]))
      (bindP (gets (\<lambda>s. st_internal (ws_state s) r)) (\<lambda>i.
       bindP (expect ''should exist (internal)'' i) (\<lambda>reps.
       status_auto_state E H reps state))))))))))"

section \<open>Status\<close>

definition automatic_steps :: "keyset_config \<Rightarrow> (roll_type \<times> roll_state) list \<Rightarrow> (string \<times> string) list" where
  "automatic_steps c rollstates = List.map_filter (\<lambda>(r, state).
     if state_auto (roll_auto c r) state then Some (roll_subcommand r, state_subcommand state) else None) rollstates"

definition status_steps :: "string \<Rightarrow> bool \<Rightarrow> bool \<Rightarrow> (string \<times> string) list \<Rightarrow> ('ks ws, unit) prog" where
  "status_steps keyset_conf verbose cascade commands =
     whenP verbose
      (thenP (if length commands \<ge> 2 then
          print_lines [actor cascade @ '' will execute the following steps by itself.'',
            ''They are listed here in case there is a need to execute the step manually'']
        else if commands \<noteq> [] then
          print_lines [actor cascade @ '' will execute the following step by itself.'',
            ''It is listed here in case there is a need to execute the steps manually'']
        else ret ())
      (thenP (forP commands (\<lambda>(r, st). print_line (tab @ ''dnst keyset -c '' @ keyset_conf @ '' '' @ r @ '' '' @ st)))
             (whenP (commands \<noteq> []) (print_line []))))"

definition status_key :: "'ks host \<Rightarrow> keyset_config \<Rightarrow> string \<times> key \<Rightarrow> ('ks ws, unit) prog" where
  "status_key H c = (\<lambda>(pubref, k).
     let (keystate, validity) = (case keytype k of
           Ksk st \<Rightarrow> (st, Some (ksk_validity c))
         | Zsk st \<Rightarrow> (st, Some (zsk_validity c))
         | Csk st _ \<Rightarrow> (st, Some (csk_validity c))
         | Include st \<Rightarrow> (st, None))
     in if stale keystate then
          thenP (print_line (''key '' @ pubref @ '' is stale''))
           (if autoremove c then
              bindP (expect ''should be set when stale (withdrawn)'' (withdrawn (key_times k))) (\<lambda>t.
              print_line (''this key will be removed automatically after '' @ show_time H (t + autoremove_delay c)))
            else print_line ''remove manually (autoremove is false)'')
        else (case validity of
            Some (Some v) \<Rightarrow> (case published (key_times k) of
                None \<Rightarrow> print_line (''key '' @ pubref @ '' is not yet published.'')
              | Some timestamp \<Rightarrow>
                  if time_elapsed H timestamp > v then print_line (''key '' @ pubref @ '' has expired.'')
                  else print_line (''key '' @ pubref @ '' expires at '' @ show_time H (timestamp + v)))
          | Some None \<Rightarrow> print_line (''key '' @ pubref @ '' does not expire. No validity period is configured for the key type'')
          | None \<Rightarrow> print_line (''key '' @ pubref @ '' does not expire. No validity is defined for this key type.'')))"

definition status_body ::
  "'ks ext \<Rightarrow> 'ks host \<Rightarrow> string \<Rightarrow> time \<Rightarrow> bool \<Rightarrow> (roll_type \<times> roll_state) list \<Rightarrow> ('ks ws, unit) prog" where
  "status_body E H keyset_conf now verbose rollstates =
     thenP (forP rollstates (status_roll E H keyset_conf verbose now))
    (bindP (gets (\<lambda>s. (ws_cascade s, automatic_steps (ws_config s) rollstates))) (\<lambda>(cascade, commands).
     thenP (status_steps keyset_conf verbose cascade commands)
    (bindP (gets (\<lambda>s. sig_renew E (st_dnskey_rrset (ws_state s)) (dnskey_remain_time (ws_config s)) now)) (\<lambda>d.
     bindP (lift_res d) (\<lambda>renew_dnskey.
     thenP (whenP renew_dnskey (print_line ''DNSKEY RRSIG(s) need to be renewed''))
    (bindP (gets (\<lambda>s. sig_renew E (st_cds_rrset (ws_state s)) (cds_remain_time (ws_config s)) now)) (\<lambda>d.
     bindP (lift_res d) (\<lambda>renew_cds.
     thenP (whenP renew_cds (print_line ''CDS/CDNSKEY RRSIG(s) need to be renewed''))
    (bindP (gets (\<lambda>s. (ws_config s, ks_keys E (ws_keyset s)))) (\<lambda>(c, keys).
     thenP (if verbose then thenP (forP keys (status_key H c)) (print_line [])
       else forP keys (\<lambda>(pubref, k).
         let (expired, label) = key_expired (time_elapsed H) k c in
         whenP expired (print_line (label @ '' '' @ pubref @ '' has expired''))))
    (bindP (gets (\<lambda>s. st_cron_next (ws_state s))) (\<lambda>cron_next. case cron_next of
       Some t \<Rightarrow> print_line (''Next time to run the 'cron' subcommand '' @ show_time H t)
     | None \<Rightarrow> ret ()))))))))))))"

definition status_command :: "'ks ext \<Rightarrow> 'ks host \<Rightarrow> string \<Rightarrow> bool \<Rightarrow> time \<Rightarrow> ('ks ws, unit) prog" where
  "status_command E H keyset_conf status_verbose now =
     bindP (gets (\<lambda>s. (ws_verbose s \<or> status_verbose, ks_rollstates E (ws_keyset s)))) (\<lambda>(verbose, rollstates).
     status_body E H keyset_conf now verbose rollstates)"

section \<open>Actions, keys and settings\<close>

definition actions_command :: "'ks ext \<Rightarrow> ('ks ws, unit) prog" where
  "actions_command E =
     bindP (gets (\<lambda>s. map fst (ks_rollstates E (ws_keyset s)))) (\<lambda>rs.
     forP rs (\<lambda>r. bindP (gets (\<lambda>s. ks_actions E (ws_keyset s) r)) (\<lambda>actions.
       thenP (print_line (roll_type_debug r @ '' actions:'')) (print_actions actions))))"

definition show_timestamp :: "'ks host \<Rightarrow> time option \<Rightarrow> string" where
  "show_timestamp H t = (case t of None \<Rightarrow> ''<empty>'' | Some x \<Rightarrow> show_time H x)"

definition key_lines :: "'ks host \<Rightarrow> string \<times> key \<Rightarrow> string list" where
  "key_lines H = (\<lambda>(pubref, k).
     let ts = key_times k;
         (typ, state, opt_state) = (case keytype k of
           Ksk st \<Rightarrow> (''KSK'', st, None)
         | Zsk st \<Rightarrow> (''ZSK'', st, None)
         | Include st \<Rightarrow> (''Include'', st, None)
         | Csk st zst \<Rightarrow> (''CSK'', st, Some zst))
     in [tab @ pubref @ '' '' @ (case privref k of Some p \<Rightarrow> p | None \<Rightarrow> []),
         tab @ tab @ ''Decoupled: '' @ show_bool (decoupled k),
         tab @ tab @ ''Type: '' @ typ @ '', algorithm: '' @ show_nat (algorithm k) @ '', key tag: ''
           @ show_nat (unat (key_tag k))]
        @ (case opt_state of
             Some zst \<Rightarrow> [tab @ tab @ ''KSK role state: '' @ show_key_state H state,
                           tab @ tab @ ''ZSK role state: '' @ show_key_state H zst]
           | None \<Rightarrow> [tab @ tab @ ''State: '' @ show_key_state H state])
        @ map (\<lambda>(label, t). tab @ tab @ label @ '': '' @ show_timestamp H t)
            [(''Created'', creation ts), (''Published'', published ts), (''Visible'', visible ts),
             (''DS visible'', ds_visible ts), (''RRSIG visible'', rrsig_visible ts),
             (''Withdrawn'', withdrawn ts)])"

definition keys_command :: "'ks ext \<Rightarrow> 'ks host \<Rightarrow> ('ks ws, unit) prog" where
  "keys_command E H =
     thenP (print_line ''Keys:'')
    (bindP (gets (\<lambda>s. sort_key (\<lambda>(pubref, k). (creation (key_times k), pubref)) (ks_keys E (ws_keyset s)))) (\<lambda>keys.
     forP keys (\<lambda>k. print_lines (key_lines H k))))"

definition show_auto :: "string \<Rightarrow> auto_config \<Rightarrow> string" where
  "show_auto label a = label @ '': start '' @ show_bool (auto_start_flag a)
     @ '', report '' @ show_bool (auto_report_flag a)
     @ '', expire '' @ show_bool (auto_expire_flag a)
     @ '', done '' @ show_bool (auto_done_flag a)"

definition show_debug_option :: "('a \<Rightarrow> string) \<Rightarrow> 'a option \<Rightarrow> string" where
  "show_debug_option f v = (case v of None \<Rightarrow> ''None'' | Some x \<Rightarrow> ''Some('' @ f x @ '')'')"

fun comma_separated :: "string list \<Rightarrow> string" where
  "comma_separated [] = []"
| "comma_separated [x] = x"
| "comma_separated (x # xs) = x @ '', '' @ comma_separated xs"

fun ds_algorithm_debug :: "ds_algorithm \<Rightarrow> string" where
  "ds_algorithm_debug DsSha256 = ''Sha256''"
| "ds_algorithm_debug DsSha384 = ''Sha384''"

definition settings_lines :: "'ks host \<Rightarrow> keyset_config \<Rightarrow> string list" where
  "settings_lines H c =
     (let dur = show_debug_duration H; opt = show_debug_option dur in
      [''state-file: '' @ show_debug_string H (state_file c),
       ''use-csk: '' @ show_bool (use_csk c),
       ''algorithm: '' @ key_parameters_display (config_algorithm c),
       ''ksk-roll-type: '' @ ksk_roll_type_display (ksk_roll_type c),
       ''zsk-roll-type: '' @ zsk_roll_type_display (zsk_roll_type c),
       ''ksk-validity: '' @ opt (ksk_validity c),
       ''zsk-validity: '' @ opt (zsk_validity c),
       ''csk-validity: '' @ opt (csk_validity c),
       show_auto ''auto-ksk'' (auto_ksk c),
       show_auto ''auto-zsk'' (auto_zsk c),
       show_auto ''auto-csk'' (auto_csk c),
       show_auto ''auto-algorithm'' (auto_algorithm c),
       ''dnskey-inception-offset: '' @ dur (dnskey_inception_offset c),
       ''dnskey-signature-lifetime: '' @ dur (dnskey_signature_lifetime c),
       ''dnskey-remain-time: '' @ dur (dnskey_remain_time c),
       ''cds-inception-offset: '' @ dur (cds_inception_offset c),
       ''cds-signature-lifetime: '' @ dur (cds_signature_lifetime c),
       ''cds-remain-time: '' @ dur (cds_remain_time c),
       ''ds-algorithm: '' @ ds_algorithm_debug (ds_algorithm c),
       ''default-ttl: '' @ show_debug_ttl H (default_ttl c),
       ''autoremove: '' @ show_bool (autoremove c),
       ''autoremove-delay: '' @ dur (autoremove_delay c),
       ''update_ds_command: ['' @ comma_separated (map (show_debug_string H) (update_ds_command c)) @ '']'']
      @ (case faketime c of
           Some t \<Rightarrow> [''fake-time: '' @ show_nat (as_secs t)]
         | None \<Rightarrow> []))"

definition show_command :: "'ks host \<Rightarrow> ('ks ws, unit) prog" where
  "show_command H = bindP (gets (\<lambda>s. settings_lines H (ws_config s))) print_lines"

section \<open>Reporting changes nothing\<close>

text \<open>
  Everything of a workspace that lasts beyond a command, and the programs started. Printing adds to the standard
  output and asking an HSM for a public key opens a pool; neither is part of it.
\<close>

definition lasting ::
  "'ks ws \<Rightarrow> keyset_config \<times> 'ks kss \<times> (string \<rightharpoonup> string) \<times> string list list \<times> bool \<times> bool \<times> bool" where
  "lasting s = (ws_config s, ws_state s, ws_files s, w_commands (ws_world s),
     ws_config_changed s, ws_state_changed s, ws_run_update_ds_command s)"

lemma lasting_print_line [unch]: "unchanged lasting (print_line l)"
  by (simp add: unchanged_def print_line_def in_world_def modify_def lasting_def println_def)

lemma lasting_public_key [unch]: "unchanged lasting (public_key_from_url E u)"
  by (rule public_key_from_url_frame) (simp add: lasting_def)

lemma lasting_print_lines [unch]: "unchanged lasting (print_lines ls)"
  unfolding print_lines_def by (intro unch)

lemma lasting_print_actions [unch]: "unchanged lasting (print_actions acts)"
  unfolding print_actions_def by (intro unch)

lemma lasting_print_signers [unch]: "unchanged lasting (print_signers E H indent)"
  unfolding print_signers_def by (intro unch)

lemma lasting_print_report [unch]: "unchanged lasting (print_report b t)"
  unfolding print_report_def by (intro unch)

lemma lasting_show_auto_dnskey [unch]: "unchanged lasting (show_auto_dnskey H b st)"
  unfolding show_auto_dnskey_def by (cases st; simp only: auto_report_result.case; intro unch)

lemma lasting_show_auto_ds [unch]: "unchanged lasting (show_auto_ds H b st)"
  unfolding show_auto_ds_def by (cases st; simp only: auto_report_result.case; intro unch)

lemma lasting_show_auto_rrsig [unch]: "unchanged lasting (show_auto_rrsig E H b st)"
  unfolding show_auto_rrsig_def by (cases st; simp only: auto_rrsig_result.case; intro unch)

lemma lasting_show_automatic_roll_state [unch]:
  "unchanged lasting (show_automatic_roll_state E H st b)"
  unfolding show_automatic_roll_state_def by (intro unch)

lemma lasting_status_action [unch]: "unchanged lasting (status_action E H auto a)"
  unfolding status_action_def print_rrset_block_def by (intro unch)

lemma lasting_status_expiry [unch]: "unchanged lasting (status_expiry E H now auto r st)"
  unfolding status_expiry_def by (intro unch) (auto intro: unch split: ks_error.splits)

lemma lasting_status_auto_state [unch]: "unchanged lasting (status_auto_state E H reps st)"
  unfolding status_auto_state_def Let_def by (cases st; simp only: roll_state.case; intro unch)

lemma lasting_status_roll [unch]: "unchanged lasting (status_roll E H conf verbose now r)"
  unfolding status_roll_def Let_def by (intro unch)

lemma lasting_status_steps [unch]: "unchanged lasting (status_steps conf verbose cascade commands)"
  unfolding status_steps_def by (intro unch)

lemma lasting_println [simp]: "lasting (s\<lparr>ws_world := println l (ws_world s)\<rparr>) = lasting s"
  by (simp add: lasting_def println_def)

lemma lasting_status_key [unch]: "unchanged lasting (status_key H c kv)"
proof -
  obtain pubref k where kv: "kv = (pubref, k)" by (cases kv)
  show ?thesis
    unfolding status_key_def Let_def kv prod.case
    by (cases "keytype k"; simp only: prod.case key_type.case; intro unch) simp_all
qed

lemma lasting_status_command [unch]: "unchanged lasting (status_command E H conf v now)"
  unfolding status_command_def status_body_def Let_def by (intro unch) simp_all

lemma lasting_actions_command [unch]: "unchanged lasting (actions_command E)"
  unfolding actions_command_def by (intro unch)

lemma lasting_keys_command [unch]: "unchanged lasting (keys_command E H)"
  unfolding keys_command_def by (intro unch)

lemma lasting_show_command [unch]: "unchanged lasting (show_command H)"
  unfolding show_command_def by (intro unch)

lemma lasting_get_command [unch]: "unchanged lasting (get_command H cmd)"
  by (cases cmd) (simp_all add: print_span_def unch)

end
