(* ===== verification/Kmip_Commands.thy ===== *)
theory Kmip_Commands
  imports Demo
begin

text \<open>
  The subcommands of \<open>dnst keyset kmip\<close> (\<open>kmip_command\<close> and \<open>modify_kmip_server\<close> of
  src/commands/keyset/kmip.rs). The lemmas show that the default server is always a
  configured one, that the branches of \<open>modify_kmip_server\<close> marked \<open>unreachable!\<close> are
  not reached from the command line, that stored credentials are the ones the
  connection settings load, and when credentials are lost.
\<close>

section \<open>Changing one server\<close>

datatype 'a change = Change 'a | Remove | Leave

text \<open>The value of an optional setting after a change.\<close>

fun change_option :: "'a change \<Rightarrow> 'a option \<Rightarrow> 'a option" where
  "change_option (Change v) old = Some v"
| "change_option Remove old = None"
| "change_option Leave old = old"

text \<open>Adjusting credentials taken from a file.\<close>

definition adjust_credentials ::
  "string change \<Rightarrow> string change \<Rightarrow> string \<times> string option \<Rightarrow> (world, string \<times> string option) prog" where
  "adjust_credentials username password creds =
     (case username of
        Change v \<Rightarrow> ret (v, change_option password (snd creds))
      | Remove \<Rightarrow> panic ''internal error: entered unreachable code''
      | Leave \<Rightarrow> ret (fst creds, change_option password (snd creds)))"

text \<open>Moving the credentials to another file.\<close>

definition move_credentials ::
  "'ks ext \<Rightarrow> string \<Rightarrow> string option \<Rightarrow> string \<Rightarrow> string change \<Rightarrow> string change \<Rightarrow>
     (world, string option) prog" where
  "move_credentials E server_id old_path new_path username password =
     bindP (case old_path of
        Some p \<Rightarrow>
          bindP (remove_kmip_client_credentials E server_id p) (adjust_credentials username password)
      | None \<Rightarrow>
          (case username of
             Change v \<Rightarrow> ret (v, change_option password None)
           | Remove \<Rightarrow> panic ''internal error: entered unreachable code''
           | Leave \<Rightarrow> fail ''cannot use existing username as none was found'')) (\<lambda>creds.
     bindP (cred_file_new E new_path CreateReadWrite) (\<lambda>new_creds_file.
     thenP (cred_file_save E (snd (cred_file_insert server_id creds new_creds_file)))
       (ret (Some new_path))))"

text \<open>Changing the credentials in the file they are in.\<close>

definition change_credentials ::
  "'ks ext \<Rightarrow> string \<Rightarrow> string \<Rightarrow> string change \<Rightarrow> string change \<Rightarrow> (world, string option) prog" where
  "change_credentials E server_id path username password =
     bindP (cred_file_new E path ReadWrite) (\<lambda>creds_file.
     bindP (case cred_file_remove server_id creds_file of
        (Some creds, f) \<Rightarrow> bindP (adjust_credentials username password creds) (\<lambda>c. ret (c, f))
      | (None, f) \<Rightarrow>
          (case username of
             Change v \<Rightarrow> ret ((v, change_option password None), f)
           | _ \<Rightarrow> fail ''cannot change credentials that do not exist if no username is supplied'')) (\<lambda>(creds, f).
     thenP (cred_file_save E (snd (cred_file_insert server_id creds f)))
       (ret (Some path))))"

definition modify_credentials ::
  "'ks ext \<Rightarrow> string \<Rightarrow> string option \<Rightarrow> string change \<Rightarrow> string change \<Rightarrow> string change \<Rightarrow>
     (world, string option) prog" where
  "modify_credentials E server_id old_path credentials_store_path username password =
     (case credentials_store_path of
        Remove \<Rightarrow>
          (case (username, password) of
             (Change _, _) \<Rightarrow> fail ''cannot remove credentials and change credentials at the same time''
           | (_, Change _) \<Rightarrow> fail ''cannot remove credentials and change credentials at the same time''
           | _ \<Rightarrow> thenP (case old_path of
                     Some path \<Rightarrow> thenP (remove_kmip_client_credentials E server_id path) (ret ())
                   | None \<Rightarrow> ret ())
                  (ret None))
      | Change new_path \<Rightarrow>
          (case username of
             Remove \<Rightarrow> fail ''cannot move credentials and remove credentials at the same time''
           | _ \<Rightarrow> move_credentials E server_id old_path new_path username password)
      | Leave \<Rightarrow>
          (case (username, password) of
             (Leave, Leave) \<Rightarrow> ret old_path
           | (Remove, Change _) \<Rightarrow> fail ''cannot remove credentials and change credentials at the same time''
           | _ \<Rightarrow> (case old_path of
                None \<Rightarrow> fail ''cannot change client credentials that don't exist''
              | Some path \<Rightarrow> change_credentials E server_id path username password)))"

text \<open>The certificate and the private key, in this order.\<close>

definition modify_client_auth ::
  "(string \<times> string) option \<Rightarrow> string change \<Rightarrow> string change \<Rightarrow> (string \<times> string) option res" where
  "modify_client_auth old client_cert_path client_key_path =
     (case (client_cert_path, client_key_path) of
        (Leave, Leave) \<Rightarrow> Ok old
      | (Remove, Remove) \<Rightarrow> Ok None
      | (Remove, _) \<Rightarrow> Err ''cannot remove only one of the client certificate or client key.''
      | (_, Remove) \<Rightarrow> Err ''cannot remove only one of the client certificate or client key.''
      | (cert_path, key_path) \<Rightarrow>
          bind_res (case cert_path of
             Change v \<Rightarrow> Ok v
           | Remove \<Rightarrow> Panic ''internal error: entered unreachable code''
           | Leave \<Rightarrow> (case old of Some (c, k) \<Rightarrow> Ok c
               | None \<Rightarrow> Err ''cannot configure client certicate authentication without a client certificate path'')) (\<lambda>c.
          bind_res (case key_path of
             Change v \<Rightarrow> Ok v
           | Remove \<Rightarrow> Panic ''internal error: entered unreachable code''
           | Leave \<Rightarrow> (case old of Some (c, k) \<Rightarrow> Ok k
               | None \<Rightarrow> Err ''cannot configure client certificate authentication with a private key path'')) (\<lambda>k.
          Ok (Some (c, k)))))"

definition modify_verification ::
  "bool option \<Rightarrow> string change \<Rightarrow> string change \<Rightarrow> kmip_cert_verification \<Rightarrow> kmip_cert_verification" where
  "modify_verification server_insecure server_cert ca_cert v =
     v\<lparr>verify_certificate := (case server_insecure of Some i \<Rightarrow> \<not> i | None \<Rightarrow> verify_certificate v),
       server_cert_path := change_option server_cert (server_cert_path v),
       ca_cert_path := change_option ca_cert (ca_cert_path v)\<rparr>"

definition unwrap_or :: "'a option \<Rightarrow> 'a \<Rightarrow> 'a" where
  "unwrap_or v d = (case v of Some x \<Rightarrow> x | None \<Rightarrow> d)"

definition modify_limits ::
  "duration option \<Rightarrow> duration option \<Rightarrow> duration option \<Rightarrow> u32 option \<Rightarrow>
     kmip_client_limits \<Rightarrow> kmip_client_limits" where
  "modify_limits connect read write max_bytes l =
     l\<lparr>connect_timeout := unwrap_or connect (connect_timeout l),
       read_timeout := unwrap_or read (read_timeout l),
       write_timeout := unwrap_or write (write_timeout l),
       max_response_bytes := unwrap_or max_bytes (max_response_bytes l)\<rparr>"

record modify_args =
  ma_address :: "string option"
  ma_port :: "u16 option"
  ma_credentials_store_path :: "string change"
  ma_username :: "string change"
  ma_password :: "string change"
  ma_client_cert_path :: "string change"
  ma_client_key_path :: "string change"
  ma_insecure :: "bool option"
  ma_server_cert_path :: "string change"
  ma_ca_cert_path :: "string change"
  ma_connect_timeout :: "duration option"
  ma_read_timeout :: "duration option"
  ma_write_timeout :: "duration option"
  ma_max_response_bytes :: "u32 option"
  ma_key_label_prefix :: "string option"
  ma_key_label_max_bytes :: "8 word option"

definition modify_kmip_server ::
  "'ks ext \<Rightarrow> string \<Rightarrow> modify_args \<Rightarrow> kmip_state \<Rightarrow> (world, kmip_state) prog" where
  "modify_kmip_server E server_id a k =
     (case map_of (kmip_servers k) server_id of
        None \<Rightarrow> fail ''server does not exist!''
      | Some cfg \<Rightarrow>
         bindP (modify_credentials E server_id (client_credentials_path cfg)
                  (ma_credentials_store_path a) (ma_username a) (ma_password a)) (\<lambda>path.
         bindP (lift_res (modify_client_auth (client_cert_auth cfg)
                  (ma_client_cert_path a) (ma_client_key_path a))) (\<lambda>auth.
         let cfg' = cfg\<lparr>server_addr := unwrap_or (ma_address a) (server_addr cfg),
               server_port := unwrap_or (ma_port a) (server_port cfg),
               server_cert_verification := modify_verification (ma_insecure a)
                 (ma_server_cert_path a) (ma_ca_cert_path a) (server_cert_verification cfg),
               client_credentials_path := path,
               client_cert_auth := auth,
               client_limits := modify_limits (ma_connect_timeout a) (ma_read_timeout a)
                 (ma_write_timeout a) (ma_max_response_bytes a) (client_limits cfg),
               key_label_config := (key_label_config cfg)\<lparr>
                 max_label_bytes := unwrap_or (ma_key_label_max_bytes a) (max_label_bytes (key_label_config cfg)),
                 label_prefix := unwrap_or (ma_key_label_prefix a) (label_prefix (key_label_config cfg))\<rparr>\<rparr>;
             servers = hm_insert server_id cfg' (hm_remove server_id (kmip_servers k))
         in ret (k\<lparr>kmip_servers := servers,
               default_server_id := (if length servers = 1 then Some server_id
                                     else default_server_id k)\<rparr>))))"

section \<open>Printing\<close>

text \<open>
  The output as lines. \<open>ind\<close> is the \<open>indented\<close> writer of the indenter crate.
\<close>

definition kmip_limits_display :: "kmip_client_limits \<Rightarrow> string list" where
  "kmip_limits_display l =
     [''Connect Timeout:               '' @ show_nat (as_secs (connect_timeout l)) @ '' seconds'',
      ''Read Timeout:                  '' @ show_nat (as_secs (read_timeout l)) @ '' seconds'',
      ''Write Timeout:                 '' @ show_nat (as_secs (write_timeout l)) @ '' seconds'',
      ''Max Response Size:             '' @ show_nat (unat (max_response_bytes l)) @ '' bytes'']"

definition key_label_config_display :: "key_label_config \<Rightarrow> string list" where
  "key_label_config_display c =
     [''Prefix:                        '' @ label_prefix c,
      ''Max Bytes:                     '' @ show_nat (unat (max_label_bytes c)),
      ''Supports Re-Labeling:          '' @ show_bool (supports_relabeling c)]"

definition opt_path_to_string :: "string option \<Rightarrow> string" where
  "opt_path_to_string p = unwrap_or p ''None''"

definition kmip_server_display :: "(string list \<Rightarrow> string list) \<Rightarrow> kmip_server_config \<Rightarrow> string list" where
  "kmip_server_display ind c =
     [''Address:                           '' @ server_addr c @ '':'' @ show_nat (unat (server_port c)),
      ''Server Certificate Verification:   '' @
        (if verify_certificate (server_cert_verification c) then ''Enabled'' else ''Disabled''),
      ''Server Certificate:                '' @ opt_path_to_string (server_cert_path (server_cert_verification c)),
      ''Certificate Authority Certificate: '' @ opt_path_to_string (ca_cert_path (server_cert_verification c)),
      ''Client Credentials:                '' @ opt_path_to_string (client_credentials_path c)]
     @ (case client_cert_auth c of
          Some (cert_path, private_key_path) \<Rightarrow>
            [''Client Certificate Authentication: Enabled'',
             ''    Client Certificate:            '' @ cert_path,
             ''    Private Key:                   '' @ private_key_path]
        | None \<Rightarrow> [''Client Certificate Authentication: Disabled''])
     @ ''Client Limits:'' # ind (kmip_limits_display (client_limits c))
     @ ''Key Label Config:'' # ind (key_label_config_display (key_label_config c))"

definition kmip_state_display :: "(string list \<Rightarrow> string list) \<Rightarrow> kmip_state \<Rightarrow> string list" where
  "kmip_state_display ind k = ''Servers:'' # concat (map (\<lambda>(server_id, cfg).
     ind [''ID: '' @ server_id @ (if Some server_id = default_server_id k then '' [DEFAULT]'' else [])]
     @ ind (ind (kmip_server_display ind cfg))) (kmip_servers k))"

section \<open>The subcommands\<close>

record add_server_args =
  aa_server_id :: string
  aa_ip_host_or_fqdn :: string
  aa_port :: u16
  aa_pending :: bool
  aa_credentials_store_path :: "string option"
  aa_username :: "string option"
  aa_password :: "string option"
  aa_client_cert_path :: "string option"
  aa_client_key_path :: "string option"
  aa_insecure :: bool
  aa_server_cert_path :: "string option"
  aa_ca_cert_path :: "string option"
  aa_connect_timeout :: duration
  aa_read_timeout :: duration
  aa_write_timeout :: duration
  aa_max_response_bytes :: u32
  aa_key_label_prefix :: "string option"
  aa_key_label_max_bytes :: "8 word"

record modify_server_args =
  mo_server_id :: string
  mo_ip_host_or_fqdn :: "string option"
  mo_port :: "u16 option"
  mo_no_credentials :: bool
  mo_credentials_store_path :: "string option"
  mo_username :: "string option"
  mo_password :: "string option"
  mo_no_client_auth :: bool
  mo_client_cert_path :: "string option"
  mo_client_key_path :: "string option"
  mo_insecure :: "bool option"
  mo_server_cert_path :: "string option"
  mo_ca_cert_path :: "string option"
  mo_connect_timeout :: "duration option"
  mo_read_timeout :: "duration option"
  mo_write_timeout :: "duration option"
  mo_max_response_bytes :: "u32 option"
  mo_key_label_prefix :: "string option"
  mo_key_label_max_bytes :: "8 word option"

datatype kmip_commands =
  KmipDisable
| KmipAddServer add_server_args
| KmipModifyServer modify_server_args
| KmipRemoveServer string
| KmipSetDefaultServer string
| KmipGetServer string
| KmipListServers

text \<open>The credentials and the settings an \<open>AddServer\<close> asks for.\<close>

definition add_server_credentials ::
  "add_server_args \<Rightarrow> (string \<times> (string \<times> string option) option) option" where
  "add_server_credentials a =
     (case (aa_credentials_store_path a, aa_username a) of
        (Some path, Some username) \<Rightarrow> Some (path, Some (username, aa_password a))
      | (Some path, None) \<Rightarrow> Some (path, None)
      | (None, _) \<Rightarrow> None)"

definition add_server_settings :: "add_server_args \<Rightarrow> kmip_server_config" where
  "add_server_settings a =
     \<lparr>server_addr = aa_ip_host_or_fqdn a, server_port = aa_port a,
      server_cert_verification = \<lparr>verify_certificate = (\<not> aa_insecure a),
        server_cert_path = aa_server_cert_path a, ca_cert_path = aa_ca_cert_path a\<rparr>,
      client_credentials_path = None,
      client_cert_auth = (case (aa_client_cert_path a, aa_client_key_path a) of
          (Some c, Some k) \<Rightarrow> Some (c, k) | _ \<Rightarrow> None),
      client_limits = \<lparr>connect_timeout = aa_connect_timeout a, read_timeout = aa_read_timeout a,
        write_timeout = aa_write_timeout a, max_response_bytes = aa_max_response_bytes a\<rparr>,
      key_label_config = \<lparr>max_label_bytes = aa_key_label_max_bytes a, supports_relabeling = True,
        label_prefix = unwrap_or (aa_key_label_prefix a) []\<rparr>\<rparr>"

definition change_of :: "string option \<Rightarrow> string change" where
  "change_of v = (case v of Some x \<Rightarrow> Change x | None \<Rightarrow> Leave)"

definition modify_server_changes :: "modify_server_args \<Rightarrow> modify_args" where
  "modify_server_changes m =
     (let cred = (\<lambda>v. if mo_no_credentials m then Remove else change_of v);
          auth = (\<lambda>v. if mo_no_client_auth m then Remove else change_of v)
      in \<lparr>ma_address = mo_ip_host_or_fqdn m, ma_port = mo_port m,
        ma_credentials_store_path = cred (mo_credentials_store_path m),
        ma_username = cred (mo_username m), ma_password = cred (mo_password m),
        ma_client_cert_path = auth (mo_client_cert_path m),
        ma_client_key_path = auth (mo_client_key_path m),
        ma_insecure = mo_insecure m,
        ma_server_cert_path = change_of (mo_server_cert_path m),
        ma_ca_cert_path = change_of (mo_ca_cert_path m),
        ma_connect_timeout = mo_connect_timeout m, ma_read_timeout = mo_read_timeout m,
        ma_write_timeout = mo_write_timeout m, ma_max_response_bytes = mo_max_response_bytes m,
        ma_key_label_prefix = mo_key_label_prefix m,
        ma_key_label_max_bytes = mo_key_label_max_bytes m\<rparr>)"

text \<open>A change of the KMIP part of the state.\<close>

definition kmip_update :: "(kmip_state \<Rightarrow> (world, kmip_state) prog) \<Rightarrow> ('ks ws, unit) prog" where
  "kmip_update f =
     bindP (gets (\<lambda>s. st_kmip (ws_state s))) (\<lambda>k.
     bindP (in_world (f k)) (\<lambda>k'.
     modify (upd_state (\<lambda>st. st\<lparr>st_kmip := k'\<rparr>))))"

definition with_err :: "(string \<Rightarrow> string) \<Rightarrow> ('s, 'a) prog \<Rightarrow> ('s, 'a) prog" where
  "with_err g m s = (case m s of (Err e, t) \<Rightarrow> (Err (g e), t) | rt \<Rightarrow> rt)"

text \<open>The result says whether the state is to be saved.\<close>

definition kmip_command ::
  "'ks ext \<Rightarrow> (string list \<Rightarrow> string list) \<Rightarrow> kmip_commands \<Rightarrow> ('ks ws, bool) prog" where
  "kmip_command E ind cmd = (case cmd of
     KmipDisable \<Rightarrow> thenP (kmip_update (\<lambda>k. ret (k\<lparr>default_server_id := None\<rparr>))) (ret True)
   | KmipAddServer a \<Rightarrow>
       thenP (kmip_update (add_kmip_server E (aa_server_id a) (aa_pending a)
                (add_server_credentials a) (add_server_settings a)))
         (ret True)
   | KmipModifyServer m \<Rightarrow>
       thenP (kmip_update (\<lambda>k. with_err (\<lambda>e. ''unable to modify configuration for KMIP server ''
                  @ mo_server_id m @ '': '' @ e)
                (modify_kmip_server E (mo_server_id m) (modify_server_changes m) k)))
         (ret True)
   | KmipRemoveServer server_id \<Rightarrow>
       bindP (gets (\<lambda>s. ws_keyset s)) (\<lambda>ks.
       thenP (kmip_update (remove_kmip_server E ks server_id)) (ret True))
   | KmipSetDefaultServer server_id \<Rightarrow>
       thenP (kmip_update (\<lambda>k. if map_of (kmip_servers k) server_id = None
                then fail (''KMIP server id '' @ server_id @ '' is not known'')
                else ret (k\<lparr>default_server_id := Some server_id\<rparr>)))
         (ret True)
   | KmipGetServer server_id \<Rightarrow>
       bindP (gets (\<lambda>s. map_of (kmip_servers (st_kmip (ws_state s))) server_id)) (\<lambda>srv. case srv of
          None \<Rightarrow> fail (''KMIP server id '' @ server_id @ '' is not known'')
        | Some cfg \<Rightarrow> thenP (forP (kmip_server_display ind cfg) print_line) (ret False))
   | KmipListServers \<Rightarrow>
       bindP (gets (\<lambda>s. st_kmip (ws_state s))) (\<lambda>k.
       thenP (forP (kmip_state_display ind k) print_line) (ret False)))"

section \<open>Freedom from panics\<close>

abbreviation quiet :: "('s, 'a) prog \<Rightarrow> bool" where
  "quiet \<equiv> okay (\<lambda>_. True) (\<lambda>_. False)"

lemma quiet_iff: "quiet m \<longleftrightarrow> (\<forall>s. \<not> is_panic (fst (m s)))"
proof -
  have "(case m s of (Ok x, t) \<Rightarrow> True | (Err e, t) \<Rightarrow> True | (Panic p, t) \<Rightarrow> False) \<longleftrightarrow>
      \<not> is_panic (fst (m s))" for s
    by (cases "m s"; cases "fst (m s)") auto
  then show ?thesis by (simp add: okay_def)
qed

lemma quietD: "quiet m \<Longrightarrow> \<not> is_panic (fst (m s))"
  by (simp add: quiet_iff)

lemma quietI: "(\<And>s. \<not> is_panic (fst (m s))) \<Longrightarrow> quiet m"
  by (simp add: quiet_iff)

lemma quietE: "quiet m \<Longrightarrow> m s = (Panic p, t) \<Longrightarrow> R"
  using quietD [of m s] by simp

lemma quiet_io [okays]: "quiet (io f g)"
  by (rule quietI) (simp add: io_def split: prod.splits)

lemma quiet_read_file [okays]: "quiet (read_file p g)"
  by (rule quietI) (simp add: read_file_def)

lemma quiet_lift [okays]: "\<not> is_panic r \<Longrightarrow> quiet (lift_res r)"
  by (rule quietI) (simp add: lift_res_def)

lemma quiet_with_err [okays]: "quiet m \<Longrightarrow> quiet (with_err g m)"
  by (rule quietI) (auto simp: with_err_def elim: quietE split: prod.splits res.splits)

lemma fst_in_world: "fst (in_world m s) = fst (m (ws_world s))"
  by (simp add: in_world_def split: prod.splits)

lemma quiet_in_world [okays]: "quiet m \<Longrightarrow> quiet (in_world m)"
  by (rule quietI) (metis fst_in_world quietD)

lemma quiet_cred_file_new [okays]: "quiet (cred_file_new E p m)"
  by (simp add: cred_file_new_def cred_open_def okays)

lemma quiet_cred_file_save [okays]: "quiet (cred_file_save E f)"
  by (simp add: cred_file_save_def okays)

lemma quiet_remove_credentials [okays]: "quiet (remove_kmip_client_credentials E i p)"
  unfolding remove_kmip_client_credentials_def
  by (auto intro!: okays split: prod.splits option.splits)

lemma quiet_add_server [okays]: "quiet (add_kmip_server E i pending c settings k)"
  unfolding add_kmip_server_def add_kmip_credentials_def Let_def
  by (auto intro!: okays split: prod.splits option.splits)

lemma quiet_remove_server [okays]: "quiet (remove_kmip_server E ks i k)"
  unfolding remove_kmip_server_def Let_def
  by (auto intro!: okays split: prod.splits option.splits)

lemma quiet_adjust [okays]: "u \<noteq> Remove \<Longrightarrow> quiet (adjust_credentials u pw c)"
  unfolding adjust_credentials_def by (cases u) (auto intro: okays)

lemma quiet_move [okays]: "u \<noteq> Remove \<Longrightarrow> quiet (move_credentials E i old new u pw)"
  unfolding move_credentials_def
  by (cases u) (auto intro!: okays split: option.splits)

lemma quiet_change [okays]: "u \<noteq> Remove \<Longrightarrow> quiet (change_credentials E i p u pw)"
  unfolding change_credentials_def
  by (cases u) (auto intro!: okays split: prod.splits option.splits)

text \<open>
  The command line never asks to remove the user name without removing the whole entry,
  nor to remove one half of the client authentication.
\<close>

lemma quiet_modify_credentials:
  "u \<noteq> Remove \<or> path = Remove \<Longrightarrow> quiet (modify_credentials E i old path u pw)"
  unfolding modify_credentials_def
  by (cases path; cases u; cases pw) (auto intro!: okays split: option.splits)

lemma modify_client_auth_no_panic: "\<not> is_panic (modify_client_auth old c k)"
  unfolding modify_client_auth_def by (cases c; cases k; cases old) auto

lemma quiet_modify_server [okays]: "quiet (modify_kmip_server E i (modify_server_changes m) k)"
proof -
  have "quiet (modify_credentials E i old (ma_credentials_store_path (modify_server_changes m))
          (ma_username (modify_server_changes m)) (ma_password (modify_server_changes m)))" for old
    by (rule quiet_modify_credentials)
      (auto simp: modify_server_changes_def change_of_def Let_def split: option.splits)
  then show ?thesis
    unfolding modify_kmip_server_def Let_def
    by (auto intro!: okays modify_client_auth_no_panic split: option.splits)
qed

lemma quiet_kmip_update [okays]: "(\<And>k. quiet (f k)) \<Longrightarrow> quiet (kmip_update f)"
  unfolding kmip_update_def by (intro okays) auto

lemma quiet_print_line [okays]: "quiet (print_line l)"
  unfolding print_line_def by (intro okays) auto

text \<open>
  No \<open>dnst keyset kmip\<close> subcommand panics, whatever its arguments, the state
  and the files: none of the \<open>unreachable!\<close> branches of \<open>modify_kmip_server\<close> is reached.
\<close>

theorem kmip_command_no_panic: "\<not> is_panic (fst (kmip_command E ind cmd s))"
proof -
  have "quiet (kmip_command E ind cmd)"
    unfolding kmip_command_def
    by (cases cmd) (auto intro!: okays split: option.splits)
  then show ?thesis by (rule quietD)
qed

section \<open>The default server\<close>

definition default_configured :: "kmip_state \<Rightarrow> bool" where
  "default_configured k = (case default_server_id k of
     None \<Rightarrow> True
   | Some i \<Rightarrow> map_of (kmip_servers k) i \<noteq> None)"

lemma kmip_update_keeps:
  assumes "\<And>k w k' w'. P k \<Longrightarrow> f k w = (Ok k', w') \<Longrightarrow> P k'"
  shows "preserves (\<lambda>s. P (st_kmip (ws_state s))) (kmip_update f)"
  using assms
  by (fastforce simp: preserves_def kmip_update_def bindP_def gets_def in_world_def modify_def
      upd_state_def split: prod.splits res.splits)

lemma add_server_configured:
  "default_configured k \<Longrightarrow> add_kmip_server E i pending c settings k w = (Ok k', w') \<Longrightarrow>
     default_configured k'"
  by (auto simp: add_kmip_server_def prog_Ok default_configured_def Let_def
      split: if_splits option.splits prod.splits)

lemma modify_server_configured:
  "default_configured k \<Longrightarrow> modify_kmip_server E i a k w = (Ok k', w') \<Longrightarrow>
     default_configured k'"
  by (auto simp: modify_kmip_server_def prog_Ok default_configured_def Let_def
      split: if_splits option.splits prod.splits)

lemma remove_server_configured:
  "default_configured k \<Longrightarrow> remove_kmip_server E ks i k w = (Ok k', w') \<Longrightarrow>
     default_configured k'"
  by (auto simp: remove_kmip_server_def prog_Ok default_configured_def Let_def
      split: if_splits option.splits prod.splits)

lemma with_err_Ok_iff: "with_err g m s = (Ok x, t) \<longleftrightarrow> m s = (Ok x, t)"
  by (auto simp: with_err_def split: prod.splits res.splits)

lemma preserves_print_line [keeps]:
  "preserves (\<lambda>s. P (st_kmip (ws_state s))) (print_line l)"
  by (simp add: preserves_def print_line_def in_world_def modify_def)

lemma preserves_kmip_command:
  "preserves (\<lambda>s. default_configured (st_kmip (ws_state s))) (kmip_command E ind cmd)"
proof (cases cmd)
  case KmipDisable
  then show ?thesis
    by (simp add: kmip_command_def) (intro keeps kmip_update_keeps; auto simp: prog_Ok default_configured_def)
next
  case (KmipAddServer a)
  then show ?thesis
    by (simp add: kmip_command_def) (intro keeps kmip_update_keeps; rule add_server_configured)
next
  case (KmipModifyServer m)
  then show ?thesis
    by (simp add: kmip_command_def)
      (intro keeps kmip_update_keeps; auto simp: with_err_Ok_iff intro: modify_server_configured)
next
  case (KmipRemoveServer i)
  then show ?thesis
    by (simp add: kmip_command_def) (intro keeps kmip_update_keeps; auto intro: remove_server_configured)
next
  case (KmipSetDefaultServer i)
  then show ?thesis
    by (simp add: kmip_command_def)
      (intro keeps kmip_update_keeps; auto simp: prog_Ok default_configured_def split: if_splits)
next
  case (KmipGetServer i)
  then show ?thesis
    unfolding kmip_command_def
    by (auto intro!: keeps split: option.splits)
next
  case KmipListServers
  then show ?thesis unfolding kmip_command_def by (auto intro!: keeps)
qed


section \<open>Stored credentials\<close>

text \<open>
  What the credentials file needs of serde: a printed map is not empty and parses to the
  same map.
\<close>

definition cred_codec :: "'ks ext \<Rightarrow> bool" where
  "cred_codec E \<longleftrightarrow> (\<forall>c. show_credentials E c \<noteq> [] \<and>
     (\<exists>c'. parse_credentials E (show_credentials E c) = Inr c' \<and> map_of c' = map_of c))"

lemma cred_codecE:
  assumes "cred_codec E"
  obtains c' where "show_credentials E c \<noteq> []"
    and "parse_credentials E (show_credentials E c) = Inr c'" and "map_of c' = map_of c"
  using assms by (auto simp: cred_codec_def)

lemma cred_file_save_Ok:
  "cred_file_save E f w = (Ok u, w') \<longleftrightarrow> cf_mode f \<noteq> ReadOnly \<and> w_write_fails w (cf_path f) = None \<and>
     w' = w\<lparr>w_files := (w_files w)(cf_path f \<mapsto> show_credentials E (cf_credentials f))\<rparr>"
  by (auto simp: cred_file_save_def io_def fs_write_all_def split: option.splits if_splits)

lemma cred_file_new_read:
  assumes "w_files w p = Some content" and "content \<noteq> []" and "parse_credentials E content = Inr c"
    and "m \<noteq> ReadOnly \<Longrightarrow> \<not> w_denied w p"
  shows "cred_file_new E p m w = (Ok \<lparr>cf_path = p, cf_credentials = c, cf_mode = m\<rparr>, w)"
  using assms
  by (auto simp: cred_file_new_def cred_open_def thenP_def bindP_def io_def read_file_def fs_read_def
      lift_res_def ret_def)

lemma cred_file_new_path:
  "cred_file_new E p m w = (Ok f, w') \<Longrightarrow> cf_path f = p \<and> cf_mode f = m"
  by (auto simp: cred_file_new_def prog_Ok)

lemma load_saved_credentials:
  assumes codec: "cred_codec E"
    and "w_files w p = Some (show_credentials E c)" and "map_of c i = Some (u, pw)"
    and "client_credentials_path cfg = Some p"
  shows "load_credentials E cfg i w = (Ok (Some u, pw), w)"
proof -
  obtain c' where "show_credentials E c \<noteq> []" "parse_credentials E (show_credentials E c) = Inr c'"
    and m: "map_of c' = map_of c" using codec by (rule cred_codecE)
  with assms(2) have "cred_file_new E p ReadOnly w
      = (Ok \<lparr>cf_path = p, cf_credentials = c', cf_mode = ReadOnly\<rparr>, w)"
    by (intro cred_file_new_read) auto
  with assms(3,4) m show ?thesis
    by (simp add: load_credentials_def bindP_def cred_file_remove_def ret_def)
qed

lemma add_credentials_saved:
  assumes "add_kmip_credentials E i p (Some v) w = (Ok x, w')"
  obtains c where "w_files w' p = Some (show_credentials E (hm_insert i v c))"
proof -
  from assms obtain f w1 where f: "cred_file_new E p CreateReadWrite w = (Ok f, w1)"
    and save: "cred_file_save E (f\<lparr>cf_credentials := hm_insert i v (cf_credentials f)\<rparr>) w1 = (Ok x, w')"
    by (auto simp: add_kmip_credentials_def prog_Ok cred_file_insert_def split: option.splits)
  from f have "cf_path f = p" by (simp add: cred_file_new_path)
  with save have "w_files w' p = Some (show_credentials E (hm_insert i v (cf_credentials f)))"
    by (simp add: cred_file_save_Ok)
  then show thesis by (rule that)
qed

text \<open>
  Property C35. Once a server has been added with a user name, loading its connection
  settings finds exactly that user name and password, whatever else the credentials file
  held.
\<close>

theorem add_server_roundtrip:
  assumes "cred_codec E"
    and "kmip_command E ind (KmipAddServer a) s = (Ok b, t)"
    and "aa_credentials_store_path a = Some p" and "aa_username a = Some u"
  shows "\<exists>cfg. map_of (kmip_servers (st_kmip (ws_state t))) (aa_server_id a) = Some cfg
     \<and> load_credentials E cfg (aa_server_id a) (ws_world t) = (Ok (Some u, aa_password a), ws_world t)"
proof -
  let ?i = "aa_server_id a" and ?k = "st_kmip (ws_state s)"
  let ?settings = "add_server_settings a"
  from assms(2,3,4) obtain k w where
    add: "add_kmip_server E ?i (aa_pending a) (Some (p, Some (u, aa_password a))) ?settings ?k (ws_world s) = (Ok k, w)"
    and t: "st_kmip (ws_state t) = k" "ws_world t = w"
    by (auto simp: kmip_command_def kmip_update_def prog_Ok add_server_credentials_def in_world_def
        upd_state_def split: prod.splits)
  from add obtain x w1 where cred: "add_kmip_credentials E ?i p (Some (u, aa_password a)) (ws_world s) = (Ok x, w1)"
    and w1: "w = w1" and k: "map_of (kmip_servers k) ?i = Some (?settings\<lparr>client_credentials_path := Some p\<rparr>)"
    by (auto simp: add_kmip_server_def prog_Ok Let_def split: if_splits)
  from cred obtain c where w: "w_files w p = Some (show_credentials E (hm_insert ?i (u, aa_password a) c))"
    unfolding w1 by (rule add_credentials_saved)
  have "load_credentials E (?settings\<lparr>client_credentials_path := Some p\<rparr>) ?i w
      = (Ok (Some u, aa_password a), w)"
    using assms(1) w by (rule load_saved_credentials) simp_all
  with k t show ?thesis by simp
qed

section \<open>Failed moves and empty changes\<close>

lemma remove_credentials_run:
  assumes "w_files w p = Some content" and "content \<noteq> []" and "parse_credentials E content = Inr c"
    and "\<not> w_denied w p" and "w_write_fails w p = None" and "map_of c i = Some creds"
  shows "remove_kmip_client_credentials E i p w = (Ok creds, w\<lparr>w_files := (w_files w)(p :=
     (if hm_remove i c = [] then None else Some (show_credentials E (hm_remove i c))))\<rparr>)"
  using assms
  by (simp add: remove_kmip_client_credentials_def bindP_def thenP_def cred_file_new_read
      cred_file_remove_def cred_file_save_def io_def fs_write_all_def fs_remove_def ret_def)

text \<open>
  \<open>modify-server\<close> with a new credentials file first removes the credentials
  from the old file: when the new file cannot be created the command fails and the
  credentials are in neither file.
\<close>

theorem failed_move_loses_credentials:
  assumes "map_of (kmip_servers (st_kmip (ws_state s))) (mo_server_id m) = Some cfg"
    and "client_credentials_path cfg = Some old" and "mo_credentials_store_path m = Some new"
    and "\<not> mo_no_credentials m"
    and "ws_files s old = Some content" and "content \<noteq> []" and "parse_credentials E content = Inr c"
    and "map_of c (mo_server_id m) = Some creds"
    and "\<not> w_denied (ws_world s) old" and "w_write_fails (ws_world s) old = None"
    and "ws_files s new = None" and "w_denied (ws_world s) new"
  shows "\<exists>e t. kmip_command E ind (KmipModifyServer m) s = (Err e, t)
     \<and> ws_files t = (ws_files s)(old := (let rest = hm_remove (mo_server_id m) c in
         if rest = [] then None else Some (show_credentials E rest)))
     \<and> ws_state t = ws_state s"
proof -
  let ?i = "mo_server_id m" and ?w = "ws_world s"
  let ?rest = "hm_remove ?i c"
  let ?w' = "?w\<lparr>w_files := (w_files ?w)(old :=
     (if ?rest = [] then None else Some (show_credentials E ?rest)))\<rparr>"
  have ne: "old \<noteq> new" using assms(5,11) by auto
  have rm: "remove_kmip_client_credentials E ?i old ?w = (Ok creds, ?w')"
    using assms(5,6,7,9,10,8) by (rule remove_credentials_run)
  have new: "\<exists>e. cred_file_new E new CreateReadWrite ?w' = (Err e, ?w')"
    using assms(11,12) ne
    by (simp add: cred_file_new_def thenP_def bindP_def cred_open_def io_def fs_create_new_def)
  have "\<exists>e. modify_kmip_server E ?i (modify_server_changes m) (st_kmip (ws_state s)) ?w = (Err e, ?w')"
    using assms(1-4) rm new
    by (auto simp: modify_kmip_server_def modify_credentials_def move_credentials_def
        modify_server_changes_def change_of_def bindP_def adjust_credentials_def ret_def Let_def
        split: option.splits)
  then show ?thesis
    by (auto simp: kmip_command_def kmip_update_def thenP_def bindP_def gets_def in_world_def
        with_err_def Let_def)
qed

definition no_changes :: "string \<Rightarrow> modify_server_args" where
  "no_changes i = \<lparr>mo_server_id = i, mo_ip_host_or_fqdn = None, mo_port = None,
     mo_no_credentials = False, mo_credentials_store_path = None, mo_username = None,
     mo_password = None, mo_no_client_auth = False, mo_client_cert_path = None,
     mo_client_key_path = None, mo_insecure = None, mo_server_cert_path = None,
     mo_ca_cert_path = None, mo_connect_timeout = None, mo_read_timeout = None,
     mo_write_timeout = None, mo_max_response_bytes = None, mo_key_label_prefix = None,
     mo_key_label_max_bytes = None\<rparr>"

text \<open>
  \<open>modify-server\<close> without options succeeds, keeps the settings of every
  server and all files, but makes the only server the default, also after
  \<open>kmip disable\<close> or when the server was added with \<open>--pending\<close>.
\<close>

theorem modify_nothing:
  assumes "map_of (kmip_servers (st_kmip (ws_state s))) i = Some cfg"
  shows "\<exists>t. kmip_command E ind (KmipModifyServer (no_changes i)) s = (Ok True, t)
     \<and> map_of (kmip_servers (st_kmip (ws_state t))) = map_of (kmip_servers (st_kmip (ws_state s)))
     \<and> ws_files t = ws_files s
     \<and> default_server_id (st_kmip (ws_state t)) =
         (if dom (map_of (kmip_servers (st_kmip (ws_state s)))) = {i} then Some i
          else default_server_id (st_kmip (ws_state s)))"
proof -
  let ?k = "st_kmip (ws_state s)"
  have one: "length (hm_insert i cfg (hm_remove i (kmip_servers ?k))) = 1 \<longleftrightarrow>
      dom (map_of (kmip_servers ?k)) = {i}"
  proof -
    have "hm_remove i (kmip_servers ?k) = [] \<longleftrightarrow> (\<forall>p \<in> set (kmip_servers ?k). fst p = i)"
      by (simp add: hm_remove_def filter_empty_conv)
    moreover have "\<dots> \<longleftrightarrow> dom (map_of (kmip_servers ?k)) = {i}"
      using assms by (auto simp: dom_map_of_conv_image_fst dest: map_of_SomeD)
    ultimately show ?thesis by (simp add: hm_insert_def hm_remove_absent)
  qed
  have "modify_kmip_server E i (modify_server_changes (no_changes i)) ?k (ws_world s)
     = (Ok (?k\<lparr>kmip_servers := hm_insert i cfg (hm_remove i (kmip_servers ?k)),
         default_server_id := (if dom (map_of (kmip_servers ?k)) = {i} then Some i
                               else default_server_id ?k)\<rparr>), ws_world s)"
    using assms one
    by (simp add: modify_kmip_server_def modify_credentials_def modify_client_auth_def
        modify_server_changes_def change_of_def no_changes_def modify_verification_def
        modify_limits_def unwrap_or_def bindP_def ret_def lift_res_def Let_def)
  with assms show ?thesis
    by (simp add: kmip_command_def kmip_update_def thenP_def bindP_def gets_def in_world_def
        with_err_def modify_def upd_state_def ret_def no_changes_def fun_upd_idem)
qed

section \<open>Witnesses\<close>

text \<open>A credentials format with the law: each character twice, a pair that differs at the end.\<close>

fun enc_str :: "string \<Rightarrow> string" where
  "enc_str [] = ''ab''"
| "enc_str (c # s) = c # c # enc_str s"

fun dec_str :: "string \<Rightarrow> string \<times> string" where
  "dec_str (x # y # r) = (if x = y then (case dec_str r of (s, t) \<Rightarrow> (x # s, t)) else ([], r))"
| "dec_str _ = ([], [])"

fun enc_creds :: "credentials \<Rightarrow> string" where
  "enc_creds [] = ''b''"
| "enc_creds ((i, u, pw) # c) = ''a'' @ enc_str i @ enc_str u
     @ (case pw of None \<Rightarrow> ''b'' | Some p \<Rightarrow> ''a'' @ enc_str p) @ enc_creds c"

fun dec_creds :: "nat \<Rightarrow> string \<Rightarrow> credentials" where
  "dec_creds (Suc n) (x # r) = (if x = CHR ''b'' then []
     else case dec_str r of (i, r1) \<Rightarrow> case dec_str r1 of (u, r2) \<Rightarrow>
       (case r2 of [] \<Rightarrow> []
        | y # r3 \<Rightarrow> if y = CHR ''b'' then (i, u, None) # dec_creds n r3
            else case dec_str r3 of (p, r4) \<Rightarrow> (i, u, Some p) # dec_creds n r4))"
| "dec_creds _ _ = []"

lemma dec_enc_str [simp]: "dec_str (enc_str s @ r) = (s, r)"
  by (induction s) simp_all

lemma dec_enc_creds: "length c < n \<Longrightarrow> dec_creds n (enc_creds c) = c"
proof (induction c arbitrary: n rule: enc_creds.induct)
  case 1
  then show ?case by (cases n) simp_all
next
  case (2 i u pw c)
  then obtain k where "n = Suc k" "length c < k" by (cases n) auto
  with 2 show ?case by (simp split: option.splits)
qed

lemma length_enc_creds: "length c < length (enc_creds c)"
  by (induction c rule: enc_creds.induct) auto

definition demo_codec :: "demo_ks ext" where
  "demo_codec = demo\<lparr>parse_credentials := (\<lambda>s. Inr (dec_creds (length s) s)),
     show_credentials := enc_creds\<rparr>"

lemma demo_codec_cred: "cred_codec demo_codec"
proof -
  have "enc_creds c \<noteq> []" for c by (cases c rule: enc_creds.cases) simp_all
  then show ?thesis
    by (auto simp: cred_codec_def demo_codec_def dec_enc_creds length_enc_creds)
qed

definition demo_hsm :: kmip_server_config where
  "demo_hsm = \<lparr>server_addr = ''hsm.example'', server_port = 5696,
     server_cert_verification = \<lparr>verify_certificate = True, server_cert_path = None, ca_cert_path = None\<rparr>,
     client_credentials_path = Some ''/old'', client_cert_auth = None,
     client_limits = \<lparr>connect_timeout = from_secs 3, read_timeout = from_secs 30,
       write_timeout = from_secs 3, max_response_bytes = 8192\<rparr>,
     key_label_config = \<lparr>max_label_bytes = 32, supports_relabeling = True, label_prefix = []\<rparr>\<rparr>"

definition demo_add_args :: add_server_args where
  "demo_add_args = \<lparr>aa_server_id = ''hsm'', aa_ip_host_or_fqdn = ''hsm.example'', aa_port = 5696,
     aa_pending = False, aa_credentials_store_path = Some ''/creds'', aa_username = Some ''u'',
     aa_password = Some ''pw'', aa_client_cert_path = None, aa_client_key_path = None,
     aa_insecure = False, aa_server_cert_path = None, aa_ca_cert_path = None,
     aa_connect_timeout = from_secs 3, aa_read_timeout = from_secs 30,
     aa_write_timeout = from_secs 3, aa_max_response_bytes = 8192, aa_key_label_prefix = None,
     aa_key_label_max_bytes = 32\<rparr>"

lemma demo_world_add [simp]:
  "w_files demo_world ''/creds'' = None" "\<not> w_denied demo_world ''/creds''"
  "w_write_fails demo_world ''/creds'' = None"
  by (simp_all add: demo_world_def)

lemma demo_add_runs: "\<exists>t. kmip_command demo_codec id (KmipAddServer demo_add_args) demo_ws = (Ok True, t)"
  by (simp add: kmip_command_def kmip_update_def thenP_def bindP_def gets_def in_world_def
      add_kmip_server_def add_kmip_credentials_def add_server_credentials_def demo_add_args_def
      cred_file_new_def cred_open_def io_def fs_create_new_def read_file_def fs_read_def
      cred_file_insert_def cred_file_save_def fs_write_all_def ret_def modify_def Let_def)

lemma add_server_roundtrip_witness:
  "\<exists>t cfg. kmip_command demo_codec id (KmipAddServer demo_add_args) demo_ws = (Ok True, t)
     \<and> load_credentials demo_codec cfg ''hsm'' (ws_world t) = (Ok (Some ''u'', Some ''pw''), ws_world t)"
proof -
  obtain t where t: "kmip_command demo_codec id (KmipAddServer demo_add_args) demo_ws = (Ok True, t)"
    using demo_add_runs by blast
  have "\<exists>cfg. map_of (kmip_servers (st_kmip (ws_state t))) (aa_server_id demo_add_args) = Some cfg
     \<and> load_credentials demo_codec cfg (aa_server_id demo_add_args) (ws_world t)
       = (Ok (Some ''u'', aa_password demo_add_args), ws_world t)"
    using demo_codec_cred t by (rule add_server_roundtrip) (simp_all add: demo_add_args_def)
  with t show ?thesis by (auto simp: demo_add_args_def)
qed

definition demo_hsm_ws :: "string option \<Rightarrow> demo_ks ws" where
  "demo_hsm_ws d = demo_ws\<lparr>
     ws_state := (ws_state demo_ws)\<lparr>st_kmip := \<lparr>kmip_servers = [(''hsm'', demo_hsm)], default_server_id = d\<rparr>\<rparr>,
     ws_world := demo_world\<lparr>w_files := [''/old'' \<mapsto> enc_creds [(''hsm'', ''u'', None)]],
       w_denied := (\<lambda>p. p = ''/new'')\<rparr>\<rparr>"


lemma failed_move_loses_credentials_witness:
  "\<exists>e t. kmip_command demo_codec id (KmipModifyServer ((no_changes ''hsm'')\<lparr>mo_credentials_store_path := Some ''/new''\<rparr>))
       (demo_hsm_ws (Some ''hsm'')) = (Err e, t)
     \<and> ws_files t = Map.empty"
proof -
  let ?m = "(no_changes ''hsm'')\<lparr>mo_credentials_store_path := Some ''/new''\<rparr>"
  let ?s = "demo_hsm_ws (Some ''hsm'')" and ?c = "[(''hsm'', ''u'', None)]"
  have "\<exists>e t. kmip_command demo_codec id (KmipModifyServer ?m) ?s = (Err e, t)
     \<and> ws_files t = (ws_files ?s)(''/old'' := (let rest = hm_remove (mo_server_id ?m) ?c in
         if rest = [] then None else Some (show_credentials demo_codec rest)))
     \<and> ws_state t = ws_state ?s"
  proof (rule failed_move_loses_credentials [where cfg = demo_hsm and new = "''/new''"
        and content = "enc_creds ?c" and creds = "(''u'', None)"])
    show "parse_credentials demo_codec (enc_creds ?c) = Inr ?c"
      using dec_enc_creds [OF length_enc_creds, of ?c] by (simp add: demo_codec_def)
  qed (simp_all add: demo_hsm_ws_def demo_hsm_def no_changes_def demo_world_def)
  then show ?thesis by (auto simp: demo_hsm_ws_def no_changes_def hm_remove_def)
qed

lemma modify_nothing_witness:
  "\<exists>t. kmip_command demo id (KmipModifyServer (no_changes ''hsm'')) (demo_hsm_ws None) = (Ok True, t)
     \<and> default_server_id (st_kmip (ws_state t)) = Some ''hsm''"
  using modify_nothing [of "demo_hsm_ws None" "''hsm''" demo_hsm demo id]
  by (auto simp: demo_hsm_ws_def)

end
