(* ===== verification/Commands.thy ===== *)
theory Commands
  imports Reporting Kmip_Commands
begin

text \<open>
  The commands of \<open>dnst keyset\<close> as a whole (\<open>Keyset::run\<close> of
  src/commands/keyset/cmd.rs): loading the workspace, \<open>cron\<close>, dispatch, and what follows
  every command: the next time for cron, writing the files and running the command that
  updates the DS records.
\<close>

section \<open>The key roles automation looks at\<close>

fun ksk_state :: "key_type \<Rightarrow> key_state option" where
  "ksk_state (Ksk st) = Some st"
| "ksk_state (Zsk st) = None"
| "ksk_state (Csk a b) = None"
| "ksk_state (Include st) = None"

fun zsk_state :: "key_type \<Rightarrow> key_state option" where
  "zsk_state (Zsk st) = Some st"
| "zsk_state (Ksk st) = None"
| "zsk_state (Csk a b) = None"
| "zsk_state (Include st) = None"

fun csk_state :: "key_type \<Rightarrow> key_state option" where
  "csk_state (Csk a b) = Some a"
| "csk_state (Ksk st) = None"
| "csk_state (Zsk st) = None"
| "csk_state (Include st) = None"

fun main_state :: "key_type \<Rightarrow> key_state" where
  "main_state (Ksk st) = st"
| "main_state (Zsk st) = st"
| "main_state (Csk a b) = a"
| "main_state (Include st) = st"

definition not_zsk_roll :: "roll_type \<Rightarrow> bool" where
  "not_zsk_roll r \<longleftrightarrow> r \<noteq> ZskRoll \<and> r \<noteq> ZskDoubleSignatureRoll"

definition not_ksk_roll :: "roll_type \<Rightarrow> bool" where
  "not_ksk_roll r \<longleftrightarrow> r \<noteq> KskRoll \<and> r \<noteq> KskDoubleDsRoll"

definition csk_auto :: "keyset_config \<Rightarrow> bool \<Rightarrow> auto_config" where
  "csk_auto c need_algorithm_roll = (if need_algorithm_roll then auto_algorithm c else auto_csk c)"

definition csk_start :: "'ks ext \<Rightarrow> bool \<Rightarrow> bool \<Rightarrow> ('ks ws, action list) prog" where
  "csk_start E need_algorithm_roll =
     (if need_algorithm_roll then start_algorithm_roll E else start_csk_roll E)"

section \<open>Cron\<close>

text \<open>\<open>auto_start\<close> with a validity period and a set of flags taken from the configuration.\<close>

definition auto_start_with ::
  "'ks ext \<Rightarrow> (keyset_config \<Rightarrow> duration option) \<Rightarrow> (keyset_config \<Rightarrow> auto_config) \<Rightarrow>
     (roll_type \<Rightarrow> bool) \<Rightarrow> (key_type \<Rightarrow> key_state option) \<Rightarrow> (bool \<Rightarrow> ('ks ws, action list) prog) \<Rightarrow>
     ('ks ws, unit) prog" where
  "auto_start_with E validity auto conflicting match_keytype start =
     bindP (gets (\<lambda>s. (validity (ws_config s), auto (ws_config s)))) (\<lambda>(v, a).
     auto_start E v a conflicting match_keytype start)"

definition cron_signatures :: "'ks ext \<Rightarrow> time \<Rightarrow> ('ks ws, unit) prog" where
  "cron_signatures E now =
     bindP (gets (\<lambda>s. sig_renew E (st_dnskey_rrset (ws_state s)) (dnskey_remain_time (ws_config s)) now)) (\<lambda>d.
     bindP (lift_res d) (\<lambda>renew.
     thenP (whenP renew
       (thenP (print_line ''DNSKEY RRSIG(s) need to be renewed'')
       (thenP (update_dnskey_rrset E False) (modify set_state_changed))))
    (bindP (gets (\<lambda>s. sig_renew E (st_cds_rrset (ws_state s)) (cds_remain_time (ws_config s)) now)) (\<lambda>d.
     bindP (lift_res d) (\<lambda>renew.
     whenP renew
       (thenP (print_line ''CDS/CDNSKEY RRSIGs need to be renewed'')
       (thenP (create_cds_rrset E False) (modify set_state_changed))))))))"

definition cron_starts :: "'ks ext \<Rightarrow> ('ks ws, unit) prog" where
  "cron_starts E =
     bindP (algorithm_roll_needed E) (\<lambda>need.
     bindP (gets (\<lambda>s. use_csk (ws_config s))) (\<lambda>csk.
     thenP (if csk \<or> need then
         thenP (auto_start_with E ksk_validity (\<lambda>c. csk_auto c need) (\<lambda>_. True) ksk_state (csk_start E need))
               (auto_start_with E zsk_validity (\<lambda>c. csk_auto c need) (\<lambda>_. True) zsk_state (csk_start E need))
       else
         thenP (auto_start_with E ksk_validity auto_ksk not_zsk_roll ksk_state (start_ksk_roll E))
               (auto_start_with E zsk_validity auto_zsk not_ksk_roll zsk_state (start_zsk_roll E)))
      (auto_start_with E csk_validity (\<lambda>c. csk_auto c need) (\<lambda>_. True) csk_state (csk_start E need))))"

definition auto_steps_with ::
  "'ks ext \<Rightarrow> (keyset_config \<Rightarrow> auto_config) \<Rightarrow> roll_type list \<Rightarrow> ('ks ws, unit) prog" where
  "auto_steps_with E auto roll_list =
     bindP (gets (\<lambda>s. auto (ws_config s))) (\<lambda>a. auto_report_expire_done E a roll_list)"

definition cron_steps :: "'ks ext \<Rightarrow> ('ks ws, unit) prog" where
  "cron_steps E =
     thenP (auto_steps_with E auto_ksk [KskRoll, KskDoubleDsRoll])
    (thenP (auto_steps_with E auto_zsk [ZskRoll, ZskDoubleSignatureRoll])
    (thenP (auto_steps_with E auto_csk [CskRoll])
           (auto_steps_with E auto_algorithm [AlgorithmRoll])))"

text \<open>The stale keys whose delay has passed, as URLs.\<close>

fun removable_keys :: "duration \<Rightarrow> time \<Rightarrow> (string \<times> key) list \<Rightarrow> (string \<times> string option) list res" where
  "removable_keys delay now [] = Ok []"
| "removable_keys delay now ((pubref, k) # ks) =
     (if stale (main_state (keytype k)) then
        (case withdrawn (key_times k) of
           None \<Rightarrow> Panic ''should be present if stale''
         | Some t \<Rightarrow> bind_res (removable_keys delay now ks) (\<lambda>l.
             Ok (if t + delay \<le> now then (pubref, privref k) # l else l)))
      else removable_keys delay now ks)"

definition autoremove_key :: "'ks ext \<Rightarrow> string \<times> string option \<Rightarrow> ('ks ws, unit) prog" where
  "autoremove_key E = (\<lambda>(pubref, priv).
     thenP (ks_try E (\<lambda>e. ''unable to remove key '' @ pubref @ '': '' @ e) (ks_delete_key E pubref))
    (thenP (case priv of
        Some p \<Rightarrow> bindP (try_res (\<lambda>e. ''unable to parse '' @ p @ '' as URL: '' @ e) (url_parse E p)) (remove_key E)
      | None \<Rightarrow> ret ())
    (bindP (try_res (\<lambda>e. ''unable to parse '' @ pubref @ '' as URL: '' @ e) (url_parse E pubref)) (remove_key E))))"

definition cron_autoremove :: "'ks ext \<Rightarrow> ('ks ws, unit) prog" where
  "cron_autoremove E =
     bindP (gets (\<lambda>s. (autoremove (ws_config s), autoremove_delay (ws_config s), faketime_or_now s))) (\<lambda>(on, delay, now).
     whenP on
       (bindP (gets (\<lambda>s. removable_keys delay now (ks_keys E (ws_keyset s)))) (\<lambda>l.
        bindP (lift_res l) (\<lambda>key_urls.
        whenP (key_urls \<noteq> [])
          (thenP (forP key_urls (autoremove_key E)) (modify set_state_changed))))))"

definition cron_command :: "'ks ext \<Rightarrow> time \<Rightarrow> ('ks ws, unit) prog" where
  "cron_command E now =
     thenP (cron_signatures E now)
    (thenP (cron_starts E)
    (thenP (cron_steps E) (cron_autoremove E)))"

section \<open>Commands\<close>

datatype commands =
  CmdCreate name string
| CmdInit
| CmdRoll roll_variant roll_cmd
| CmdImport import_cmd
| CmdRemoveKey string bool bool
| CmdStatus bool
| CmdActions
| CmdKeys
| CmdGet get_cmd
| CmdSet set_cmd
| CmdShow
| CmdCron
| CmdKmip kmip_commands

definition dispatch :: "'ks ext \<Rightarrow> 'ks host \<Rightarrow> string \<Rightarrow> time \<Rightarrow> commands \<Rightarrow> ('ks ws, unit) prog" where
  "dispatch E H keyset_conf now cmd = (case cmd of
     CmdCreate n st \<Rightarrow> panic ''internal error: entered unreachable code''
   | CmdInit \<Rightarrow> init_command E
   | CmdRoll v sub \<Rightarrow> roll_command E sub v
   | CmdImport sub \<Rightarrow> import_command E (make_absolute H) sub
   | CmdRemoveKey k force continue_flag \<Rightarrow> remove_key_subcommand E k force continue_flag
   | CmdStatus verbose \<Rightarrow> status_command E H keyset_conf verbose now
   | CmdActions \<Rightarrow> actions_command E
   | CmdKeys \<Rightarrow> keys_command E H
   | CmdGet sub \<Rightarrow> get_command H sub
   | CmdSet sub \<Rightarrow> set_command E H sub
   | CmdShow \<Rightarrow> show_command H
   | CmdCron \<Rightarrow> cron_command E now
   | CmdKmip sub \<Rightarrow> bindP (kmip_command E (indented H) sub) (\<lambda>b.
       modify (\<lambda>s. s\<lparr>ws_state_changed := b\<rparr>)))"

section \<open>After a command\<close>

definition next_starts :: "'ks ext \<Rightarrow> keyset_config \<Rightarrow> 'ks kss \<Rightarrow> bool \<Rightarrow> time option list" where
  "next_starts E c k need =
     (if use_csk c \<or> need then
        cron_next_auto_start E (ksk_validity c) (csk_auto c need) k (\<lambda>_. True) ksk_state
        @ cron_next_auto_start E (zsk_validity c) (csk_auto c need) k (\<lambda>_. True) zsk_state
      else
        cron_next_auto_start E (ksk_validity c) (auto_ksk c) k not_zsk_roll ksk_state
        @ cron_next_auto_start E (zsk_validity c) (auto_zsk c) k not_ksk_roll zsk_state)
     @ cron_next_auto_start E (csk_validity c) (csk_auto c need) k (\<lambda>_. True) csk_state"

definition next_steps :: "'ks ext \<Rightarrow> time \<Rightarrow> keyset_config \<Rightarrow> 'ks kss \<Rightarrow> time option list res" where
  "next_steps E now c k =
     bind_res (cron_next_auto_report_expire_done E now (auto_ksk c) [KskRoll, KskDoubleDsRoll] k) (\<lambda>l1.
     bind_res (cron_next_auto_report_expire_done E now (auto_zsk c) [ZskRoll, ZskDoubleSignatureRoll] k) (\<lambda>l2.
     bind_res (cron_next_auto_report_expire_done E now (auto_csk c) [CskRoll] k) (\<lambda>l3.
     bind_res (cron_next_auto_report_expire_done E now (auto_algorithm c) [AlgorithmRoll] k) (\<lambda>l4.
     Ok (l1 @ l2 @ l3 @ l4)))))"

fun next_removals :: "duration \<Rightarrow> (string \<times> key) list \<Rightarrow> time option list res" where
  "next_removals delay [] = Ok []"
| "next_removals delay ((pubref, k) # ks) =
     (if stale (main_state (keytype k)) then
        (case withdrawn (key_times k) of
           None \<Rightarrow> Panic ''should be set when stale (withdrawn)''
         | Some t \<Rightarrow> bind_res (next_removals delay ks) (\<lambda>l. Ok (Some (t + delay) # l)))
      else next_removals delay ks)"

text \<open>
  All times at which cron may have something to do; \<open>now\<close> is the time at which the command
  started, \<open>fake_now\<close> the current one.
\<close>

definition next_times ::
  "'ks ext \<Rightarrow> time \<Rightarrow> time \<Rightarrow> bool \<Rightarrow> keyset_config \<Rightarrow> 'ks kss \<Rightarrow> time option list res" where
  "next_times E now fake_now need c k =
     bind_res (compute_cron_next E (st_dnskey_rrset k) (dnskey_remain_time c) now) (\<lambda>d.
     bind_res (compute_cron_next E (st_cds_rrset k) (cds_remain_time c) now) (\<lambda>d'.
     bind_res (next_steps E fake_now c k) (\<lambda>steps.
     bind_res (if autoremove c then next_removals (autoremove_delay c) (ks_keys E (st_keyset k)) else Ok []) (\<lambda>rm.
     Ok (d # d' # next_starts E c k need @ steps @ rm)))))"

definition set_cron_next :: "time option \<Rightarrow> 'ks ws \<Rightarrow> 'ks ws" where
  "set_cron_next t s =
     (if t \<noteq> st_cron_next (ws_state s)
      then set_state_changed (upd_state (\<lambda>k. k\<lparr>st_cron_next := t\<rparr>) s) else s)"

definition run_update_ds :: "'ks host \<Rightarrow> ('ks ws, unit) prog" where
  "run_update_ds H =
     bindP (gets (\<lambda>s. (ws_run_update_ds_command s, update_ds_command (ws_config s)))) (\<lambda>(run, args).
     whenP (run \<and> args \<noteq> [])
       (bindP (in_world (\<lambda>w. (map_err (\<lambda>e. ''creating for command for '' @ hd args @ '' failed: '' @ e)
            (run_program H args), w\<lparr>w_commands := w_commands w @ [args]\<rparr>))) (\<lambda>output.
        whenP (\<not> out_success output)
          (thenP (print_line (''update command failed with: '' @ out_status output))
                 (print_line (out_stdout output))))))"

definition save :: "'ks host \<Rightarrow> string \<Rightarrow> ('ks ws, unit) prog" where
  "save H keyset_conf =
     thenP (bindP (gets ws_config_changed) (\<lambda>b. whenP b (write_config H keyset_conf)))
           (bindP (gets ws_state_changed) (\<lambda>b. whenP b (write_state H)))"

definition finish :: "'ks ext \<Rightarrow> 'ks host \<Rightarrow> string \<Rightarrow> time \<Rightarrow> ('ks ws, unit) prog" where
  "finish E H keyset_conf now =
     bindP (gets (\<lambda>s. ws_config_changed s \<or> ws_state_changed s)) (\<lambda>changed.
     whenP changed
       (bindP (algorithm_roll_needed E) (\<lambda>need.
        bindP (gets (\<lambda>s. next_times E now (faketime_or_now s) need (ws_config s) (ws_state s))) (\<lambda>l.
        bindP (lift_res l) (\<lambda>times.
        thenP (modify (set_cron_next (min_opt (List.map_filter id times))))
       (thenP (save H keyset_conf) (run_update_ds H)))))))"

section \<open>Running a command\<close>

definition load_tsig_store :: "'ks host \<Rightarrow> keyset_config \<Rightarrow> (world, tsig_store) prog" where
  "load_tsig_store H c = (case tsig_store_path c of
     Some path \<Rightarrow> load_locked H (parse_store H) path path
   | None \<Rightarrow> ret tsig_store_new)"

definition load_workspace :: "'ks host \<Rightarrow> bool \<Rightarrow> bool \<Rightarrow> string \<Rightarrow> (world, 'ks ws) prog" where
  "load_workspace H cascade verbose keyset_conf =
     bindP (load_locked H (parse_config H) (show_debug_string H keyset_conf) keyset_conf) (\<lambda>c.
     bindP (read_file (state_file c) (\<lambda>e. ''unable to open state file '' @ state_file c @ '': '' @ e)) (\<lambda>text.
     bindP (lift_res (map_err (\<lambda>e. ''error loading '' @ show_debug_string H (state_file c) @ '': '' @ e)
              (parse_state H text))) (\<lambda>k.
     bindP (load_tsig_store H c) (\<lambda>store.
     gets (workspace c k cascade verbose store)))))"

definition run_loaded :: "'ks ext \<Rightarrow> 'ks host \<Rightarrow> string \<Rightarrow> commands \<Rightarrow> ('ks ws, unit) prog" where
  "run_loaded E H keyset_conf cmd =
     bindP (gets faketime_or_now) (\<lambda>now.
     thenP (dispatch E H keyset_conf now cmd) (finish E H keyset_conf now))"

fun keyset_run ::
  "'ks ext \<Rightarrow> 'ks host \<Rightarrow> bool \<Rightarrow> bool \<Rightarrow> string \<Rightarrow> commands \<Rightarrow> (world, unit) prog" where
  "keyset_run E H cascade verbose keyset_conf (CmdCreate domain_name keyset_state) =
     create_command E H cascade verbose keyset_conf domain_name keyset_state"
| "keyset_run E H cascade verbose keyset_conf cmd =
     bindP (load_workspace H cascade verbose keyset_conf) (\<lambda>s.
     in_workspace (\<lambda>w. s\<lparr>ws_world := w\<rparr>) (run_loaded E H keyset_conf cmd))"

end
