(* ===== verification/Dispatch.thy ===== *)
theory Dispatch
  imports Sign_Cli Keygen Notify Update Commands
begin

text \<open>
  The command line of the program (src/lib.rs, src/commands/mod.rs, src/args.rs): the name of the
  binary selects a parser of its own or the parser of the regular \<open>dnst\<close> command line (clap),
  which is a parameter. A parser that does not return is \<open>None\<close>.
\<close>

section \<open>The name of the binary\<close>

fun split_char :: "char \<Rightarrow> string \<Rightarrow> string list" where
  "split_char c [] = [[]]"
| "split_char c (x # xs) =
     (if x = c then [] # split_char c xs
      else (case split_char c xs of [] \<Rightarrow> [[x]] | y # ys \<Rightarrow> (x # y) # ys))"

text \<open>\<open>Path::file_name\<close>: the last component, unless it is \<open>..\<close> or there is none.\<close>

definition path_file_name :: "string \<Rightarrow> string option" where
  "path_file_name p =
     (let comps = filter (\<lambda>s. s \<noteq> [] \<and> s \<noteq> ''.'') (split_char (CHR ''/'') p)
      in if comps = [] \<or> last comps = ''..'' then None else Some (last comps))"

definition extract_binary_name :: "os_string \<Rightarrow> string res" where
  "extract_binary_name path =
     (case path_file_name (os_text path) of
        None \<Rightarrow> Err ''Missing binary file name''
      | Some filename \<Rightarrow>
         (case path of
            NotUnicode _ \<Rightarrow> Err ''Binary file name is not valid unicode''
          | Unicode _ \<Rightarrow> Ok (case split_once (CHR ''.'') filename of Some (binary, _) \<Rightarrow> binary | None \<Rightarrow> filename)))"

definition strip_prefix :: "string \<Rightarrow> string \<Rightarrow> string option" where
  "strip_prefix p s = (if take (length p) s = p then Some (drop (length p) s) else None)"

section \<open>Commands\<close>

text \<open>\<open>Keyset\<close> with its options and its own subcommand.\<close>

record keyset_args =
  ka_keyset_conf :: string
  ka_verbose :: bool
  ka_cascade :: bool
  ka_cmd :: commands

datatype command =
  CmdKeygen keygen_args | CmdKeyset keyset_args | CmdKey2ds key2ds_args | CmdNsec3Hash nsec3_args
| CmdSignZone sign_args | CmdNotify notify_args | CmdUpdate update_args | CmdLdnsUpdate ldns_update
| CmdReport string

record args =
  ar_command :: command
  ar_verbosity :: level_filter

text \<open>\<open>Args::from\<close> a command: warnings and errors are logged.\<close>

definition args_from :: "command \<Rightarrow> args" where
  "args_from c = \<lparr>ar_command = c, ar_verbosity = Some LvWarn\<rparr>"

record 'l tools =
  tl_lexer :: "'l lexer"
  tl_net :: net
  tl_signer :: signer
  tl_hasher :: hasher
  tl_keys :: key_tools
  tl_openssl :: bool
  tl_version :: string
  tl_now :: u32
  tl_help :: "string \<Rightarrow> string"

text \<open>The command behind the result of a parser: the command itself, or the report of a text.\<close>

definition to_command :: "('a \<Rightarrow> command) \<Rightarrow> 'a ldns_args res option \<Rightarrow> command res option" where
  "to_command f r = map_option (\<lambda>r. bind_res r (\<lambda>a.
     case a of LdnsReport s \<Rightarrow> Ok (CmdReport s) | LdnsRun x \<Rightarrow> Ok (f x))) r"

text \<open>\<open>parse_ldns_args\<close>: the help text is appended to an error.\<close>

definition with_help :: "string \<Rightarrow> command res option \<Rightarrow> command res option" where
  "with_help help r = map_option (\<lambda>r. case r of Err e \<Rightarrow> Err (e @ [CHR 0x0A, CHR 0x0A] @ help) | x \<Rightarrow> x) r"

definition parse_ldns_args :: "'l tools \<Rightarrow> string \<Rightarrow> os_string list \<Rightarrow> command res option" where
  "parse_ldns_args T name args =
     (let L = tl_lexer T; help = tl_help T name in
      if name = ''key2ds'' then with_help help (to_command CmdKey2ds (key2ds_parse_ldns L args))
      else if name = ''notify'' then with_help help (to_command CmdNotify (notify_parse_ldns (tl_net T) L help (tl_version T) args))
      else if name = ''keygen'' then with_help help (to_command CmdKeygen (keygen_parse_ldns (tl_keys T) L (tl_openssl T) (tl_version T) args))
      else if name = ''nsec3-hash'' then with_help help (to_command CmdNsec3Hash (nsec3_parse_ldns (tl_hasher T) L args))
      else if name = ''signzone'' then with_help help (to_command CmdSignZone
        (sign_parse_ldns (tl_signer T) (tl_hasher T) L (tl_version T) (tl_now T) args))
      else if name = ''update'' then with_help help (Some (bind_res (update_parse_ldns (tl_net T) args) (\<lambda>u. Ok (CmdLdnsUpdate u))))
      else Some (Err (''Unrecognized ldns command '' @ [CHR 0x27] @ ''ldns-'' @ name @ [CHR 0x27])))"

definition try_ldns_compatibility :: "'l tools \<Rightarrow> os_string list \<Rightarrow> args option res option" where
  "try_ldns_compatibility T argv =
     (case argv of
        [] \<Rightarrow> Some (Err ''Missing binary name'')
      | binary_path # args \<Rightarrow>
         (case extract_binary_name binary_path of
            Ok binary_name \<Rightarrow>
              (case strip_prefix ''ldns-'' binary_name of
                 None \<Rightarrow> Some (Ok None)
               | Some name \<Rightarrow> map_option (\<lambda>r. bind_res r (\<lambda>c. Ok (Some (args_from c)))) (parse_ldns_args T name args))
          | Err e \<Rightarrow> Some (Err e)
          | Panic p \<Rightarrow> Some (Panic p)))"

section \<open>The command line\<close>

text \<open>How a run fails: with an error, or with a panic.\<close>

datatype failure = Failed error_info | Panicked string

fun failure_of :: "'a res \<Rightarrow> failure + 'a" where
  "failure_of (Ok x) = Inr x"
| "failure_of (Err e) = Inl (Failed (error_new e))"
| "failure_of (Panic p) = Inl (Panicked p)"

definition parse_args ::
  "'l tools \<Rightarrow> (os_string list \<Rightarrow> clap_error + args) \<Rightarrow> os_string list \<Rightarrow> (failure + args) option" where
  "parse_args T clap argv =
     (case try_ldns_compatibility T argv of
        None \<Rightarrow> None
      | Some (Ok (Some a)) \<Rightarrow> Some (Inr a)
      | Some (Ok None) \<Rightarrow> Some (case clap argv of Inl e \<Rightarrow> Inl (Failed (clap_failure e)) | Inr a \<Rightarrow> Inr a)
      | Some (Err e) \<Rightarrow> Some (Inl (Failed (error_new e)))
      | Some (Panic p) \<Rightarrow> Some (Inl (Panicked p)))"

section \<open>Properties\<close>

lemma split_char_nonempty [simp]: "split_char c xs \<noteq> []"
  by (induction xs) (auto split: list.split)

lemma split_char_append: "c \<notin> set b \<Longrightarrow> split_char c (a @ c # b) = split_char c a @ [b]"
proof -
  assume b: "c \<notin> set b"
  then have "split_char c b = [b]" by (induction b) auto
  moreover have "split_char c (a @ c # xs) = split_char c a @ split_char c xs" for xs
    by (induction a) (auto split: list.split)
  ultimately show ?thesis by simp
qed

lemma split_char_single: "c \<notin> set b \<Longrightarrow> split_char c b = [b]"
  by (induction b) auto

text \<open>A file name without dots, in any directory and with any extension.\<close>

lemma extract_binary_name_plain:
  assumes name: "name \<noteq> []" "CHR ''/'' \<notin> set name" "CHR ''.'' \<notin> set name"
    and ext: "ext = [] \<or> (\<exists>e. ext = CHR ''.'' # e \<and> CHR ''/'' \<notin> set e)"
    and dir: "dir = [] \<or> (\<exists>d. dir = d @ ''/'')"
  shows "extract_binary_name (Unicode (dir @ name @ ext)) = Ok name"
proof -
  have slash: "CHR ''/'' \<notin> set (name @ ext)" using name ext by auto
  have ne: "name @ ext \<noteq> []" "name @ ext \<noteq> ''.''" "name @ ext \<noteq> ''..''"
    using name by (cases name; auto)+
  have last: "last (filter (\<lambda>s. s \<noteq> [] \<and> s \<noteq> ''.'') (split_char (CHR ''/'') (dir @ name @ ext))) = name @ ext
      \<and> filter (\<lambda>s. s \<noteq> [] \<and> s \<noteq> ''.'') (split_char (CHR ''/'') (dir @ name @ ext)) \<noteq> []"
    using dir split_char_single [OF slash] split_char_append [OF slash] ne by auto
  then have "path_file_name (dir @ name @ ext) = Some (name @ ext)"
    using ne unfolding path_file_name_def Let_def by simp
  moreover have "(case split_once (CHR ''.'') (name @ ext) of Some (b, _) \<Rightarrow> b | None \<Rightarrow> name @ ext) = name"
    using ext split_once_append [OF name(3)] split_once_absent [OF name(3)] by auto
  ultimately show ?thesis by (simp add: extract_binary_name_def)
qed

text \<open>
  The file name of the binary up to its first dot selects the parser, in whatever
  directory it is: the \<open>ldns-\<close> names their own, and every other name leaves the command line to clap.
\<close>

lemma binary_name_selects:
  assumes name: "name \<noteq> []" "CHR ''/'' \<notin> set name" "CHR ''.'' \<notin> set name"
    and ext: "ext = [] \<or> (\<exists>e. ext = CHR ''.'' # e \<and> CHR ''/'' \<notin> set e)"
    and dir: "dir = [] \<or> (\<exists>d. dir = d @ ''/'')"
  shows "parse_args T clap (Unicode (dir @ name @ ext) # args) =
    (case strip_prefix ''ldns-'' name of
       None \<Rightarrow> Some (case clap (Unicode (dir @ name @ ext) # args) of
         Inl e \<Rightarrow> Inl (Failed (clap_failure e)) | Inr a \<Rightarrow> Inr a)
     | Some x \<Rightarrow> map_option (\<lambda>r. case failure_of r of Inl f \<Rightarrow> Inl f | Inr c \<Rightarrow> Inr (args_from c))
         (parse_ldns_args T x args))"
proof -
  have selects: "try_ldns_compatibility T (Unicode (dir @ name @ ext) # args) =
      (case strip_prefix ''ldns-'' name of None \<Rightarrow> Some (Ok None)
       | Some x \<Rightarrow> map_option (\<lambda>r. bind_res r (\<lambda>c. Ok (Some (args_from c)))) (parse_ldns_args T x args))"
    by (simp add: try_ldns_compatibility_def extract_binary_name_plain [OF assms])
  show ?thesis
  proof (cases "strip_prefix ''ldns-'' name")
    case (Some x)
    show ?thesis
    proof (cases "parse_ldns_args T x args")
      case (Some r)
      with \<open>strip_prefix ''ldns-'' name = Some x\<close> show ?thesis by (cases r) (simp_all add: parse_args_def selects)
    qed (use Some in \<open>simp add: parse_args_def selects\<close>)
  qed (simp add: parse_args_def selects)
qed

lemma unknown_ldns_name:
  assumes "x \<notin> {''key2ds'', ''notify'', ''keygen'', ''nsec3-hash'', ''signzone'', ''update''}"
  shows "\<exists>e. parse_ldns_args T x args = Some (Err e)"
  using assms by (simp add: parse_ldns_args_def Let_def)

text \<open>
  Every \<open>ldns-\<close> command line is parsed to an end: over a parser of arguments that
  makes progress, the choice of the command returns for each list of arguments.
\<close>

lemma ldns_parsers_return:
  assumes "lexer_laws len (tl_lexer T)"
  shows "\<exists>r. try_ldns_compatibility T argv = Some r"
proof -
  have one: "\<exists>r. with_help h (to_command f q) = Some r" if "\<exists>r. q = Some r"
    for h and f :: "'c \<Rightarrow> command" and q
    using that by (auto simp: with_help_def to_command_def)
  have branch: "\<exists>r. (if b then p else q) = Some r" if "\<exists>r. p = Some r" "\<exists>r. q = Some r"
    for b and p q :: "command res option"
    using that by simp
  note returns = key2ds.parse_returns [OF assms] notify.parse_returns [OF assms] keygen.parse_returns [OF assms]
    nsec3_hash.parse_returns [OF assms] signzone.parse_returns [OF assms]
  have "\<exists>r. parse_ldns_args T name args = Some r" for name args
    unfolding parse_ldns_args_def Let_def key2ds_parse_ldns_def notify_parse_ldns_def keygen_parse_ldns_def
      nsec3_parse_ldns_def sign_parse_ldns_def
    by (intro branch one returns) (simp_all add: with_help_def)
  then show ?thesis
    unfolding try_ldns_compatibility_def
    by (auto split: list.split res.split option.split)
qed

end
