(* ===== verification/Tools_Demo.thy ===== *)
theory Tools_Demo
  imports Sign_Demo Update_Demo Keygen_Correct Dispatch
begin

text \<open>
  Concrete instances for the smaller commands: a parser of arguments, hashes, key tools and a file
  system, on which the theorems about \<open>nsec3-hash\<close>, \<open>key2ds\<close>, \<open>keygen\<close>, \<open>notify\<close> and the entry of
  the program apply.
\<close>

section \<open>A parser of arguments\<close>

fun demo_next :: "os_string list \<Rightarrow> (string + arg option) \<times> os_string list" where
  "demo_next [] = (Inr None, [])"
| "demo_next (Unicode [CHR ''-'', c] # xs) = (Inr (Some (Short c)), xs)"
| "demo_next (x # xs) = (Inr (Some (Value x)), xs)"

fun demo_value :: "os_string list \<Rightarrow> (string + os_string) \<times> os_string list" where
  "demo_value [] = (Inl ''missing argument'', [])"
| "demo_value (x # xs) = (Inr x, xs)"

definition demo_lexer :: "os_string list lexer" where
  "demo_lexer = \<lparr>lx_start = id, lx_next = demo_next, lx_value = demo_value\<rparr>"

lemma demo_lexer_simps [simp]:
  "lx_start demo_lexer args = args" "lx_next demo_lexer = demo_next" "lx_value demo_lexer = demo_value"
  by (simp_all add: demo_lexer_def)

lemma demo_lexer_laws: "lexer_laws length demo_lexer"
proof -
  have "length l' < length l" if "demo_next l = (Inr (Some a), l')" for l a l'
    using that by (cases l rule: demo_next.cases) auto
  moreover have "length l' \<le> length l" if "demo_value l = (r, l')" for l r l'
    using that by (cases l) auto
  ultimately show ?thesis by (simp add: lexer_laws_def)
qed

section \<open>Hashes\<close>

definition demo_hasher :: hasher where
  "demo_hasher =
     \<lparr>nh_hash = (\<lambda>n a i s. Inr n), nh_prepend = (\<lambda>l n. Some (l @ ''.'' @ n)),
      nh_mnemonic = (\<lambda>a. if a = 1 then Some ''SHA-1'' else None),
      nh_from_mnemonic = (\<lambda>s. if s = ''SHA-1'' then Some 1 else None), nh_salt = Inr, nh_name = Inr\<rparr>"

definition demo_nsec3 :: nsec3_args where
  "demo_nsec3 =
     \<lparr>nx_algorithm = 1, nx_iterations = 0, nx_salt = [], nx_find_prefix = Some ''b'', nx_name = ''example''\<rparr>"

definition plain_world :: world where
  "plain_world =
     \<lparr>w_files = [''/key'' \<mapsto> ''key'', ''/old'' \<mapsto> ''old''], w_denied = (\<lambda>p. False), w_write_fails = (\<lambda>p. None),
      w_clock = 0, w_generated = 0, w_stdout = [], w_commands = []\<rparr>"

lemma demo_searchable: "searchable demo_hasher demo_nsec3"
  by (simp add: searchable_def demo_hasher_def)

lemma find_prefix_finds_witness:
  "\<exists>v :: 64 word. v \<le> 1 \<and> find_prefix demo_hasher demo_nsec3 ''b'' plain_world = Some (Ok (),
     println (''('' @ hash_text demo_hasher demo_nsec3 (candidate_name demo_hasher demo_nsec3 v) @ '')'')
       (println (candidate_name demo_hasher demo_nsec3 v) plain_world))"
proof -
  have "label_digits 1 = ''b''" by code_simp
  then have "starts_with_text ''b'' (hash_text demo_hasher demo_nsec3 (candidate_name demo_hasher demo_nsec3 1))"
    by (simp add: starts_with_text_def hash_text_def candidate_name_def demo_hasher_def demo_nsec3_def
        number_to_label_def to_lowercase_def lower_char_def)
  from find_prefix_finds [OF demo_searchable this] show ?thesis by blast
qed

lemma uppercase_prefix_searches_forever_witness:
  "find_prefix demo_hasher demo_nsec3 ''B'' plain_world = None"
  by (rule uppercase_prefix_searches_forever [OF demo_searchable]) code_simp

section \<open>Keys\<close>

definition demo_dnskey :: dnskey where
  "demo_dnskey = DnskeyData 257 3 13 ''key''"

definition demo_keys :: key_tools where
  "demo_keys =
     \<lparr>kt_in_cwd = (\<lambda>p. CHR ''/'' # p),
      kt_load = (\<lambda>t. Inr [Inr (EntryRecord (RR ''example'' class_IN 3600 (Dnskey demo_dnskey)))]),
      kt_sep = (\<lambda>d. True), kt_tag = (\<lambda>d. 7), kt_digest = (\<lambda>d n a. Inr ''digest''), kt_fmt_with_dot = (\<lambda>n. n @ ''.''),
      kt_show_ds = (\<lambda>d. ''DS''), kt_show_ds_ldns = (\<lambda>d. ''DS''), kt_show_ds_data = (\<lambda>d. ''7 13 2 digest''),
      kt_show_dnskey = (\<lambda>d. ''257 3 13 key''), kt_show_secret = id,
      kt_digest_mnemonic = (\<lambda>a. Some ''SHA-256''), kt_digest_from_mnemonic = (\<lambda>s. None), kt_name = Inr,
      kt_generate = (\<lambda>n p f. Inr (''secret'', demo_dnskey))\<rparr>"

lemma demo_inj: "inj (kt_in_cwd demo_keys)"
  by (simp add: demo_keys_def inj_def)

definition demo_key2ds :: key2ds_args where
  "demo_key2ds =
     \<lparr>kd_ignore_sep = False, kd_write_to_stdout = False, kd_force_overwrite = False, kd_algorithm = None,
      kd_keyfile = ''key'', kd_as_ldns = False\<rparr>"

lemmas demo_key2ds_eval =
  key2ds_execute_def demo_key2ds_def demo_keys_def read_file_def fs_read_def plain_world_def bindP_def
  wanted_key_def ds_of_def digest_alg_of_def determine_hash_from_sec_alg_def algorithm_numbers
  demo_dnskey_def lift_res_def write_ds_def Let_def create_ds_file_def io_def fs_create_new_def
  fs_write_all_def thenP_def modify_def ret_def println_def

lemma demo_key2ds_runs: "\<exists>t. key2ds_execute demo_keys demo_key2ds plain_world = (Ok (), t)"
  by (simp add: demo_key2ds_eval key_file_base_def ds_name_def)

lemma key2ds_output_witness:
  "\<exists>t dss. key2ds_execute demo_keys demo_key2ds plain_world = (Ok (), t) \<and>
     w_stdout t = map (ds_name demo_keys) dss"
proof -
  obtain t where run: "key2ds_execute demo_keys demo_key2ds plain_world = (Ok (), t)"
    using demo_key2ds_runs by blast
  from key2ds_output [OF run] run show ?thesis by (auto simp: demo_key2ds_def plain_world_def)
qed

lemma key2ds_keeps_files_witness:
  "w_files (snd (key2ds_execute demo_keys demo_key2ds plain_world)) ''/old'' = Some ''old''"
  using key2ds_keeps_files [of plain_world "''/old''" demo_keys demo_key2ds]
  by (simp add: demo_key2ds_def plain_world_def ds_files_def)

definition demo_keygen :: keygen_args where
  "demo_keygen =
     \<lparr>kg_algorithm = ECDSAP256SHA256, kg_bits = None, kg_make_ksk = True, kg_symlink = NoLinks,
      kg_name = ''example'', kg_as_ldns = False\<rparr>"

definition demo_desk :: desk where
  "demo_desk = \<lparr>dk_world = plain_world, dk_links = Map.empty\<rparr>"

definition demo_new_key :: new_key where
  "demo_new_key =
     \<lparr>nk_base = key_file_base demo_keys ''example'' 13 7, nk_secret = ''secret'',
      nk_public = ''example. IN DNSKEY 257 3 13 key'' @ [CHR 0x0A],
      nk_digest = Some (''example. IN DS 7 13 2 digest'' @ [CHR 0x0A])\<rparr>"

lemma demo_prepares:
  assumes "w_generated w = 0"
  shows "keygen_prepares demo_keys (demo_keygen\<lparr>kg_symlink := how\<rparr>) \<lparr>dk_world = w, dk_links = ls\<rparr> demo_new_key
     \<lparr>dk_world = w\<lparr>w_generated := 1\<rparr>, dk_links = ls\<rparr>"
  unfolding keygen_prepares_def
  by (intro conjI exI [of _ GenEcdsaP256Sha256] exI [of _ DIGEST_SHA256] exI [of _ "(''secret'', demo_dnskey)"])
    (simp_all add: assms bits_allowed_def demo_keygen_def keygen_params_def algorithm_numbers
      generate_pair_def demo_keys_def new_key_of_def demo_new_key_def demo_dnskey_def)

lemma keygen_keeps_files_witness:
  "d_files (snd (keygen_execute demo_keys demo_keygen demo_desk)) ''/old'' = Some ''old''"
  using keygen_keeps_files [of demo_desk "''/old''" demo_keys demo_keygen]
  by (simp add: demo_keygen_def demo_desk_def plain_world_def d_files_def link_paths_def)

lemmas demo_keygen_eval =
  create_key_files_def create_file_def on_desk_def desk_create_new_def fs_create_new_def
  link_key_files_def keygen_symlink_def fill_key_files_def write_key_file_def desk_write_all_def
  fs_write_all_def thenP_def bindP_def ret_def whenP_def modify_def

lemma keygen_files_witness:
  "\<exists>t. keygen_execute demo_keys demo_keygen demo_desk = (Ok (), t) \<and>
     w_stdout (dk_world t) = [nk_base demo_new_key]"
proof -
  have prep: "keygen_prepares demo_keys demo_keygen demo_desk demo_new_key
      \<lparr>dk_world = plain_world\<lparr>w_generated := 1\<rparr>, dk_links = Map.empty\<rparr>"
    using demo_prepares [of plain_world NoLinks Map.empty] by (simp add: demo_desk_def demo_keygen_def plain_world_def)
  have "\<exists>t. keygen_execute demo_keys demo_keygen demo_desk = (Ok (), t)"
    unfolding keygen_run [OF prep]
    by (simp add: demo_keygen_eval demo_new_key_def demo_keys_def plain_world_def demo_keygen_def key_file_base_def)
  then obtain t where run: "keygen_execute demo_keys demo_keygen demo_desk = (Ok (), t)" by blast
  then show ?thesis using keygen_files [OF run demo_inj] prep
    by (fastforce simp: keygen_prepares_def demo_desk_def plain_world_def)
qed

definition taken_desk :: desk where
  "taken_desk = \<lparr>dk_world = plain_world\<lparr>w_files := [''/.private'' \<mapsto> ''old'']\<rparr>, dk_links = Map.empty\<rparr>"

lemma failed_symlink_leaves_empty_keys_witness:
  "\<exists>e t. keygen_execute demo_keys (demo_keygen\<lparr>kg_symlink := Links\<rparr>) taken_desk = (Err e, t) \<and>
     d_files t (kt_in_cwd demo_keys (nk_base demo_new_key @ ''.key'')) = Some []"
proof -
  let ?w = "plain_world\<lparr>w_files := [''/.private'' \<mapsto> ''old'']\<rparr>"
  let ?d = "\<lparr>dk_world = ?w\<lparr>w_generated := 1\<rparr>, dk_links = Map.empty\<rparr>"
  have prep: "keygen_prepares demo_keys (demo_keygen\<lparr>kg_symlink := Links\<rparr>) taken_desk demo_new_key ?d"
    unfolding taken_desk_def by (rule demo_prepares) (simp add: plain_world_def)
  have "\<exists>t. create_key_files demo_keys demo_new_key ?d = (Ok (), t)"
    by (simp add: demo_keygen_eval demo_new_key_def demo_keys_def plain_world_def key_file_base_def)
  then obtain d1 where "create_key_files demo_keys demo_new_key ?d = (Ok (), d1)" by blast
  from failed_symlink_leaves_empty_keys [OF prep demo_inj _ _ this] show ?thesis
    by (auto simp: taken_desk_def d_files_def demo_keys_def)
qed

section \<open>Command lines\<close>

definition demo_tools :: "os_string list tools" where
  "demo_tools =
     \<lparr>tl_lexer = demo_lexer, tl_net = demo_net, tl_signer = demo_signer, tl_hasher = demo_hasher,
      tl_keys = demo_keys, tl_openssl = True, tl_version = ''0.1'', tl_now = 0, tl_help = (\<lambda>n. ''usage'')\<rparr>"

lemma demo_sign_parse:
  "sign_parse_ldns demo_signer demo_hasher demo_lexer ''0.1'' 0 [Unicode ''-b'', Unicode ''zone'', Unicode ''key'']
     = Some (Ok (LdnsRun (fst (sign_defaults 0)
         \<lparr>sz_extra_comments := True, sz_zonefile := ''zone'', sz_key_paths := [''key'']\<rparr>)))"
  by (simp add: sign_parse_ldns_def ldns_parse_def lex_loop.simps set_opt_def store_value_def lift_res_def
      bindP_def thenP_def modify_def ret_def gets_def sign_defaults_def on_args_def sign_finish_def)

lemma ldns_options_well_formed_witness:
  "\<exists>a. sign_parse_ldns demo_signer demo_hasher demo_lexer ''0.1'' 0 [Unicode ''-b'', Unicode ''zone'', Unicode ''key'']
     = Some (Ok (LdnsRun a)) \<and> signing_mode_of a = Ok HashAndSign"
  using ldns_options_well_formed [OF demo_sign_parse] demo_sign_parse by (auto simp: sign_defaults_def)

definition demo_notify :: notify_args where
  "demo_notify =
     \<lparr>no_zone = ''example'', no_source = None, no_soa_version = Some 7, no_tsig = None, no_port = 53,
      no_debug = True, no_retries = 2, no_servers = [''ns1'', ''ns2'']\<rparr>"


end
