(* ===== verification/Program.thy ===== *)
theory Program
  imports Dispatch Sign_Output Update_Run
begin

text \<open>
  The program as a whole (src/lib.rs, src/main.rs, src/bin/ldns.rs, \<open>Command::execute\<close> of
  src/commands/mod.rs): the commands as programs over one machine, which has the files with their
  symlinks, the two output streams and the requests sent; the run of a command line with its exit
  status. Only \<open>keygen\<close> sees symlinks; the paths given to the other commands are those of
  files. Of the events that \<open>keyset\<close> and \<open>update\<close> log nothing is kept.
\<close>

section \<open>The machine\<close>

record machine =
  mc_desk :: desk
  mc_stderr :: string
  mc_sent :: "request list"

definition mc_files :: "machine \<Rightarrow> string \<rightharpoonup> string" where
  "mc_files c = d_files (mc_desk c)"

definition mc_world :: "machine \<Rightarrow> world" where
  "mc_world c = dk_world (mc_desk c)"

definition put_world :: "world \<Rightarrow> machine \<Rightarrow> machine" where
  "put_world w c = c\<lparr>mc_desk := (mc_desk c)\<lparr>dk_world := w\<rparr>\<rparr>"

definition write_err :: "log_format \<Rightarrow> err_line list \<Rightarrow> machine \<Rightarrow> machine" where
  "write_err F ls c = c\<lparr>mc_stderr := mc_stderr c @ concat (map (err_text F) ls)\<rparr>"

definition on_desk_of :: "(desk, 'a) prog \<Rightarrow> (machine, 'a) prog" where
  "on_desk_of m c = (case m (mc_desk c) of (r, d) \<Rightarrow> (r, c\<lparr>mc_desk := d\<rparr>))"

definition on_world_of :: "(world, 'a) prog \<Rightarrow> (machine, 'a) prog" where
  "on_world_of m c = (case m (mc_world c) of (r, w) \<Rightarrow> (r, put_world w c))"

text \<open>The console of the network commands shares standard output with the others.\<close>

definition console_of :: "machine \<Rightarrow> console" where
  "console_of c = \<lparr>co_out = w_stdout (mc_world c), co_err = [], co_sent = mc_sent c\<rparr>"

definition put_console :: "log_format \<Rightarrow> console \<Rightarrow> machine \<Rightarrow> machine" where
  "put_console F k c =
     write_err F (co_err k) (put_world ((mc_world c)\<lparr>w_stdout := co_out k\<rparr>) (c\<lparr>mc_sent := co_sent k\<rparr>))"

definition on_console_of :: "log_format \<Rightarrow> (console, 'a) prog \<Rightarrow> (machine, 'a) prog" where
  "on_console_of F m c = (case m (console_of c) of (r, k) \<Rightarrow> (r, put_console F k c))"

section \<open>The commands\<close>

text \<open>What a build of the program and its surroundings provide.\<close>

record ('l, 'ks) system =
  sy_tools :: "'l tools"
  sy_ext :: "'ks ext"
  sy_host :: "'ks host"
  sy_clap :: "os_string list \<Rightarrow> clap_error + args"
  sy_terminal :: bool
  sy_colour :: bool

definition signzone_run :: "signer \<Rightarrow> log_format \<Rightarrow> sign_args \<Rightarrow> (machine, unit) prog" where
  "signzone_run A F args =
     bindP (lift_res (signing_mode_of args)) (\<lambda>mode.
     thenP (case iterations_warning args of None \<Rightarrow> ret () | Some s \<Rightarrow> on_console_of F (warn_ln s))
           (on_world_of (sign_execute A args)))"

definition keyset_command :: "('l, 'ks) system \<Rightarrow> keyset_args \<Rightarrow> (machine, unit) prog" where
  "keyset_command S k =
     on_world_of (keyset_run (sy_ext S) (sy_host S) (ka_cascade k) (ka_verbose k) (ka_keyset_conf k) (ka_cmd k))"

text \<open>A search of \<open>nsec3-hash\<close> that never ends is \<open>None\<close>.\<close>

definition nsec3_command :: "('l, 'ks) system \<Rightarrow> nsec3_args \<Rightarrow> machine \<Rightarrow> (unit res \<times> machine) option" where
  "nsec3_command S n c =
     map_option (\<lambda>(r, w). (r, put_world w c)) (nsec3_execute (tl_hasher (sy_tools S)) n (mc_world c))"

fun command_execute ::
  "('l, 'ks) system \<Rightarrow> log_format \<Rightarrow> command \<Rightarrow> machine \<Rightarrow> (unit res \<times> machine) option" where
  "command_execute S F (CmdKey2ds k) c = Some (on_world_of (key2ds_execute (tl_keys (sy_tools S)) k) c)"
| "command_execute S F (CmdKeygen k) c = Some (on_desk_of (keygen_execute (tl_keys (sy_tools S)) k) c)"
| "command_execute S F (CmdKeyset k) c = Some (keyset_command S k c)"
| "command_execute S F (CmdNsec3Hash n) c = nsec3_command S n c"
| "command_execute S F (CmdNotify n) c = Some (on_console_of F (notify_run (tl_net (sy_tools S)) n) c)"
| "command_execute S F (CmdSignZone z) c = Some (signzone_run (tl_signer (sy_tools S)) F z c)"
| "command_execute S F (CmdUpdate u) c = Some (on_console_of F (update_run (tl_net (sy_tools S)) u) c)"
| "command_execute S F (CmdLdnsUpdate u) c = Some (on_console_of F (ldns_update_run (tl_net (sy_tools S)) u) c)"
| "command_execute S F (CmdReport s) c = Some (on_world_of (modify (println s)) c)"

section \<open>A run\<close>

text \<open>The status and the lines of a failure; the message of a panic is left to the runtime.\<close>

fun failure_status :: "failure \<Rightarrow> nat" where
  "failure_status (Failed e) = exit_code e"
| "failure_status (Panicked p) = 101"

fun failure_lines :: "bool \<Rightarrow> failure \<Rightarrow> err_line list" where
  "failure_lines colour (Failed e) = [pretty_print colour e]"
| "failure_lines colour (Panicked p) = []"

definition run_failed :: "('l, 'ks) system \<Rightarrow> log_format \<Rightarrow> failure \<Rightarrow> machine \<Rightarrow> nat \<times> machine" where
  "run_failed S F f c = (failure_status f, write_err F (failure_lines (sy_colour S) f) c)"

definition log_format_of :: "('l, 'ks) system \<Rightarrow> os_string \<Rightarrow> level_filter \<Rightarrow> log_format" where
  "log_format_of S argv0 m = \<lparr>lf_program = os_text argv0, lf_ansi = sy_terminal S, lf_max = m\<rparr>"

definition conclude :: "(failure \<Rightarrow> machine \<Rightarrow> nat \<times> machine) \<Rightarrow> unit res \<times> machine \<Rightarrow> nat \<times> machine" where
  "conclude failed out = (case out of (r, c) \<Rightarrow> (case failure_of r of Inl f \<Rightarrow> failed f c | Inr _ \<Rightarrow> (0, c)))"

definition execute_args ::
  "('l, 'ks) system \<Rightarrow> os_string \<Rightarrow> args \<Rightarrow> machine \<Rightarrow> (nat \<times> machine) option" where
  "execute_args S argv0 a c =
     (let F = log_format_of S argv0 (ar_verbosity a) in
      map_option (conclude (run_failed S F)) (command_execute S F (ar_command a) c))"

text \<open>\<open>run\<close> of src/lib.rs; without a program name there is nothing to log with (\<open>unwrap\<close>).\<close>

definition dnst_run :: "('l, 'ks) system \<Rightarrow> os_string list \<Rightarrow> machine \<Rightarrow> (nat \<times> machine) option" where
  "dnst_run S argv c =
     (case argv of
        [] \<Rightarrow> Some (101, c)
      | argv0 # _ \<Rightarrow>
         (case parse_args (sy_tools S) (sy_clap S) argv of
            None \<Rightarrow> None
          | Some (Inl f) \<Rightarrow> Some (run_failed S (log_format_of S argv0 (Some LvWarn)) f c)
          | Some (Inr a) \<Rightarrow> execute_args S argv0 a c))"

text \<open>
  \<open>run\<close> of src/bin/ldns.rs, whose first argument is the name of the \<open>ldns-\<close> command: every
  error ends with the same status, and warnings are the most verbose level that is logged.
\<close>

definition ldns_failed :: "('l, 'ks) system \<Rightarrow> log_format \<Rightarrow> failure \<Rightarrow> machine \<Rightarrow> nat \<times> machine" where
  "ldns_failed S F f c =
     (case f of Failed e \<Rightarrow> (1, write_err F [pretty_print (sy_colour S) e] c) | Panicked p \<Rightarrow> (101, c))"

definition ldns_run :: "('l, 'ks) system \<Rightarrow> os_string list \<Rightarrow> machine \<Rightarrow> (nat \<times> machine) option" where
  "ldns_run S argv c =
     (case argv of
        [] \<Rightarrow> Some (101, c)
      | argv0 # args \<Rightarrow>
         let F = log_format_of S argv0 (Some LvWarn) in
         (case try_ldns_compatibility (sy_tools S) args of
            None \<Rightarrow> None
          | Some (Ok None) \<Rightarrow> Some (101, c)
          | Some (Ok (Some a)) \<Rightarrow>
              map_option (conclude (ldns_failed S F)) (command_execute S F (ar_command a) c)
          | Some (Err e) \<Rightarrow> Some (ldns_failed S F (Failed (error_new e)) c)
          | Some (Panic p) \<Rightarrow> Some (101, c)))"

end
