(* ===== verification/Program_Correct.thy ===== *)
theory Program_Correct
  imports Program Sign_Command_Correct Keygen_Correct
begin

text \<open>
  The program as a whole: every run ends, what its exit status says, which files its commands
  leave alone, and that the testing binary runs the same commands.
\<close>

section \<open>Machines\<close>

lemma write_err_sel [simp]:
  "mc_desk (write_err F ls c) = mc_desk c" "mc_sent (write_err F ls c) = mc_sent c"
  "mc_files (write_err F ls c) = mc_files c" "mc_world (write_err F ls c) = mc_world c"
  by (simp_all add: write_err_def mc_files_def mc_world_def)

lemma put_world_sel [simp]:
  "mc_world (put_world w c) = w" "mc_files (put_world w c) = w_files w"
  "mc_stderr (put_world w c) = mc_stderr c" "mc_sent (put_world w c) = mc_sent c"
  by (simp_all add: put_world_def mc_world_def mc_files_def d_files_def)

lemma mc_files_world: "mc_files c = w_files (mc_world c)"
  by (simp add: mc_files_def mc_world_def d_files_def)

lemma put_console_files [simp]: "mc_files (put_console F k c) = mc_files c"
  by (simp add: put_console_def mc_files_world)

section \<open>Every run ends\<close>

lemma parsed_command:
  assumes "with_help h (to_command f q) = Some (Ok c)"
  shows "(\<exists>s. c = CmdReport s) \<or> (\<exists>x. q = Some (Ok (LdnsRun x)) \<and> c = f x)"
proof -
  from assms obtain y where q: "q = Some (Ok y)" and c: "(case y of LdnsReport s \<Rightarrow> Ok (CmdReport s) | LdnsRun x \<Rightarrow> Ok (f x)) = Ok c"
  proof (cases "to_command f q")
    case (Some r)
    with assms have "to_command f q = Some (Ok c)" by (cases r) (simp_all add: with_help_def)
    with that show ?thesis by (auto simp: to_command_def bind_res_Ok_iff)
  qed (use assms in \<open>simp add: with_help_def\<close>)
  then show ?thesis by (cases y) auto
qed

lemma ldns_nsec3_no_search:
  assumes "parse_ldns_args T name args = Some (Ok (CmdNsec3Hash n))"
  shows "nx_find_prefix n = None"
proof -
  have "nsec3_parse_ldns (tl_hasher T) (tl_lexer T) args = Some (Ok (LdnsRun n))"
    using assms
    by (auto simp: parse_ldns_args_def Let_def dest!: parsed_command split: if_splits)
      (auto simp: with_help_def bind_res_Ok_iff split: res.splits)
  then show ?thesis
    by (auto simp: nsec3_parse_ldns_def ldns_parse_def nsec3_finish_def bind_res_Ok_iff split: option.splits)
qed

lemma command_returns:
  assumes "\<And>n p. cmd = CmdNsec3Hash n \<Longrightarrow> nx_find_prefix n = Some p \<Longrightarrow>
    \<exists>r. prefix_loop (tl_hasher (sy_tools S)) n p 0 = Some r"
  shows "\<exists>r. command_execute S F cmd c = Some r"
proof (cases cmd)
  case (CmdNsec3Hash n)
  then show ?thesis using assms [of n]
    by (cases "nx_find_prefix n") (auto simp: nsec3_command_def nsec3_execute_def find_prefix_def)
qed simp_all

lemma compatible_returns:
  assumes "try_ldns_compatibility (sy_tools S) argv = Some (Ok (Some a))"
  shows "\<exists>r. command_execute S F (ar_command a) c = Some r"
proof (rule command_returns)
  fix n p assume n: "ar_command a = CmdNsec3Hash n" "nx_find_prefix n = Some p"
  from assms obtain x args cmd where "parse_ldns_args (sy_tools S) x args = Some (Ok cmd)" "a = args_from cmd"
    by (auto simp: try_ldns_compatibility_def bind_res_Ok_iff split: list.splits res.splits option.splits)
  with n ldns_nsec3_no_search [of "sy_tools S" x args n] have "nx_find_prefix n = None" by (auto simp: args_from_def)
  with n show "\<exists>r. prefix_loop (tl_hasher (sy_tools S)) n p 0 = Some r" by simp
qed


section \<open>The exit status\<close>

lemma parse_args_failed:
  assumes "parse_args T clap argv = Some (Inl (Failed e))"
  shows "(\<exists>m. e = error_new m) \<or> (\<exists>ce. e = clap_failure ce)"
  using assms by (auto simp: parse_args_def split: option.splits res.splits sum.splits)

lemma failure_of_iff:
  "failure_of r = Inr x \<longleftrightarrow> r = Ok x" "failure_of r = Inl f \<Longrightarrow> failure_status f \<noteq> 0"
  by (cases r; auto simp: exit_code_def error_new_def)+

lemma nat_mod_zero: "nat (k mod 256) = 0 \<longleftrightarrow> (256 :: int) dvd k"
  by (simp add: dvd_eq_mod_eq_0 order_antisym_conv)

text \<open>
  Property C21. The exit status is 0 exactly if the command was run and succeeded, or clap stopped
  with the status 0 (help and version). A command line that is refused changes nothing and sends
  nothing. An error of the command ends with status 1, keeps what the command has done and is
  logged, unless logging is off.
\<close>

theorem run_outcome:
  assumes run: "dnst_run S (argv0 # rest) c = Some (status, t)"
  defines "F \<equiv> \<lambda>a. log_format_of S argv0 (ar_verbosity a)"
  shows "(status = 0 \<longleftrightarrow>
      (\<exists>a. parse_args (sy_tools S) (sy_clap S) (argv0 # rest) = Some (Inr a) \<and>
        command_execute S (F a) (ar_command a) c = Some (Ok (), t)) \<or>
      (\<exists>e. parse_args (sy_tools S) (sy_clap S) (argv0 # rest) = Some (Inl (Failed (clap_failure e))) \<and>
        256 dvd ce_exit_code e)) \<and>
    (\<forall>f. parse_args (sy_tools S) (sy_clap S) (argv0 # rest) = Some (Inl f) \<longrightarrow>
      mc_desk t = mc_desk c \<and> mc_sent t = mc_sent c) \<and>
    (\<forall>a e u. parse_args (sy_tools S) (sy_clap S) (argv0 # rest) = Some (Inr a) \<longrightarrow>
      command_execute S (F a) (ar_command a) c = Some (Err e, u) \<longrightarrow>
      status = 1 \<and> mc_desk t = mc_desk u \<and> mc_sent t = mc_sent u \<and>
      mc_stderr t = mc_stderr u @ (if ar_verbosity a = None then []
        else format_event (F a) LvError (e @ [CHR 0x0A])))"
proof (cases "parse_args (sy_tools S) (sy_clap S) (argv0 # rest)")
  case None
  with run show ?thesis by (simp add: dnst_run_def)
next
  case (Some p)
  show ?thesis
  proof (cases p)
    case (Inl f)
    with run Some have out: "(status, t) = run_failed S (log_format_of S argv0 (Some LvWarn)) f c"
      by (simp add: dnst_run_def)
    then have same: "mc_desk t = mc_desk c" "mc_sent t = mc_sent c" by (simp_all add: run_failed_def)
    have "status = 0 \<longleftrightarrow> (\<exists>e. f = Failed (clap_failure e) \<and> 256 dvd ce_exit_code e)"
    proof (cases f)
      case (Failed e)
      with Some Inl parse_args_failed [of "sy_tools S" "sy_clap S" "argv0 # rest" e]
      show ?thesis using out
        by (auto simp: run_failed_def exit_code_def error_new_def clap_failure_def nat_mod_zero [simplified])
    qed (use out in \<open>simp add: run_failed_def\<close>)
    with same Some Inl show ?thesis by auto
  next
    case (Inr a)
    let ?F = "log_format_of S argv0 (ar_verbosity a)"
    from run Some Inr obtain r u where ex: "command_execute S ?F (ar_command a) c = Some (r, u)"
      and out: "conclude (run_failed S ?F) (r, u) = (status, t)"
      by (auto simp: dnst_run_def execute_args_def Let_def)
    show ?thesis
      using Some Inr ex out unfolding F_def
      by (cases r) (auto simp: conclude_def run_failed_def exit_code_def error_new_def pretty_print_def write_err_def
          logged_def log_format_of_def split: option.split)
  qed
qed

section \<open>Which files change\<close>

text \<open>The existing files that a command may change.\<close>

fun written_paths :: "('l, 'ks) system \<Rightarrow> command \<Rightarrow> string set" where
  "written_paths S (CmdKeygen k) = link_paths (tl_keys (sy_tools S)) k"
| "written_paths S (CmdKeyset k) = UNIV"
| "written_paths S (CmdKey2ds k) = ds_files (tl_keys (sy_tools S)) k"
| "written_paths S (CmdSignZone z) =
     (if out_file_of z = ''-'' then {} else {sx_in_cwd (tl_signer (sy_tools S)) (out_file_of z)})"
| "written_paths S (CmdNsec3Hash n) = {}"
| "written_paths S (CmdNotify n) = {}"
| "written_paths S (CmdUpdate u) = {}"
| "written_paths S (CmdLdnsUpdate u) = {}"
| "written_paths S (CmdReport s) = {}"

lemma on_console_of_files: "mc_files (snd (on_console_of F m c)) = mc_files c"
  by (simp add: on_console_of_def split: prod.split)

lemma on_world_of_files: "mc_files (snd (on_world_of m c)) = w_files (snd (m (mc_world c)))"
  by (simp add: on_world_of_def split: prod.split)

lemma nsec3_execute_files: "nsec3_execute H n w = Some (r, v) \<Longrightarrow> w_files v = w_files w"
  by (auto simp: nsec3_execute_def find_prefix_def bindP_def thenP_def lift_res_def modify_def
      split: option.splits res.splits)

lemma signzone_run_files:
  assumes "p \<notin> written_paths S (CmdSignZone z)"
  shows "mc_files (snd (signzone_run (tl_signer (sy_tools S)) F z c)) p = mc_files c p"
proof -
  let ?f = "\<lambda>c. mc_files c p"
  have "w_files (snd (sign_execute (tl_signer (sy_tools S)) z w)) p = w_files w p" for w
    using assms by (intro sign_execute_frame) (auto split: if_splits)
  then have "unchanged ?f (on_world_of (sign_execute (tl_signer (sy_tools S)) z))"
    unfolding unchanged_def on_world_of_files by (simp add: mc_files_world)
  moreover have "unchanged ?f (on_console_of F m)" for m :: "(console, unit) prog"
    by (simp add: unchanged_def on_console_of_files)
  ultimately have "unchanged ?f (signzone_run (tl_signer (sy_tools S)) F z)"
    unfolding signzone_run_def by (intro unchanged_bindP unchanged_thenP unchanged_pure) (simp add: unchanged_pure split: option.split)
  then show ?thesis by (simp add: unchanged_def)
qed

lemma command_keeps_files:
  assumes run: "command_execute S F cmd c = Some (r, t)"
    and old: "mc_files c p \<noteq> None" and free: "p \<notin> written_paths S cmd"
  shows "mc_files t p = mc_files c p"
proof (cases cmd)
  case (CmdKeygen k)
  with run keygen_keeps_files [of "mc_desk c" p "tl_keys (sy_tools S)" k] old free show ?thesis
    by (auto simp: on_desk_of_def mc_files_def split: prod.splits)
next
  case (CmdKey2ds k)
  with run key2ds_keeps_files [of "mc_world c" p "tl_keys (sy_tools S)" k] old free show ?thesis
    by (auto simp: on_world_of_def mc_files_world split: prod.splits)
next
  case (CmdNsec3Hash n)
  with run show ?thesis by (auto simp: nsec3_command_def mc_files_world dest: nsec3_execute_files)
next
  case (CmdSignZone z)
  with run signzone_run_files [of p S z F c] free show ?thesis by simp
next
  case (CmdReport s)
  with run show ?thesis by (auto simp: on_world_of_def modify_def mc_files_world)
qed (use run free in \<open>auto dest!: arg_cong [of _ _ snd] simp: on_console_of_files\<close>)


section \<open>A new key and its DS record\<close>

lemma keygen_digest_agrees:
  assumes "keygen_params a = Ok params" "keygen_digest_alg params = Ok alg"
  shows "determine_hash_from_sec_alg (kg_algorithm a) = Ok alg" and "alg \<noteq> DIGEST_GOST"
  using assms
  by (auto simp: keygen_params_def Let_def determine_hash_from_sec_alg_def algorithm_numbers split: if_splits)

text \<open>The options \<open>-n\<close> and a key file, under one name of the command or the other.\<close>

definition show_ds_args :: "bool \<Rightarrow> string \<Rightarrow> key2ds_args" where
  "show_ds_args ldns f =
     \<lparr>kd_ignore_sep = False, kd_write_to_stdout = True, kd_force_overwrite = ldns, kd_algorithm = None,
      kd_keyfile = f, kd_as_ldns = ldns\<rparr>"

lemma key2ds_shows:
  assumes key: "w_files w (kt_in_cwd T f) = Some text" "kt_load T text = Inr [Inr (EntryRecord r)]"
    and r: "rr_data r = Dnskey d" "kt_sep T d"
    and alg: "determine_hash_from_sec_alg (dk_algorithm d) = Ok alg" "alg \<noteq> DIGEST_GOST"
    and digest: "kt_digest T d (rr_owner r) alg = Inr digest"
  shows "key2ds_execute T (show_ds_args ldns f) w = (Ok (), println (ds_line T (show_ds_args ldns f)
    (DsRR (rr_owner r) (rr_class r) (rr_ttl r) (kt_tag T d) (dk_algorithm d) alg digest)) w)"
  using assms
  by (simp add: key2ds_execute_def show_ds_args_def read_file_def fs_read_def bindP_def wanted_key_def
      ds_of_def digest_alg_of_def lift_res_def thenP_def write_ds_def modify_def ret_def)

text \<open>
  Property C20. After \<open>keygen\<close> has made a key signing key, its \<open>.ds\<close> file holds the DS record that
  \<open>key2ds\<close> derives from its \<open>.key\<close> file, which it prints without changing a file. Used of the
  crates: a generated key has the algorithm asked for and its flag, and a DNSKEY record is read back
  as it was displayed.
\<close>

theorem key2ds_confirms_keygen:
  fixes S a
  defines "T \<equiv> tl_keys (sy_tools S)"
  assumes run: "command_execute S F (CmdKeygen a) c = Some (Ok (), t)" and ksk: "kg_make_ksk a"
    and inj: "inj (kt_in_cwd T)"
    and made: "\<And>n params s d. keygen_params a = Ok params \<Longrightarrow> kt_generate T n params 257 = Inr (s, d) \<Longrightarrow>
      dk_algorithm d = kg_algorithm a \<and> kt_sep T d \<and>
      kt_load T (kt_fmt_with_dot T (kg_name a) @ '' IN DNSKEY '' @ kt_show_dnskey T d @ [CHR 0x0A])
        = Inr [Inr (EntryRecord (RR (kg_name a) class_IN ttl (Dnskey d)))]"
  shows "\<exists>d base ds alg digest.
    ds = (\<lambda>ttl. DsRR (kg_name a) class_IN ttl (kt_tag T d) (kg_algorithm a) alg digest) \<and>
    base = key_file_base T (kg_name a) (kg_algorithm a) (kt_tag T d) \<and>
    w_stdout (mc_world t) = w_stdout (mc_world c) @ [base] \<and>
    mc_files t (kt_in_cwd T (base @ ''.ds'')) =
      Some (kt_fmt_with_dot T (kg_name a) @ '' IN DS '' @ kt_show_ds_data T (ds 0) @ [CHR 0x0A]) \<and>
    (\<forall>ldns. command_execute S G (CmdKey2ds (show_ds_args ldns (base @ ''.key''))) t =
      Some (Ok (), put_world (println (if ldns then kt_show_ds_ldns T (ds ttl) else kt_show_ds T (ds ttl)) (mc_world t)) t))"
proof -
  from run have gen: "keygen_execute T a (mc_desk c) = (Ok (), mc_desk t)"
    by (auto simp: on_desk_of_def T_def split: prod.splits)
  obtain k d' where prep: "keygen_prepares T a (mc_desk c) k d'"
    and key: "mc_files t (kt_in_cwd T (nk_base k @ ''.key'')) = Some (nk_public k)"
    and ds: "nk_digest k \<noteq> None \<longrightarrow> mc_files t (kt_in_cwd T (nk_base k @ ''.ds'')) = nk_digest k"
    and out: "w_stdout (mc_world t) = w_stdout (mc_world c) @ [nk_base k]"
    using keygen_files [OF gen inj] by (auto simp: mc_files_def mc_world_def)
  from prep ksk obtain params alg secret d where params: "keygen_params a = Ok params" "keygen_digest_alg params = Ok alg"
    and pair: "kt_generate T (w_generated (mc_world c)) params 257 = Inr (secret, d)"
    and k: "new_key_of T a alg (secret, d) = Ok k"
    by (auto simp: keygen_prepares_def generate_pair_def Let_def mc_world_def)
  have d: "dk_algorithm d = kg_algorithm a" "kt_sep T d"
    and reads: "kt_load T (kt_fmt_with_dot T (kg_name a) @ '' IN DNSKEY '' @ kt_show_dnskey T d @ [CHR 0x0A])
      = Inr [Inr (EntryRecord (RR (kg_name a) class_IN ttl (Dnskey d)))]"
    using made [OF params(1) pair] by simp_all
  from k ksk d obtain digest where digest: "kt_digest T d (kg_name a) alg = Inr digest"
    and nk: "nk_base k = key_file_base T (kg_name a) (kg_algorithm a) (kt_tag T d)"
      "nk_public k = kt_fmt_with_dot T (kg_name a) @ '' IN DNSKEY '' @ kt_show_dnskey T d @ [CHR 0x0A]"
      "nk_digest k = Some (kt_fmt_with_dot T (kg_name a) @ '' IN DS ''
        @ kt_show_ds_data T (DsRR (kg_name a) class_IN 0 (kt_tag T d) (kg_algorithm a) alg digest) @ [CHR 0x0A])"
    by (auto simp: new_key_of_def Let_def bind_res_Ok_iff split: sum.splits)
  have "w_files (mc_world t) (kt_in_cwd T (nk_base k @ ''.key'')) = Some (nk_public k)"
    using key by (simp add: mc_files_world)
  from key2ds_shows [OF this, unfolded nk(2), OF reads, of d alg digest] d digest keygen_digest_agrees [OF params]
  have "command_execute S G (CmdKey2ds (show_ds_args ldns (nk_base k @ ''.key''))) t =
      Some (Ok (), put_world (println (if ldns
        then kt_show_ds_ldns T (DsRR (kg_name a) class_IN ttl (kt_tag T d) (kg_algorithm a) alg digest)
        else kt_show_ds T (DsRR (kg_name a) class_IN ttl (kt_tag T d) (kg_algorithm a) alg digest)) (mc_world t)) t)" for ldns
    by (simp add: on_world_of_def T_def ds_line_def show_ds_args_def)
  with out ds nk show ?thesis
    by (intro exI [of _ d] exI [of _ "nk_base k"] exI [of _ alg] exI [of _ digest] conjI exI
          [of _ "\<lambda>ttl. DsRR (kg_name a) class_IN ttl (kt_tag T d) (kg_algorithm a) alg digest"])
      simp_all
qed

section \<open>The testing binary\<close>

text \<open>What a run does but for the text on stderr, which names the program.\<close>

definition effects :: "nat \<times> machine \<Rightarrow> nat \<times> desk \<times> request list" where
  "effects r = (fst r, mc_desk (snd r), mc_sent (snd r))"

lemma command_effects:
  "map_option (\<lambda>(r, t). (r, mc_desk t, mc_sent t)) (command_execute S F cmd c)
     = map_option (\<lambda>(r, t). (r, mc_desk t, mc_sent t)) (command_execute S G cmd c)"
proof -
  have console: "(case on_console_of F m c of (r, t) \<Rightarrow> (r, mc_desk t, mc_sent t))
      = (case on_console_of G m c of (r, t) \<Rightarrow> (r, mc_desk t, mc_sent t))" for m :: "(console, unit) prog" and c
    by (simp add: on_console_of_def put_console_def put_world_def mc_world_def split: prod.split)
  show ?thesis
  proof (cases cmd)
    case (CmdSignZone z)
    then show ?thesis
      by (cases "signing_mode_of z"; cases "iterations_warning z")
        (auto simp: signzone_run_def bindP_def thenP_def lift_res_def ret_def on_console_of_def warn_ln_def
          modify_def on_world_of_def put_console_def put_world_def mc_world_def console_of_def write_err_def
          split: prod.split res.split)
  qed (simp_all add: console)
qed

text \<open>
  The testing binary does to files, output and network what the program does when it is
  called by the name in its first argument, with the same exit status.
\<close>

theorem ldns_binary_forwards:
  assumes "argv \<noteq> []" and "try_ldns_compatibility (sy_tools S) argv \<noteq> Some (Ok None)"
  shows "map_option effects (ldns_run S (argv0 # argv) c) = map_option effects (dnst_run S argv c)"
proof -
  obtain x args where argv: "argv = x # args" using assms(1) by (cases argv) auto
  let ?F = "log_format_of S argv0 (Some LvWarn)" and ?view = "\<lambda>(r, t). (r, mc_desk t, mc_sent t)"
  have failed: "effects (ldns_failed S F (Failed (error_new e)) c) = effects (run_failed S G (Failed (error_new e)) c)"
    for F G e c
    by (simp add: effects_def ldns_failed_def run_failed_def exit_code_def error_new_def)
  have concluded: "effects (conclude (ldns_failed S F) o1) = effects (conclude (run_failed S G) o2)"
    if "?view o1 = ?view o2" for F G o1 o2
    using that by (cases o1; cases o2; cases "fst o1")
      (simp_all add: effects_def conclude_def ldns_failed_def run_failed_def exit_code_def error_new_def)
  show ?thesis
  proof (cases "try_ldns_compatibility (sy_tools S) argv")
    case (Some r)
    then show ?thesis
    proof (cases r)
      case (Ok q)
      with Some assms(2) obtain a where a: "q = Some a" by (cases q) auto
      have run: "ldns_run S (argv0 # argv) c =
          map_option (conclude (ldns_failed S ?F)) (command_execute S ?F (ar_command a) c)"
        using Some Ok a by (simp add: ldns_run_def Let_def)
      have run': "dnst_run S argv c = execute_args S x a c"
        using Some Ok a by (simp add: dnst_run_def parse_args_def argv)
      let ?G = "log_format_of S x (ar_verbosity a)"
      show ?thesis
      proof (cases "command_execute S ?F (ar_command a) c")
        case None
        with command_effects [of S ?F "ar_command a" c ?G] show ?thesis by (simp add: run run' execute_args_def Let_def)
      next
        case (Some out)
        with command_effects [of S ?F "ar_command a" c ?G]
        have "map_option ?view (command_execute S ?G (ar_command a) c) = Some (?view out)" by simp
        then obtain out' where out': "command_execute S ?G (ar_command a) c = Some out'" and view: "?view out = ?view out'"
          unfolding map_option_eq_Some by metis
        from concluded [OF view, of ?F ?G] Some out' show ?thesis by (simp add: run run' execute_args_def Let_def)
      qed
    next
      case (Err e)
      with Some show ?thesis
        by (simp add: ldns_run_def dnst_run_def parse_args_def Let_def argv failed [of ?F])
    next
      case (Panic p)
      with Some show ?thesis
        by (simp add: ldns_run_def dnst_run_def parse_args_def Let_def argv effects_def run_failed_def)
    qed
  qed (simp add: ldns_run_def dnst_run_def parse_args_def Let_def argv)
qed

end
