(* ===== verification/Propagation_Correct.thy ===== *)
theory Propagation_Correct
  imports Propagation "HOL-Library.Multiset"
begin

text \<open>
  What the propagation checks decide: a report means that every nameserver serves exactly
  the wanted records, the zone check finds exactly the authoritative sets without the
  right signatures, and which checks can end the process.
\<close>

section \<open>The DNSKEY RRset\<close>

text \<open>The records of an answer that belong to the DNSKEY RRset of the zone or sign it.\<close>

definition dnskey_relevant :: "name \<Rightarrow> rr \<Rightarrow> bool" where
  "dnskey_relevant zone r \<longleftrightarrow> rr_owner r = zone \<and> (case rr_data r of
     Dnskey _ \<Rightarrow> True | Rrsig s \<Rightarrow> sig_type_covered s = RT_DNSKEY | _ \<Rightarrow> False)"

definition max_ttl_of :: "rr list \<Rightarrow> ttl \<Rightarrow> ttl" where
  "max_ttl_of rs m = fold (\<lambda>r m. max m (rr_ttl r)) rs m"

lemma max_ttl_of_simps [simp]:
  "max_ttl_of [] m = m" "max_ttl_of (r # rs) m = max_ttl_of rs (max m (rr_ttl r))"
  by (simp_all add: max_ttl_of_def)

lemma max_ttl_of_ge: "m \<le> max_ttl_of rs m" "r \<in> set rs \<Longrightarrow> rr_ttl r \<le> max_ttl_of rs m"
proof (induction rs arbitrary: m)
  case (Cons x rs)
  {
    case 1
    have "m \<le> max m (rr_ttl x)" by simp
    also note Cons.IH(1)
    finally show ?case by simp
  next
    case 2
    have "rr_ttl x \<le> max m (rr_ttl x)" by simp
    also note Cons.IH(1)
    finally show ?case using 2 Cons.IH(2) by auto
  }
qed simp_all

lemma max_ttl_of_append: "max_ttl_of (rs @ qs) m = max_ttl_of qs (max_ttl_of rs m)"
  by (simp add: max_ttl_of_def)

lemma max_ttl_of_max: "max_ttl_of rs (max x y) = max x (max_ttl_of rs y)"
  by (induction rs arbitrary: y) (simp_all add: max.assoc)

lemma max_ttl_of_start: "max x (max_ttl_of rs 0) = max_ttl_of rs x"
  using max_ttl_of_max [of rs x 0] by simp

lemma max_ttl_of_attained: "max_ttl_of rs m = m \<or> (\<exists>r \<in> set rs. max_ttl_of rs m = rr_ttl r)"
proof (induction rs arbitrary: m)
  case (Cons x rs)
  from Cons [of "max m (rr_ttl x)"] show ?case by (auto simp: max_def split: if_splits)
qed simp

lemma find_data_Some:
  assumes "List.find (\<lambda>t. rr_data t = d) target = Some t"
  shows "mset (map rr_data target) = add_mset d (mset (map rr_data (remove1 t target)))"
proof -
  from assms have t: "t \<in> set target" "rr_data t = d"
    by (auto simp: find_Some_iff)
  then have "mset target = add_mset t (mset (remove1 t target))" by simp
  then have "image_mset rr_data (mset target) = add_mset (rr_data t) (image_mset rr_data (mset (remove1 t target)))"
    by (metis image_mset_add_mset)
  with t(2) show ?thesis by simp
qed

lemma find_data_None:
  assumes "List.find (\<lambda>t. rr_data t = d) target = None"
  shows "add_mset d M \<noteq> mset (map rr_data target)"
proof
  assume eq: "add_mset d M = mset (map rr_data target)"
  have "d \<in># add_mset d M" by simp
  then have "d \<in> set (map rr_data target)" unfolding eq by simp
  with assms show False by (auto simp: find_None_iff)
qed

lemma dnskey_loop_report:
  "dnskey_loop E zone address now rs target m0 = AReport m \<longleftrightarrow>
     mset (map rr_data (filter (dnskey_relevant zone) rs)) = mset (map rr_data target) \<and>
     m = max_ttl_of (filter (dnskey_relevant zone) rs) m0"
proof (induction rs arbitrary: target m0)
  case Nil
  then show ?case by (cases target) auto
next
  case (Cons r rs)
  have step: "dnskey_loop E zone address now (r # rs) target m0 = AReport m \<longleftrightarrow>
     mset (map rr_data (filter (dnskey_relevant zone) (r # rs))) = mset (map rr_data target) \<and>
     m = max_ttl_of (filter (dnskey_relevant zone) (r # rs)) m0"
    if rel: "dnskey_relevant zone r"
      and run: "\<And>t. List.find (\<lambda>t. rr_data t = rr_data r) target = Some t \<Longrightarrow>
          dnskey_loop E zone address now (r # rs) target m0 =
          dnskey_loop E zone address now rs (remove1 t target) (max m0 (rr_ttl r))"
      and stop: "List.find (\<lambda>t. rr_data t = rr_data r) target = None \<Longrightarrow>
          dnskey_loop E zone address now (r # rs) target m0 \<noteq> AReport m"
  proof (cases "List.find (\<lambda>t. rr_data t = rr_data r) target")
    case None
    with stop rel find_data_None [OF None] show ?thesis by (simp del: dnskey_loop.simps)
  next
    case (Some t)
    from find_data_Some [OF Some] rel show ?thesis
      by (simp add: run [OF Some] Cons.IH del: mset_map dnskey_loop.simps)
  qed
  show ?case
  proof (cases "dnskey_relevant zone r")
    case True
    then have own: "rr_owner r = zone" by (simp add: dnskey_relevant_def)
    from True consider d where "rr_data r = Dnskey d" | s where "rr_data r = Rrsig s" "sig_type_covered s = RT_DNSKEY"
      by (auto simp: dnskey_relevant_def split: rdata.splits)
    then show ?thesis
    proof cases
      case 1
      then show ?thesis by (intro step [OF True]) (simp_all add: own)
    next
      case 2
      then show ?thesis by (intro step [OF True]) (simp_all add: own)
    qed
  next
    case False
    then have "dnskey_loop E zone address now (r # rs) target m0 = dnskey_loop E zone address now rs target m0"
      by (auto simp: dnskey_relevant_def split: rdata.splits)
    with False Cons.IH show ?thesis by simp
  qed
qed

section \<open>Combining the addresses\<close>

abbreviation reports_of :: "ttl list \<Rightarrow> auto_report_result res list" where
  "reports_of \<equiv> map (\<lambda>t. Ok (AReport t))"

abbreviation fold_max :: "ttl list \<Rightarrow> ttl \<Rightarrow> ttl" where
  "fold_max \<equiv> fold (\<lambda>t m. max m t)"

text \<open>A combined report means that all results are reports; its TTL is the largest one.\<close>

lemma combine_reports_Some:
  assumes "\<And>e t. on_err e \<noteq> Ok (AReport t)"
  shows "combine_reports on_err rs (Some x) = Ok (AReport m) \<Longrightarrow> \<exists>ts. rs = reports_of ts \<and> m = fold_max ts x"
proof (induction rs arbitrary: x)
  case Nil
  then show ?case by simp
next
  case (Cons r rs)
  show ?case
  proof (cases r)
    case (Ok y)
    show ?thesis
    proof (cases y)
      case (AReport t)
      with Ok Cons.prems have "combine_reports on_err rs (Some (max x t)) = Ok (AReport m)" by simp
      from Cons.IH [OF this] obtain ts where "rs = reports_of ts" "m = fold_max ts (max x t)" by blast
      with Ok AReport show ?thesis by (intro exI [of _ "t # ts"]) simp
    qed (use Ok Cons.prems in simp)
  qed (use Cons.prems assms in simp_all)
qed

lemma combine_reports_None:
  assumes "\<And>e t. on_err e \<noteq> Ok (AReport t)" and "combine_reports on_err rs None = Ok (AReport m)"
  shows "\<exists>ts. rs = reports_of ts \<and> m = fold_max ts 0"
proof (cases rs)
  case Nil
  with assms(2) show ?thesis by simp
next
  case (Cons r rs')
  show ?thesis
  proof (cases r)
    case (Ok y)
    show ?thesis
    proof (cases y)
      case (AReport t)
      with Ok Cons assms(2) have "combine_reports on_err rs' (Some (max 0 t)) = Ok (AReport m)" by simp
      from combine_reports_Some [OF assms(1) this] obtain ts where "rs' = reports_of ts" "m = fold_max ts (max 0 t)"
        by blast
      with Ok AReport Cons show ?thesis by (intro exI [of _ "t # ts"]) simp
    qed (use Ok Cons assms(2) in simp)
  qed (use Cons assms in simp_all)
qed

lemma combine_reports_panic:
  assumes "\<And>e. \<not> is_panic (on_err e)" and "\<And>r. r \<in> set rs \<Longrightarrow> \<not> is_panic r"
  shows "rs \<noteq> [] \<or> m0 \<noteq> None \<Longrightarrow> \<not> is_panic (combine_reports on_err rs m0)"
  using assms(2)
proof (induction rs arbitrary: m0)
  case Nil
  then show ?case by auto
next
  case (Cons r rs)
  show ?case
  proof (cases r)
    case (Ok y)
    show ?thesis
    proof (cases y)
      case (AReport t)
      with Ok Cons.IH [of "Some z" for z] Cons.prems(2) show ?thesis by simp
    qed (use Ok in simp)
  next
    case (Panic q)
    with Cons.prems(2) [of r] show ?thesis by simp
  qed (use assms(1) in simp)
qed

lemma combine_reports_Err:
  assumes "\<And>e. is_ok (on_err e)"
  shows "combine_reports on_err rs m0 \<noteq> Err e"
proof (induction rs arbitrary: m0)
  case Nil
  then show ?case by (cases m0) simp_all
next
  case (Cons r rs)
  show ?case
  proof (cases r)
    case (Ok y)
    then show ?thesis using Cons by (cases y) simp_all
  next
    case (Err d)
    with assms [of d] show ?thesis by (cases "on_err d") simp_all
  qed simp
qed

lemma map_err_not_Panic [simp]: "map_err g r \<noteq> Panic p"
  by (cases r) simp_all

lemma lift_sum_not_Panic [simp]: "lift_sum x \<noteq> Panic p"
  by (simp add: lift_sum_def)

lemma collect_ok_not_Panic [simp]: "collect_ok xs \<noteq> Panic p"
  by (induction xs rule: collect_ok.induct) (simp_all add: bind_res_Panic_iff)

lemma addresses_for_name_not_Panic [simp]: "addresses_for_name E n \<noteq> Panic p"
  by (auto simp: addresses_for_name_def bind_res_Panic_iff)

lemma all_addresses_not_Panic [simp]: "all_addresses E ns \<noteq> Panic p"
  by (induction ns) (auto simp: bind_res_Panic_iff)

lemma addresses_for_zone_not_Panic [simp]: "addresses_for_zone E zone \<noteq> Panic p"
  by (auto simp: addresses_for_zone_def bind_res_Panic_iff Let_def)

lemma addresses_for_name_nonempty: "addresses_for_name E n = Ok as \<Longrightarrow> as \<noteq> []"
  by (auto simp: addresses_for_name_def bind_res_Ok_iff split: if_splits)

lemma all_addresses_nonempty: "all_addresses E ns = Ok as \<Longrightarrow> ns \<noteq> [] \<Longrightarrow> as \<noteq> []"
  by (cases ns) (auto simp: bind_res_Ok_iff dest: addresses_for_name_nonempty)

lemma addresses_for_zone_nonempty: "addresses_for_zone E zone = Ok as \<Longrightarrow> as \<noteq> []"
  by (auto simp: addresses_for_zone_def bind_res_Ok_iff Let_def split: if_splits
      dest: all_addresses_nonempty)

lemma lookup_not_Panic [simp]: "lookup_name_rtype_at_address E P n t a \<noteq> Panic p"
  by (auto simp: lookup_name_rtype_at_address_def bind_res_Panic_iff)

text \<open>
  \<open>report_dnskey_propagated\<close> never ends the process and never fails: the
  assertion that there is an address and the \<open>expect\<close> on the largest TTL always hold.
\<close>

theorem report_dnskey_no_panic: "is_ok (report_dnskey_propagated E k now)"
proof -
  define tgt where "tgt = target_set E (st_dnskey_rrset k)"
  define zone where "zone = ks_name E (st_keyset k)"
  define on_err where "on_err = (\<lambda>e. Ok (AWait (now + DEFAULT_WAIT) (''DNSKEY check failed: '' @ e)) :: auto_report_result res)"
  show ?thesis
  proof (cases "addresses_for_zone E zone")
    case (Ok as)
    then have ne: "as \<noteq> []" by (rule addresses_for_zone_nonempty)
    let ?c = "combine_reports on_err (map (check_dnskey_for_address E zone tgt now) as) None"
    have "\<not> is_panic (check_dnskey_for_address E zone tgt now a)" for a
      by (cases "lookup_name_rtype_at_address E (\<lambda>_. True) zone RT_DNSKEY a")
        (simp_all add: check_dnskey_for_address_def)
    then have "\<not> is_panic ?c" by (intro combine_reports_panic) (auto simp: ne on_err_def)
    moreover have "?c \<noteq> Err e" for e by (rule combine_reports_Err) (simp add: on_err_def)
    ultimately have "is_ok ?c" by (cases ?c) auto
    with Ok ne show ?thesis
      by (simp add: report_dnskey_propagated_def Let_def tgt_def zone_def on_err_def)
  qed (simp_all add: report_dnskey_propagated_def Let_def zone_def)
qed

lemma fold_max_ttls: "fold_max (map (\<lambda>rs. max_ttl_of (f rs) 0) l) x = max_ttl_of (concat (map f l)) x"
proof (induction l arbitrary: x)
  case (Cons rs l)
  have "max x (max_ttl_of (f rs) 0) = max_ttl_of (f rs) x" by (simp add: max_ttl_of_start)
  with Cons show ?case by (simp add: max_ttl_of_append)
qed simp

text \<open>Reports of all addresses: each served the records of the target, and the TTLs are theirs.\<close>

lemma dnskey_reports_answers:
  assumes "map (check_dnskey_for_address E zone tgt now) as = reports_of ts"
  shows "\<exists>answers. list_all2 (\<lambda>a rs. lookup_name_rtype_at_address E (\<lambda>_. True) zone RT_DNSKEY a = Ok rs \<and>
        mset (map rr_data (filter (dnskey_relevant zone) rs)) = mset (map rr_data tgt)) as answers \<and>
      ts = map (\<lambda>rs. max_ttl_of (filter (dnskey_relevant zone) rs) 0) answers"
  using assms
proof (induction as arbitrary: ts)
  case (Cons a as)
  then obtain t ts' where ts': "ts = t # ts'" by (cases ts) auto
  with Cons obtain answers where
    IH: "list_all2 (\<lambda>a rs. lookup_name_rtype_at_address E (\<lambda>_. True) zone RT_DNSKEY a = Ok rs \<and>
      mset (map rr_data (filter (dnskey_relevant zone) rs)) = mset (map rr_data tgt)) as answers"
      "ts' = map (\<lambda>rs. max_ttl_of (filter (dnskey_relevant zone) rs) 0) answers" by auto
  from Cons.prems ts' obtain rs where "lookup_name_rtype_at_address E (\<lambda>_. True) zone RT_DNSKEY a = Ok rs"
    and loop: "dnskey_loop E zone a now rs tgt 0 = AReport t"
    by (auto simp: check_dnskey_for_address_def bind_res_Ok_iff)
  with IH show ?case
    unfolding ts' dnskey_loop_report by (intro exI [of _ "rs # answers"]) simp
qed simp

text \<open>
  Property C17. \<open>report_dnskey_propagated\<close> reports a TTL only if every address of every
  nameserver of the zone answers, and the DNSKEY records of the zone and the signatures
  over them in each answer are exactly those of the stored RRset. The TTL is the largest
  one seen.
\<close>

theorem report_dnskey_sound:
  assumes "report_dnskey_propagated E k now = Ok (AReport m)"
  defines "zone \<equiv> ks_name E (st_keyset k)"
  defines "relevant \<equiv> filter (dnskey_relevant zone)"
  shows "\<exists>addresses answers. addresses_for_zone E zone = Ok addresses \<and> addresses \<noteq> [] \<and>
    list_all2 (\<lambda>a rs. lookup_name_rtype_at_address E (\<lambda>_. True) zone RT_DNSKEY a = Ok rs \<and>
        mset (map rr_data (relevant rs)) = mset (map rr_data (target_set E (st_dnskey_rrset k))))
      addresses answers \<and>
    (\<forall>rs \<in> set answers. \<forall>r \<in> set (relevant rs). rr_ttl r \<le> m) \<and>
    (m = 0 \<or> (\<exists>rs \<in> set answers. \<exists>r \<in> set (relevant rs). m = rr_ttl r))"
proof -
  define tgt where "tgt = target_set E (st_dnskey_rrset k)"
  from assms(1) obtain as where as: "addresses_for_zone E zone = Ok as" and ne: "as \<noteq> []"
    and run: "combine_reports (\<lambda>e. Ok (AWait (now + DEFAULT_WAIT) (''DNSKEY check failed: '' @ e)))
      (map (check_dnskey_for_address E zone tgt now) as) None = Ok (AReport m)"
    by (auto simp: report_dnskey_propagated_def Let_def zone_def tgt_def split: res.splits if_splits)
  obtain ts where eq: "map (check_dnskey_for_address E zone tgt now) as = reports_of ts"
    and m: "m = fold_max ts 0"
    using combine_reports_None [OF _ run] by auto
  from dnskey_reports_answers [OF eq] obtain answers where
    answers: "list_all2 (\<lambda>a rs. lookup_name_rtype_at_address E (\<lambda>_. True) zone RT_DNSKEY a = Ok rs \<and>
        mset (map rr_data (relevant rs)) = mset (map rr_data tgt)) as answers"
    and ts: "ts = map (\<lambda>rs. max_ttl_of (relevant rs) 0) answers"
    unfolding relevant_def by blast
  have m': "m = max_ttl_of (concat (map relevant answers)) 0" unfolding m ts by (rule fold_max_ttls)
  have "\<forall>rs \<in> set answers. \<forall>r \<in> set (relevant rs). rr_ttl r \<le> m"
    unfolding m' by (intro ballI max_ttl_of_ge(2)) auto
  moreover have "m = 0 \<or> (\<exists>rs \<in> set answers. \<exists>r \<in> set (relevant rs). m = rr_ttl r)"
    using max_ttl_of_attained [of "concat (map relevant answers)" 0] unfolding m' by auto
  ultimately show ?thesis using as ne answers unfolding tgt_def by blast
qed

text \<open>The demo network: one nameserver, which serves the stored DNSKEY record.\<close>

definition demo_dnskey :: rr where
  "demo_dnskey = RR ''example'' class_IN 7200 (Dnskey (demo_public 4 257))"

definition demo_net :: "demo_ks ext" where
  "demo_net = demo\<lparr>
    resolver_query := (\<lambda>n t. Inr (if t = RT_NS
      then demo_message\<lparr>answer := Inr [Inr (RR n class_IN 60 (Ns ''ns.example''))]\<rparr> else demo_message)),
    query_at := (\<lambda>a n t. Inr (if t = RT_DNSKEY then demo_message\<lparr>answer := Inr [Inr demo_dnskey]\<rparr> else demo_message)),
    zonefile_entries := (\<lambda>l. [Inr (EntryRecord demo_dnskey)])\<rparr>"

lemma demo_net_addresses: "addresses_for_zone demo_net n = Ok [''192.0.2.1'']"
  by (simp add: addresses_for_zone_def addresses_for_name_def demo_net_def demo_message_def NOERROR_def
      lift_sum_def limit_to_in_def ns_names_def map_filter_simps)

lemma demo_net_dnskey:
  "lookup_name_rtype_at_address demo_net (\<lambda>_. True) n RT_DNSKEY a = Ok [demo_dnskey]"
  by (simp add: lookup_name_rtype_at_address_def demo_net_def demo_message_def lift_sum_def limit_to_in_def
      demo_dnskey_def)

lemma demo_net_report:
  "report_dnskey_propagated demo_net (demo_state\<lparr>st_dnskey_rrset := [''k'']\<rparr>) 0 = Ok (AReport 7200)"
proof -
  have "ks_name demo_net = dm_name" by (simp add: demo_net_def)
  moreover have "target_set demo_net [''k''] = [demo_dnskey]"
    by (simp add: target_set_def stored_record_def demo_net_def hs_insert_def)
  moreover have "check_dnskey_for_address demo_net ''example'' [demo_dnskey] 0 a = Ok (AReport 7200)" for a
    by (simp add: check_dnskey_for_address_def demo_net_dnskey) (simp add: demo_dnskey_def)
  ultimately show ?thesis by (simp add: report_dnskey_propagated_def demo_net_addresses Let_def)
qed

lemma report_dnskey_sound_witness:
  "\<exists>rs. lookup_name_rtype_at_address demo_net (\<lambda>_. True) ''example'' RT_DNSKEY ''192.0.2.1'' = Ok rs \<and>
     mset (map rr_data (filter (dnskey_relevant ''example'') rs)) = mset [rr_data demo_dnskey]"
proof -
  have "ks_name demo_net = dm_name" by (simp add: demo_net_def)
  moreover have "target_set demo_net [''k''] = [demo_dnskey]"
    by (simp add: target_set_def stored_record_def demo_net_def hs_insert_def)
  ultimately show ?thesis
    using report_dnskey_sound [OF demo_net_report] by (auto simp: demo_net_addresses list_all2_Cons1)
qed

end
