(* ===== verification/Zone_Check.thy ===== *)
theory Zone_Check
  imports Name_Order Propagation_Correct
begin

text \<open>
  What \<open>check_rrsigs\<close> decides. The source walks the names of the zone once, in canonical
  order, and remembers the last delegation; this theory shows that the walk is the same as
  testing every name against all delegation points of the zone, and draws the consequences
  for \<open>check_zone\<close> and \<open>report_rrsig_propagated\<close>.
\<close>

section \<open>Names\<close>

text \<open>
  The order and the suffix test of domain names: the canonical order of RFC 4034, section
  6.1, in which a name comes directly before all names below it.
\<close>

definition name_laws :: "'ks ext \<Rightarrow> bool" where
  "name_laws E \<longleftrightarrow>
     (\<forall>a. \<not> name_less E a a) \<and>
     (\<forall>a b c. name_less E a b \<and> name_less E b c \<longrightarrow> name_less E a c) \<and>
     (\<forall>a b. a \<noteq> b \<longrightarrow> name_less E a b \<or> name_less E b a) \<and>
     (\<forall>a b c. name_ends_with E a b \<and> name_ends_with E b c \<longrightarrow> name_ends_with E a c) \<and>
     (\<forall>k d. name_ends_with E k d \<and> k \<noteq> d \<longrightarrow> name_less E d k) \<and>
     (\<forall>d x k. name_less E d x \<and> name_less E x k \<and> name_ends_with E k d \<longrightarrow> name_ends_with E x d)"

lemma name_laws_rules:
  assumes "name_laws E"
  shows "\<not> name_less E a a"
    and "name_less E a b \<Longrightarrow> name_less E b c \<Longrightarrow> name_less E a c"
    and "a \<noteq> b \<Longrightarrow> name_less E a b \<or> name_less E b a"
    and "name_ends_with E a b \<Longrightarrow> name_ends_with E b c \<Longrightarrow> name_ends_with E a c"
    and "name_ends_with E k d \<Longrightarrow> k \<noteq> d \<Longrightarrow> name_less E d k"
    and "name_less E d x \<Longrightarrow> name_less E x k \<Longrightarrow> name_ends_with E k d \<Longrightarrow> name_ends_with E x d"
  using assms unfolding name_laws_def
  by - (elim conjE, metis)+

section \<open>The reference\<close>

definition delegations :: "name \<Rightarrow> treemap \<Rightarrow> name set" where
  "delegations zone tm = {n. \<exists>ts. (n, ts) \<in> set tm \<and> RT_NS \<in> set ts \<and> n \<noteq> zone}"

definition occluded :: "'ks ext \<Rightarrow> name \<Rightarrow> treemap \<Rightarrow> name \<Rightarrow> bool" where
  "occluded E zone tm n \<longleftrightarrow> (\<exists>d \<in> delegations zone tm. n \<noteq> d \<and> name_ends_with E n d)"

definition badly_signed :: "sigmap \<Rightarrow> sigs \<Rightarrow> name \<Rightarrow> rtype \<Rightarrow> bool" where
  "badly_signed sm expected n t \<longleftrightarrow> set (sigs_at sm n t) \<noteq> set expected"

text \<open>The types at one name that have to be signed by the ZSKs and are not.\<close>

definition bad_types :: "sigmap \<Rightarrow> name \<Rightarrow> sigs \<Rightarrow> bool \<Rightarrow> name \<Rightarrow> rtype list \<Rightarrow> (name \<times> rtype) list" where
  "bad_types sm zone expected delegated n ts =
     map (Pair n) (filter (\<lambda>t. \<not> skip_type zone delegated n t \<and> badly_signed sm expected n t) ts)"

definition bad_sets :: "'ks ext \<Rightarrow> treemap \<Rightarrow> sigmap \<Rightarrow> name \<Rightarrow> sigs \<Rightarrow> treemap \<Rightarrow> (name \<times> rtype) list" where
  "bad_sets E all sm zone expected tm = concat (map (\<lambda>(n, ts).
     if occluded E zone all n then []
     else bad_types sm zone expected (n \<in> delegations zone all) n ts) tm)"

text \<open>
  The verdict: the first set that can be asked for, otherwise the last NSEC3 set, otherwise
  the result so far.
\<close>

definition verdict ::
  "'ks ext \<Rightarrow> sigmap \<Rightarrow> sigs \<Rightarrow> (name \<times> rtype) list \<Rightarrow> check_rrsigs_result \<Rightarrow> check_rrsigs_result" where
  "verdict E sm expected bad result =
     (case List.find (\<lambda>(n, t). t \<noteq> RT_NSEC3) bad of
        Some (n, t) \<Rightarrow> RrsigsWaitRecord n t (mismatch_notice E n t (sigs_at sm n t) expected)
      | None \<Rightarrow> if bad = [] then result
          else (case last bad of (n, t) \<Rightarrow>
            RrsigsWaitNextSerial (mismatch_notice E n t (sigs_at sm n t) expected)))"

lemma verdict_Nil [simp]: "verdict E sm expected [] result = result"
  by (simp add: verdict_def)

lemma find_append: "List.find P (xs @ ys) = (case List.find P xs of Some x \<Rightarrow> Some x | None \<Rightarrow> List.find P ys)"
  by (induction xs) auto

lemma verdict_Cons:
  "verdict E sm expected ((n, t) # bad) result =
     (if t \<noteq> RT_NSEC3 then RrsigsWaitRecord n t (mismatch_notice E n t (sigs_at sm n t) expected)
      else verdict E sm expected bad
        (RrsigsWaitNextSerial (mismatch_notice E n t (sigs_at sm n t) expected)))"
  by (auto simp: verdict_def split: option.splits)

lemma find_SomeD: "List.find P xs = Some x \<Longrightarrow> x \<in> set xs \<and> P x"
  by (induction xs) (auto split: if_splits)

lemma verdict_append:
  "verdict E sm expected (xs @ ys) result =
     (if \<exists>p \<in> set xs. snd p \<noteq> RT_NSEC3 then verdict E sm expected xs result
      else verdict E sm expected ys (verdict E sm expected xs result))"
proof (cases "List.find (\<lambda>(n, t). t \<noteq> RT_NSEC3) xs")
  case None
  then have "\<not> (\<exists>p \<in> set xs. snd p \<noteq> RT_NSEC3)" by (auto simp: find_None_iff)
  with None show ?thesis by (auto simp: verdict_def find_append split: option.splits)
next
  case (Some p)
  then have "p \<in> set xs" "snd p \<noteq> RT_NSEC3" by (auto dest!: find_SomeD)
  with Some show ?thesis by (auto simp: verdict_def find_append split: prod.splits)
qed

section \<open>The two loops\<close>

lemma rrsigs_types_verdict:
  "rrsigs_types E sm zone expected delegated n ts result =
     (let bad = bad_types sm zone expected delegated n ts in
      if \<exists>p \<in> set bad. snd p \<noteq> RT_NSEC3 then Inl (verdict E sm expected bad result)
      else Inr (verdict E sm expected bad result))"
proof (induction ts arbitrary: result)
  case Nil
  then show ?case by (simp add: bad_types_def)
next
  case (Cons t ts)
  let ?bad = "bad_types sm zone expected delegated n"
  have skip: "?bad (t # ts) = ?bad ts" if "skip_type zone delegated n t \<or> \<not> badly_signed sm expected n t"
    using that by (simp add: bad_types_def)
  have take: "?bad (t # ts) = (n, t) # ?bad ts"
    if "\<not> skip_type zone delegated n t" "badly_signed sm expected n t"
    using that by (simp add: bad_types_def)
  consider "skip_type zone delegated n t \<or> \<not> badly_signed sm expected n t"
    | "\<not> skip_type zone delegated n t" "badly_signed sm expected n t" by blast
  then show ?case
  proof cases
    case 1
    then show ?thesis by (auto simp: skip Cons.IH badly_signed_def)
  next
    case 2
    then show ?thesis
      unfolding take [OF 2]
      using 2 by (simp add: Cons.IH badly_signed_def Let_def verdict_Cons)
  qed
qed

text \<open>
  The invariant of the walk: \<open>pre\<close> are the names already seen, and the delegation that is
  remembered covers exactly those of the remaining names that are below a delegation.
\<close>

definition walk :: "'ks ext \<Rightarrow> name \<Rightarrow> treemap \<Rightarrow> treemap \<Rightarrow> name option \<Rightarrow> bool" where
  "walk E zone pre rest delegation \<longleftrightarrow>
     (\<forall>d. delegation = Some d \<longrightarrow> d \<in> delegations zone pre) \<and>
     (\<forall>k \<in> fst ` set rest. \<forall>d \<in> delegations zone pre. name_ends_with E k d \<longrightarrow>
        (\<exists>d'. delegation = Some d' \<and> name_ends_with E k d'))"

abbreviation in_order :: "'ks ext \<Rightarrow> treemap \<Rightarrow> bool" where
  "in_order E tm \<equiv> sorted_wrt (name_less E) (map fst tm)"

lemma delegations_simps [simp]:
  "delegations zone [] = {}"
  "delegations zone ((n, ts) # tm) = (if RT_NS \<in> set ts \<and> n \<noteq> zone then {n} else {}) \<union> delegations zone tm"
  "delegations zone (tm @ tm') = delegations zone tm \<union> delegations zone tm'"
  by (auto simp: delegations_def)

lemma delegations_names: "d \<in> delegations zone tm \<Longrightarrow> d \<in> fst ` set tm"
  by (force simp: delegations_def)

lemma occluded_prefix:
  assumes laws: "name_laws E" and order: "in_order E (pre @ (n, ts) # rest)"
  shows "occluded E zone (pre @ (n, ts) # rest) n \<longleftrightarrow> (\<exists>d \<in> delegations zone pre. name_ends_with E n d)"
proof
  assume "occluded E zone (pre @ (n, ts) # rest) n"
  then obtain d where d: "d \<in> delegations zone (pre @ (n, ts) # rest)" "n \<noteq> d" "name_ends_with E n d"
    by (auto simp: occluded_def)
  from name_laws_rules(5) [OF laws] d have "name_less E d n" by blast
  moreover have "name_less E n x" if "x \<in> fst ` set rest" for x
    using order that by (auto simp: sorted_wrt_append)
  ultimately have "d \<notin> fst ` set rest"
    using name_laws_rules(1) [OF laws, of d] name_laws_rules(2) [OF laws, of d n d] by blast
  then have "d \<notin> delegations zone rest" using delegations_names by blast
  with d show "\<exists>d \<in> delegations zone pre. name_ends_with E n d" by (auto split: if_splits)
next
  assume "\<exists>d \<in> delegations zone pre. name_ends_with E n d"
  then obtain d where d: "d \<in> delegations zone pre" "name_ends_with E n d" by blast
  then have "name_less E d n" using order by (auto simp: sorted_wrt_append dest!: delegations_names)
  with name_laws_rules(1) [OF laws] have "n \<noteq> d" by blast
  with d show "occluded E zone (pre @ (n, ts) # rest) n" by (auto simp: occluded_def)
qed

lemma walk_occluded:
  assumes laws: "name_laws E" and order: "in_order E (pre @ (n, ts) # rest)"
    and walk: "walk E zone pre ((n, ts) # rest) delegation"
  shows "occluded E zone (pre @ (n, ts) # rest) n \<longleftrightarrow> (\<exists>d. delegation = Some d \<and> name_ends_with E n d)"
  using walk unfolding occluded_prefix [OF laws order] walk_def by auto

lemma walk_below:
  assumes laws: "name_laws E" and walk: "walk E zone pre ((n, ts) # rest) (Some d)"
    and below: "name_ends_with E n d"
  shows "walk E zone (pre @ [(n, ts)]) rest (Some d)"
  using walk name_laws_rules(4) [OF laws _ below] by (auto simp: walk_def split: if_splits)

lemma walk_next:
  assumes laws: "name_laws E" and order: "in_order E (pre @ (n, ts) # rest)"
    and walk: "walk E zone pre ((n, ts) # rest) delegation"
    and out: "\<not> (\<exists>d. delegation = Some d \<and> name_ends_with E n d)"
  shows "walk E zone (pre @ [(n, ts)]) rest (if RT_NS \<in> set ts \<and> n \<noteq> zone then Some n else None)"
proof -
  have "\<not> name_ends_with E k d" if k: "k \<in> fst ` set rest" and d: "d \<in> delegations zone pre" for k d
  proof
    assume "name_ends_with E k d"
    with walk k d obtain d' where d': "delegation = Some d'" "name_ends_with E k d'"
      by (auto simp: walk_def)
    with walk have "d' \<in> fst ` set pre" by (auto simp: walk_def dest: delegations_names)
    with order k have "name_less E d' n" "name_less E n k" by (auto simp: sorted_wrt_append)
    with d'(2) have "name_ends_with E n d'" by (blast intro: name_laws_rules(6) [OF laws])
    with out d'(1) show False by blast
  qed
  then show ?thesis by (auto simp: walk_def)
qed

lemma rrsigs_names_verdict:
  assumes laws: "name_laws E"
  shows "in_order E (pre @ tm) \<Longrightarrow> walk E zone pre tm delegation \<Longrightarrow>
    rrsigs_names E sm zone expected tm delegation result =
      verdict E sm expected (bad_sets E (pre @ tm) sm zone expected tm) result"
proof (induction tm arbitrary: pre delegation result)
  case Nil
  then show ?case by (simp add: bad_sets_def)
next
  case (Cons p tm)
  obtain n ts where p: "p = (n, ts)" by (cases p)
  let ?all = "pre @ (n, ts) # tm"
  from Cons.prems p have order: "in_order E ?all" and walk: "walk E zone pre ((n, ts) # tm) delegation"
    by simp_all
  have IH: "rrsigs_names E sm zone expected tm d r = verdict E sm expected (bad_sets E ?all sm zone expected tm) r"
    if "walk E zone (pre @ [(n, ts)]) tm d" for d r
    using Cons.IH [of "pre @ [(n, ts)]" d r] order that by simp
  note occl = walk_occluded [OF laws order walk]
  show ?case
  proof (cases "\<exists>d. delegation = Some d \<and> name_ends_with E n d")
    case True
    then obtain d where d: "delegation = Some d" "name_ends_with E n d" by blast
    from walk_below [OF laws walk [unfolded d(1)] d(2)] have "walk E zone (pre @ [(n, ts)]) tm delegation"
      by (simp add: d)
    from IH [OF this] True show ?thesis by (auto simp: p d bad_sets_def occl)
  next
    case False
    define D where "D = (if RT_NS \<in> set ts \<and> n \<noteq> zone then Some n else None)"
    have "name_less E x n" if "x \<in> fst ` set pre" for x using order that by (auto simp: sorted_wrt_append)
    moreover have "name_less E n x" if "x \<in> fst ` set tm" for x using order that by (auto simp: sorted_wrt_append)
    ultimately have "n \<notin> fst ` set pre" "n \<notin> fst ` set tm" using name_laws_rules(1) [OF laws] by blast+
    then have deleg: "n \<in> delegations zone ?all \<longleftrightarrow> D \<noteq> None"
      by (auto simp: D_def dest: delegations_names)
    let ?bad = "bad_types sm zone expected (D \<noteq> None) n ts"
    have sets: "bad_sets E ?all sm zone expected ((n, ts) # tm) = ?bad @ bad_sets E ?all sm zone expected tm"
      using False unfolding occl [symmetric] unfolding bad_sets_def deleg [symmetric]
      by (simp del: delegations_simps)
    from walk_next [OF laws order walk False] have "walk E zone (pre @ [(n, ts)]) tm D" by (simp add: D_def)
    note rest = IH [OF this]
    have run: "rrsigs_names E sm zone expected ((n, ts) # tm) delegation result =
      (case rrsigs_types E sm zone expected (D \<noteq> None) n ts result of
         Inl r \<Rightarrow> r | Inr r \<Rightarrow> rrsigs_names E sm zone expected tm D r)"
      using False unfolding D_def by (auto split: option.splits)
    show ?thesis
      unfolding p run sets verdict_append rrsigs_types_verdict Let_def by (simp add: rest)
  qed
qed

lemma check_rrsigs_verdict:
  "name_laws E \<Longrightarrow> in_order E tm \<Longrightarrow>
    check_rrsigs E tm sm zone expected = verdict E sm expected (bad_sets E tm sm zone expected tm) RrsigsDone"
  using rrsigs_names_verdict [of E "[]"] by (simp add: check_rrsigs_def walk_def)

text \<open>
  Property C18. \<open>check_rrsigs\<close> is the reference: among the sets of the zone that are not
  below any delegation point and have to be signed by the zone signing keys, the first one
  that is not an NSEC3 set and lacks exactly the expected signatures, otherwise the last
  such NSEC3 set, otherwise the zone is done.
\<close>

theorem check_rrsigs_reference:
  assumes "name_laws E" and "in_order E tm"
  shows "check_rrsigs E tm sm zone expected =
    verdict E sm expected (bad_sets E tm sm zone expected tm) RrsigsDone"
  using assms by (rule check_rrsigs_verdict)

section \<open>A concrete order of names\<close>

definition demo_zone :: "demo_ks ext" where
  "demo_zone = demo\<lparr>name_less := \<lambda>a b. lex_less (demo_order a) (demo_order b),
     name_ends_with := \<lambda>a b. starts_with (demo_order a) (demo_order b)\<rparr>"

lemma demo_zone_laws: "name_laws demo_zone"
  unfolding name_laws_def demo_zone_def
  by (auto simp: lex_less_irrefl demo_order_eq dest: demo_order_total starts_with_less
      intro: lex_less_trans starts_with_trans starts_with_between)

text \<open>A zone with a delegation, whose glue and whose name server set are not signed.\<close>

definition demo_tree :: treemap where
  "demo_tree = [(''a'', [RT_SOA, RT_NS, RT_DNSKEY]), (''ba'', [RT_NS, RT_DS]), (''cba'', [RT_A]), (''da'', [RT_NSEC3])]"

definition demo_sigs :: sigmap where
  "demo_sigs = [((''a'', RT_SOA), [(15, 7)]), ((''a'', RT_NS), [(15, 7)]), ((''ba'', RT_DS), [(15, 7)])]"

lemma demo_tree_in_order: "in_order demo_zone demo_tree"
  unfolding demo_tree_def by (simp add: demo_zone_def demo_order_def)

lemma demo_bad_sets: "bad_sets demo_zone demo_tree demo_sigs ''a'' [(15, 7)] demo_tree = [(''da'', RT_NSEC3)]"
proof -
  have "delegations ''a'' demo_tree = {''ba''}" by (simp add: demo_tree_def)
  moreover have "occluded demo_zone ''a'' demo_tree n \<longleftrightarrow> n \<noteq> ''ba'' \<and> starts_with (demo_order n) (demo_order ''ba'')" for n
    using calculation by (simp add: occluded_def demo_zone_def)
  ultimately show ?thesis
    by (simp add: bad_sets_def bad_types_def demo_tree_def demo_order_def skip_type_def badly_signed_def
        sigs_at_def demo_sigs_def)
qed

lemma check_rrsigs_reference_witness:
  "check_rrsigs demo_zone demo_tree demo_sigs ''a'' [(15, 7)] =
     RrsigsWaitNextSerial (mismatch_notice demo_zone ''da'' RT_NSEC3 [] [(15, 7)])"
proof -
  have "sigs_at demo_sigs ''da'' RT_NSEC3 = []" by (simp add: sigs_at_def demo_sigs_def)
  with check_rrsigs_reference [OF demo_zone_laws demo_tree_in_order, of demo_sigs "''a''" "[(15, 7)]"]
  show ?thesis by (simp add: demo_bad_sets verdict_def)
qed

section \<open>The transferred zone\<close>

text \<open>The names and types of a transfer, and its signatures, in terms of its records.\<close>

definition has_type :: "treemap \<Rightarrow> name \<Rightarrow> rtype \<Rightarrow> bool" where
  "has_type tm n t \<longleftrightarrow> (\<exists>ts. (n, ts) \<in> set tm \<and> t \<in> set ts)"

definition record_of :: "rr \<Rightarrow> name \<Rightarrow> rtype \<Rightarrow> bool" where
  "record_of r n t \<longleftrightarrow> rr_owner r = n \<and> rtype_of (rr_data r) = t \<and> \<not> is_rrsig (rr_data r)"

definition signature_of :: "rr \<Rightarrow> name \<Rightarrow> rtype \<Rightarrow> nat \<times> u16 \<Rightarrow> bool" where
  "signature_of r n t v \<longleftrightarrow> rr_owner r = n \<and>
     (\<exists>s. rr_data r = Rrsig s \<and> sig_type_covered s = t \<and> v = (sig_algorithm s, sig_key_tag s))"

lemma set_insert_set [simp]: "set (set_insert x l) = insert x (set l)"
  by (auto simp: set_insert_def)

lemma tm_insert_names: "fst ` set (tm_insert E n t tm) = insert n (fst ` set tm)"
  by (induction tm rule: tm_insert.induct) auto

lemma tm_insert_in_order:
  assumes "name_laws E"
  shows "in_order E tm \<Longrightarrow> in_order E (tm_insert E n t tm)"
proof (induction tm)
  case (Cons p tm)
  obtain m ts where p: "p = (m, ts)" by (cases p)
  have below: "name_less E n x" if "name_less E n m" "x \<in> fst ` set tm" for x
    using that Cons.prems name_laws_rules(2) [OF assms] by (auto simp: p)
  have above: "name_less E m x" if "\<not> name_less E n m" "n \<noteq> m" "x \<in> fst ` set (tm_insert E n t tm)" for x
    using that Cons.prems name_laws_rules(3) [OF assms] by (auto simp: p tm_insert_names)
  show ?case using Cons by (auto simp: p below above)
qed simp

lemma tm_insert_has_type:
  assumes "name_laws E"
  shows "in_order E tm \<Longrightarrow> has_type (tm_insert E n t tm) m u \<longleftrightarrow> has_type tm m u \<or> m = n \<and> u = t"
proof (induction tm)
  case (Cons p tm)
  then show ?case by (cases p) (auto simp: has_type_def)
qed (auto simp: has_type_def)

lemma sm_insert_sigs:
  "set (sigs_at (sm_insert n t v sm) m u) = (if m = n \<and> u = t then insert v (set (sigs_at sm n t)) else set (sigs_at sm m u))"
  by (auto simp: sigs_at_def sm_insert_def split: option.splits)

text \<open>What one record of the transfer adds, the first SOA included.\<close>

definition absorb :: "'ks ext \<Rightarrow> rr \<Rightarrow> axfr_state \<Rightarrow> axfr_state" where
  "absorb E r a = axfr_insert E r (if ax_first_soa a then a
     else case rr_data r of Soa s \<Rightarrow> a\<lparr>ax_first_soa := True, ax_serial := soa_serial s\<rparr> | _ \<Rightarrow> a)"

definition axfr_start :: "u32 \<Rightarrow> axfr_state" where
  "axfr_start serial = \<lparr>ax_serial = serial, ax_first_soa = False, ax_treemap = [], ax_sigmap = [], ax_max_ttl = 0\<rparr>"

lemma absorb_sel:
  "ax_treemap (absorb E r a) = (if is_rrsig (rr_data r) then ax_treemap a
     else tm_insert E (rr_owner r) (rtype_of (rr_data r)) (ax_treemap a))"
  "ax_sigmap (absorb E r a) = (case rr_data r of
      Rrsig s \<Rightarrow> sm_insert (rr_owner r) (sig_type_covered s) (sig_algorithm s, sig_key_tag s) (ax_sigmap a)
    | _ \<Rightarrow> ax_sigmap a)"
  by (simp_all add: absorb_def axfr_insert_def split: rdata.splits)

text \<open>The state after the records \<open>rs\<close> describes them.\<close>

definition describes :: "'ks ext \<Rightarrow> rr list \<Rightarrow> axfr_state \<Rightarrow> bool" where
  "describes E rs a \<longleftrightarrow> in_order E (ax_treemap a) \<and>
     (\<forall>n t. has_type (ax_treemap a) n t \<longleftrightarrow> (\<exists>r \<in> set rs. record_of r n t)) \<and>
     (\<forall>n t. set (sigs_at (ax_sigmap a) n t) = {v. \<exists>r \<in> set rs. signature_of r n t v})"

lemma describes_start: "describes E [] (axfr_start serial)"
  by (simp add: describes_def axfr_start_def has_type_def sigs_at_def)

lemma describes_absorb:
  assumes "name_laws E" and "describes E rs a"
  shows "describes E (rs @ [r]) (absorb E r a)"
proof (cases "is_rrsig (rr_data r)")
  case True
  then obtain s where "rr_data r = Rrsig s" by (cases "rr_data r") simp_all
  with assms(2) show ?thesis
    by (auto simp: describes_def absorb_sel sm_insert_sigs record_of_def signature_of_def)
next
  case False
  then have "\<not> signature_of r n t v" for n t v by (auto simp: signature_of_def)
  with False assms show ?thesis
    by (auto simp: describes_def absorb_sel record_of_def tm_insert_in_order tm_insert_has_type split: rdata.splits)
qed

lemma describes_absorbs:
  "name_laws E \<Longrightarrow> describes E rs a \<Longrightarrow> describes E (rs @ qs) (fold (absorb E) qs a)"
proof (induction qs arbitrary: rs a)
  case (Cons q qs)
  from Cons.IH [OF Cons.prems(1) describes_absorb [OF Cons.prems]] show ?case by simp
qed simp

text \<open>The records of the replies, up to the first one that cannot be read.\<close>

abbreviation isr :: "'a + 'b \<Rightarrow> bool" where
  "isr x \<equiv> \<not> isl x"

definition readable :: "(string + rr) list \<Rightarrow> rr list" where
  "readable rs = map projr (takeWhile isr rs)"

fun stream :: "(string + message) list \<Rightarrow> rr list" where
  "stream (Inr m # ms) = (case answer m of Inr rs \<Rightarrow> readable rs @ (if list_all isr rs then stream ms else []) | _ \<Rightarrow> [])"
| "stream _ = []"

lemma readable_simps [simp]:
  "readable [] = []" "readable (Inr r # rs) = r # readable rs" "readable (Inl e # rs) = []"
  by (simp_all add: readable_def)

lemma absorb_first:
  "\<not> ax_first_soa a \<Longrightarrow> rr_data r = Soa s \<Longrightarrow>
     axfr_insert E r (a\<lparr>ax_first_soa := True, ax_serial := soa_serial s\<rparr>) = absorb E r a"
  "\<not> ax_first_soa a \<Longrightarrow> rr_data r = Soa s \<Longrightarrow>
     absorb E r (a\<lparr>ax_first_soa := True, ax_serial := soa_serial s\<rparr>) = absorb E r a"
  by (simp_all add: absorb_def)

lemma absorb_more: "ax_first_soa a \<Longrightarrow> axfr_insert E r a = absorb E r a"
  by (simp add: absorb_def)

text \<open>A transfer opens with a SOA record, whose serial it keeps.\<close>

definition opens :: "axfr_state \<Rightarrow> rr list \<Rightarrow> bool" where
  "opens a rs \<longleftrightarrow> ax_first_soa a \<or> (\<exists>r s qs. rs = r # qs \<and> rr_data r = Soa s)"

lemma absorb_started:
  "ax_first_soa a \<Longrightarrow> ax_first_soa (absorb E r a) \<and> ax_serial (absorb E r a) = ax_serial a"
  by (simp add: absorb_def axfr_insert_def split: rdata.splits)

lemma absorbs_started:
  "ax_first_soa a \<Longrightarrow> ax_serial (fold (absorb E) rs a) = ax_serial a"
  by (induction rs arbitrary: a) (auto simp: absorb_started)

lemma opens_serial:
  assumes "opens a rs" and "\<not> ax_first_soa a"
  shows "\<exists>s. rr_data (hd rs) = Soa s \<and> rs \<noteq> [] \<and> ax_serial (fold (absorb E) rs a) = soa_serial s"
proof -
  from assms obtain r s qs where rs: "rs = r # qs" "rr_data r = Soa s" by (auto simp: opens_def)
  with assms(2) have "ax_first_soa (absorb E r a)" "ax_serial (absorb E r a) = soa_serial s"
    by (simp_all add: absorb_def axfr_insert_def)
  with rs show ?thesis by (simp add: absorbs_started)
qed

lemma axfr_records_More:
  "axfr_records E k now rs a = AxMore b \<Longrightarrow> list_all isr rs \<and> b = fold (absorb E) (readable rs) a \<and>
     (readable rs = [] \<or> opens a (readable rs))"
proof (induction E k now rs a rule: axfr_records.induct)
  case (3 E k now r rs a)
  then show ?case
    by (cases "ax_first_soa a") (auto simp: absorb_first absorb_more opens_def split: if_splits rdata.splits)
qed simp_all

lemma axfr_records_Return:
  "axfr_records E k now rs a = AxReturn (Ok x) \<Longrightarrow> \<exists>pre e post. readable rs = pre @ e # post \<and>
     opens a pre \<and> axfr_end E k now (fold (absorb E) pre a) (rr_ttl e) = Ok x"
proof (induction E k now rs a rule: axfr_records.induct)
  case (3 E k now r rs a)
  have step: "\<exists>pre e post. readable (Inr r # rs) = pre @ e # post \<and> opens a pre \<and>
      axfr_end E k now (fold (absorb E) pre a) (rr_ttl e) = Ok x"
    if "ax_first_soa a \<or> (\<exists>s. rr_data r = Soa s)"
      and "\<exists>pre e post. readable rs = pre @ e # post \<and> opens (absorb E r a) pre \<and>
      axfr_end E k now (fold (absorb E) pre (absorb E r a)) (rr_ttl e) = Ok x"
  proof -
    from that obtain pre e post where "readable rs = pre @ e # post"
      "axfr_end E k now (fold (absorb E) pre (absorb E r a)) (rr_ttl e) = Ok x" by blast
    with that(1) show ?thesis
      by (intro exI [of _ "r # pre"] exI [of _ e] exI [of _ post]) (auto simp: opens_def)
  qed
  show ?case
  proof (cases "ax_first_soa a")
    case False
    then obtain s where s: "rr_data r = Soa s" using 3(3) by (auto split: rdata.splits)
    with False 3(1) [OF _ s] 3(3) step show ?thesis by (simp add: absorb_first)
  next
    case True
    show ?thesis
    proof (cases "rtype_of (rr_data r) = RT_SOA")
      case end_soa: True
      with True 3(3) have "axfr_end E k now a (rr_ttl r) = Ok x" by simp
      with True show ?thesis by (intro exI [of _ "[]"] exI [of _ r] exI [of _ "readable rs"]) (simp add: opens_def)
    next
      case other: False
      with True 3(2) 3(3) step show ?thesis by (simp add: absorb_more)
    qed
  qed
qed simp_all

lemma axfr_replies_Return:
  "axfr_replies_loop E k now ms a = AxReturn (Ok x) \<Longrightarrow> \<exists>pre e post. stream ms = pre @ e # post \<and>
     opens a pre \<and> axfr_end E k now (fold (absorb E) pre a) (rr_ttl e) = Ok x"
proof (induction E k now ms a rule: axfr_replies_loop.induct)
  case (3 E k now m ms a)
  from 3(2) obtain rs where rs: "opt_rcode m = NOERROR" "answer m = Inr rs"
    by (auto split: if_splits sum.splits)
  show ?case
  proof (cases "axfr_records E k now rs a")
    case (AxMore b)
    with rs 3(2) have "axfr_replies_loop E k now ms b = AxReturn (Ok x)" by simp
    with 3(1) rs AxMore obtain pre e post where "stream ms = pre @ e # post" "opens b pre"
      "axfr_end E k now (fold (absorb E) pre b) (rr_ttl e) = Ok x" by blast
    with axfr_records_More [OF AxMore] rs show ?thesis
      by (intro exI [of _ "readable rs @ pre"] exI [of _ e] exI [of _ post]) (auto simp: opens_def)
  next
    case (AxReturn r)
    with rs 3(2) have "axfr_records E k now rs a = AxReturn (Ok x)" by simp
    from axfr_records_Return [OF this] rs show ?thesis by fastforce
  qed (use rs 3(2) in simp)
qed simp_all

lemma axfr_servers_Ok:
  "axfr_servers E k now store failed serial servers = Ok x \<Longrightarrow>
     \<exists>ns key pre e post. ns \<in> set servers \<and>
       stream (axfr_replies E (ns_addr ns) key (ks_name E (st_keyset k))) = pre @ e # post \<and>
       opens (axfr_start serial) pre \<and>
       axfr_end E k now (fold (absorb E) pre (axfr_start serial)) (rr_ttl e) = Ok x"
proof (induction servers)
  case (Cons ns rest)
  show ?case
  proof (cases "axfr_servers E k now store failed serial rest = Ok x")
    case True
    from Cons.IH [OF True] show ?thesis by (meson list.set_intros(2))
  next
    case False
    with Cons.prems obtain key where
      "axfr_replies_loop E k now (axfr_replies E (ns_addr ns) key (ks_name E (st_keyset k))) (axfr_start serial) = AxReturn (Ok x)"
      by (auto simp: Let_def axfr_start_def split: sum.splits option.splits axfr_step.splits)
    from axfr_replies_Return [OF this] show ?thesis by fastforce
  qed
qed simp

section \<open>What a report means\<close>

text \<open>
  A zone, given by its records, is signed by the expected keys: every set the zone is
  authoritative for has signatures by exactly those keys, except the apex sets that
  keyset signs itself.
\<close>

definition delegated_at :: "name \<Rightarrow> rr list \<Rightarrow> name \<Rightarrow> bool" where
  "delegated_at zone rs n \<longleftrightarrow> n \<noteq> zone \<and> (\<exists>r \<in> set rs. record_of r n RT_NS)"

definition below_delegation :: "'ks ext \<Rightarrow> name \<Rightarrow> rr list \<Rightarrow> name \<Rightarrow> bool" where
  "below_delegation E zone rs n \<longleftrightarrow> (\<exists>d. delegated_at zone rs d \<and> n \<noteq> d \<and> name_ends_with E n d)"

definition zone_signed :: "'ks ext \<Rightarrow> name \<Rightarrow> sigs \<Rightarrow> rr list \<Rightarrow> bool" where
  "zone_signed E zone expected rs \<longleftrightarrow>
     (\<forall>n t. (\<exists>r \<in> set rs. record_of r n t) \<and> \<not> below_delegation E zone rs n \<and>
        \<not> skip_type zone (delegated_at zone rs n) n t \<longrightarrow>
        {v. \<exists>r \<in> set rs. signature_of r n t v} = set expected)"

text \<open>Every nameserver of the zone answers with a serial that is not before the given one.\<close>

definition serial_reached :: "'ks ext \<Rightarrow> name \<Rightarrow> u32 \<Rightarrow> bool" where
  "serial_reached E zone serial \<longleftrightarrow> (\<exists>addresses. addresses_for_zone E zone = Ok addresses \<and>
     (\<forall>a \<in> set addresses. \<exists>rs. lookup_name_rtype_at_address E is_soa zone RT_SOA a = Ok rs \<and> rs \<noteq> [] \<and>
        (\<forall>r \<in> set rs. \<forall>s. rr_data r = Soa s \<longrightarrow> \<not> serial_lt E (soa_serial s) serial)))"

lemma first_wait_Ok: "first_wait rs = Ok () \<longleftrightarrow> (\<forall>r \<in> set rs. \<exists>t. r = Ok (AReport t))"
proof (induction rs)
  case (Cons r rs)
  show ?case
  proof (cases r)
    case (Ok x)
    with Cons show ?thesis by (cases x) auto
  qed auto
qed simp

lemma map_filter_Nil: "List.map_filter f xs = [] \<longleftrightarrow> (\<forall>x \<in> set xs. f x = None)"
  by (induction xs) (auto simp: map_filter_simps split: option.splits)

lemma check_soa_for_address_Report:
  "check_soa_for_address E zone serial now a = Ok (AReport t) \<longleftrightarrow> t = 0 \<and>
     (\<exists>rs. lookup_name_rtype_at_address E is_soa zone RT_SOA a = Ok rs \<and> rs \<noteq> [] \<and>
        (\<forall>r \<in> set rs. \<forall>s. rr_data r = Soa s \<longrightarrow> \<not> serial_lt E (soa_serial s) serial))"
  (is "_ \<longleftrightarrow> t = 0 \<and> ?reached")
proof (cases "lookup_name_rtype_at_address E is_soa zone RT_SOA a")
  case (Ok rs)
  let ?late = "List.map_filter (\<lambda>r. case rr_data r of
      Soa s \<Rightarrow> if serial_lt E (soa_serial s) serial then Some (rr_ttl r, soa_serial s) else None
    | _ \<Rightarrow> None) rs"
  have "?late = [] \<longleftrightarrow> (\<forall>r \<in> set rs. \<forall>s. rr_data r = Soa s \<longrightarrow> \<not> serial_lt E (soa_serial s) serial)"
    unfolding map_filter_Nil by (intro ball_cong refl) (auto split: rdata.splits)
  moreover have "check_soa_for_address E zone serial now a = Ok (AReport t) \<longleftrightarrow> rs \<noteq> [] \<and> ?late = [] \<and> t = 0"
    using Ok by (cases ?late) (auto simp: check_soa_for_address_def)
  ultimately show ?thesis using Ok by auto
qed (simp_all add: check_soa_for_address_def)

lemma check_soa_Ok: "check_soa E serial k now = Ok () \<longleftrightarrow> serial_reached E (ks_name E (st_keyset k)) serial"
  by (auto simp: check_soa_def Let_def bind_res_Ok_iff first_wait_Ok serial_reached_def check_soa_for_address_Report)

lemma verdict_Done: "verdict E sm expected bad RrsigsDone = RrsigsDone \<longleftrightarrow> bad = []"
  by (auto simp: verdict_def split: option.splits prod.splits if_splits)

lemma delegations_described:
  "describes E rs a \<Longrightarrow> n \<in> delegations zone (ax_treemap a) \<longleftrightarrow> delegated_at zone rs n"
  by (auto simp: delegations_def delegated_at_def describes_def has_type_def)

lemma check_rrsigs_described:
  assumes laws: "name_laws E" and rs: "describes E rs a"
  shows "check_rrsigs E (ax_treemap a) (ax_sigmap a) zone expected = RrsigsDone \<longleftrightarrow>
    zone_signed E zone expected rs"
proof -
  let ?tm = "ax_treemap a" and ?sm = "ax_sigmap a"
  from rs have order: "in_order E ?tm" by (simp add: describes_def)
  have occ: "occluded E zone ?tm n \<longleftrightarrow> below_delegation E zone rs n" for n
    unfolding occluded_def below_delegation_def Bex_def delegations_described [OF rs] by blast
  have "bad_sets E ?tm ?sm zone expected ?tm = [] \<longleftrightarrow>
      (\<forall>n t. has_type ?tm n t \<and> \<not> occluded E zone ?tm n \<and>
         \<not> skip_type zone (n \<in> delegations zone ?tm) n t \<longrightarrow> \<not> badly_signed ?sm expected n t)"
    unfolding bad_sets_def bad_types_def has_type_def concat_eq_Nil_conv
    by (fastforce simp: filter_empty_conv split: if_splits)
  also have "\<dots> \<longleftrightarrow> zone_signed E zone expected rs"
    using rs unfolding occ delegations_described [OF rs] badly_signed_def zone_signed_def describes_def by simp
  finally show ?thesis unfolding check_rrsigs_verdict [OF laws order] verdict_Done .
qed

text \<open>The transfer that a verdict is based on, and what it reports.\<close>

definition transferred :: "'ks ext \<Rightarrow> 'ks kss \<Rightarrow> rr list \<Rightarrow> bool" where
  "transferred E k rs \<longleftrightarrow> (\<exists>address key e post.
     stream (axfr_replies E address key (ks_name E (st_keyset k))) = rs @ e # post)"

lemma check_zone_transfer:
  assumes "name_laws E" and "check_zone E k now servers store = Ok x"
  shows "\<exists>rs a s t. transferred E k rs \<and> describes E rs a \<and> rr_data (hd rs) = Soa s \<and>
    ax_serial a = soa_serial s \<and> axfr_end E k now a t = Ok x"
proof -
  from assms(2) obtain failed serial servers' where
    "axfr_servers E k now store failed serial servers' = Ok x"
    by (auto simp: check_zone_def bind_res_Ok_iff)
  from axfr_servers_Ok [OF this] obtain ns :: nameserver and key pre e post where
    str: "stream (axfr_replies E (ns_addr ns) key (ks_name E (st_keyset k))) = pre @ e # post"
    and opens: "opens (axfr_start serial) pre"
    and run: "axfr_end E k now (fold (absorb E) pre (axfr_start serial)) (rr_ttl e) = Ok x"
    by metis
  have "\<not> ax_first_soa (axfr_start serial)" by (simp add: axfr_start_def)
  from opens_serial [OF opens this] describes_absorbs [OF assms(1) describes_start, of pre serial] str run
  show ?thesis unfolding transferred_def by fastforce
qed


text \<open>
  When a transferred zone is signed by the right keys and every nameserver has
  its serial, so that \<open>check_zone\<close> returns a report, \<open>report_rrsig_propagated\<close> ends the
  process: the branch is marked as unreachable.
\<close>

theorem report_rrsig_unreachable:
  "check_zone E k now servers store = Ok (RReport m) \<Longrightarrow>
     report_rrsig_propagated E k now servers store = Panic ''internal error: entered unreachable code''"
  by (simp add: report_rrsig_propagated_def)

text \<open>A zone of one key and one server, transferred in one message.\<close>

definition demo_soa :: rr where
  "demo_soa = RR ''example'' class_IN 300 (Soa (SoaData ''ns.example'' 7))"

definition demo_soa_sig :: rr where
  "demo_soa_sig = RR ''example'' class_IN 900 (Rrsig (RrsigData RT_SOA 15 5 0 0 ''sig''))"

definition demo_axfr :: "demo_ks ext" where
  "demo_axfr = demo_zone\<lparr>
    resolver_query := (\<lambda>n t. Inr (demo_message\<lparr>answer := Inr [Inr
      (if t = RT_NS then RR n class_IN 60 (Ns ''ns.example'') else demo_soa)]\<rparr>)),
    query_at := (\<lambda>a n t. Inr (demo_message\<lparr>answer := Inr [Inr demo_soa]\<rparr>)),
    axfr_replies := (\<lambda>a k n. [Inr (demo_message\<lparr>answer := Inr [Inr demo_soa, Inr demo_soa_sig, Inr demo_soa]\<rparr>)])\<rparr>"

definition demo_signed :: "demo_ks kss" where
  "demo_signed = demo_state\<lparr>st_keyset := demo_keyset\<lparr>dm_keys :=
     [(''file:///k/pub2'', demo_key (Zsk demo_active) None 15 5 0)]\<rparr>\<rparr>"

lemma demo_axfr_sel [simp]:
  "name_less demo_axfr = name_less demo_zone" "name_ends_with demo_axfr = name_ends_with demo_zone"
  "ks_name demo_axfr = dm_name" "ks_keys demo_axfr = dm_keys" "serial_lt demo_axfr = serial_lt demo"
  "lookup_host demo_axfr = lookup_host demo" "tcp_connect demo_axfr = tcp_connect demo"
  "resolver_query demo_axfr n t = Inr (demo_message\<lparr>answer := Inr [Inr
      (if t = RT_NS then RR n class_IN 60 (Ns ''ns.example'') else demo_soa)]\<rparr>)"
  "query_at demo_axfr a n t = Inr (demo_message\<lparr>answer := Inr [Inr demo_soa]\<rparr>)"
  "axfr_replies demo_axfr a key n = [Inr (demo_message\<lparr>answer := Inr [Inr demo_soa, Inr demo_soa_sig, Inr demo_soa]\<rparr>)]"
  by (simp_all add: demo_axfr_def demo_zone_def)

lemma demo_axfr_laws: "name_laws demo_axfr"
proof -
  have "name_laws demo_axfr \<longleftrightarrow> name_laws demo_zone" by (simp only: name_laws_def demo_axfr_sel)
  with demo_zone_laws show ?thesis by simp
qed

lemma demo_soa_sel [simp]: "rr_data demo_soa = Soa (SoaData ''ns.example'' 7)" "rr_class demo_soa = class_IN"
  "rr_owner demo_soa = ''example''" "rr_ttl demo_soa = 300"
  by (simp_all add: demo_soa_def)

lemma demo_axfr_addresses: "addresses_for_zone demo_axfr n = Ok [''192.0.2.1'']"
  by (simp add: addresses_for_zone_def addresses_for_name_def demo_message_def NOERROR_def
      lift_sum_def limit_to_in_def ns_names_def map_filter_simps)

lemma demo_axfr_soa: "soa_mname_of demo_axfr n = Ok (SoaData ''ns.example'' 7)"
  by (simp add: soa_mname_of_def demo_message_def lift_sum_def limit_to_in_def)

lemma demo_axfr_serial: "check_soa demo_axfr 7 demo_signed now = Ok ()"
  unfolding check_soa_Ok serial_reached_def
  by (simp add: demo_axfr_addresses lookup_name_rtype_at_address_def demo_message_def lift_sum_def limit_to_in_def)

lemma demo_axfr_expected: "get_expected_zsk_key_tags demo_axfr demo_signed = [(15, 5)]"
  by (simp add: get_expected_zsk_key_tags_def demo_signed_def zsk_signer_def demo_active_def)

lemma demo_axfr_check: "check_zone demo_axfr demo_signed 0 [] [] = Ok (RReport 900)"
proof -
  have name: "dm_name (st_keyset demo_signed) = ''example''" by (simp add: demo_signed_def)
  have "check_rrsigs demo_axfr [(''example'', [RT_SOA])] [((''example'', RT_SOA), [(15, 5)])] ''example'' [(15, 5)] = RrsigsDone"
    by (simp add: check_rrsigs_def skip_type_def sigs_at_def)
  then have "axfr_replies_loop demo_axfr demo_signed 0 (axfr_replies demo_axfr a key n) (axfr_start 7) =
      AxReturn (Ok (RReport 900))" for a key n
    by (simp add: demo_message_def NOERROR_def axfr_start_def axfr_insert_def set_insert_def
        demo_soa_sig_def sm_insert_def sigs_at_def hm_insert_def hm_remove_def axfr_end_def name
        demo_axfr_expected demo_axfr_serial)
  note run = this [unfolded axfr_start_def]
  show ?thesis
    by (simp add: check_zone_def demo_axfr_soa addresses_for_name_def nameserver_from_ip_def Let_def run
        del: axfr_replies_loop.simps demo_axfr_sel(10))
qed


lemma report_rrsig_unreachable_witness:
  "is_panic (report_rrsig_propagated demo_axfr demo_signed 0 [] [])"
  unfolding report_rrsig_unreachable [OF demo_axfr_check] by simp

end
