(* ===== verification/Automation_Correct.thy ===== *)
theory Automation_Correct
  imports Automation Zone_Check
begin

text \<open>
  What the automation does with the propagation checks: the checks behind one interface,
  the loops over the actions of a roll, their agreement with the scheduling functions, and
  the schedule of signature renewal.
\<close>

section \<open>The checks behind one interface\<close>

text \<open>The stored status of the check an action asks for; other actions need none.\<close>

definition status :: "action \<Rightarrow> report_state \<Rightarrow> auto_report_result option" where
  "status a rep =
     (if a \<in> {ReportDnskeyPropagated, WaitDnskeyPropagated} then rep_dnskey rep
      else if a \<in> {ReportDsPropagated, WaitDsPropagated} then rep_ds rep
      else if a \<in> {ReportRrsigPropagated, WaitRrsigPropagated} then map_option rrsig_outcome (rep_rrsig rep)
      else Some (AReport 0))"

lemma check_auto_actions_status:
  "check_auto_actions (a # as) rep now = (case report_pending (status a rep) now of
     Some until \<Rightarrow> AutoWait until | None \<Rightarrow> check_auto_actions as rep now)"
  by (simp add: status_def Let_def)

declare check_auto_actions.simps(2) [simp del]

definition check_of ::
  "(time \<Rightarrow> time \<Rightarrow> time) \<Rightarrow> 'ks ext \<Rightarrow> 'ks kss \<Rightarrow> time \<Rightarrow> nameserver list \<Rightarrow> tsig_store \<Rightarrow> action \<Rightarrow>
     auto_report_result reporting" where
  "check_of soa_until E k now servers store a =
     (if a \<in> {ReportDnskeyPropagated, WaitDnskeyPropagated} then dnskey_action E k now
      else if a \<in> {ReportDsPropagated, WaitDsPropagated} then ds_action E k now
      else if a \<in> {ReportRrsigPropagated, WaitRrsigPropagated} then rrsig_action soa_until E k now servers store
      else ret (AReport 0))"

lemma check_of_simps [simp]:
  "check_of f E k now servers store ReportDnskeyPropagated = dnskey_action E k now"
  "check_of f E k now servers store WaitDnskeyPropagated = dnskey_action E k now"
  "check_of f E k now servers store ReportDsPropagated = ds_action E k now"
  "check_of f E k now servers store WaitDsPropagated = ds_action E k now"
  "check_of f E k now servers store ReportRrsigPropagated = rrsig_action f E k now servers store"
  "check_of f E k now servers store WaitRrsigPropagated = rrsig_action f E k now servers store"
  "check_of f E k now servers store UpdateDnskeyRrset = ret (AReport 0)"
  "check_of f E k now servers store CreateCdsRrset = ret (AReport 0)"
  "check_of f E k now servers store RemoveCdsRrset = ret (AReport 0)"
  "check_of f E k now servers store UpdateDsRrset = ret (AReport 0)"
  "check_of f E k now servers store UpdateRrsig = ret (AReport 0)"
  by (simp_all add: check_of_def)

fun check_loop :: "(action \<Rightarrow> auto_report_result reporting) \<Rightarrow> action list \<Rightarrow> ttl \<Rightarrow> auto_report_result reporting" where
  "check_loop check [] max_ttl = ret (AReport max_ttl)"
| "check_loop check (a # as) max_ttl = bindP (check a) (\<lambda>r. case r of
      AWait until notice \<Rightarrow> ret (AWait until notice)
    | AReport t \<Rightarrow> check_loop check as (max max_ttl t))"

definition no_wait :: "action list \<Rightarrow> bool" where
  "no_wait as \<longleftrightarrow> set as \<inter> {WaitDnskeyPropagated, WaitDsPropagated, WaitRrsigPropagated} = {}"

definition no_report :: "action list \<Rightarrow> bool" where
  "no_report as \<longleftrightarrow> set as \<inter> {ReportDnskeyPropagated, ReportDsPropagated, ReportRrsigPropagated} = {}"

lemma auto_report_loop_check:
  "no_wait as \<Longrightarrow> auto_report_loop E k now servers store as m = check_loop (check_of (\<lambda>old new. new) E k now servers store) as m"
proof (induction as arbitrary: m)
  case (Cons a as)
  then have as: "no_wait as" by (simp add: no_wait_def)
  with Cons.prems show ?case
    by (cases a) (simp_all add: no_wait_def bindP_ret Cons.IH [OF as])
qed simp

definition wait_result :: "auto_report_result \<Rightarrow> auto_actions_result" where
  "wait_result r = (case r of AWait until notice \<Rightarrow> AutoWait until | AReport t \<Rightarrow> AutoOk)"

lemma bindP_assoc: "bindP (bindP m f) g = bindP m (\<lambda>x. bindP (f x) g)"
  by (rule ext) (auto simp: bindP_def split: prod.splits res.splits)

lemma auto_wait_actions_check:
  "no_report as \<Longrightarrow> auto_wait_actions E as k now servers store =
     bindP (check_loop (check_of (\<lambda>old new. old) E k now servers store) as m) (\<lambda>r. ret (wait_result r))"
proof (induction as arbitrary: m)
  case Nil
  then show ?case by (simp add: bindP_ret wait_result_def)
next
  case (Cons a as)
  let ?next = "\<lambda>c. bindP c (\<lambda>r. case r of
      AWait until notice \<Rightarrow> ret (AutoWait until) | AReport t \<Rightarrow> auto_wait_actions E as k now servers store)"
  from Cons.prems have as: "no_report as" by (simp add: no_report_def)
  let ?loop = "check_loop (check_of (\<lambda>old new. old) E k now servers store)"
  have step: "(\<lambda>r. case r of AWait until notice \<Rightarrow> ret (AutoWait until) | AReport t \<Rightarrow> auto_wait_actions E as k now servers store) =
      (\<lambda>r. bindP (case r of AWait until notice \<Rightarrow> ret (AWait until notice) | AReport t \<Rightarrow> ?loop as (max m t))
        (\<lambda>r. ret (wait_result r)))"
  proof
    fix r
    show "(case r of AWait until notice \<Rightarrow> ret (AutoWait until) | AReport t \<Rightarrow> auto_wait_actions E as k now servers store) =
      bindP (case r of AWait until notice \<Rightarrow> ret (AWait until notice) | AReport t \<Rightarrow> ?loop as (max m t))
        (\<lambda>r. ret (wait_result r))"
    proof (cases r)
      case (AReport t)
      then show ?thesis using Cons.IH [OF as, of "max m t"] by simp
    qed (simp add: bindP_ret wait_result_def)
  qed
  have skip: "auto_wait_actions E as k now servers store = bindP (?loop as m) (\<lambda>r. ret (wait_result r))"
    by (rule Cons.IH [OF as])
  let ?check = "check_of (\<lambda>old new. old) E k now servers store"
  let ?run = "auto_wait_actions E (a # as) k now servers store"
  consider (wait) "?run = bindP (?check a) (\<lambda>r. case r of
        AWait until notice \<Rightarrow> ret (AutoWait until) | AReport t \<Rightarrow> auto_wait_actions E as k now servers store)"
    | (update) "?run = auto_wait_actions E as k now servers store" "?check a = ret (AReport 0)"
    using Cons.prems by (cases a) (auto simp: no_report_def)
  then show ?case
  proof cases
    case wait
    then show ?thesis by (simp only: check_loop.simps bindP_assoc step)
  next
    case update
    then show ?thesis by (simp add: bindP_ret skip)
  qed
qed

text \<open>
  The contract of the checks: a stored report stands, a stored time in the future stops
  the check, a check only changes its own status, a report is stored, and when it has to
  wait, a time to wait for is stored, which may be one that has passed.
\<close>

locale propagation_checks =
  fixes check :: "action \<Rightarrow> auto_report_result reporting"
    and now :: time
  assumes stored: "status a rep = Some (AReport t) \<Longrightarrow> check a (rep, c) = (Ok (AReport t), (rep, c))"
    and future: "status a rep = Some (AWait until notice) \<Longrightarrow> until > now \<Longrightarrow>
       check a (rep, c) = (Ok (AWait until notice), (rep, c))"
    and others: "check a (rep, c) = (Ok r, (rep', c')) \<Longrightarrow>
       (\<forall>x. status b x = status a x) \<or> status b rep' = status b rep"
    and reported: "check a (rep, c) = (Ok (AReport t), (rep', c')) \<Longrightarrow> status a rep' = Some (AReport t)"
    and waiting: "check a (rep, c) = (Ok (AWait until notice), (rep', c')) \<Longrightarrow>
       \<exists>until' notice'. status a rep' = Some (AWait until' notice') \<and> (until' = until \<or> until' \<le> now)"
begin

lemma keeps_report:
  assumes "check a (rep, c) = (Ok r, (rep', c'))" and b: "status b rep = Some (AReport u)"
  shows "status b rep' = Some (AReport u)"
proof (cases "\<forall>x. status b x = status a x")
  case True
  with b have "status a rep = Some (AReport u)" by metis
  from stored [OF this, of c] assms show ?thesis by simp
next
  case False
  with others [OF assms(1), of b] b show ?thesis by simp
qed

lemma loop_keeps_report:
  "check_loop check as m (rep, c) = (Ok r, (rep', c')) \<Longrightarrow> status b rep = Some (AReport u) \<Longrightarrow>
     status b rep' = Some (AReport u)"
proof (induction as arbitrary: m rep c)
  case (Cons a as)
  from Cons.prems(1) obtain x rep1 c1 where first: "check a (rep, c) = (Ok x, (rep1, c1))"
    and rest: "(case x of AWait until notice \<Rightarrow> ret (AWait until notice)
      | AReport t \<Rightarrow> check_loop check as (max m t)) (rep1, c1) = (Ok r, (rep', c'))"
    by (auto simp: bindP_Ok_iff)
  have kept: "status b rep1 = Some (AReport u)" by (rule keeps_report [OF first Cons.prems(2)])
  show ?case
  proof (cases x)
    case (AReport t)
    with rest kept Cons.IH [of "max m t" rep1 c1] show ?thesis by simp
  next
    case (AWait until notice)
    with rest kept show ?thesis by (simp add: prog_Ok)
  qed
qed (simp add: prog_Ok)

text \<open>A report of the loop: every check has a stored report, the result is the largest one.\<close>

lemma loop_report:
  "check_loop check as m0 (rep, c) = (Ok (AReport m), (rep', c')) \<Longrightarrow>
     m0 \<le> m \<and> (\<forall>a \<in> set as. \<exists>t. status a rep' = Some (AReport t) \<and> t \<le> m) \<and>
     (m = m0 \<or> (\<exists>a \<in> set as. status a rep' = Some (AReport m)))"
proof (induction as arbitrary: m0 rep c)
  case (Cons a as)
  from Cons.prems obtain t rep1 c1 where first: "check a (rep, c) = (Ok (AReport t), (rep1, c1))"
    and rest: "check_loop check as (max m0 t) (rep1, c1) = (Ok (AReport m), (rep', c'))"
  proof -
    from Cons.prems obtain x rep1 c1 where "check a (rep, c) = (Ok x, (rep1, c1))"
      "(case x of AWait until notice \<Rightarrow> ret (AWait until notice)
      | AReport t \<Rightarrow> check_loop check as (max m0 t)) (rep1, c1) = (Ok (AReport m), (rep', c'))"
      by (auto simp: bindP_Ok_iff)
    with that show thesis by (cases x) (auto simp: prog_Ok)
  qed
  have a: "status a rep' = Some (AReport t)" by (rule loop_keeps_report [OF rest reported [OF first]])
  from Cons.IH [OF rest] a show ?case by (auto simp: max_def split: if_splits)
qed (simp add: prog_Ok)

lemma loop_scheduled:
  "check_loop check as m0 (rep, c) = (Ok r, (rep', c')) \<Longrightarrow>
     (case r of
        AReport m \<Rightarrow> check_auto_actions as rep' now = AutoOk
      | AWait until notice \<Rightarrow> \<exists>until'. check_auto_actions as rep' now = AutoWait until' \<and>
          (until' = until \<or> until' \<le> now))"
proof (induction as arbitrary: m0 rep c)
  case (Cons a as)
  from Cons.prems obtain x rep1 c1 where first: "check a (rep, c) = (Ok x, (rep1, c1))"
    and rest: "(case x of AWait until notice \<Rightarrow> ret (AWait until notice)
      | AReport t \<Rightarrow> check_loop check as (max m0 t)) (rep1, c1) = (Ok r, (rep', c'))"
    by (auto simp: bindP_Ok_iff)
  show ?case
  proof (cases x)
    case (AReport t)
    with rest have rest': "check_loop check as (max m0 t) (rep1, c1) = (Ok r, (rep', c'))" by simp
    have "status a rep' = Some (AReport t)"
      by (rule loop_keeps_report [OF rest' reported [OF first [unfolded AReport]]])
    with Cons.IH [OF rest'] show ?thesis by (cases r) (auto simp: check_auto_actions_status)
  next
    case (AWait until notice)
    with rest have "rep' = rep1" "r = AWait until notice" by (simp_all add: prog_Ok)
    with waiting [OF first [unfolded AWait]] show ?thesis by (auto simp: check_auto_actions_status)
  qed
qed (auto simp: prog_Ok)

text \<open>While the stored time is in the future nothing is asked and nothing changes.\<close>

lemma loop_future:
  "check_auto_actions as rep now = AutoWait until \<Longrightarrow> until > now \<Longrightarrow>
     \<exists>notice. check_loop check as m (rep, c) = (Ok (AWait until notice), (rep, c))"
proof (induction as arbitrary: m)
  case (Cons a as)
  show ?case
  proof (cases "status a rep")
    case None
    with Cons.prems show ?thesis by (simp add: check_auto_actions_status)
  next
    case (Some x)
    show ?thesis
    proof (cases x)
      case (AReport t)
      with Some Cons.prems Cons.IH [of "max m t"] stored [of a rep t c]
      show ?thesis by (simp add: check_auto_actions_status bindP_def)
    next
      case (AWait u n)
      with Some Cons.prems have "u = until" by (simp add: check_auto_actions_status)
      with future [of a rep u n c] Some AWait Cons.prems(2) show ?thesis by (simp add: bindP_def ret_def)
    qed
  qed
qed simp

end

section \<open>The checks of the source\<close>

lemma store_run:
  "store_dnskey x (rep, c) = (Ok (), (rep\<lparr>rep_dnskey := Some x\<rparr>, True))"
  "store_ds x (rep, c) = (Ok (), (rep\<lparr>rep_ds := Some x\<rparr>, True))"
  "store_rrsig y (rep, c) = (Ok (), (rep\<lparr>rep_rrsig := Some y\<rparr>, True))"
  by (simp_all add: store_dnskey_def store_ds_def store_rrsig_def prog_eval)

lemma dnskey_action_cases:
  "dnskey_action E k now (rep, c) = (Ok r, (rep', c')) \<Longrightarrow>
     (r, rep') \<in> {(x, rep) |x. rep_dnskey rep = Some x} \<or> rep' = rep\<lparr>rep_dnskey := Some r\<rparr>"
  by (auto simp: dnskey_action_def prog_Ok store_run Let_def split: option.splits auto_report_result.splits if_splits)

lemma ds_action_cases:
  "ds_action E k now (rep, c) = (Ok r, (rep', c')) \<Longrightarrow>
     (r, rep') \<in> {(x, rep) |x. rep_ds rep = Some x} \<or> rep' = rep\<lparr>rep_ds := Some r\<rparr>"
  by (auto simp: ds_action_def prog_Ok store_run Let_def split: option.splits auto_report_result.splits if_splits)

text \<open>The two ways in which the callers of \<open>rrsig_action\<close> treat the time of a failed SOA check.\<close>

definition soa_policy :: "(time \<Rightarrow> time \<Rightarrow> time) \<Rightarrow> bool" where
  "soa_policy f \<longleftrightarrow> (\<forall>x y. f x y = x \<or> f x y = y)"

text \<open>The outcome of a check: the stored status, a new one, or a new one with an old time.\<close>

definition rrsig_settled :: "time \<Rightarrow> report_state \<Rightarrow> auto_report_result \<Rightarrow> report_state \<Rightarrow> bool" where
  "rrsig_settled now rep r rep' \<longleftrightarrow>
     (map_option rrsig_outcome (rep_rrsig rep) = Some r \<and> rep' = rep) \<or>
     (\<exists>y. rep' = rep\<lparr>rep_rrsig := Some y\<rparr> \<and> (rrsig_outcome y = r \<or>
       (\<exists>until notice until'. r = AWait until notice \<and> rrsig_outcome y = AWait until' notice \<and> until' \<le> now)))"

lemma rrsig_check_settled:
  "rrsig_check E k now servers store (rep, c) = (Ok r, (rep', c')) \<Longrightarrow> rrsig_settled now rep r rep'"
  unfolding rrsig_settled_def by (rule disjI2) (auto simp: rrsig_check_def prog_Ok store_run)

lemma rrsig_settled_old: "rep_rrsig rep = Some x \<Longrightarrow> rrsig_outcome x = r \<Longrightarrow> rrsig_settled now rep r rep"
  by (simp add: rrsig_settled_def)

lemma rrsig_settled_new: "rrsig_outcome y = r \<Longrightarrow> rrsig_settled now rep r (rep\<lparr>rep_rrsig := Some y\<rparr>)"
  unfolding rrsig_settled_def by blast

lemma rrsig_settled_late:
  "rrsig_outcome y = AWait until' notice \<Longrightarrow> until' \<le> now \<Longrightarrow>
     rrsig_settled now rep (AWait until notice) (rep\<lparr>rep_rrsig := Some y\<rparr>)"
  unfolding rrsig_settled_def by blast

lemma rrsig_action_settled:
  assumes policy: "soa_policy soa_until"
    and run: "rrsig_action soa_until E k now servers store (rep, c) = (Ok r, (rep', c'))"
  shows "rrsig_settled now rep r rep'"
proof (cases "rep_rrsig rep")
  case None
  with run show ?thesis by (simp add: rrsig_action_def prog_eval rrsig_check_settled)
next
  case (Some x)
  show ?thesis
  proof (cases x)
    case (RReport t)
    with run Some show ?thesis by (auto simp: rrsig_action_def prog_eval rrsig_settled_old)
  next
    case (RWait until notice)
    with run Some show ?thesis
      by (auto simp: rrsig_action_def prog_eval rrsig_settled_old rrsig_check_settled split: if_splits)
  next
    case (RWaitSoa until serial t report_ttl notice)
    show ?thesis
    proof (cases "until > now")
      case True
      with run Some RWaitSoa show ?thesis by (auto simp: rrsig_action_def prog_eval rrsig_settled_old)
    next
      case late: False
      show ?thesis
      proof (cases "check_soa E serial k now")
        case (Err e)
        let ?next = "now + ttl_duration t"
        from run Some RWaitSoa late Err have r: "r = AWait ?next e"
          and rep': "rep' = rep\<lparr>rep_rrsig := Some (RWaitSoa (soa_until until ?next) serial t report_ttl e)\<rparr>"
          by (auto simp: rrsig_action_def prog_Ok store_run Let_def)
        from policy consider "soa_until until ?next = ?next" | "soa_until until ?next = until"
          unfolding soa_policy_def by blast
        then show ?thesis
          unfolding r rep' using late by cases (simp_all add: rrsig_settled_new rrsig_settled_late)
      qed (use run Some RWaitSoa late in
          \<open>auto simp: rrsig_action_def prog_Ok store_run rrsig_settled_new\<close>)
    qed
  next
    case (RWaitRecord until n rt t notice)
    with run Some show ?thesis
      by (auto simp: rrsig_action_def prog_Ok store_run Let_def rrsig_settled_old rrsig_check_settled
          split: if_splits res.splits intro: rrsig_settled_new)
  next
    case (RWaitNextSerial until serial t notice)
    with run Some show ?thesis
      by (auto simp: rrsig_action_def prog_Ok store_run Let_def rrsig_settled_old rrsig_check_settled not_less
          split: if_splits res.splits intro: rrsig_settled_late)
  qed
qed

lemma checks_contract:
  assumes "soa_policy f"
  shows "propagation_checks (check_of f E k now servers store) now"
proof
  fix a rep t c assume st: "status a rep = Some (AReport t)"
  show "check_of f E k now servers store a (rep, c) = (Ok (AReport t), (rep, c))"
  proof -
    have "rrsig_outcome x = AReport t \<longleftrightarrow> x = RReport t" for x by (cases x) auto
    with st show ?thesis
      by (auto simp: status_def check_of_def dnskey_action_def ds_action_def rrsig_action_def prog_eval split: if_splits)
  qed
next
  fix a rep until notice c assume st: "status a rep = Some (AWait until notice)" "until > now"
  from st(1) consider "a \<in> {ReportDnskeyPropagated, WaitDnskeyPropagated}" "rep_dnskey rep = Some (AWait until notice)"
    | "a \<in> {ReportDsPropagated, WaitDsPropagated}" "rep_ds rep = Some (AWait until notice)"
    | x where "a \<in> {ReportRrsigPropagated, WaitRrsigPropagated}" "rep_rrsig rep = Some x" "rrsig_outcome x = AWait until notice"
    by (auto simp: status_def split: if_splits)
  then show "check_of f E k now servers store a (rep, c) = (Ok (AWait until notice), (rep, c))"
  proof cases
    case 3
    with st(2) show ?thesis by (cases x) (auto simp: rrsig_action_def prog_eval)
  qed (use st(2) in \<open>auto simp: dnskey_action_def ds_action_def prog_eval\<close>)
next
  have rrsig: "rrsig_settled now rep r rep'"
    if "rrsig_action f E k now servers store (rep, c) = (Ok r, (rep', c'))" for rep c r rep' c'
    by (rule rrsig_action_settled [OF assms that])
  note runs = dnskey_action_cases ds_action_cases rrsig
  {
    fix a rep c r rep' c' b assume "check_of f E k now servers store a (rep, c) = (Ok r, (rep', c'))"
    then show "(\<forall>x. status b x = status a x) \<or> status b rep' = status b rep"
      by (cases a; cases b) (auto simp: status_def rrsig_settled_def prog_eval dest!: runs)
  next
    fix a rep c t rep' c' assume "check_of f E k now servers store a (rep, c) = (Ok (AReport t), (rep', c'))"
    then show "status a rep' = Some (AReport t)"
      by (cases a) (auto simp: status_def rrsig_settled_def prog_eval dest!: runs)
  next
    fix a rep c until notice rep' c'
    assume "check_of f E k now servers store a (rep, c) = (Ok (AWait until notice), (rep', c'))"
    then show "\<exists>until' notice'. status a rep' = Some (AWait until' notice') \<and> (until' = until \<or> until' \<le> now)"
      by (cases a) (auto simp: status_def rrsig_settled_def prog_eval dest!: runs)
  }
qed

interpretation report_checks: propagation_checks "check_of (\<lambda>old new. new) E k now servers store" now
  for E :: "'ks ext" and k now servers store
  by (rule checks_contract) (simp add: soa_policy_def)

interpretation wait_checks: propagation_checks "check_of (\<lambda>old new. old) E k now servers store" now
  for E :: "'ks ext" and k now servers store
  by (rule checks_contract) (simp add: soa_policy_def)

lemma auto_report_loop_Ok:
  "auto_report_loop E k now servers store as m s = (Ok r, t) \<Longrightarrow>
     check_loop (check_of (\<lambda>old new. new) E k now servers store) as m s = (Ok r, t)"
proof (induction as arbitrary: m s)
  case (Cons a as)
  show ?case
  proof (cases "no_wait [a]")
    case True
    then have run: "auto_report_loop E k now servers store (a # as) m =
      bindP (check_of (\<lambda>old new. new) E k now servers store a) (\<lambda>r. case r of
        AWait until notice \<Rightarrow> ret (AWait until notice)
      | AReport t \<Rightarrow> auto_report_loop E k now servers store as (max m t))"
      by (cases a) (simp_all add: no_wait_def bindP_ret)
    from Cons.prems obtain x u where "check_of (\<lambda>old new. new) E k now servers store a s = (Ok x, u)"
      "(case x of AWait until notice \<Rightarrow> ret (AWait until notice)
        | AReport t \<Rightarrow> auto_report_loop E k now servers store as (max m t)) u = (Ok r, t)"
      unfolding run by (auto simp: bindP_Ok_iff)
    with Cons.IH show ?thesis by (cases x) (auto simp: bindP_Ok_iff)
  next
    case False
    with Cons.prems show ?thesis by (cases a) (auto simp: no_wait_def prog_eval)
  qed
qed simp

lemma auto_report_actions_Ok:
  "auto_report_actions E actions k now servers store s = (Ok r, t) \<Longrightarrow>
     check_loop (check_of (\<lambda>old new. new) E k now servers store) actions 0 s = (Ok r, t)"
  by (cases "actions = []") (auto simp: auto_report_actions_def guardP_def prog_eval thenP_def bindP_def
      intro!: auto_report_loop_Ok)

section \<open>Reports\<close>

text \<open>
  Property C36. When \<open>auto_report_actions\<close> reports a TTL, every check the actions ask for has
  a stored report, the TTL is the largest of them, and the scheduling function finds
  nothing left to wait for.
\<close>

theorem auto_report_complete:
  assumes "auto_report_actions E actions k now servers store (rep, c) = (Ok (AReport m), (rep', c'))"
  shows "check_auto_actions actions rep' now = AutoOk \<and>
    (\<forall>a \<in> set actions. \<exists>t. status a rep' = Some (AReport t) \<and> t \<le> m) \<and>
    (m = 0 \<or> (\<exists>a \<in> set actions. status a rep' = Some (AReport m)))"
  using report_checks.loop_report [OF auto_report_actions_Ok [OF assms]]
    report_checks.loop_scheduled [OF auto_report_actions_Ok [OF assms]] by auto

text \<open>
  When \<open>auto_report_actions\<close> has to wait, the scheduling function asks for the
  same time, or for a time that has already passed.
\<close>

theorem auto_report_scheduled:
  assumes "auto_report_actions E actions k now servers store (rep, c) = (Ok (AWait until notice), (rep', c'))"
  shows "check_auto_actions actions rep' now = AutoWait until \<or>
    (\<exists>until' \<le> now. check_auto_actions actions rep' now = AutoWait until')"
  using report_checks.loop_scheduled [OF auto_report_actions_Ok [OF assms]] by auto

text \<open>
  While the scheduling function asks to wait for a time in the future,
  \<open>auto_report_actions\<close> asks no nameserver and changes nothing.
\<close>

theorem auto_report_rate_limited:
  assumes "no_wait actions" and "check_auto_actions actions rep now = AutoWait until" and "until > now"
  shows "\<exists>notice. auto_report_actions E actions k now servers store (rep, c) = (Ok (AWait until notice), (rep, c))"
proof -
  from assms(2) have "actions \<noteq> []" by auto
  with report_checks.loop_future [OF assms(2,3)] show ?thesis
    by (simp add: auto_report_actions_def guardP_def thenP_ret auto_report_loop_check [OF assms(1)])
qed

text \<open>
  Property C38. After a failed check for a new serial the time to wait is not stored: the
  caller is told to wait for the TTL of the SOA record, but the stored status keeps the
  time that has passed, so that the scheduling function asks for another run at once.
\<close>

theorem next_serial_not_rescheduled:
  assumes "rep_rrsig rep = Some (RWaitNextSerial until serial t notice)" and "until \<le> now"
    and "check_next_serial E serial k = Err e"
  shows "auto_report_actions E [ReportRrsigPropagated] k now servers store (rep, c) =
      (Ok (AWait (now + ttl_duration t) e), (rep\<lparr>rep_rrsig := Some (RWaitNextSerial until serial t e)\<rparr>, True)) \<and>
    check_auto_actions [ReportRrsigPropagated] (rep\<lparr>rep_rrsig := Some (RWaitNextSerial until serial t e)\<rparr>) now =
      AutoWait until"
  using assms
  by (simp add: auto_report_actions_def guardP_def thenP_ret rrsig_action_def prog_eval thenP_def bindP_def
      store_run ret_def check_auto_actions_status status_def)

lemma auto_report_complete_witness:
  "check_auto_actions [UpdateDnskeyRrset, ReportDnskeyPropagated]
     (report_state_default\<lparr>rep_dnskey := Some (AReport 7200)\<rparr>) 0 = AutoOk"
proof -
  have "auto_report_actions demo_net [UpdateDnskeyRrset, ReportDnskeyPropagated] (demo_state\<lparr>st_dnskey_rrset := [''k'']\<rparr>) 0 [] []
      (report_state_default, False) = (Ok (AReport 7200), (report_state_default\<lparr>rep_dnskey := Some (AReport 7200)\<rparr>, True))"
    by (simp add: auto_report_actions_def guardP_def thenP_ret dnskey_action_def prog_eval thenP_def bindP_def
        demo_net_report store_run ret_def lift_res_def report_state_default_def)
  from auto_report_complete [OF this] show ?thesis by blast
qed

lemma demo_no_servers: "report_dnskey_propagated demo demo_state 0 =
    Ok (AWait DEFAULT_WAIT (''Getting nameserver addresses for example failed: example has no NS records''))"
proof -
  have "addresses_for_zone demo ''example'' = Err (''example has no NS records'')"
    by (simp add: addresses_for_zone_def demo_message_def NOERROR_def lift_sum_def limit_to_in_def ns_names_def
        map_filter_simps)
  then show ?thesis by (simp add: report_dnskey_propagated_def Let_def)
qed

lemma auto_report_scheduled_witness:
  "\<exists>until rep. check_auto_actions [ReportDnskeyPropagated] rep 0 = AutoWait until \<and>
     fst (auto_report_actions demo [ReportDnskeyPropagated] demo_state 0 [] [] (report_state_default, False)) \<noteq> Ok (AReport 0)"
proof -
  have run: "\<exists>notice rep. auto_report_actions demo [ReportDnskeyPropagated] demo_state 0 [] [] (report_state_default, False) =
      (Ok (AWait DEFAULT_WAIT notice), (rep, True))"
    by (auto simp: auto_report_actions_def guardP_def thenP_ret dnskey_action_def prog_eval thenP_def bindP_def
        demo_no_servers store_run ret_def lift_res_def report_state_default_def)
  then obtain notice rep where run: "auto_report_actions demo [ReportDnskeyPropagated] demo_state 0 [] []
      (report_state_default, False) = (Ok (AWait DEFAULT_WAIT notice), (rep, True))" by blast
  from auto_report_scheduled [OF run] run show ?thesis by auto
qed

lemma auto_report_rate_limited_witness:
  "\<exists>notice. auto_report_actions demo [UpdateDsRrset, ReportDsPropagated] demo_state 50 [] []
     (report_state_default\<lparr>rep_ds := Some (AWait 100 ''too early'')\<rparr>, False) =
     (Ok (AWait 100 notice), (report_state_default\<lparr>rep_ds := Some (AWait 100 ''too early'')\<rparr>, False))"
  by (rule auto_report_rate_limited) (simp_all add: no_wait_def check_auto_actions_status status_def)

lemma next_serial_not_rescheduled_witness:
  "check_auto_actions [ReportRrsigPropagated]
     (report_state_default\<lparr>rep_rrsig := Some (RWaitNextSerial 10 7 300 ''No result for example/SOA'')\<rparr>) 50 = AutoWait 10"
proof -
  have "soa_mname_of demo ''example'' = Err ''No result for example/SOA''"
    by (simp add: soa_mname_of_def demo_message_def NOERROR_def lift_sum_def limit_to_in_def)
  then have "check_next_serial demo 7 demo_state = Err ''No result for example/SOA''"
    by (simp add: check_next_serial_def get_primary_addresses_def Let_def)
  from next_serial_not_rescheduled [where rep = "report_state_default\<lparr>rep_rrsig := Some (RWaitNextSerial 10 7 300 ''n'')\<rparr>"
      and until = 10, OF _ _ this, of 300 "''n''" 50 "[]" "[]" False]
  show ?thesis by simp
qed

section \<open>Schedules\<close>


lemma sig_renew_loop_expirations:
  "expirations entries = Ok es \<Longrightarrow> sig_renew_loop renew entries = Ok (\<exists>e \<in> set es. unat e < renew)"
proof (induction renew entries arbitrary: es rule: sig_renew_loop.induct)
  case (4 renew r es')
  then show ?case by (cases "rr_data r") (auto simp: bind_res_Ok_iff)
qed simp_all

lemma time_secs: "from_secs (as_secs t) \<le> t" "t < from_secs (Suc (as_secs t))"
  by (simp_all add: from_secs_def as_secs_def) (metis div_mult_mod_eq add_less_cancel_left mod_less_divisor
      nanos_pos add.commute)

lemma from_secs_mono: "from_secs a \<le> from_secs b \<longleftrightarrow> a \<le> b" "from_secs a < from_secs b \<longleftrightarrow> a < b"
  by (simp_all add: from_secs_def)

lemma from_secs_add: "from_secs (a + b) = from_secs a + from_secs b"
  by (simp add: from_secs_def add_mult_distrib)

text \<open>Whole seconds of the clock against the exact time of the schedule: the two may differ by two seconds.\<close>

lemma due_late: "e < as_secs now + as_secs remain \<Longrightarrow> from_secs e - remain \<le> now"
proof -
  assume "e < as_secs now + as_secs remain"
  then have "from_secs e \<le> from_secs (as_secs now) + from_secs (as_secs remain)"
    by (simp add: from_secs_mono flip: from_secs_add)
  with time_secs(1) [of now] time_secs(1) [of remain] show ?thesis by linarith
qed

lemma due_early: "from_secs e - remain + from_secs 2 \<le> now \<Longrightarrow> e < as_secs now + as_secs remain"
proof -
  assume "from_secs e - remain + from_secs 2 \<le> now"
  then have "from_secs e + from_secs 2 \<le> now + remain" by linarith
  then have "from_secs (e + 2) \<le> now + remain" unfolding from_secs_add .
  also have "\<dots> < from_secs (Suc (as_secs now)) + from_secs (Suc (as_secs remain))"
    using time_secs(2) [of now] time_secs(2) [of remain] by linarith
  finally show ?thesis by (simp add: from_secs_mono flip: from_secs_add)
qed


definition demo_expiring :: "demo_ks ext" where
  "demo_expiring = demo\<lparr>zonefile_entries := \<lambda>_. [Inr (EntryRecord
     (RR ''example'' class_IN 60 (Rrsig (RrsigData RT_DNSKEY 15 5 0 1000 ''sig''))))]\<rparr>"


section \<open>Every roll keeps its entry\<close>

text \<open>No check of the network ends the process for want of an entry in \<open>internal\<close>.\<close>

definition sound_res :: "'a res \<Rightarrow> bool" where
  "sound_res r \<longleftrightarrow> (\<forall>p. r = Panic p \<longrightarrow> other_panic p)"

named_theorems sounds \<open>results that panic only for other reasons than a missing entry\<close>

lemma sound_res_simps [sounds]:
  "sound_res (Ok x)" "sound_res (Err e)" "sound_res (map_err g r)" "sound_res (lift_sum s)"
  "sound_res (collect_ok l)"
  by (simp_all add: sound_res_def)

lemma sound_res_Panic [sounds]: "other_panic p \<Longrightarrow> sound_res (Panic p)"
  by (simp add: sound_res_def)

lemma sound_res_bind [sounds]: "sound_res r \<Longrightarrow> (\<And>x. sound_res (f x)) \<Longrightarrow> sound_res (bind_res r f)"
  by (auto simp: sound_res_def bind_res_Panic_iff)

lemma sound_res_or_else [sounds]: "sound_res r \<Longrightarrow> sound_res (unwrap_or_else r g)"
  by (cases r) (simp_all add: sound_res_def)

lemma sound_res_splits [sounds]:
  "(b \<Longrightarrow> sound_res x) \<Longrightarrow> (\<not> b \<Longrightarrow> sound_res y) \<Longrightarrow> sound_res (if b then x else y)"
  "sound_res n \<Longrightarrow> (\<And>v. sound_res (f v)) \<Longrightarrow> sound_res (case opt of None \<Rightarrow> n | Some v \<Rightarrow> f v)"
  "(\<And>v. sound_res (g v)) \<Longrightarrow> (\<And>v. sound_res (h v)) \<Longrightarrow> sound_res (case either of Inl v \<Rightarrow> g v | Inr v \<Rightarrow> h v)"
  "(\<And>a b. sound_res (k a b)) \<Longrightarrow> sound_res (case pair of (a, b) \<Rightarrow> k a b)"
  by (simp_all split: option.split sum.split prod.split)

lemma other_panics [sounds]:
  "other_panic ''not a SOA record''" "other_panic ''not a DS record''"
  "other_panic ''internal error: entered unreachable code''" "other_panic ''cannot be None''"
  "other_panic ''assertion failed: !addresses.is_empty()''" "other_panic ''assertion failed: !actions.is_empty()''"
  "other_panic ''should not fail (digest)''" "other_panic ''should not fail (entry)''"
  by (simp_all add: other_panic_def missing_roll_def missing_status_def)

lemma sound_addresses [sounds]: "sound_res (addresses_for_name E n)" "sound_res (addresses_for_zone E n)"
  "sound_res (lookup_name_rtype_at_address E P n t a)"
  by (simp_all add: sound_res_def)

lemma sound_soa_mname [sounds]: "sound_res (soa_mname_of E n)"
  unfolding soa_mname_of_def by (intro sounds) (auto split: option.split rdata.split intro!: sounds)

lemma sound_report_dnskey [sounds]: "sound_res (report_dnskey_propagated E k now)"
  using report_dnskey_no_panic [of E k now] by (auto simp: sound_res_def)

lemma sound_combine: "(\<And>r. r \<in> set rs \<Longrightarrow> sound_res r) \<Longrightarrow> sound_res (combine_reports Err rs m)"
proof (induction rs arbitrary: m)
  case Nil
  then show ?case by (cases m) (simp_all add: sounds)
next
  case (Cons r rs)
  show ?case
  proof (cases r)
    case (Ok x)
    with Cons show ?thesis by (cases x) (simp_all add: sounds)
  next
    case (Panic p)
    with Cons.prems [of r] show ?thesis by (simp add: sound_res_def)
  qed (simp add: sounds)
qed

lemma sound_ds_loop: "sound_res (ds_loop E zone a now rs target m)"
proof (induction rs arbitrary: target m)
  case (Cons r rs)
  have find: "sound_res (find_ds E zone d ts)" for d ts
    by (induction ts) (auto intro!: sounds split: sum.split)
  with Cons show ?case by (auto intro!: sounds find split: rdata.split)
qed (simp add: sounds)

lemma sound_parent [sounds]: "sound_res (parent_zone E n)"
  unfolding parent_zone_def by (auto intro!: sounds split: option.split)

lemma sound_report_ds [sounds]: "sound_res (report_ds_propagated E k now)"
  unfolding report_ds_propagated_def Let_def
  by (intro sounds sound_combine) (auto simp: check_ds_for_address_def intro!: sounds sound_ds_loop)

lemma sound_check_soa [sounds]: "sound_res (check_soa E serial k now)"
proof -
  have first: "(\<And>r. r \<in> set rs \<Longrightarrow> sound_res r) \<Longrightarrow> sound_res (first_wait rs)" for rs
  proof (induction rs)
    case (Cons r rs)
    then show ?case by (auto intro!: sounds split: auto_report_result.split)
  qed (simp add: sounds)
  have "sound_res (check_soa_for_address E zone serial now a)" for zone a
    unfolding check_soa_for_address_def by (auto intro!: sounds split: list.split)
  then show ?thesis unfolding check_soa_def Let_def by (intro sounds first) auto
qed

lemma sound_next_serial [sounds]: "sound_res (check_next_serial E serial k)"
proof -
  have "sound_res (next_serial_at E zone serial failed as)" for zone failed as
    by (induction as) (auto intro!: sounds split: sum.split list.split rdata.split)
  then show ?thesis unfolding check_next_serial_def get_primary_addresses_def Let_def by (intro sounds)
qed

lemma sound_check_record [sounds]: "sound_res (check_record E n t k)"
proof -
  have "sound_res (record_at E n t expected failed as)" for expected failed as
    by (induction as) (auto simp: Let_def intro!: sounds split: sum.split)
  then show ?thesis unfolding check_record_def get_primary_addresses_def by (intro sounds)
qed

lemma sound_axfr_end: "sound_res (axfr_end E k now a t)"
  using sound_check_soa [of E "ax_serial a" k now]
  by (auto simp: axfr_end_def sound_res_def split: check_rrsigs_result.split res.split)

lemma sound_axfr_records: "axfr_records E k now rs a = AxReturn r \<Longrightarrow> sound_res r"
  by (induction E k now rs a rule: axfr_records.induct)
    (auto simp: sounds sound_axfr_end split: if_splits rdata.splits)

lemma sound_axfr_replies: "axfr_replies_loop E k now ms a = AxReturn r \<Longrightarrow> sound_res r"
  by (induction E k now ms a rule: axfr_replies_loop.induct)
    (auto simp: sounds sound_axfr_records split: if_splits sum.splits axfr_step.splits)

lemma sound_report_rrsig [sounds]: "sound_res (report_rrsig_propagated E k now servers store)"
proof -
  have servers: "sound_res (axfr_servers E k now store failed serial l)" for failed serial l
    by (induction l) (auto simp: Let_def intro!: sounds dest: sound_axfr_replies split: sum.split option.split axfr_step.split)
  have "sound_res (check_zone E k now servers store)"
    unfolding check_zone_def by (intro sounds servers)
  moreover have "sound_res (case check_soa E serial k now of Err e \<Rightarrow> Ok (f e) | Panic p \<Rightarrow> Panic p | Ok x \<Rightarrow> Ok (g x))"
    for serial f and g :: "unit \<Rightarrow> auto_rrsig_result"
    using sound_check_soa [of E serial k now] by (auto simp: sound_res_def split: res.split)
  ultimately show ?thesis
    unfolding report_rrsig_propagated_def by (intro sounds) (auto simp: sounds split: auto_rrsig_result.split)
qed

lemma never_missing_lift [okays]: "sound_res r \<Longrightarrow> never_missing (lift_res r)"
  by (rule okay_lift_res) (simp add: sound_res_def)

lemma never_missing_stores [okays]:
  "never_missing (store_dnskey x)" "never_missing (store_ds x)" "never_missing (store_rrsig y)"
  by (simp_all add: store_dnskey_def store_ds_def store_rrsig_def okays)

lemma never_missing_checks [okays]:
  "never_missing (dnskey_action E k now)" "never_missing (ds_action E k now)"
  "never_missing (rrsig_action f E k now servers store)"
proof -
  show "never_missing (dnskey_action E k now)"
    unfolding dnskey_action_def Let_def
    by (intro okays sounds) (auto split: option.split auto_report_result.split intro!: okays sounds)
  show "never_missing (ds_action E k now)"
    unfolding ds_action_def Let_def
    by (intro okays sounds) (auto split: option.split auto_report_result.split intro!: okays sounds)
  have check: "never_missing (rrsig_check E k now servers store)"
    unfolding rrsig_check_def by (intro okays sounds)
  have panics: "sound_res r \<Longrightarrow> r = Panic p \<Longrightarrow> other_panic p" for r :: "unit res" and p
    by (simp add: sound_res_def)
  show "never_missing (rrsig_action f E k now servers store)"
    unfolding rrsig_action_def Let_def
    by (intro okays)
      (auto intro!: okays check split: option.split auto_rrsig_result.split res.split
        dest: panics [OF sound_check_soa] panics [OF sound_check_record] panics [OF sound_next_serial])
qed

lemma never_missing_auto_loops [okays]:
  "never_missing (auto_report_loop E k now servers store as m)"
  "never_missing (auto_wait_actions E as k now servers store)"
proof -
  show "never_missing (auto_report_loop E k now servers store as m)"
    by (induction as arbitrary: m) (auto simp: Let_def intro!: okays sounds split: action.split auto_report_result.split)
  show "never_missing (auto_wait_actions E as k now servers store)"
    by (induction as) (auto simp: Let_def intro!: okays sounds split: action.split auto_report_result.split)
qed

lemma never_missing_auto_report_actions [okays]: "never_missing (auto_report_actions E acts k now servers store)"
  unfolding auto_report_actions_def by (intro okays sounds)

text \<open>\<open>okay\<close> with a precondition that need not survive.\<close>

definition runs :: "('s \<Rightarrow> bool) \<Rightarrow> ('s \<Rightarrow> bool) \<Rightarrow> (string \<Rightarrow> bool) \<Rightarrow> ('s, 'a) prog \<Rightarrow> bool" where
  "runs I J P m \<longleftrightarrow> (\<forall>s. I s \<longrightarrow> (case m s of
     (Ok x, t) \<Rightarrow> J t | (Err e, t) \<Rightarrow> True | (Panic p, t) \<Rightarrow> P p))"

lemma okay_runs: "okay I P m \<longleftrightarrow> runs I I P m"
  by (simp add: okay_def runs_def)

lemma runs_gets: "(\<And>v. runs (\<lambda>s. I s \<and> f s = v) J P (g v)) \<Longrightarrow> runs I J P (bindP (gets f) g)"
  by (simp add: runs_def prog_eval)

lemma runs_weaken: "okay K P m \<Longrightarrow> (\<And>s. I s \<Longrightarrow> K s) \<Longrightarrow> (\<And>s. K s \<Longrightarrow> J s) \<Longrightarrow> runs I J P m"
  by (fastforce simp: okay_def runs_def split: prod.splits res.splits)

lemma runs_bindP:
  assumes m: "okay K P m" and g: "\<And>x. runs K J P (g x)" and I: "\<And>s. I s \<Longrightarrow> K s"
  shows "runs I J P (bindP m g)"
  unfolding runs_def
proof (intro allI impI)
  fix s assume "I s"
  then have s: "K s" by (rule I)
  obtain r t where mt: "m s = (r, t)" by (cases "m s")
  show "case bindP m g s of (Ok x, t) \<Rightarrow> J t | (Err e, t) \<Rightarrow> True | (Panic p, t) \<Rightarrow> P p"
  proof (cases r)
    case (Ok x)
    with okay_Ok [OF m s] mt have "K t" by simp
    with g [of x] mt Ok show ?thesis by (simp add: runs_def bindP_def)
  next
    case (Panic p)
    with okay_Panic [OF m s] mt show ?thesis by (simp add: bindP_def)
  qed (simp add: bindP_def mt)
qed

definition has_entry :: "roll_type \<Rightarrow> 'ks ws \<Rightarrow> bool" where
  "has_entry r s \<longleftrightarrow> r \<in> dom (st_internal (ws_state s))"

abbreviation recorded_at :: "'ks ext \<Rightarrow> roll_type \<Rightarrow> 'ks ws \<Rightarrow> bool" where
  "recorded_at E r s \<equiv> rolls_recorded E s \<and> has_entry r s"

lemma roll_state_entry: "rolls_recorded E s \<Longrightarrow> roll_state_of E r s = Some st \<Longrightarrow> has_entry r s"
  by (auto simp: rolls_recorded_def rolls_def roll_state_of_def has_entry_def dest!: map_of_SomeD)

lemma okay_recorded_at:
  assumes "records E m" and "unchanged (\<lambda>s. st_internal (ws_state s)) m"
  shows "okay (recorded_at E r) other_panic m"
proof (rule okayI)
  fix s x t assume "recorded_at E r s" and run: "m s = (Ok x, t)"
  with okay_Ok [OF assms(1)] unchangedD [OF assms(2) run] show "recorded_at E r t" by (auto simp: has_entry_def)
next
  fix s p t assume "recorded_at E r s" "m s = (Panic p, t)"
  with okay_Panic [OF assms(1)] show "other_panic p" by blast
qed

lemma okay_in_reports:
  assumes "never_missing m"
  shows "okay (recorded_at E r) other_panic (in_reports r phase put m)"
proof (rule okayI)
  fix s x t assume s: "recorded_at E r s" and run: "in_reports r phase put m s = (Ok x, t)"
  from s obtain reps where reps: "st_internal (ws_state s) r = Some reps" by (auto simp: has_entry_def)
  obtain res rep ch where "m (phase reps, ws_state_changed s) = (res, rep, ch)" by (metis prod_cases3)
  with run reps have "t = (upd_state (\<lambda>st. st\<lparr>st_internal := (st_internal st)(r \<mapsto> put rep reps)\<rparr>) s)\<lparr>ws_state_changed := ch\<rparr>"
    by (simp add: in_reports_def prog_eval)
  with s show "recorded_at E r t" by (auto simp: rolls_recorded_def has_entry_def)
next
  fix s p t assume s: "recorded_at E r s" and run: "in_reports r phase put m s = (Panic p, t)"
  from s obtain reps where "st_internal (ws_state s) r = Some reps" by (auto simp: has_entry_def)
  with run obtain st where "m (phase reps, ws_state_changed s) = (Panic p, st)"
    by (auto simp: in_reports_def prog_eval split: prod.splits)
  then show "other_panic p" by (rule okay_Panic [OF assms, OF TrueI])
qed

lemma okay_entry_pure [okays]: "okay (recorded_at E r) other_panic (modify set_state_changed)"
  by (rule okay_modify) (simp add: set_state_changed_def rolls_recorded_def has_entry_def)

lemma unchanged_ks_try_internal: "unchanged (\<lambda>s. st_internal (ws_state s)) (ks_try E g f)"
  unfolding ks_try_def by (intro unch) simp

lemma okay_handle_actions_at: "okay (recorded_at E r) other_panic (handle_actions E' acts v)"
  by (intro okay_recorded_at records_handle_actions handle_actions_frames)

lemma okay_report_phase:
  assumes "\<And>r t. starts_none E (complete r t)"
  shows "okay (recorded_at E r) other_panic (auto_report_phase E r phase put complete)"
  unfolding auto_report_phase_def
  by (intro okays okay_in_reports okay_handle_actions_at okay_recorded_at [OF records_ks_try] assms
      unchanged_ks_try_internal) (auto intro!: okays okay_handle_actions_at
      okay_recorded_at [OF records_ks_try] assms unchanged_ks_try_internal split: auto_report_result.split)

lemma records_auto_report_roll:
  assumes laws: "keyset_laws E"
  shows "records E (auto_report_roll E r)"
proof -
  have phases: "okay (recorded_at E r) other_panic (case st of
       Propagation1 \<Rightarrow> auto_report_phase E r rsr_propagation1 put_propagation1 (ks_propagation1_complete E)
     | Propagation2 \<Rightarrow> auto_report_phase E r rsr_propagation2 put_propagation2 (ks_propagation2_complete E)
     | _ \<Rightarrow> ret ())" for st
    by (cases st) (auto intro!: okay_report_phase keyset_laws_none [OF laws] okays)
  have "runs (\<lambda>s. rolls_recorded E s \<and> roll_state_of E r s = Some st) (rolls_recorded E) other_panic
      (bindP (gets (\<lambda>s. st_internal (ws_state s) r)) (\<lambda>i. bindP (expect ''should not fail (internal)'' i) (\<lambda>_. m)))"
    if m: "okay (recorded_at E r) other_panic m" for st and m :: "('a ws, unit) prog"
  proof (rule runs_gets)
    fix i
    show "runs (\<lambda>s. (rolls_recorded E s \<and> roll_state_of E r s = Some st) \<and> st_internal (ws_state s) r = i)
        (rolls_recorded E) other_panic (bindP (expect ''should not fail (internal)'' i) (\<lambda>_. m))"
    proof (cases i)
      case None
      then show ?thesis using roll_state_entry by (fastforce simp: runs_def has_entry_def)
    next
      case (Some reps)
      then show ?thesis
        using runs_weaken [OF m, of "\<lambda>s. (rolls_recorded E s \<and> roll_state_of E r s = Some st) \<and> st_internal (ws_state s) r = i"
            "rolls_recorded E"] by (auto simp: prog_eval has_entry_def)
    qed
  qed
  note entry = this [OF phases]
  show ?thesis
    unfolding okay_runs auto_report_roll_def
  proof (rule runs_gets)
    fix v
    show "runs (\<lambda>s. rolls_recorded E s \<and> roll_state_of E r s = v) (rolls_recorded E) other_panic
      (case v of None \<Rightarrow> ret ()
       | Some st \<Rightarrow> bindP (gets (\<lambda>s. st_internal (ws_state s) r)) (\<lambda>i.
         bindP (expect ''should not fail (internal)'' i) (\<lambda>_. case st of
           Propagation1 \<Rightarrow> auto_report_phase E r rsr_propagation1 put_propagation1 (ks_propagation1_complete E)
         | Propagation2 \<Rightarrow> auto_report_phase E r rsr_propagation2 put_propagation2 (ks_propagation2_complete E)
         | _ \<Rightarrow> ret ())))"
      by (cases v) (simp_all only: option.case entry, simp add: runs_def prog_eval)
  qed
qed

lemma ks_try_Ok: "ks_try E g f s = (Ok x, t) \<longleftrightarrow>
    (\<exists>k. f (ws_keyset s) = (Inr x, k) \<and> t = upd_state (\<lambda>st. st\<lparr>st_keyset := k\<rparr>) s)"
proof -
  obtain r k where "f (ws_keyset s) = (r, k)" by (cases "f (ws_keyset s)")
  then show ?thesis by (cases r) (auto simp: ks_try_def ks_call_def bindP_def prog_eval)
qed

lemma records_do_done:
  assumes laws: "keyset_laws E"
  shows "records E (do_done E r)"
proof (rule recordsI)
  show "never_missing (do_done E r)" unfolding do_done_def by (intro okays)
next
  fix s x t assume s: "rolls_recorded E s" and run: "do_done E r s = (Ok x, t)"
  then obtain actions u where call: "ks_try E (\<lambda>e. ''Error reporting done: '' @ e) (ks_roll_done E r) s = (Ok actions, u)"
    and t: "t = upd_state (\<lambda>st. (remove_cds_rrset st)\<lparr>st_internal := (st_internal st)(r := None)\<rparr>) u"
    by (auto simp: do_done_def prog_Ok split: if_splits)
  from call obtain k where k: "ks_roll_done E r (ws_keyset s) = (Inr actions, k)"
    and u: "u = upd_state (\<lambda>st. st\<lparr>st_keyset := k\<rparr>) s"
    by (auto simp: ks_try_Ok)
  from keyset_laws_done [OF laws k] have "rolls E k \<subseteq> rolls E (ws_keyset s) - {r}" by simp
  with s show "rolls_recorded E t" by (auto simp: t u rolls_recorded_def remove_cds_rrset_def)
qed

lemma rolls_recorded_changed [simp]: "rolls_recorded E (set_state_changed s) = rolls_recorded E s"
  by (simp add: set_state_changed_def rolls_recorded_def)

lemma records_set_changed: "records E (modify set_state_changed)"
  by (rule okay_modify) simp

lemma records_auto_expire_roll:
  assumes laws: "keyset_laws E"
  shows "records E (auto_expire_roll E r)"
proof -
  have step: "records E (auto_expire_step E r expired)" if "\<And>r. starts_none E (expired r)" for expired
    unfolding auto_expire_step_def
    by (intro okays records_ks_call that)
      (auto intro!: okays records_handle_actions records_set_changed split: ks_error.split)
  show ?thesis
    unfolding auto_expire_roll_def
    by (intro okays) (auto intro!: okays step keyset_laws_none [OF laws] split: option.split roll_state.split)
qed

lemma records_auto_done_roll:
  assumes laws: "keyset_laws E"
  shows "records E (auto_done_roll E r)"
  unfolding okay_runs auto_done_roll_def
proof (rule runs_gets)
  fix v
  let ?I = "\<lambda>s. rolls_recorded E s \<and> roll_state_of E r s = v"
  have wait: "runs ?I (rolls_recorded E) other_panic
      (bindP (gets (\<lambda>s. (ws_state s, faketime_or_now s, nameservers (ws_config s), ws_tsig_store s)))
        (\<lambda>(k, now, servers, store).
         bindP (in_reports r rsr_done put_done (auto_wait_actions E (ks_actions E (st_keyset k) r) k now servers store))
          (\<lambda>res. case res of AutoOk \<Rightarrow> thenP (do_done E r) (modify set_state_changed) | AutoWait _ \<Rightarrow> ret ())))"
    if "v = Some Done"
  proof (rule runs_gets)
    fix w :: "'a kss \<times> time \<times> nameserver list \<times> tsig_store"
    obtain k now servers store where w: "w = (k, now, servers, store)" by (cases w)
    have rest: "runs (recorded_at E r) (rolls_recorded E) other_panic
       (case res of AutoOk \<Rightarrow> thenP (do_done E r) (modify set_state_changed) | AutoWait _ \<Rightarrow> ret ())" for res
      by (rule runs_weaken [where K = "rolls_recorded E"])
        (auto intro!: okays records_do_done laws records_set_changed split: auto_actions_result.split)
    have "recorded_at E r s" if "?I s" for s
      using that \<open>v = Some Done\<close> roll_state_entry by blast
    then show "runs (\<lambda>s. ?I s \<and> (ws_state s, faketime_or_now s, nameservers (ws_config s), ws_tsig_store s) = w)
        (rolls_recorded E) other_panic (case w of (k, now, servers, store) \<Rightarrow>
         bindP (in_reports r rsr_done put_done (auto_wait_actions E (ks_actions E (st_keyset k) r) k now servers store))
          (\<lambda>res. case res of AutoOk \<Rightarrow> thenP (do_done E r) (modify set_state_changed) | AutoWait _ \<Rightarrow> ret ()))"
      unfolding w prod.case
      by (intro runs_bindP [where K = "recorded_at E r"] okay_in_reports okays rest) blast
  qed
  have idle: "runs ?I (rolls_recorded E) other_panic (ret ())" by (simp add: runs_def prog_eval)
  show "runs ?I (rolls_recorded E) other_panic (case v of
       Some Done \<Rightarrow>
         bindP (gets (\<lambda>s. (ws_state s, faketime_or_now s, nameservers (ws_config s), ws_tsig_store s)))
           (\<lambda>(k, now, servers, store).
         bindP (in_reports r rsr_done put_done
                  (auto_wait_actions E (ks_actions E (st_keyset k) r) k now servers store)) (\<lambda>res.
         case res of
           AutoOk \<Rightarrow> thenP (do_done E r) (modify set_state_changed)
         | AutoWait _ \<Rightarrow> ret ()))
     | _ \<Rightarrow> ret ())"
    using wait idle by (auto split: option.split roll_state.split)
qed

lemma records_auto_report_expire_done:
  "keyset_laws E \<Longrightarrow> records E (auto_report_expire_done E auto roll_list)"
  unfolding auto_report_expire_done_def
  by (intro okays records_auto_report_roll records_auto_expire_roll records_auto_done_roll)

end
