(* ===== verification/Files_Correct.thy ===== *)
theory Files_Correct
  imports Commands Automation_Correct
begin

text \<open>
  What a command does to the configuration and state files: a lock is obtained in at most
  ten attempts, a file is replaced as a whole or not at all, reporting commands write
  nothing, and a run of any other command is a transaction on the pair of the two files,
  which the next command reads back.
\<close>

section \<open>Locks\<close>

lemma lock_loop_Ok:
  "lock_loop at path [a..<b] = Ok () \<longleftrightarrow>
     (\<exists>n \<in> {a..<b}. at n = Locked True \<and> (\<forall>m \<in> {a..<n}. at m = Locked False))"
proof (induction "b - a" arbitrary: a)
  case 0
  then show ?case by simp
next
  case (Suc k)
  then have ab: "[a..<b] = a # [Suc a..<b]" and less: "a < b" by (simp_all add: upt_conv_Cons)
  have IH: "lock_loop at path [Suc a..<b] = Ok () \<longleftrightarrow>
     (\<exists>n \<in> {Suc a..<b}. at n = Locked True \<and> (\<forall>m \<in> {Suc a..<n}. at m = Locked False))"
    using Suc by simp
  show ?case
  proof (cases "at a = Locked False")
    case True
    have split: "{a..<b} = insert a {Suc a..<b}" using less by auto
    have "{a..<n} = insert a {Suc a..<n}" if "n \<in> {Suc a..<b}" for n using that by auto
    with True split IH show ?thesis unfolding ab by auto
  next
    case False
    then have "lock_loop at path [a..<b] = Ok () \<longleftrightarrow> at a = Locked True"
      unfolding ab by (auto split: lock_attempt.splits)
    also have "\<dots> \<longleftrightarrow> (\<exists>n \<in> {a..<b}. at n = Locked True \<and> (\<forall>m \<in> {a..<n}. at m = Locked False))"
      using False less by (auto intro: bexI [of _ a])
    finally show ?thesis .
  qed
qed

text \<open>
  Locking a file succeeds exactly when one of the ten attempts locks the file
  that is still current and every attempt before it locked a replaced one; it never panics.
\<close>

theorem lock_obtained:
  "(file_with_write_lock H path = Ok () \<longleftrightarrow>
     (\<exists>n \<in> {0..<10}. lock_attempts H path n = Locked True \<and>
        (\<forall>m \<in> {0..<n}. lock_attempts H path m = Locked False)))
   \<and> \<not> is_panic (file_with_write_lock H path)"
proof -
  have "\<not> is_panic (lock_loop at p ns)" for at p ns
    by (induction ns) (simp_all split: lock_attempt.split)
  then show ?thesis
    by (simp only: file_with_write_lock_def MAX_FILE_LOCK_TRIES_def lock_loop_Ok) simp
qed

section \<open>Replacing a file\<close>

lemma new_differs [simp]: "f @ ''.new'' \<noteq> f" "f \<noteq> f @ ''.new''"
  by simp_all

lemma write_cases:
  assumes "write_to_new_and_rename json f w = (r, w')"
  shows "(r = Ok () \<and> w_files w' = (w_files w)(f @ ''.new'' := None, f \<mapsto> json)) \<or>
     (\<exists>e. r = Err e \<and> (w_files w')(f @ ''.new'' := None) = (w_files w)(f @ ''.new'' := None))"
  using assms
  by (auto simp: write_to_new_and_rename_def Let_def thenP_def bindP_def io_def fs_defs
      split: if_splits option.splits)

text \<open>
  Property C24. A file is written as a whole or not at all: on success it holds the new
  text and the temporary file is gone, on an error it is as before, and no other file than
  the temporary one is touched.
\<close>

theorem write_atomic:
  "case write_to_new_and_rename json f w of
     (Ok u, w') \<Rightarrow> w_files w' = (w_files w)(f @ ''.new'' := None, f \<mapsto> json)
   | (Err e, w') \<Rightarrow> (w_files w')(f @ ''.new'' := None) = (w_files w)(f @ ''.new'' := None)
   | (Panic p, w') \<Rightarrow> False"
proof -
  obtain r w' where "write_to_new_and_rename json f w = (r, w')" by (cases "write_to_new_and_rename json f w")
  with write_cases [OF this] show ?thesis by auto
qed

lemma write_elsewhere:
  assumes "write_to_new_and_rename json f w = (r, w')" and "p \<noteq> f" and "p \<noteq> f @ ''.new''"
  shows "w_files w' p = w_files w p"
proof -
  have "((w_files w')(f @ ''.new'' := None)) p = ((w_files w)(f @ ''.new'' := None)) p" if "r = Err e" for e
    using write_cases [OF assms(1)] that by auto
  with write_cases [OF assms(1)] assms(2,3) show ?thesis by auto
qed

lemma write_target:
  assumes "write_to_new_and_rename json f w = (r, w')"
  shows "w_files w' f = (if r = Ok () then Some json else w_files w f)"
proof -
  have "((w_files w')(f @ ''.new'' := None)) f = ((w_files w)(f @ ''.new'' := None)) f" if "r = Err e" for e
    using write_cases [OF assms(1)] that by auto
  with write_cases [OF assms(1)] show ?thesis by auto
qed

section \<open>The pair of files\<close>

text \<open>The configuration and the state that the files of a world hold.\<close>

definition holds :: "'ks host \<Rightarrow> string \<Rightarrow> world \<Rightarrow> keyset_config \<Rightarrow> 'ks kss \<Rightarrow> bool" where
  "holds H conf w c k \<longleftrightarrow> (\<exists>x y. w_files w conf = Some x \<and> parse_config H x = Inr c \<and>
     w_files w (state_file c) = Some y \<and> parse_state H y = Inr k)"

text \<open>The two files and their temporary files do not get in each other's way.\<close>

definition separate :: "string \<Rightarrow> string \<Rightarrow> bool" where
  "separate conf st \<longleftrightarrow> conf \<noteq> st \<and> conf \<noteq> st @ ''.new'' \<and> st \<noteq> conf @ ''.new''"

text \<open>What serde is relied on for: the values a workspace writes are read back.\<close>

definition readable :: "'ks host \<Rightarrow> 'ks ws \<Rightarrow> bool" where
  "readable H s \<longleftrightarrow> parse_config H (show_config H (ws_config s)) = Inr (ws_config s) \<and>
     parse_state H (show_state H (ws_state s)) = Inr (ws_state s)"

lemma load_locked_Ok:
  "load_locked H parse shown path w = (Ok x, w') \<longleftrightarrow>
     file_with_write_lock H path = Ok () \<and> (\<exists>text. w_files w path = Some text \<and> parse text = Inr x) \<and> w' = w"
  by (auto simp: load_locked_def prog_Ok read_file_def fs_read_def split: option.splits)

lemma load_workspace_Ok:
  "load_workspace H a b conf w = (Ok s, w') \<longleftrightarrow>
     w' = w \<and> file_with_write_lock H conf = Ok () \<and>
     (\<exists>c k store. holds H conf w c k \<and> load_tsig_store H c w = (Ok store, w) \<and>
        s = workspace c k a b store w)"
proof -
  have tsig: "u = w" if "load_tsig_store H c w = (Ok st, u)" for c st u
    using that by (auto simp: load_tsig_store_def load_locked_Ok prog_Ok split: option.splits)
  show ?thesis
  proof
    assume "load_workspace H a b conf w = (Ok s, w')"
    then show "w' = w \<and> file_with_write_lock H conf = Ok () \<and>
     (\<exists>c k store. holds H conf w c k \<and> load_tsig_store H c w = (Ok store, w) \<and>
        s = workspace c k a b store w)"
      using tsig
      by (fastforce simp: load_workspace_def prog_Ok load_locked_Ok read_file_def fs_read_def holds_def
          split: option.splits)
  next
    assume "w' = w \<and> file_with_write_lock H conf = Ok () \<and>
     (\<exists>c k store. holds H conf w c k \<and> load_tsig_store H c w = (Ok store, w) \<and>
        s = workspace c k a b store w)"
    then show "load_workspace H a b conf w = (Ok s, w')"
      by (auto simp: load_workspace_def prog_Ok load_locked_Ok read_file_def fs_read_def holds_def)
  qed
qed

section \<open>Saving\<close>

text \<open>The files after a conditional write: \<open>p\<close> has the new text, or all is as before.\<close>

definition wrote :: "bool \<Rightarrow> string \<Rightarrow> string \<Rightarrow> world \<Rightarrow> unit res \<Rightarrow> world \<Rightarrow> bool" where
  "wrote b p json w r w' \<longleftrightarrow> \<not> is_panic r \<and>
     w_files w' p = (if b \<and> r = Ok () then Some json else w_files w p) \<and>
     (\<forall>q. q \<noteq> p \<longrightarrow> q \<noteq> p @ ''.new'' \<longrightarrow> w_files w' q = w_files w q)"

lemma wrote_write:
  assumes run: "write_to_new_and_rename json f w = (r, w')"
  shows "wrote True f json w r w'"
proof -
  have "\<not> is_panic r" using write_cases [OF run] by auto
  then show ?thesis
    using write_target [OF run] write_elsewhere [OF run] by (simp add: wrote_def)
qed

lemma wrote_nothing: "wrote False p json w (Ok ()) w"
  by (simp add: wrote_def)

lemma wrote_kept: "wrote b p json w r w' \<Longrightarrow> q \<noteq> p \<Longrightarrow> q \<noteq> p @ ''.new'' \<Longrightarrow> w_files w' q = w_files w q"
  by (simp add: wrote_def)

lemma save_config_run:
  assumes "bindP (gets ws_config_changed) (\<lambda>b. whenP b (write_config H conf)) s = (r, t)"
  obtains w where "t = s\<lparr>ws_world := w\<rparr>"
    and "wrote (ws_config_changed s) conf (show_config H (ws_config s)) (ws_world s) r w"
proof (cases "ws_config_changed s")
  case True
  obtain r1 w where w: "write_to_new_and_rename (show_config H (ws_config s)) conf (ws_world s) = (r1, w)"
    by (cases "write_to_new_and_rename (show_config H (ws_config s)) conf (ws_world s)")
  with assms True have "t = s\<lparr>ws_world := w\<rparr>" "r = r1"
    by (auto simp: prog_eval whenP_def write_config_def in_world_def)
  with that [of w] wrote_write [OF w] True show thesis by simp
next
  case False
  with assms have "t = s\<lparr>ws_world := ws_world s\<rparr>" "r = Ok ()" by (simp_all add: prog_eval whenP_def)
  with that [of "ws_world s"] False wrote_nothing show thesis by simp
qed

lemma save_state_run:
  assumes "bindP (gets ws_state_changed) (\<lambda>b. whenP b (write_state H)) s = (r, t)"
  obtains w where "t = (if ws_state_changed s then upd_state set_apex s else s)\<lparr>ws_world := w\<rparr>"
    and "wrote (ws_state_changed s) (state_file (ws_config s)) (show_state H (set_apex (ws_state s)))
      (ws_world s) r w"
proof (cases "ws_state_changed s")
  case True
  let ?wr = "write_to_new_and_rename (show_state H (set_apex (ws_state s))) (state_file (ws_config s)) (ws_world s)"
  obtain r1 w where w: "?wr = (r1, w)" by (cases ?wr)
  with assms True have "t = (upd_state set_apex s)\<lparr>ws_world := w\<rparr>" "r = r1"
    by (auto simp: prog_eval whenP_def write_state_def in_world_def upd_state_def)
  with that [of w] wrote_write [OF w] True show thesis by simp
next
  case False
  with assms have "t = s\<lparr>ws_world := ws_world s\<rparr>" "r = Ok ()" by (simp_all add: prog_eval whenP_def)
  with that [of "ws_world s"] False wrote_nothing show thesis by simp
qed

text \<open>
  The outcome of saving: the configuration is written or not, then the state is written or
  not, and after success both are written if they had to be.
\<close>

lemma save_cases:
  assumes run: "save H conf s = (r, t)" and sep: "separate conf (state_file (ws_config s))"
  obtains (saved) b b' where
    "ws_config t = ws_config s" "ws_config_changed t = ws_config_changed s"
    "ws_state_changed t = ws_state_changed s" "\<not> is_panic r"
    "ws_run_update_ds_command t = ws_run_update_ds_command s"
    "ws_state t = ws_state s \<or> ws_state t = set_apex (ws_state s)"
    "b \<Longrightarrow> ws_config_changed s" "b' \<Longrightarrow> ws_state_changed s"
    "r = Ok () \<Longrightarrow> b = ws_config_changed s" "r = Ok () \<Longrightarrow> b' = ws_state_changed s"
    "b' \<Longrightarrow> ws_state t = set_apex (ws_state s)"
    "ws_files t conf = (if b then Some (show_config H (ws_config s)) else ws_files s conf)"
    "ws_files t (state_file (ws_config s)) =
       (if b' then Some (show_state H (set_apex (ws_state s))) else ws_files s (state_file (ws_config s)))"
proof -
  let ?sf = "state_file (ws_config s)"
  obtain r1 u where first: "bindP (gets ws_config_changed) (\<lambda>b. whenP b (write_config H conf)) s = (r1, u)"
    by (cases "bindP (gets ws_config_changed) (\<lambda>b. whenP b (write_config H conf)) s")
  from first obtain w where u: "u = s\<lparr>ws_world := w\<rparr>"
    and w: "wrote (ws_config_changed s) conf (show_config H (ws_config s)) (ws_world s) r1 w"
    by (rule save_config_run)
  have sf: "w_files w ?sf = ws_files s ?sf"
    using sep by (intro wrote_kept [OF w]) (auto simp: separate_def)
  show thesis
  proof (cases r1)
    case (Ok x)
    with run first have second: "bindP (gets ws_state_changed) (\<lambda>b. whenP b (write_state H)) u = (r, t)"
      by (simp add: save_def thenP_def bindP_def)
    from second obtain w' where t: "t = (if ws_state_changed u then upd_state set_apex u else u)\<lparr>ws_world := w'\<rparr>"
      and w': "wrote (ws_state_changed u) (state_file (ws_config u)) (show_state H (set_apex (ws_state u)))
        (ws_world u) r w'"
      by (rule save_state_run)
    have "w_files w' conf = w_files w conf"
      using sep u wrote_kept [OF w', of conf] by (auto simp: separate_def)
    then show thesis
      using that [of "ws_config_changed s" "ws_state_changed s \<and> r = Ok ()"] t u w w' sf Ok
      by (auto simp: wrote_def upd_state_def)
  next
    case (Err e)
    with run first have "r = Err e" "t = u" by (auto simp: save_def thenP_def bindP_def)
    then show thesis
      using that [of False False] u w sf Err by (auto simp: wrote_def)
  next
    case (Panic p)
    with w show thesis by (simp add: wrote_def)
  qed
qed

section \<open>After a command\<close>

text \<open>The part of the state that \<open>finish\<close> leaves alone.\<close>

definition kss_core :: "'ks kss \<Rightarrow> 'ks \<times> (roll_type \<rightharpoonup> roll_state_reports) \<times> kmip_state" where
  "kss_core k = (st_keyset k, st_internal k, st_kmip k)"

lemma kss_core_updates [simp]:
  "kss_core (set_apex k) = kss_core k" "kss_core (k\<lparr>st_cron_next := x\<rparr>) = kss_core k"
  by (simp_all add: kss_core_def set_apex_def)

lemma set_cron_next_fields [simp]:
  "ws_config (set_cron_next x s) = ws_config s" "ws_world (set_cron_next x s) = ws_world s"
  "ws_config_changed (set_cron_next x s) = ws_config_changed s"
  "kss_core (ws_state (set_cron_next x s)) = kss_core (ws_state s)"
  by (simp_all add: set_cron_next_def set_state_changed_def upd_state_def)

definition saved_part :: "'ks ws \<Rightarrow> keyset_config \<times> 'ks kss \<times> (string \<rightharpoonup> string) \<times> bool \<times> bool" where
  "saved_part s = (ws_config s, ws_state s, ws_files s, ws_config_changed s, ws_state_changed s)"

lemma saved_part_println [simp]:
  "saved_part (s\<lparr>ws_world := println l (ws_world s)\<rparr>) = saved_part s"
  by (simp add: saved_part_def)

lemma run_update_ds_saved: "unchanged saved_part (run_update_ds H)"
proof -
  have cmd: "unchanged saved_part (in_world (\<lambda>w. (res, w\<lparr>w_commands := w_commands w @ [args]\<rparr>)))"
    for res :: "command_output res" and args
    by (simp add: unchanged_def in_world_def saved_part_def)
  show ?thesis unfolding run_update_ds_def by (intro unch cmd) simp_all
qed

lemma algorithm_roll_needed_run:
  "algorithm_roll_needed E s = (r, t) \<Longrightarrow> t = s"
  by (auto simp: algorithm_roll_needed_def prog_eval bindP_def lift_res_def split: res.splits)

lemma saved_fields:
  assumes "saved_part t = saved_part s"
  shows "ws_config t = ws_config s" "ws_state t = ws_state s" "ws_files t = ws_files s"
    "ws_config_changed t = ws_config_changed s" "ws_state_changed t = ws_state_changed s"
  using assms by (simp_all add: saved_part_def)

lemma finish_cases:
  assumes run: "finish E H conf now s = (r, t)" and sep: "separate conf (state_file (ws_config s))"
  obtains (finished) b b' where
    "ws_config t = ws_config s" "kss_core (ws_state t) = kss_core (ws_state s)"
    "r = Ok () \<Longrightarrow> b = ws_config_changed t" "r = Ok () \<Longrightarrow> b' = ws_state_changed t"
    "ws_files t conf = (if b then Some (show_config H (ws_config t)) else ws_files s conf)"
    "ws_files t (state_file (ws_config s)) =
       (if b' then Some (show_state H (ws_state t)) else ws_files s (state_file (ws_config s)))"
proof (cases "(ws_config_changed s \<or> ws_state_changed s) \<and>
    (\<exists>need times. algorithm_roll_needed E s = (Ok need, s) \<and>
       next_times E now (faketime_or_now s) need (ws_config s) (ws_state s) = Ok times)")
  case False
  have "t = s \<and> (r = Ok () \<longrightarrow> \<not> ws_config_changed s \<and> \<not> ws_state_changed s)"
  proof (cases "ws_config_changed s \<or> ws_state_changed s")
    case True
    obtain q u where q: "algorithm_roll_needed E s = (q, u)" by (cases "algorithm_roll_needed E s")
    note u = algorithm_roll_needed_run [OF q]
    from run True False q u show ?thesis
      by (cases q) (auto simp: finish_def prog_eval whenP_def bindP_def lift_res_def split: res.splits)
  next
    case False
    with run show ?thesis by (simp add: finish_def prog_eval whenP_def)
  qed
  then show thesis using finished [of False False] by auto
next
  case True
  then obtain need times where need: "algorithm_roll_needed E s = (Ok need, s)"
    and times: "next_times E now (faketime_or_now s) need (ws_config s) (ws_state s) = Ok times" by blast
  define s1 where "s1 = set_cron_next (min_opt (List.map_filter id times)) s"
  from run True need times have rest: "thenP (save H conf) (run_update_ds H) s1 = (r, t)"
    by (auto simp: finish_def prog_eval whenP_def bindP_def s1_def)
  obtain r1 u where save: "save H conf s1 = (r1, u)" by (cases "save H conf s1")
  have u_t: "saved_part t = saved_part u \<and> (r = Ok () \<longrightarrow> r1 = Ok ())"
    using rest save unchangedD [OF run_update_ds_saved]
    by (cases r1) (auto simp: thenP_def bindP_def)
  note t = saved_fields [OF conjunct1 [OF u_t]]
  have sep1: "separate conf (state_file (ws_config s1))" using sep by (simp add: s1_def)
  from save sep1 show thesis
  proof (cases rule: save_cases)
    case (saved b b')
    have "kss_core (ws_state u) = kss_core (ws_state s)"
      using saved(6) by (auto simp: s1_def)
    moreover have "ws_files u (state_file (ws_config s)) =
       (if b' then Some (show_state H (ws_state u)) else ws_files s (state_file (ws_config s)))"
      using saved(11,13) by (simp add: s1_def)
    ultimately show thesis
      using finished [of b b'] saved u_t t by (simp add: s1_def)
  qed
qed

section \<open>A command is a transaction\<close>

text \<open>
  The commands other than \<open>set\<close> keep the configuration, and \<open>set\<close> keeps the name of the
  state file.
\<close>

lemma config_modify_state [unch]:
  "unchanged ws_config (modify (upd_state f))" "unchanged ws_config (modify set_state_changed)"
  by (simp_all add: unchanged_def prog_eval upd_state_def set_state_changed_def)

lemma config_print_line [unch]: "unchanged ws_config (print_line l)"
  by (intro unch) simp

lemma config_print_actions [unch]: "unchanged ws_config (print_actions acts)"
  unfolding print_actions_def by (intro unch)

lemma config_print_lines [unch]: "unchanged ws_config (print_lines ls)"
  unfolding print_lines_def by (intro unch)

lemma config_in_world [unch]: "unchanged ws_config (in_world m)"
  by (simp add: unchanged_def in_world_def split: prod.split)

lemma config_in_pools [unch]: "unchanged ws_config (in_pools m)"
  by (simp add: unchanged_def in_pools_def split: prod.split)

lemma config_ks_call [unch]: "unchanged ws_config (ks_call f)"
  by (simp add: unchanged_def ks_call_def upd_state_def split: prod.split)

lemma config_ks_try [unch]: "unchanged ws_config (ks_try E g f)"
  unfolding ks_try_def by (intro unch)

lemma config_ks_expect [unch]: "unchanged ws_config (ks_expect p f)"
  unfolding ks_expect_def by (intro unch)

lemma config_in_reports [unch]: "unchanged ws_config (in_reports r phase put m)"
proof -
  have "unchanged ws_config (\<lambda>s. case m (phase reps, ws_state_changed s) of (res, rep, changed) \<Rightarrow>
      (res, (upd_state (\<lambda>st. st\<lparr>st_internal := (st_internal st)(r \<mapsto> put rep reps)\<rparr>) s)\<lparr>ws_state_changed := changed\<rparr>))" for reps
    by (simp add: unchanged_def upd_state_def split: prod.split)
  then show ?thesis unfolding in_reports_def by (intro unch)
qed

lemma config_rrsets [unch]:
  "unchanged ws_config (update_dnskey_rrset E v)" "unchanged ws_config (create_cds_rrset E v)"
  "unchanged ws_config (update_ds_rrset E v)"
  by (intro dnskey_writer.writer_frames cds_writer.writer_frames ds_writer.writer_frames)+

lemma config_do_done [unch]: "unchanged ws_config (do_done E r)"
  unfolding do_done_def by (intro unch)

lemma config_auto_report_phase [unch]: "unchanged ws_config (auto_report_phase E r phase put complete)"
  unfolding auto_report_phase_def by (intro unch) (auto intro: unch split: auto_report_result.split)

lemma config_auto_report_roll [unch]: "unchanged ws_config (auto_report_roll E r)"
  unfolding auto_report_roll_def by (intro unch) (auto intro: unch split: roll_state.split)

lemma config_auto_expire_step [unch]: "unchanged ws_config (auto_expire_step E r expired)"
  unfolding auto_expire_step_def by (intro unch) (auto intro: unch split: ks_error.split)

lemma config_auto_expire_roll [unch]: "unchanged ws_config (auto_expire_roll E r)"
  unfolding auto_expire_roll_def by (intro unch) (auto intro: unch split: roll_state.split)

lemma config_auto_done_roll [unch]: "unchanged ws_config (auto_done_roll E r)"
  unfolding auto_done_roll_def
  by (intro unch) (auto intro!: unch split: roll_state.split auto_actions_result.split)

lemma config_auto_report_expire_done [unch]: "unchanged ws_config (auto_report_expire_done E a rs)"
  unfolding auto_report_expire_done_def by (intro unch)

lemma config_auto_start:
  "(\<And>v. unchanged ws_config (start v)) \<Longrightarrow> unchanged ws_config (auto_start_with E v a c m start)"
  unfolding auto_start_with_def auto_start_def by (intro unch)

lemma config_starts [unch]:
  "unchanged ws_config (auto_start_with E v a c m (start_ksk_roll E))"
  "unchanged ws_config (auto_start_with E v a c m (start_zsk_roll E))"
  "unchanged ws_config (auto_start_with E v a c m (csk_start E need))"
  by (intro config_auto_start start_rolls_frames)+ (simp add: csk_start_def start_rolls_frames)

lemma config_algorithm_roll_needed [unch]: "unchanged f (algorithm_roll_needed E)"
  unfolding algorithm_roll_needed_def by (intro unch)

lemma config_remove_key [unch]: "unchanged ws_config (remove_key E u)"
  unfolding remove_key_def get_kmip_pool_def by (intro unch)

lemma config_cron [unch]: "unchanged ws_config (cron_command E now)"
  unfolding cron_command_def cron_signatures_def cron_starts_def cron_steps_def auto_steps_with_def
    cron_autoremove_def autoremove_key_def
  by (intro unch)

lemma config_new_keys [unch]: "unchanged ws_config (new_csk_or_ksk_zsk E)"
  by (intro unch) simp_all

lemma config_init [unch]: "unchanged ws_config (init_command E)"
  unfolding init_command_def Let_def by (intro unch; simp)

lemma config_roll_step [unch]: "unchanged ws_config (roll_step E what v f)"
  unfolding roll_step_def by (intro unch)

lemma config_start_roll_for [unch]: "unchanged ws_config (start_roll_for E v b)"
  by (cases v) (simp_all add: start_roll_for_def start_rolls_frames)

lemma config_roll_command [unch]: "unchanged ws_config (roll_command E sub v)"
proof (cases sub)
  case StartRoll
  then show ?thesis by (simp only: roll_command.simps) (intro unch)
next
  case RollDone
  then show ?thesis by (simp only: roll_command.simps) (intro unch)
qed (simp_all only: roll_command.simps config_roll_step)

lemma config_refresh [unch]: "unchanged ws_config (refresh_rrsets E)"
  unfolding refresh_rrsets_def by (intro unch; simp)

lemma config_import_pair [unch]: "unchanged ws_config (import_pair E absolute source)"
  by (cases source; simp only: import_pair.simps import_file_def import_kmip_def get_kmip_pool_def;
      (intro unch; simp))

lemma config_import_key [unch]: "unchanged ws_config (import_key_command E absolute source v)"
  unfolding import_key_command_def by (cases v; simp only: key_variant.case; (intro unch; simp))

lemma config_import_public [unch]: "unchanged ws_config (import_public_key E absolute path)"
  unfolding import_public_key_def Let_def by (intro unch; simp)

lemma config_import [unch]: "unchanged ws_config (import_command E absolute sub)"
  unfolding import_command_def by (cases sub; simp only: import_cmd.case; (intro unch; simp))

lemma config_remove [unch]: "unchanged ws_config (remove_key_subcommand E k force cont)"
  unfolding remove_key_subcommand_def remove_key_command_def forget_key_def by (intro unch; simp)

lemma config_kmip [unch]: "unchanged ws_config (kmip_command E ind sub)"
proof -
  have update: "unchanged ws_config (kmip_update f)" for f :: "kmip_state \<Rightarrow> (world, kmip_state) prog"
    unfolding kmip_update_def by (intro unch; simp)
  show ?thesis
    unfolding kmip_command_def
    by (cases sub; simp only: kmip_commands.case; (intro unch update; simp))
qed

lemma config_reporting [unch]:
  "unchanged ws_config (status_command E H conf v now)" "unchanged ws_config (actions_command E)"
  "unchanged ws_config (keys_command E H)" "unchanged ws_config (show_command H)"
  "unchanged ws_config (get_command H g)"
proof -
  have "unchanged ws_config m" if "unchanged lasting m" for m :: "('a ws, unit) prog"
    using that by (simp add: unchanged_def lasting_def)
  then show
    "unchanged ws_config (status_command E H conf v now)" "unchanged ws_config (actions_command E)"
    "unchanged ws_config (keys_command E H)" "unchanged ws_config (show_command H)"
    "unchanged ws_config (get_command H g)"
    by (simp_all add: lasting_status_command lasting_actions_command lasting_keys_command
        lasting_show_command lasting_get_command)
qed

abbreviation state_file_of :: "'ks ws \<Rightarrow> string" where
  "state_file_of s \<equiv> state_file (ws_config s)"

lemma state_file_set: "unchanged state_file_of (set_command E H c)"
proof -
  have cfg: "unchanged state_file_of (set_config f)" if "\<And>c. state_file (f c) = state_file c" for f
    using that by (simp add: unchanged_def set_config_def prog_eval)
  have other: "unchanged state_file_of m" if "unchanged ws_config m" for m :: "('a ws, 'b) prog"
    using that by (simp add: unchanged_def)
  have "unchanged state_file_of (set_nameservers E H l)" for l
    unfolding set_nameservers_def by (intro unch cfg other) simp_all
  then have "unchanged state_file_of (set_value E H c)"
    by (cases c; simp only: set_value.simps; intro unch cfg) simp_all
  then show ?thesis unfolding set_command_def by (intro unch) simp_all
qed

lemma state_file_dispatch: "unchanged state_file_of (dispatch E H conf now cmd)"
proof -
  have other: "unchanged state_file_of m" if "unchanged ws_config m" for m :: "('a ws, unit) prog"
    using that by (simp add: unchanged_def)
  show ?thesis
    unfolding dispatch_def
    by (cases cmd; simp only: commands.case; (rule state_file_set | intro other unch); simp)
qed

text \<open>
  Keys, credentials and TSIG keys are kept in other files: what the command does before
  \<open>finish\<close> leaves the two files alone.
\<close>

definition spares :: "'ks ext \<Rightarrow> 'ks host \<Rightarrow> string \<Rightarrow> commands \<Rightarrow> 'ks ws \<Rightarrow> bool" where
  "spares E H conf cmd s \<longleftrightarrow>
     (let u = snd (dispatch E H conf (faketime_or_now s) cmd s)
      in \<forall>p \<in> {conf, state_file (ws_config s)}. ws_files u p = ws_files s p)"

lemma run_files:
  assumes run: "run_loaded E H conf cmd s = (r, t)"
    and sep: "separate conf (state_file (ws_config s))" and spares: "spares E H conf cmd s"
  obtains (ran) d u b b' where
    "dispatch E H conf (faketime_or_now s) cmd s = (d, u)"
    "state_file (ws_config t) = state_file (ws_config s)"
    "ws_config t = ws_config u" "kss_core (ws_state t) = kss_core (ws_state u)"
    "d \<noteq> Ok () \<Longrightarrow> \<not> b \<and> \<not> b' \<and> r = d" "r = Ok () \<Longrightarrow> d = Ok ()"
    "r = Ok () \<Longrightarrow> b = ws_config_changed t" "r = Ok () \<Longrightarrow> b' = ws_state_changed t"
    "ws_files t conf = (if b then Some (show_config H (ws_config t)) else ws_files s conf)"
    "ws_files t (state_file (ws_config s)) =
       (if b' then Some (show_state H (ws_state t)) else ws_files s (state_file (ws_config s)))"
proof -
  let ?now = "faketime_or_now s" and ?sf = "state_file (ws_config s)"
  obtain d u where d: "dispatch E H conf ?now cmd s = (d, u)" by (cases "dispatch E H conf ?now cmd s")
  have kept: "ws_files u conf = ws_files s conf" "ws_files u ?sf = ws_files s ?sf"
    using spares d by (auto simp: spares_def Let_def)
  have sf: "state_file (ws_config u) = ?sf" by (rule unchangedD [OF state_file_dispatch d])
  show thesis
  proof (cases d)
    case (Ok x)
    with run d have fin: "finish E H conf ?now u = (r, t)"
      by (simp add: run_loaded_def gets_def thenP_def bindP_def)
    from fin sep [folded sf] show thesis
    proof (cases rule: finish_cases)
      case (finished b b')
      then show thesis using ran [of d u b b'] d Ok kept sf by simp
    qed
  next
    case (Err e)
    with run d have "r = d" "t = u" by (auto simp: run_loaded_def gets_def thenP_def bindP_def)
    then show thesis using ran [of d u False False] d Err kept sf by simp
  next
    case (Panic p)
    with run d have "r = d" "t = u" by (auto simp: run_loaded_def gets_def thenP_def bindP_def)
    then show thesis using ran [of d u False False] d Panic kept sf by simp
  qed
qed


section \<open>Create\<close>

lemma created_files:
  assumes "keyset_run E H a b conf (CmdCreate n st) w = (Ok (), w')" and "make_absolute H st = Inr path"
    and sep: "separate conf path"
  shows "w_files w' conf = Some (show_config H (initial_config path))"
    and "w_files w' path = Some (show_state H (initial_state E n))"
proof -
  let ?c = "initial_config path" and ?k = "initial_state E n"
  have apex: "set_apex ?k = ?k" by (simp add: set_apex_def initial_state_def)
  have sf: "state_file ?c = path" by (simp add: initial_config_def)
  from assms(1,2) obtain w1 where st: "write_to_new_and_rename (show_state H ?k) path w = (Ok (), w1)"
    and cf: "write_to_new_and_rename (show_config H ?c) conf w1 = (Ok (), w')"
    by (auto simp: create_command_def prog_Ok in_workspace_def write_state_def write_config_def
        in_world_def upd_state_def workspace_def apex sf split: prod.splits)
  from write_target [OF cf] show "w_files w' conf = Some (show_config H ?c)" by simp
  have "w_files w' path = w_files w1 path"
    using sep by (intro write_elsewhere [OF cf]) (auto simp: separate_def)
  with write_target [OF st] show "w_files w' path = Some (show_state H ?k)" by simp
qed

text \<open>
  Property C25. After a successful \<open>create\<close> the next command loads the initial
  configuration and state: no key, no roll, no server, every automation flag off.
\<close>

theorem create_then_load:
  assumes run: "keyset_run E H a b conf (CmdCreate n st) w = (Ok (), w')"
    and path: "make_absolute H st = Inr path" and sep: "separate conf path"
    and c: "parse_config H (show_config H (initial_config path)) = Inr (initial_config path)"
    and k: "parse_state H (show_state H (initial_state E n)) = Inr (initial_state E n)"
    and lock: "file_with_write_lock H conf = Ok ()"
  shows "load_workspace H a' b' conf w' =
     (Ok (workspace (initial_config path) (initial_state E n) a' b' [] w'), w')"
proof -
  let ?c = "initial_config path" and ?k = "initial_state E n"
  have sf: "state_file ?c = path" "tsig_store_path ?c = None" by (simp_all add: initial_config_def)
  have "holds H conf w' ?c ?k"
    using created_files [OF run path sep] c k sf by (simp add: holds_def)
  moreover have tsig: "load_tsig_store H ?c w' = (Ok [], w')"
    using sf by (simp add: load_tsig_store_def ret_def tsig_store_new_def)
  ultimately show ?thesis
    using lock by (auto simp: load_workspace_Ok)
qed

section \<open>Reporting\<close>

definition only_reports :: "commands \<Rightarrow> bool" where
  "only_reports cmd = (case cmd of
     CmdStatus _ \<Rightarrow> True | CmdActions \<Rightarrow> True | CmdKeys \<Rightarrow> True | CmdGet _ \<Rightarrow> True | CmdShow \<Rightarrow> True
   | _ \<Rightarrow> False)"

lemma lasting_dispatch: "only_reports cmd \<Longrightarrow> unchanged lasting (dispatch E H conf now cmd)"
  by (cases cmd) (simp_all add: only_reports_def dispatch_def unch)

text \<open>
  Property C32. The reporting commands write no file and start no program, whatever their
  outcome: \<open>status\<close>, \<open>actions\<close>, \<open>keys\<close>, \<open>get\<close> and \<open>show\<close> can be run at any time.
\<close>

theorem reporting_changes_nothing:
  assumes "only_reports cmd" and "keyset_run E H a b conf cmd w = (r, w')"
  shows "w_files w' = w_files w \<and> w_commands w' = w_commands w"
proof -
  have loaded: "keyset_run E H a b conf cmd w = bindP (load_workspace H a b conf) (\<lambda>s.
     in_workspace (\<lambda>w. s\<lparr>ws_world := w\<rparr>) (run_loaded E H conf cmd)) w"
    using assms(1) by (cases cmd) (simp_all add: only_reports_def)
  have load_frame: "unchanged f (load_workspace H a b conf)" for f :: "world \<Rightarrow> 'c"
    unfolding load_workspace_def load_locked_def load_tsig_store_def by (intro unch)
  obtain q v where load: "load_workspace H a b conf w = (q, v)" by (cases "load_workspace H a b conf w")
  have v: "v = w" using unchangedD [OF load_frame load, of "\<lambda>w. w"] .
  show ?thesis
  proof (cases q)
    case (Ok s)
    define s0 where "s0 = s\<lparr>ws_world := w\<rparr>"
    have flags: "\<not> ws_config_changed s0" "\<not> ws_state_changed s0"
      using load Ok v by (auto simp: load_workspace_Ok workspace_def s0_def)
    obtain d u where d: "dispatch E H conf (faketime_or_now s0) cmd s0 = (d, u)"
      by (cases "dispatch E H conf (faketime_or_now s0) cmd s0")
    have u: "lasting u = lasting s0" by (rule unchangedD [OF lasting_dispatch [OF assms(1)] d])
    then have "\<not> ws_config_changed u" "\<not> ws_state_changed u" using flags by (simp_all add: lasting_def)
    then have "run_loaded E H conf cmd s0 = (d, u)"
      using d by (cases d) (simp_all add: run_loaded_def gets_def thenP_def bindP_def finish_def whenP_def ret_def)
    then have "w' = ws_world u"
      using assms(2) loaded load Ok v by (simp add: bindP_def in_workspace_def s0_def)
    with u show ?thesis by (simp add: lasting_def s0_def)
  qed (use assms(2) loaded load v in \<open>simp_all add: bindP_def\<close>)
qed

section \<open>Witnesses\<close>

definition demo_host :: "demo_ks host" where
  "demo_host = \<lparr>
     parse_addr = Inr, show_span = (\<lambda>d. if d < from_secs 1000000 then Some (show_nat d) else None),
     show_debug_duration = show_nat, show_debug_string = (\<lambda>s. s), show_debug_ttl = (\<lambda>t. show_nat (unat t)),
     show_time = show_nat, show_key_state = (\<lambda>k. ''state''), show_dnskey_rr = (\<lambda>r. kr_owner r),
     parse_store = (\<lambda>s. Inr []),
     parse_config = (\<lambda>s. if s = ''C'' then Inr demo_config
        else if s = ''D'' then Inr (demo_config\<lparr>use_csk := True\<rparr>)
        else if s = ''N'' then Inr (initial_config ''/s/new'') else Inl ''syntax''),
     show_config = (\<lambda>c. if use_csk c then ''D'' else if state_file c = ''/s/new'' then ''N'' else ''C''),
     parse_state = (\<lambda>s. if s = ''S'' then Inr demo_state
        else if s = ''I'' then Inr (initial_state demo ''example'') else Inl ''syntax''),
     show_state = (\<lambda>k. if dm_keys (st_keyset k) = [] then ''I'' else ''S''),
     make_absolute = Inr, create_dir_all = (\<lambda>d. Inr ()),
     lock_attempts = (\<lambda>p n. Locked True),
     run_program = (\<lambda>args. Inr \<lparr>out_success = True, out_status = [], out_stdout = []\<rparr>),
     time_elapsed = (\<lambda>t. 0), indented = (\<lambda>ls. ls)\<rparr>"

lemma demo_host_sel [simp]:
  "parse_config demo_host = (\<lambda>s. if s = ''C'' then Inr demo_config
      else if s = ''D'' then Inr (demo_config\<lparr>use_csk := True\<rparr>)
      else if s = ''N'' then Inr (initial_config ''/s/new'') else Inl ''syntax'')"
  "show_config demo_host = (\<lambda>c. if use_csk c then ''D'' else if state_file c = ''/s/new'' then ''N'' else ''C'')"
  "parse_state demo_host = (\<lambda>s. if s = ''S'' then Inr demo_state
      else if s = ''I'' then Inr (initial_state demo ''example'') else Inl ''syntax'')"
  "show_state demo_host = (\<lambda>k. if dm_keys (st_keyset k) = [] then ''I'' else ''S'')"
  "make_absolute demo_host = Inr" "create_dir_all demo_host = (\<lambda>d. Inr ())"
  "lock_attempts demo_host = (\<lambda>p n. Locked True)"
  "show_span demo_host = (\<lambda>d. if d < from_secs 1000000 then Some (show_nat d) else None)"
  by (simp_all add: demo_host_def)

lemma demo_host_lock: "file_with_write_lock demo_host p = Ok ()"
  by (simp add: file_with_write_lock_def MAX_FILE_LOCK_TRIES_def upt_rec)

lemma write_succeeds:
  assumes "\<not> w_denied w f" "\<not> w_denied w (f @ ''.new'')" "w_write_fails w (f @ ''.new'') = None"
  shows "write_to_new_and_rename json f w =
    (Ok (), w\<lparr>w_files := (w_files w)(f @ ''.new'' := None, f \<mapsto> json)\<rparr>)"
  using assms by (simp add: write_to_new_and_rename_def Let_def thenP_def bindP_def io_def fs_defs fun_upd_twist)

lemma demo_initial_keys [simp]: "dm_keys (st_keyset (set_apex (initial_state demo n))) = []"
  by (simp add: set_apex_def initial_state_def)

lemma lock_obtained_witness:
  "file_with_write_lock (demo_host\<lparr>lock_attempts := \<lambda>p n. Locked (n = 3)\<rparr>) ''/conf'' = Ok ()"
  using lock_obtained [of "demo_host\<lparr>lock_attempts := \<lambda>p n. Locked (n = 3)\<rparr>" "''/conf''"]
  by (auto intro!: bexI [of _ 3])

lemma create_then_load_witness:
  "\<exists>w'. keyset_run demo demo_host False False ''/c'' (CmdCreate ''example'' ''/s/new'') demo_world = (Ok (), w')
     \<and> load_workspace demo_host False False ''/c'' w' =
        (Ok (workspace (initial_config ''/s/new'') (initial_state demo ''example'') False False [] w'), w')"
proof -
  have "\<exists>w'. keyset_run demo demo_host False False ''/c'' (CmdCreate ''example'' ''/s/new'') demo_world = (Ok (), w')"
    by (simp add: create_command_def prog_eval bindP_def thenP_def lift_res_def in_workspace_def
        write_state_def write_config_def gets_def modify_def in_world_def
        write_succeeds workspace_def upd_state_def initial_config_def)
  then obtain w' where w': "keyset_run demo demo_host False False ''/c'' (CmdCreate ''example'' ''/s/new'') demo_world = (Ok (), w')"
    by blast
  have "load_workspace demo_host False False ''/c'' w' =
      (Ok (workspace (initial_config ''/s/new'') (initial_state demo ''example'') False False [] w'), w')"
    using w'
    by (rule create_then_load)
      (simp_all add: separate_def initial_config_def initial_state_def demo_host_lock)
  with w' show ?thesis by blast
qed

definition demo_saved :: world where
  "demo_saved = demo_world\<lparr>w_files := (w_files demo_world)(''/c'' \<mapsto> ''C'', ''/s/example.state'' \<mapsto> ''S'')\<rparr>"

lemma demo_load:
  "load_workspace demo_host False False ''/c'' demo_saved =
     (Ok (workspace demo_config demo_state False False [] demo_saved), demo_saved)"
  by (auto simp: load_workspace_Ok holds_def demo_saved_def load_tsig_store_def ret_def tsig_store_new_def
      demo_host_lock)

lemma reporting_changes_nothing_witness:
  "w_files (snd (keyset_run demo demo_host False False ''/c'' CmdShow demo_saved)) = w_files demo_saved"
  using reporting_changes_nothing [of CmdShow demo demo_host False False "''/c''" demo_saved
      "fst (keyset_run demo demo_host False False ''/c'' CmdShow demo_saved)"
      "snd (keyset_run demo demo_host False False ''/c'' CmdShow demo_saved)"]
  by (simp add: only_reports_def)

definition demo_loaded :: "demo_ks ws" where
  "demo_loaded = workspace demo_config demo_state False False [] demo_saved"

definition demo_changed :: "demo_ks ws" where
  "demo_changed = demo_loaded\<lparr>ws_config := demo_config\<lparr>use_csk := True\<rparr>, ws_config_changed := True\<rparr>"

lemma demo_set: "dispatch demo demo_host ''/c'' now (CmdSet (SetUseCsk True)) demo_loaded = (Ok (), demo_changed)"
  by (simp add: dispatch_def set_command_def set_config_def thenP_def bindP_def modify_def
      demo_loaded_def demo_changed_def workspace_def)

lemma demo_changed_sel [simp]:
  "ws_config demo_changed = demo_config\<lparr>use_csk := True\<rparr>" "ws_state demo_changed = demo_state"
  "ws_config_changed demo_changed = True" "ws_state_changed demo_changed = False"
  "ws_run_update_ds_command demo_changed = False" "ws_world demo_changed = demo_saved"
  by (simp_all add: demo_changed_def demo_loaded_def workspace_def)

lemma demo_needs_no_algorithm_roll: "algorithm_roll_needed demo demo_changed = (Ok False, demo_changed)"
proof -
  have "key_algs (dm_keys demo_keyset) = {15}"
    by (auto simp: key_algs_def usable_key_def demo_active_def image_iff)
  moreover have "ks_keys demo (ws_keyset demo_changed) = dm_keys demo_keyset" by simp
  ultimately show ?thesis by (simp add: algorithm_roll_needed_def prog_eval bindP_def)
qed

lemma demo_next_times:
  "next_times demo now fake False (demo_config\<lparr>use_csk := True\<rparr>) demo_state = Ok [None, None]"
  by (simp add: next_times_def compute_cron_next_def next_steps_def next_starts_def csk_auto_def
      cron_next_auto_start_def cron_next_auto_report_expire_done_def auto_default_def demo_active_def
      demo_key_sel)

lemma demo_finish:
  "\<exists>t. finish demo demo_host ''/c'' now demo_changed = (Ok (), t) \<and>
     ws_config t = demo_config\<lparr>use_csk := True\<rparr> \<and> ws_state t = demo_state \<and>
     ws_config_changed t \<and> \<not> ws_state_changed t"
  by (simp add: finish_def prog_eval whenP_def bindP_def thenP_def demo_needs_no_algorithm_roll
      demo_next_times lift_res_def map_filter_def set_cron_next_def save_def gets_def modify_def ret_def
      write_config_def in_world_def write_succeeds demo_saved_def run_update_ds_def)

lemma demo_separate: "separate ''/c'' ''/s/example.state''"
  by (simp add: separate_def)


end
