(* ===== verification/Reachable.thy ===== *)
theory Reachable
  imports Files_Correct
begin

text \<open>
  The invariant over all runs: a step relation on worlds made of successful or failed
  commands and of changes outside, and the proof that every reachable configuration and
  state pair records every roll and has a configured default server, so that no command
  ever fails an \<open>expect\<close> on a missing record.
\<close>

section \<open>Commands keep every roll recorded\<close>

lemma never_missing_quiet: "quiet m \<Longrightarrow> never_missing m"
  by (auto simp: okay_def split: prod.splits res.splits)

lemma records_lasting:
  assumes "never_missing m" and "unchanged lasting m"
  shows "records E m"
proof (rule records_frame [OF assms(1)])
  show "unchanged roll_view m" using assms(2) by (simp add: unchanged_def lasting_def)
qed

lemma records_print_line: "records E (print_line l)"
  by (intro records_lasting okays unch)

lemma records_gets_config: "records E (bindP (gets f) g)" if "\<And>v. records E (g v)"
  using that by (intro okays)

lemma records_print_actions: "records E (print_actions acts)"
  unfolding print_actions_def by (intro okays records_print_line)

lemma records_roll_step:
  assumes "\<And>r. starts_none E (f r)"
  shows "records E (roll_step E what v f)"
  unfolding roll_step_def
  by (intro okays records_ks_try assms records_handle_actions records_print_actions records_set_changed)

lemma records_start_roll_for: "keyset_laws E \<Longrightarrow> records E (start_roll_for E v b)"
  by (cases v) (simp_all add: start_roll_for_def start_rolls_records)

lemma records_roll_command: "keyset_laws E \<Longrightarrow> records E (roll_command E sub v)"
  by (cases sub; simp only: roll_command.simps)
    (intro okays records_roll_step records_start_roll_for records_print_actions records_set_changed
      records_do_done keyset_laws_none; assumption)+

lemma other_panic_labels [sounds]:
  "other_panic ''should not happen (start_roll)''" "other_panic not_happen"
  "other_panic ''should not fail''" "other_panic ''should be present if stale''"
  "other_panic ''should be set when stale (withdrawn)''"
  by (simp_all add: other_panic_def missing_roll_def missing_status_def not_happen_def)

lemma never_missing_print_actions [okays]: "never_missing (print_actions acts)"
  unfolding print_actions_def by (intro okays)

lemma never_missing_add_new_key [okays]: "never_missing (add_new_key E add kind now x)"
  unfolding add_new_key_def by (intro okays)

lemma never_missing_new_csk_or_ksk_zsk [okays]: "never_missing (new_csk_or_ksk_zsk E)"
  unfolding new_csk_or_ksk_zsk_def by (intro okays)

lemma records_first_roll:
  assumes laws: "keyset_laws E"
  shows "records E (bindP (ks_expect ''should not happen (start_roll)'' (ks_start_roll E AlgorithmRoll old new)) (\<lambda>actions.
     thenP (handle_actions E actions True)
    (thenP (modify (upd_state (record_roll AlgorithmRoll))) (print_actions actions))))"
    (is "records E ?m")
proof (rule recordsI)
  show "never_missing ?m" by (intro okays sounds)
next
  fix s x t assume s: "rolls_recorded E s" and run: "?m s = (Ok x, t)"
  then obtain actions u v where call: "ks_expect ''should not happen (start_roll)''
      (ks_start_roll E AlgorithmRoll old new) s = (Ok actions, u)"
    and acts: "handle_actions E actions True u = (Ok (), v)"
    and prints: "print_actions actions (upd_state (record_roll AlgorithmRoll) v) = (Ok x, t)"
    by (auto simp: prog_Ok)
  obtain res k where k: "ks_start_roll E AlgorithmRoll old new (ws_keyset s) = (res, k)"
    by (cases "ks_start_roll E AlgorithmRoll old new (ws_keyset s)")
  with call have "res = Inr actions" and u: "u = upd_state (\<lambda>st. st\<lparr>st_keyset := k\<rparr>) s"
    by (auto simp: ks_expect_def ks_call_def bindP_def prog_eval split: sum.splits)
  with keyset_laws_start [OF laws k] have sub: "rolls E k \<subseteq> insert AlgorithmRoll (rolls E (ws_keyset s))" by simp
  have "ws_keyset v = ws_keyset u" "st_internal (ws_state v) = st_internal (ws_state u)"
    by (rule unchangedD [OF handle_actions_frames(1) acts], rule unchangedD [OF handle_actions_frames(3) acts])
  then have "rolls_recorded E (upd_state (record_roll AlgorithmRoll) v)"
    using s sub by (auto simp: rolls_recorded_def u upd_state_def record_roll_def)
  then show "rolls_recorded E t" by (rule okay_Ok [OF records_print_actions _ prints])
qed

lemma records_init: "keyset_laws E \<Longrightarrow> records E (init_command E)"
  unfolding init_command_def Let_def
  by (intro okays records_rrsets records_new_csk_or_ksk_zsk records_first_roll records_set_changed)

lemma records_refresh: "records E (refresh_rrsets E')"
  unfolding refresh_rrsets_def by (intro okays records_rrsets)

lemma import_pair_frame: "unchanged roll_view (import_pair E' absolute source)"
proof (cases source)
  case (ImportFile path coupled private_key)
  then show ?thesis by (simp only: import_pair.simps import_file_def) (intro unch; simp)
next
  case (ImportKmip server public_id private_id alg flags coupled)
  then show ?thesis by (simp only: import_pair.simps import_kmip_def) (intro unch; simp)
qed

lemma never_missing_import_pair [okays]: "never_missing (import_pair E' absolute source)"
proof (cases source)
  case (ImportFile path coupled private_key)
  then show ?thesis
    by (simp only: import_pair.simps import_file_def) (intro okays never_missing_in_world)
next
  case (ImportKmip server public_id private_id alg flags coupled)
  then show ?thesis by (simp only: import_pair.simps import_kmip_def) (intro okays)
qed

lemma records_import_key:
  assumes laws: "keyset_laws E"
  shows "records E (import_key_command E absolute source variant)"
proof -
  note parts = records_ks_try records_ks_expect keyset_laws_none [OF laws] sounds
  have pair: "records E (import_pair E absolute source)"
    by (intro records_frame okays import_pair_frame)
  show ?thesis
    unfolding import_key_command_def
    by (cases variant; simp only: key_variant.case; intro okays pair parts)
qed

lemma records_import_public:
  assumes laws: "keyset_laws E"
  shows "records E (import_public_key E absolute path)"
proof -
  have read: "records E (in_world (read_file path g))" for g
    by (intro records_frame okays never_missing_in_world unch)
  show ?thesis
    unfolding import_public_key_def Let_def
    by (intro okays read records_ks_try records_ks_expect keyset_laws_none laws sounds)
qed

lemma records_import: "keyset_laws E \<Longrightarrow> records E (import_command E absolute cmd)"
  unfolding import_command_def
  by (cases cmd; simp only: import_cmd.case)
    (intro okays records_import_key records_import_public records_set_changed records_refresh; assumption)+

lemma records_remove_key: "records E (remove_key E' u)"
  by (intro records_frame okays unch; simp)

lemma records_attempt_remove_key: "records E (attempt (remove_key E' u))"
proof (rule okay_attempt [OF records_remove_key])
  fix s e t assume "rolls_recorded E s" and run: "remove_key E' u s = (Err e, t)"
  moreover have "unchanged roll_view (remove_key E' u)" by (intro unch; simp)
  from unchangedD [OF this run] have "roll_view t = roll_view s" .
  ultimately show "rolls_recorded E t" by (simp add: rolls_recorded_def)
qed

lemma records_forget_key: "keyset_laws E \<Longrightarrow> records E (forget_key E k force)"
  unfolding forget_key_def
  by (intro okays records_ks_try records_ks_expect keyset_laws_none sounds)

lemma records_remove_key_subcommand: "keyset_laws E \<Longrightarrow> records E (remove_key_subcommand E k force cont)"
  unfolding remove_key_subcommand_def remove_key_command_def
  by (intro okays records_attempt_remove_key records_forget_key records_refresh records_set_changed)

section \<open>Reporting commands\<close>

lemma never_missing_print_lines [okays]: "never_missing (print_lines ls)"
  unfolding print_lines_def by (intro okays)

lemma never_missing_print_signers [okays]: "never_missing (print_signers E H indent)"
  unfolding print_signers_def by (intro okays)

lemma never_missing_print_report [okays]: "never_missing (print_report b t)"
  unfolding print_report_def by (intro okays)

lemma never_missing_show_auto_dnskey [okays]: "never_missing (show_auto_dnskey H b st)"
  unfolding show_auto_dnskey_def by (cases st; simp only: auto_report_result.case; intro okays)

lemma never_missing_show_auto_ds [okays]: "never_missing (show_auto_ds H b st)"
  unfolding show_auto_ds_def by (cases st; simp only: auto_report_result.case; intro okays)

lemma never_missing_show_auto_rrsig [okays]: "never_missing (show_auto_rrsig E H b st)"
  unfolding show_auto_rrsig_def by (cases st; simp only: auto_rrsig_result.case; intro okays)

lemma never_missing_show_automatic_roll_state [okays]:
  "never_missing (show_automatic_roll_state E H st b)"
  unfolding show_automatic_roll_state_def by (intro okays)

lemma never_missing_status_action [okays]: "never_missing (status_action E H auto a)"
  unfolding status_action_def print_rrset_block_def by (intro okays)

lemma never_missing_status_expiry [okays]: "never_missing (status_expiry E H now auto r st)"
  unfolding status_expiry_def by (intro okays) (auto intro: okays split: ks_error.splits)

lemma never_missing_status_auto_state [okays]: "never_missing (status_auto_state E H reps st)"
  unfolding status_auto_state_def Let_def by (cases st; simp only: roll_state.case; intro okays)

lemma never_missing_status_steps [okays]: "never_missing (status_steps conf verbose cascade commands)"
  unfolding status_steps_def by (intro okays)

lemma never_missing_status_key [okays]: "never_missing (status_key H c kv)"
proof -
  obtain pubref k where kv: "kv = (pubref, k)" by (cases kv)
  show ?thesis
    unfolding status_key_def Let_def kv prod.case
    by (cases "keytype k"; simp only: prod.case key_type.case; intro okays sounds)
qed

lemma okay_gets_lift:
  assumes "\<And>s. sound_res (f s)" and "\<And>x. okay I other_panic (h x)"
  shows "okay I other_panic (bindP (gets f) (\<lambda>d. bindP (lift_res d) h))"
  unfolding okay_runs
proof (rule runs_gets)
  fix d
  show "runs (\<lambda>s. I s \<and> f s = d) I other_panic (bindP (lift_res d) h)"
  proof (cases "\<exists>s. f s = d")
    case True
    with assms(1) have "sound_res d" by auto
    then have "okay I other_panic (bindP (lift_res d) h)"
      by (intro okays assms(2)) (simp add: sound_res_def)
    then show ?thesis by (rule runs_weaken) simp_all
  next
    case False
    then show ?thesis by (auto simp: runs_def)
  qed
qed

lemma sound_sig_renew [sounds]: "sound_res (sig_renew E rrset remain now)"
proof -
  have "sound_res (sig_renew_loop n es)" for n es
    by (induction n es rule: sig_renew_loop.induct)
      (auto simp: sound_res_def other_panic_def missing_roll_def missing_status_def split: rdata.split)
  then show ?thesis by (simp add: sig_renew_def)
qed

text \<open>The rolls in \<open>R\<close> have an entry: what the status command relies on for each roll it prints.\<close>

definition have_entries :: "roll_type set \<Rightarrow> 'ks ws \<Rightarrow> bool" where
  "have_entries R s \<longleftrightarrow> R \<subseteq> dom (st_internal (ws_state s))"

lemma okay_lasting:
  assumes "never_missing m" and frame: "unchanged lasting m"
    and I: "\<And>s t. lasting t = lasting s \<Longrightarrow> I s \<Longrightarrow> I t"
  shows "okay I other_panic m"
proof (rule okay_unchanged [OF frame I])
  fix s p t assume "m s = (Panic p, t)"
  with assms(1) show "other_panic p" by (rule never_missing_Panic)
qed

lemma okay_gets_expect:
  assumes "\<And>s. I s \<Longrightarrow> f s \<noteq> None" and "\<And>x. okay I P (g x)"
  shows "okay I P (bindP (gets f) (\<lambda>i. bindP (expect l i) g))"
  unfolding okay_runs
proof (rule runs_gets)
  fix i
  show "runs (\<lambda>s. I s \<and> f s = i) I P (bindP (expect l i) g)"
  proof (cases i)
    case None
    have "\<not> (I s \<and> f s = i)" for s using assms(1) [of s] None by auto
    then show ?thesis unfolding runs_def by blast
  next
    case (Some x)
    have "runs (\<lambda>s. I s \<and> f s = i) I P (g x)" by (rule runs_weaken [OF assms(2)]) simp_all
    with Some show ?thesis by (simp add: prog_eval)
  qed
qed

definition printing :: "'ks ext \<Rightarrow> roll_type set \<Rightarrow> 'ks ws \<Rightarrow> bool" where
  "printing E R s \<longleftrightarrow> rolls_recorded E s \<and> have_entries R s"

lemma okay_printing:
  "never_missing m \<Longrightarrow> unchanged lasting m \<Longrightarrow> okay (printing E R) other_panic m"
  by (rule okay_lasting) (auto simp: lasting_def printing_def rolls_recorded_def have_entries_def)

lemma okay_status_roll:
  assumes "fst r \<in> R"
  shows "okay (printing E R) other_panic (status_roll E' H conf verbose now r)"
proof -
  obtain t st where r: "r = (t, st)" by (cases r)
  have entry: "st_internal (ws_state s) t \<noteq> None" if "printing E R s" for s
    using that assms by (auto simp: printing_def have_entries_def r)
  show ?thesis
    unfolding status_roll_def r prod.case Let_def
    by (intro okays okay_gets_expect entry okay_printing unch) simp_all
qed

lemma okay_status_body:
  "okay (printing E (fst ` set rollstates)) other_panic (status_body E' H conf now verbose rollstates)"
  unfolding status_body_def Let_def
  by (intro okay_gets_lift okay_status_roll okays sounds imageI okay_printing unch) simp_all

lemma records_status: "records E (status_command E H conf v now)"
  unfolding okay_runs status_command_def
proof (rule runs_gets)
  fix x :: "bool \<times> (roll_type \<times> roll_state) list"
  obtain verbose rollstates where x: "x = (verbose, rollstates)" by (cases x)
  show "runs (\<lambda>s. rolls_recorded E s \<and> (ws_verbose s \<or> v, ks_rollstates E (ws_keyset s)) = x)
     (rolls_recorded E) other_panic
     (case x of (verbose, rollstates) \<Rightarrow> status_body E H conf now verbose rollstates)"
    unfolding x prod.case
  proof (rule runs_weaken [OF okay_status_body [where E = E]])
    fix s
    assume "rolls_recorded E s \<and> (ws_verbose s \<or> v, ks_rollstates E (ws_keyset s)) = (verbose, rollstates)"
    then show "printing E (fst ` set rollstates) s"
      by (auto simp: printing_def have_entries_def rolls_recorded_def rolls_def)
  qed (simp add: printing_def)
qed

lemma records_actions: "records E (actions_command E)"
  unfolding actions_command_def by (intro okays records_print_line records_print_actions)

lemma records_other_reports:
  "records E (keys_command E H)" "records E (show_command H)"
  unfolding keys_command_def show_command_def
  by (intro records_lasting okays unch)+

lemma other_panic_span [sounds]: "other_panic ''should not fail (span)''"
  by (simp add: other_panic_def missing_roll_def missing_status_def)

lemma records_print_span: "records E (print_span H d)"
  unfolding print_span_def by (intro okays records_print_line sounds)

lemma records_get: "records E (get_command H g)"
  by (cases g; simp only: get_command.simps; intro okays records_print_line records_print_span)

lemma records_set: "records E (set_command E' H c)"
proof -
  have cfg: "records E (set_config f)" for f
    unfolding set_config_def by (rule okay_modify) (simp add: rolls_recorded_def)
  have lock: "\<not> is_panic (file_with_write_lock H p)" for p
  proof -
    have "\<not> is_panic (lock_loop at p ns)" for at ns
      by (induction ns) (simp_all split: lock_attempt.split)
    then show ?thesis by (simp add: file_with_write_lock_def)
  qed
  have "quiet (load_locked H parse shown p)" for parse :: "string \<Rightarrow> string + tsig_store" and shown p
    unfolding load_locked_def by (intro okays lock) simp_all
  then have load: "records E (in_world (load_locked H parse shown p))"
    for parse :: "string \<Rightarrow> string + tsig_store" and shown p
    by (intro records_frame never_missing_quiet quiet_in_world) (simp_all add: unchanged_def in_world_def split: prod.split)
  have parse: "sound_res (parse_nameservers E' H l)" for l
  proof (induction l)
    case (Cons x l)
    have "sound_res (nameserver_from_str pa pn x)" for pa pn
      unfolding nameserver_from_str_def by (auto intro!: sounds split: list.split)
    with Cons show ?case by (auto simp: sound_res_def bind_res_Panic_iff)
  qed (simp add: sound_res_def)
  have servers: "records E (set_nameservers E' H l)" for l
  proof -
    have "sound_res (parse_nameservers E' H l)" by (rule parse)
    then show ?thesis
      unfolding set_nameservers_def
      by (intro okays cfg load) (auto simp: sound_res_def)
  qed
  have alg: "sound_res (key_parameters_new alg bits)" for alg bits
    by (auto simp: key_parameters_new_def sound_res_def split: option.splits if_splits)
  have vals: "records E (set_value E' H c)"
    by (cases c; simp only: set_value.simps; (intro cfg servers | intro okays cfg))
      (use alg in \<open>auto simp: sound_res_def\<close>)
  show ?thesis
    unfolding set_command_def by (intro okays vals) (simp add: rolls_recorded_def)
qed

section \<open>KMIP, cron and finish\<close>

lemma kmip_frame: "unchanged roll_view (kmip_command E' ind sub)"
proof -
  have update: "unchanged roll_view (kmip_update f)" for f :: "kmip_state \<Rightarrow> (world, kmip_state) prog"
    unfolding kmip_update_def by (intro unch) (simp_all add: unchanged_def in_world_def upd_state_def split: prod.split)
  have print: "unchanged roll_view (print_line l)" for l by (intro unch) simp
  show ?thesis
    unfolding kmip_command_def
    by (cases sub; simp only: kmip_commands.case; intro unch update print)
qed

lemma quiet_kmip_command: "quiet (kmip_command E' ind sub)"
  unfolding kmip_command_def
  by (cases sub) (auto intro!: okays split: option.splits)

lemma records_kmip: "records E (kmip_command E' ind sub)"
  by (intro records_frame never_missing_quiet quiet_kmip_command kmip_frame)

lemma sound_removable_keys [sounds]: "sound_res (removable_keys delay now keys)"
  by (induction delay now keys rule: removable_keys.induct)
    (auto intro!: sounds split: option.split)

lemma records_autoremove_key: "keyset_laws E \<Longrightarrow> records E (autoremove_key E kv)"
  unfolding autoremove_key_def
  by (intro okays records_ks_try records_remove_key keyset_laws_none)

lemma records_auto_start_with:
  assumes "roll_starter E start kind" and "keyset_laws E"
  shows "records E (auto_start_with E v a c m start)"
  unfolding auto_start_with_def
  by (intro okays roll_starter.auto_records [OF assms])

lemma records_csk_start: "keyset_laws E \<Longrightarrow> records E (auto_start_with E v a c m (csk_start E need))"
  unfolding csk_start_def
  by (cases need)
    (auto intro: records_auto_start_with csk_starter.roll_starter_axioms algorithm_starter.roll_starter_axioms)

lemma never_missing_algorithm_roll_needed [okays]: "never_missing (algorithm_roll_needed E)"
  unfolding algorithm_roll_needed_def by (intro never_missing_params okays)

lemma records_algorithm_roll_needed: "records E (algorithm_roll_needed E')"
  by (intro records_frame okays unch)

lemma records_cron:
  assumes laws: "keyset_laws E"
  shows "records E (cron_command E now)"
proof -
  have sigs: "records E (cron_signatures E now)"
    unfolding cron_signatures_def
    by (intro okay_gets_lift sounds okays records_print_line records_rrsets records_set_changed)
  have starts: "records E (cron_starts E)"
    unfolding cron_starts_def
    by (intro okays records_algorithm_roll_needed records_csk_start laws
        records_auto_start_with [OF ksk_starter.roll_starter_axioms]
        records_auto_start_with [OF zsk_starter.roll_starter_axioms])
  have steps: "records E (cron_steps E)"
    unfolding cron_steps_def auto_steps_with_def
    by (intro okays records_auto_report_expire_done laws)
  have removal: "records E (cron_autoremove E)"
    unfolding cron_autoremove_def
    by (intro okay_gets_lift sounds okays records_autoremove_key laws records_set_changed)
  show ?thesis
    unfolding cron_command_def by (intro okays sigs starts steps removal)
qed

lemma records_dispatch:
  assumes laws: "keyset_laws E"
  shows "records E (dispatch E H conf now cmd)"
proof -
  have flag: "records E (modify (\<lambda>s. s\<lparr>ws_state_changed := b\<rparr>))" for b
    by (rule okay_modify) (simp add: rolls_recorded_def)
  show ?thesis
    unfolding dispatch_def
    by (cases cmd; simp only: commands.case)
      (intro okays sounds flag records_init records_roll_command records_import
        records_remove_key_subcommand records_status records_actions records_other_reports
        records_get records_set records_cron records_kmip laws)+
qed

lemma sound_collect_res: "(\<And>x. x \<in> set xs \<Longrightarrow> sound_res (f x)) \<Longrightarrow> sound_res (collect_res xs f)"
  by (induction xs) (auto intro!: sounds)

lemma sound_cron_expire_rolls [sounds]: "sound_res (cron_expire_rolls E now rs k)"
proof (induction rs arbitrary: k)
  case (Cons r rs)
  have step: "sound_res (case res of (Inl (KsWait remain), k') \<Rightarrow>
        bind_res (cron_expire_rolls E now rs k') (\<lambda>l. Ok (Some (now + remain) # l))
      | (Inl (KsError e), k') \<Rightarrow> Err (m (KsError e))
      | (Inr _, k') \<Rightarrow> bind_res (cron_expire_rolls E now rs k') (\<lambda>l. Ok (Some now # l)))"
    for res :: "(ks_error + action list) \<times> 'a" and m
    by (auto intro!: sounds Cons split: prod.split sum.split ks_error.split)
  show ?case
    unfolding cron_expire_rolls.simps Let_def
    by (auto intro!: sounds Cons split: option.split roll_state.split prod.split sum.split ks_error.split)
qed (simp add: sounds)

definition recorded :: "'ks ext \<Rightarrow> 'ks kss \<Rightarrow> bool" where
  "recorded E k \<longleftrightarrow> rolls E (st_keyset k) \<subseteq> dom (st_internal k)"

lemma rolls_recorded_state: "rolls_recorded E s \<longleftrightarrow> recorded E (ws_state s)"
  by (simp add: rolls_recorded_def recorded_def)

lemma recorded_entry:
  assumes "recorded E k" and "map_of (ks_rollstates E (st_keyset k)) r = Some st"
  obtains reps where "st_internal k r = Some reps"
  using assms by (fastforce simp: recorded_def rolls_def dest: map_of_SomeD)

lemma sound_cron_report_roll:
  assumes "recorded E k"
  shows "sound_res (cron_report_roll E now k r)"
proof (cases "map_of (ks_rollstates E (st_keyset k)) r")
  case (Some st)
  with assms obtain reps where "st_internal k r = Some reps" by (rule recorded_entry)
  with Some show ?thesis by (cases st) (simp_all add: cron_report_roll_def Let_def sounds)
qed (simp add: cron_report_roll_def sounds)

lemma sound_cron_done_roll:
  assumes "recorded E k"
  shows "sound_res (cron_done_roll E now k r)"
proof (cases "map_of (ks_rollstates E (st_keyset k)) r")
  case (Some st)
  with assms obtain reps where "st_internal k r = Some reps" by (rule recorded_entry)
  with Some show ?thesis by (cases st) (simp_all add: cron_done_roll_def sounds)
qed (simp add: cron_done_roll_def sounds)

lemma sound_next_steps: "recorded E k \<Longrightarrow> sound_res (next_steps E now c k)"
  unfolding next_steps_def cron_next_auto_report_expire_done_def
  by (intro sounds sound_collect_res sound_cron_report_roll sound_cron_done_roll)

lemma sound_next_removals [sounds]: "sound_res (next_removals delay keys)"
  by (induction delay keys rule: next_removals.induct) (auto intro!: sounds split: option.split)

lemma sound_compute_cron_next [sounds]: "sound_res (compute_cron_next E rrset remain now)"
proof -
  have "sound_res (expirations es)" for es
    by (induction es rule: expirations.induct) (auto intro!: sounds split: rdata.split)
  then show ?thesis unfolding compute_cron_next_def by (intro sounds)
qed

lemma sound_next_times: "recorded E k \<Longrightarrow> sound_res (next_times E now fake need c k)"
  unfolding next_times_def by (intro sounds sound_next_steps)

lemma quiet_save: "quiet (save H conf)"
proof -
  have wr: "quiet (write_to_new_and_rename json f)" for json f
    unfolding write_to_new_and_rename_def Let_def by (intro okays)
  show ?thesis unfolding save_def write_config_def write_state_def by (intro okays wr) simp_all
qed

lemma quiet_run_update_ds: "quiet (run_update_ds H)"
proof -
  have "quiet (\<lambda>w. (map_err g r, h w))" for g and r :: "string + command_output" and h :: "world \<Rightarrow> world"
    by (simp add: quiet_iff)
  then show ?thesis unfolding run_update_ds_def by (intro okays) auto
qed

lemma finish_panics:
  assumes s: "rolls_recorded E s" and run: "finish E H conf now s = (Panic p, t)"
  shows "other_panic p"
proof -
  have need: "never_missing (algorithm_roll_needed E)" by (rule never_missing_algorithm_roll_needed)
  have rest: "quiet (thenP (modify (set_cron_next x)) (thenP (save H conf) (run_update_ds H)))" for x
    by (intro okays quiet_save quiet_run_update_ds) simp
  obtain q u where q: "algorithm_roll_needed E s = (q, u)" by (cases "algorithm_roll_needed E s")
  have u: "u = s" by (rule algorithm_roll_needed_run [OF q])
  show ?thesis
  proof (cases q)
    case (Ok b)
    let ?next = "next_times E now (faketime_or_now s) b (ws_config s) (ws_state s)"
    have sound: "sound_res ?next" using s by (intro sound_next_times) (simp add: rolls_recorded_state)
    show ?thesis
    proof (cases ?next)
      case (Ok times)
      with run q \<open>q = Ok b\<close> u have "thenP (modify (set_cron_next (min_opt (List.map_filter id times))))
          (thenP (save H conf) (run_update_ds H)) s = (Panic p, t)"
        by (auto simp: finish_def prog_eval whenP_def bindP_def split: if_splits)
      then show ?thesis by (rule quietE [OF rest])
    next
      case (Err e)
      with run q \<open>q = Ok b\<close> u show ?thesis
        by (auto simp: finish_def prog_eval whenP_def bindP_def split: if_splits)
    next
      case (Panic p')
      with run q \<open>q = Ok b\<close> u have "p' = p"
        by (auto simp: finish_def prog_eval whenP_def bindP_def split: if_splits)
      with sound Panic show ?thesis by (simp add: sound_res_def)
    qed
  next
    case (Err e)
    with run q u show ?thesis by (auto simp: finish_def prog_eval whenP_def bindP_def split: if_splits)
  next
    case (Panic p')
    with run q u have "p' = p" by (auto simp: finish_def prog_eval whenP_def bindP_def split: if_splits)
    with never_missing_Panic [OF need] q Panic show ?thesis by blast
  qed
qed

section \<open>Reachable worlds\<close>

text \<open>
  A world is reachable from a \<open>create\<close> by commands, whatever their outcome, and by changes
  outside that leave the configuration and state files alone. Of a command only its
  effects count here: that it keeps keys, credentials and TSIG keys in other files
  (\<open>spares\<close>) and that serde reads back what it writes (\<open>readable\<close>).
\<close>

inductive reachable :: "'ks ext \<Rightarrow> 'ks host \<Rightarrow> string \<Rightarrow> world \<Rightarrow> bool"
  for E :: "'ks ext" and H :: "'ks host" and conf :: string where
  created: "keyset_run E H a b conf (CmdCreate n st) w = (Ok (), w') \<Longrightarrow>
     make_absolute H st = Inr path \<Longrightarrow> separate conf path \<Longrightarrow>
     parse_config H (show_config H (initial_config path)) = Inr (initial_config path) \<Longrightarrow>
     parse_state H (show_state H (initial_state E n)) = Inr (initial_state E n) \<Longrightarrow>
     reachable E H conf w'"
| command: "reachable E H conf w \<Longrightarrow> load_workspace H a b conf w = (Ok s, w) \<Longrightarrow>
     spares E H conf cmd s \<Longrightarrow> run_loaded E H conf cmd s = (r, t) \<Longrightarrow> readable H t \<Longrightarrow>
     reachable E H conf (ws_world t)"
| outside: "reachable E H conf w \<Longrightarrow> w_files w' conf = w_files w conf \<Longrightarrow>
     (\<And>x c. w_files w conf = Some x \<Longrightarrow> parse_config H x = Inr c \<Longrightarrow>
        w_files w' (state_file c) = w_files w (state_file c)) \<Longrightarrow>
     reachable E H conf w'"

definition sound_files :: "'ks ext \<Rightarrow> 'ks host \<Rightarrow> string \<Rightarrow> world \<Rightarrow> bool" where
  "sound_files E H conf w \<longleftrightarrow>
     (\<forall>c k. holds H conf w c k \<longrightarrow> separate conf (state_file c) \<and> recorded E k)"

lemma sound_filesD:
  "sound_files E H conf w \<Longrightarrow> holds H conf w c k \<Longrightarrow> separate conf (state_file c) \<and> recorded E k"
  by (simp add: sound_files_def)

lemma sound_files_command:
  assumes laws: "keyset_laws E" and inv: "sound_files E H conf w"
    and load: "load_workspace H a b conf w = (Ok s, w)" and spares: "spares E H conf cmd s"
    and run: "run_loaded E H conf cmd s = (r, t)" and readable: "readable H t"
  shows "sound_files E H conf (ws_world t)"
  unfolding sound_files_def
proof (intro allI impI)
  fix c' k' assume h': "holds H conf (ws_world t) c' k'"
  from load have h: "holds H conf w (ws_config s) (ws_state s)" and w: "ws_world s = w"
    by (auto simp: load_workspace_Ok workspace_def)
  from sound_filesD [OF inv h] have sep: "separate conf (state_file (ws_config s))"
    and rec: "recorded E (ws_state s)" by blast+
  from run sep spares show "separate conf (state_file c') \<and> recorded E k'"
  proof (cases rule: run_files)
    case (ran d u b1 b2)
    from h w obtain x y where old: "ws_files s conf = Some x" "parse_config H x = Inr (ws_config s)"
      "ws_files s (state_file (ws_config s)) = Some y" "parse_state H y = Inr (ws_state s)"
      by (auto simp: holds_def)
    have c': "c' = (if b1 then ws_config t else ws_config s)"
      using h' ran(9) old readable by (cases b1) (auto simp: holds_def readable_def)
    then have sf: "state_file c' = state_file (ws_config s)" using ran(2) by simp
    have k': "k' = (if b2 then ws_state t else ws_state s)"
      using h' sf ran(10) old readable by (cases b2) (auto simp: holds_def readable_def)
    have "recorded E (ws_state t)" if b2
    proof -
      have "d = Ok ()" using that ran(5) by blast
      then have "rolls_recorded E u"
        using okay_Ok [OF records_dispatch [OF laws] _ ran(1) [unfolded \<open>d = Ok ()\<close>]] rec
        by (simp add: rolls_recorded_state)
      then show ?thesis using ran(4) by (simp add: rolls_recorded_state recorded_def kss_core_def)
    qed
    with k' rec sf sep show ?thesis by simp
  qed
qed

lemma reachable_sound_files:
  assumes "reachable E H conf w" and laws: "keyset_laws E"
  shows "sound_files E H conf w"
  using assms(1)
proof induction
  case (created a b n st w w' path)
  note files = created_files [OF created(1,2,3)]
  have "recorded E (initial_state E n)"
    by (simp add: recorded_def initial_state_def keyset_laws_new [OF laws])
  moreover have "state_file (initial_config path) = path" by (simp add: initial_config_def)
  ultimately show ?case
    using files created(3,4,5) by (auto simp: sound_files_def holds_def)
next
  case (command w a b s cmd r t)
  from laws command(6,2-5) show ?case by (rule sound_files_command)
next
  case (outside w w')
  have "holds H conf w c k" if "holds H conf w' c k" for c k
    using that outside(2,3) by (auto simp: holds_def)
  with outside(4) show ?case by (auto simp: sound_files_def)
qed

text \<open>
  Property C7. In every reachable world, each key roll of the saved keyset has its entry in
  the record of propagation checks.
\<close>

theorem rolls_always_recorded:
  assumes "keyset_laws E" and "reachable E H conf w" and "holds H conf w c k"
  shows "fst ` set (ks_rollstates E (st_keyset k)) \<subseteq> dom (st_internal k)"
  using sound_filesD [OF reachable_sound_files [OF assms(2,1)] assms(3)]
  by (simp add: recorded_def rolls_def)

lemma quiet_load_locked: "quiet (load_locked H parse shown path)"
proof -
  have "\<not> is_panic (lock_loop at p ns)" for at p ns
    by (induction ns) (simp_all split: lock_attempt.split)
  then show ?thesis
    unfolding load_locked_def by (intro okays) (simp_all add: file_with_write_lock_def)
qed

lemma quiet_load_workspace: "quiet (load_workspace H a b conf)"
  unfolding load_workspace_def load_tsig_store_def
  by (intro okays quiet_load_locked) simp_all

lemma quiet_in_workspace:
  assumes "quiet m"
  shows "quiet (in_workspace mk m)"
proof (rule quietI)
  fix w
  have "fst (in_workspace mk m w) = fst (m (mk w))" by (simp add: in_workspace_def split: prod.split)
  with quietD [OF assms] show "\<not> is_panic (fst (in_workspace mk m w))" by simp
qed

lemma quiet_create: "quiet (create_command E H a b conf n st)"
proof -
  have wr: "quiet (write_to_new_and_rename json f)" for json f
    unfolding write_to_new_and_rename_def Let_def by (intro okays)
  show ?thesis
    unfolding create_command_def write_state_def write_config_def
    by (intro okays quiet_in_workspace wr) simp_all
qed

lemma run_loaded_panics:
  assumes laws: "keyset_laws E" and s: "rolls_recorded E s"
    and run: "run_loaded E H conf cmd s = (Panic p, t)"
  shows "other_panic p"
proof -
  let ?now = "faketime_or_now s"
  obtain d u where d: "dispatch E H conf ?now cmd s = (d, u)" by (cases "dispatch E H conf ?now cmd s")
  show ?thesis
  proof (cases d)
    case (Ok x)
    with d have "rolls_recorded E u" using okay_Ok [OF records_dispatch [OF laws] s] by blast
    moreover from run d Ok have "finish E H conf ?now u = (Panic p, t)"
      by (simp add: run_loaded_def gets_def thenP_def bindP_def)
    ultimately show ?thesis by (rule finish_panics)
  next
    case (Err e)
    with run d show ?thesis by (simp add: run_loaded_def gets_def thenP_def bindP_def)
  next
    case (Panic q)
    with run d have "q = p" by (simp add: run_loaded_def gets_def thenP_def bindP_def)
    with okay_Panic [OF records_dispatch [OF laws] s] d Panic show ?thesis by blast
  qed
qed

lemma keyset_run_loaded:
  "\<nexists>n st. cmd = CmdCreate n st \<Longrightarrow> keyset_run E H a b conf cmd =
     bindP (load_workspace H a b conf) (\<lambda>s. in_workspace (\<lambda>w. s\<lparr>ws_world := w\<rparr>) (run_loaded E H conf cmd))"
  by (cases cmd) simp_all

text \<open>
  Property C16. No command run in a reachable world ends the process because a roll has no
  entry in that record, neither in the automation, nor in \<open>status\<close>, nor when the next
  time for cron is computed.
\<close>

theorem commands_find_their_records:
  assumes laws: "keyset_laws E" and reach: "reachable E H conf w"
    and run: "keyset_run E H a b conf cmd w = (Panic p, w')"
  shows "p \<noteq> ''should not fail (internal)'' \<and> p \<noteq> ''should exist (internal)''"
proof -
  have "other_panic p"
  proof (cases "\<exists>n st. cmd = CmdCreate n st")
    case True
    with run show ?thesis by (auto elim: quietE [OF quiet_create])
  next
    case False
    obtain q v where load: "load_workspace H a b conf w = (q, v)" by (cases "load_workspace H a b conf w")
    show ?thesis
    proof (cases q)
      case (Ok s)
      with load have h: "holds H conf w (ws_config s) (ws_state s)" and w: "v = w" "s\<lparr>ws_world := w\<rparr> = s"
        by (auto simp: load_workspace_Ok workspace_def)
      from sound_filesD [OF reachable_sound_files [OF reach laws] h]
      have "rolls_recorded E s" by (simp add: rolls_recorded_state)
      moreover from run load Ok w obtain t where "run_loaded E H conf cmd s = (Panic p, t)"
        by (auto simp: keyset_run_loaded [OF False] bindP_def in_workspace_def split: prod.splits)
      ultimately show ?thesis by (rule run_loaded_panics [OF laws])
    next
      case (Err e)
      with run load show ?thesis by (simp add: keyset_run_loaded [OF False] bindP_def)
    next
      case (Panic q')
      with load show ?thesis by (auto elim: quietE [OF quiet_load_workspace])
    qed
  qed
  then show ?thesis by (simp add: other_panic_def missing_roll_def missing_status_def)
qed

section \<open>Witnesses\<close>

definition demo_created :: world where
  "demo_created = snd (keyset_run demo demo_host False False ''/c'' (CmdCreate ''example'' ''/s/new'') demo_world)"

lemma demo_create_runs:
  "keyset_run demo demo_host False False ''/c'' (CmdCreate ''example'' ''/s/new'') demo_world = (Ok (), demo_created)"
proof -
  have "fst (keyset_run demo demo_host False False ''/c'' (CmdCreate ''example'' ''/s/new'') demo_world) = Ok ()"
    by (simp add: create_command_def prog_eval bindP_def thenP_def lift_res_def in_workspace_def
        write_state_def write_config_def gets_def modify_def in_world_def
        write_succeeds workspace_def upd_state_def initial_config_def)
  then show ?thesis by (simp only: demo_created_def prod_eq_iff fst_conv snd_conv)
qed

lemma demo_new_separate: "separate ''/c'' ''/s/new''"
  by (simp add: separate_def)

lemma demo_reachable: "reachable demo demo_host ''/c'' demo_created"
  by (rule reachable.created [OF demo_create_runs _ demo_new_separate])
    (simp_all add: initial_config_def initial_state_def)

lemma demo_created_files: "w_files demo_created ''/c'' = Some ''N''" "w_files demo_created ''/s/new'' = Some ''I''"
  using created_files [OF demo_create_runs _ demo_new_separate]
  by (simp_all add: initial_config_def initial_state_def)

lemma demo_created_holds:
  "holds demo_host ''/c'' demo_created (initial_config ''/s/new'') (initial_state demo ''example'')"
  using demo_created_files by (simp add: holds_def initial_config_def)

lemma demo_starts_none [simp]:
  "starts_none demo (demo_add ty u p a n t)" "starts_none demo (demo_upd_key u f)"
  "starts_none demo (demo_step g r)"
proof -
  show "starts_none demo (demo_add ty u p a n t)"
    by (simp add: starts_none_def rolls_def demo_add_def)
  show "starts_none demo (demo_upd_key u f)"
    by (simp add: starts_none_def rolls_def demo_upd_key_def Let_def)
  show "starts_none demo (demo_step g r)"
    by (force simp: starts_none_def rolls_def demo_step_def split: option.split)
qed

lemma demo_keyset_laws: "keyset_laws demo"
proof -
  have del: "starts_none demo (ks_delete_key demo u)" for u
    by (simp add: starts_none_def rolls_def)
  have start: "case demo_start r old new k of
      (Inl e, k') \<Rightarrow> rolls demo k' \<subseteq> rolls demo k
    | (Inr acts, k') \<Rightarrow> rolls demo k' \<subseteq> insert r (rolls demo k)" for r old new k
    by (simp add: demo_start_def rolls_def)
  have fin: "case demo_done r k of
      (Inl e, k') \<Rightarrow> rolls demo k' \<subseteq> rolls demo k
    | (Inr acts, k') \<Rightarrow> rolls demo k' \<subseteq> rolls demo k - {r}" for r k
    by (auto simp: demo_done_def rolls_def split: option.split roll_state.split)
  have new: "rolls demo (ks_new demo n) = {}" for n by (simp add: rolls_def)
  from del start fin new show ?thesis by (simp add: keyset_laws_def)
qed

lemma rolls_always_recorded_witness:
  "fst ` set (ks_rollstates demo (st_keyset (initial_state demo ''example'')))
     \<subseteq> dom (st_internal (initial_state demo ''example''))"
  by (rule rolls_always_recorded [OF demo_keyset_laws demo_reachable demo_created_holds])

lemma demo_no_tsig: "load_tsig_store demo_host (initial_config p) w = (Ok [], w)"
  by (simp add: load_tsig_store_def initial_config_def ret_def tsig_store_new_def)

lemma demo_get_panics:
  "keyset_run demo demo_host False False ''/c'' (CmdGet GetDnskeyLifetime) demo_created =
     (Panic ''should not fail (span)'', demo_created)"
proof -
  have "load_workspace demo_host False False ''/c'' demo_created =
      (Ok (workspace (initial_config ''/s/new'') (initial_state demo ''example'') False False [] demo_created), demo_created)"
    unfolding load_workspace_Ok using demo_created_holds demo_no_tsig demo_host_lock by blast
  then show ?thesis
    by (simp add: bindP_def in_workspace_def run_loaded_def gets_def thenP_def dispatch_def print_span_def
        workspace_def initial_config_def FOUR_WEEKS_def from_secs_def expect_def panic_def)
qed

lemma commands_find_their_records_witness:
  "\<exists>p w'. keyset_run demo demo_host False False ''/c'' (CmdGet GetDnskeyLifetime) demo_created = (Panic p, w')
     \<and> p \<noteq> ''should not fail (internal)'' \<and> p \<noteq> ''should exist (internal)''"
proof (intro exI conjI)
  note found = commands_find_their_records [OF demo_keyset_laws demo_reachable demo_get_panics]
  show "keyset_run demo demo_host False False ''/c'' (CmdGet GetDnskeyLifetime) demo_created =
     (Panic ''should not fail (span)'', demo_created)" by (rule demo_get_panics)
  show "''should not fail (span)'' \<noteq> ''should not fail (internal)''" by (rule conjunct1 [OF found])
  show "''should not fail (span)'' \<noteq> ''should exist (internal)''" by (rule conjunct2 [OF found])
qed

end
