(* ===== verification/Program_Reachable.thy ===== *)
theory Program_Reachable
  imports Program_Correct Reachable
begin

text \<open>
  The keyset within the whole program: runs of any command refine the step relation of the keyset,
  as long as the other commands are not pointed at its two files. So what holds in every reachable
  world of \<open>keyset\<close> holds while its machine is used for everything else as well.
\<close>

section \<open>Runs that concern one keyset\<close>

text \<open>
  Another command may not name the configuration or the state file as a file to be overwritten; a
  command of the keyset keeps keys and credentials elsewhere, and serde reads back what it writes.
\<close>

definition fits_keyset :: "('l, 'ks) system \<Rightarrow> string \<Rightarrow> machine \<Rightarrow> command \<Rightarrow> bool" where
  "fits_keyset S conf c cmd \<longleftrightarrow>
     (case cmd of
        CmdKeyset q \<Rightarrow>
          ka_keyset_conf q = conf \<and> (\<nexists>n st. ka_cmd q = CmdCreate n st) \<and>
          (\<forall>s. load_workspace (sy_host S) (ka_cascade q) (ka_verbose q) conf (mc_world c) = (Ok s, mc_world c) \<longrightarrow>
             spares (sy_ext S) (sy_host S) conf (ka_cmd q) s \<and>
             readable (sy_host S) (snd (run_loaded (sy_ext S) (sy_host S) conf (ka_cmd q) s)))
      | _ \<Rightarrow> (\<exists>cfg k. holds (sy_host S) conf (mc_world c) cfg k \<and>
               written_paths S cmd \<inter> {conf, state_file cfg} = {}))"

lemma fits_other:
  assumes "fits_keyset S conf c cmd" and "\<nexists>q. cmd = CmdKeyset q"
  shows "\<exists>cfg k. holds (sy_host S) conf (mc_world c) cfg k \<and> written_paths S cmd \<inter> {conf, state_file cfg} = {}"
  using assms by (cases cmd) (auto simp: fits_keyset_def)

inductive session :: "('l, 'ks) system \<Rightarrow> string \<Rightarrow> machine \<Rightarrow> bool"
  for S :: "('l, 'ks) system" and conf :: string where
  started: "reachable (sy_ext S) (sy_host S) conf (mc_world c) \<Longrightarrow> session S conf c"
| run: "session S conf c \<Longrightarrow> dnst_run S argv c = Some (code, t) \<Longrightarrow>
     (\<And>a. parse_args (sy_tools S) (sy_clap S) argv = Some (Inr a) \<Longrightarrow> fits_keyset S conf c (ar_command a)) \<Longrightarrow>
     session S conf t"

section \<open>A run is a step of the keyset\<close>

lemma load_workspace_reads: "snd (load_workspace H a b conf w) = w"
proof -
  have locked: "unchanged (\<lambda>w. w) (load_locked H parse shown path)" for parse :: "string \<Rightarrow> string + 'b" and shown path
    unfolding load_locked_def by (intro unch)
  have "unchanged (\<lambda>w. w) (load_workspace H a b conf)"
    unfolding load_workspace_def load_tsig_store_def
    by (intro unchanged_bindP unchanged_thenP unchanged_pure unchanged_read_file locked)
      (auto split: option.split intro: locked unchanged_pure)
  then show ?thesis by (simp add: unchanged_def)
qed

lemma keyset_step:
  assumes reach: "reachable E H conf w" and cmd: "\<nexists>n st. cmd = CmdCreate n st"
    and fits: "\<And>s. load_workspace H a b conf w = (Ok s, w) \<Longrightarrow>
      spares E H conf cmd s \<and> readable H (snd (run_loaded E H conf cmd s))"
  shows "reachable E H conf (snd (keyset_run E H a b conf cmd w))"
proof -
  obtain q v where load: "load_workspace H a b conf w = (q, v)" by (cases "load_workspace H a b conf w")
  then have v: "v = w" using load_workspace_reads [of H a b conf w] by simp
  show ?thesis
  proof (cases q)
    case (Ok s)
    with load v have l: "load_workspace H a b conf w = (Ok s, w)" by simp
    then have s: "s\<lparr>ws_world := w\<rparr> = s" by (auto simp: load_workspace_Ok workspace_def)
    obtain r t where run: "run_loaded E H conf cmd s = (r, t)" by (cases "run_loaded E H conf cmd s")
    then have "snd (keyset_run E H a b conf cmd w) = ws_world t"
      using l s by (simp add: keyset_run_loaded [OF cmd] bindP_def in_workspace_def)
    moreover have "reachable E H conf (ws_world t)"
      using fits [OF l] run by (intro reachable.command [OF reach l _ run]) auto
    ultimately show ?thesis by simp
  qed (use load v reach in \<open>simp_all add: keyset_run_loaded [OF cmd] bindP_def\<close>)
qed

lemma other_step:
  assumes reach: "reachable E H conf w" and held: "holds H conf w cfg k"
    and same: "\<And>p. p \<in> {conf, state_file cfg} \<Longrightarrow> w_files w p \<noteq> None \<Longrightarrow> w_files v p = w_files w p"
  shows "reachable E H conf v"
proof (rule reachable.outside [OF reach])
  show "w_files v conf = w_files w conf" using held same [of conf] by (auto simp: holds_def)
  show "w_files v (state_file c) = w_files w (state_file c)"
    if "w_files w conf = Some x" "parse_config H x = Inr c" for x c
  proof -
    have "c = cfg" using held that by (auto simp: holds_def)
    then show ?thesis using held same [of "state_file cfg"] by (auto simp: holds_def)
  qed
qed

lemma execute_step:
  assumes reach: "reachable (sy_ext S) (sy_host S) conf (mc_world c)" and fits: "fits_keyset S conf c cmd"
    and run: "command_execute S F cmd c = Some (r, t)"
  shows "reachable (sy_ext S) (sy_host S) conf (mc_world t)"
proof (cases "\<exists>q. cmd = CmdKeyset q")
  case True
  then obtain q where q: "cmd = CmdKeyset q" ..
  with fits have conf: "ka_keyset_conf q = conf" "\<nexists>n st. ka_cmd q = CmdCreate n st" by (auto simp: fits_keyset_def)
  have "mc_world t = snd (keyset_run (sy_ext S) (sy_host S) (ka_cascade q) (ka_verbose q) conf (ka_cmd q) (mc_world c))"
    using run q conf(1) by (auto simp: keyset_command_def on_world_of_def split: prod.splits)
  with keyset_step [OF reach conf(2)] fits q show ?thesis by (simp add: fits_keyset_def)
next
  case False
  with fits obtain cfg k where held: "holds (sy_host S) conf (mc_world c) cfg k"
    and free: "written_paths S cmd \<inter> {conf, state_file cfg} = {}"
    using fits_other by blast
  show ?thesis
    by (rule other_step [OF reach held])
      (use command_keeps_files [OF run] free in \<open>auto simp: mc_files_world\<close>)
qed

lemma session_reachable:
  assumes "session S conf c"
  shows "reachable (sy_ext S) (sy_host S) conf (mc_world c)"
  using assms
proof induction
  case (run c argv code t)
  show ?case
  proof (cases "\<exists>argv0 rest a. argv = argv0 # rest \<and> parse_args (sy_tools S) (sy_clap S) argv = Some (Inr a)")
    case True
    then obtain argv0 rest a where argv: "argv = argv0 # rest"
      and a: "parse_args (sy_tools S) (sy_clap S) argv = Some (Inr a)" by blast
    let ?F = "log_format_of S argv0 (ar_verbosity a)"
    from run(2) a argv obtain out where ex: "command_execute S ?F (ar_command a) c = Some out"
      and t: "(code, t) = conclude (run_failed S ?F) out"
      by (auto simp: dnst_run_def execute_args_def Let_def simp del: split_paired_Ex)
    obtain r u where out: "out = (r, u)" by (cases out)
    from t have "mc_world t = mc_world u" by (cases r) (simp_all add: out conclude_def run_failed_def)
    with execute_step [OF run(4) run(3) [OF a] ex [unfolded out]] show ?thesis by simp
  next
    case False
    with run(2) have "mc_world t = mc_world c"
      by (auto simp: dnst_run_def run_failed_def split: list.splits option.splits sum.splits)
    with run(4) show ?thesis by simp
  qed
qed


end
