(* ===== verification/Program_Demo.thy ===== *)
theory Program_Demo
  imports Tools_Demo Program_Reachable
begin

text \<open>
  A concrete system and machine on which the theorems about the program as a whole apply.
\<close>

definition demo_clap :: "os_string list \<Rightarrow> clap_error + args" where
  "demo_clap argv =
     (if argv = [Unicode ''dnst'', Unicode ''key2ds'', Unicode ''none'']
      then Inr \<lparr>ar_command = CmdKey2ds (demo_key2ds\<lparr>kd_keyfile := ''none''\<rparr>), ar_verbosity = Some LvWarn\<rparr>
      else if argv = [Unicode ''dnst'', Unicode ''keygen'', Unicode ''example'']
      then Inr \<lparr>ar_command = CmdKeygen demo_keygen, ar_verbosity = None\<rparr>
      else Inl \<lparr>ce_exit_code = 2, ce_plain = ''usage'', ce_ansi = ''usage''\<rparr>)"

definition demo_system :: "(os_string list, demo_ks) system" where
  "demo_system =
     \<lparr>sy_tools = demo_tools, sy_ext = demo, sy_host = demo_host, sy_clap = demo_clap,
      sy_terminal = False, sy_colour = False\<rparr>"

definition demo_machine :: machine where
  "demo_machine = \<lparr>mc_desk = demo_desk, mc_stderr = [], mc_sent = []\<rparr>"

lemma demo_system_sel [simp]:
  "tl_lexer (sy_tools demo_system) = demo_lexer" "tl_keys (sy_tools demo_system) = demo_keys"
  "sy_clap demo_system = demo_clap" "sy_ext demo_system = demo" "sy_host demo_system = demo_host"
  "sy_terminal demo_system = False" "sy_colour demo_system = False"
  by (simp_all add: demo_system_def demo_tools_def)

lemma demo_machine_sel [simp]:
  "mc_desk demo_machine = demo_desk" "mc_world demo_machine = plain_world" "mc_stderr demo_machine = []"
  "mc_files demo_machine = [''/key'' \<mapsto> ''key'', ''/old'' \<mapsto> ''old'']"
  by (simp_all add: demo_machine_def mc_world_def mc_files_def d_files_def demo_desk_def plain_world_def)


text \<open>As \<open>dnst\<close> the command line goes to clap.\<close>

lemma demo_parse_dnst:
  "parse_args demo_tools demo_clap (Unicode ''dnst'' # args) =
     Some (case demo_clap (Unicode ''dnst'' # args) of Inl e \<Rightarrow> Inl (Failed (clap_failure e)) | Inr a \<Rightarrow> Inr a)"
proof -
  have "strip_prefix ''ldns-'' ''dnst'' = None" by (simp add: strip_prefix_def)
  then show ?thesis using binary_name_selects [of "''dnst''" "[]" "[]" demo_tools demo_clap args] by simp
qed

abbreviation no_key_line :: "os_string list" where
  "no_key_line \<equiv> [Unicode ''key2ds'', Unicode ''none'']"

lemma demo_no_key:
  "parse_args (sy_tools demo_system) demo_clap (Unicode ''dnst'' # no_key_line) =
     Some (Inr \<lparr>ar_command = CmdKey2ds (demo_key2ds\<lparr>kd_keyfile := ''none''\<rparr>), ar_verbosity = Some LvWarn\<rparr>)"
  using demo_parse_dnst [of no_key_line] by (simp add: demo_clap_def demo_system_def)

abbreviation no_key_error :: string where
  "no_key_error \<equiv> ''Failed to open public key file '' @ [CHR 0x22] @ ''none'' @ [CHR 0x22] @ '': No such file or directory''"

lemma demo_no_key_runs:
  "on_world_of (key2ds_execute demo_keys (demo_key2ds\<lparr>kd_keyfile := ''none''\<rparr>)) demo_machine = (Err no_key_error, demo_machine)"
proof -
  have "put_world plain_world demo_machine = demo_machine"
    by (simp add: put_world_def demo_machine_def demo_desk_def)
  moreover have "key2ds_execute demo_keys (demo_key2ds\<lparr>kd_keyfile := ''none''\<rparr>) plain_world = (Err no_key_error, plain_world)"
    by (simp add: key2ds_execute_def demo_key2ds_def demo_keys_def read_file_def fs_read_def plain_world_def
        bindP_def ENOENT_def)
  ultimately show ?thesis by (simp add: on_world_of_def)
qed

lemma demo_no_key_status:
  "\<exists>t. dnst_run demo_system (Unicode ''dnst'' # no_key_line) demo_machine = Some (1, t)"
  by (simp add: dnst_run_def demo_no_key execute_args_def Let_def demo_no_key_runs conclude_def run_failed_def
      exit_code_def error_new_def)

lemma run_outcome_witness:
  "\<exists>t. dnst_run demo_system (Unicode ''dnst'' # no_key_line) demo_machine = Some (1, t) \<and>
     mc_desk t = demo_desk \<and> mc_stderr t = ''[dnst] ERROR: '' @ no_key_error @ [CHR 0x0A, CHR 0x0A]"
proof -
  obtain t where t: "dnst_run demo_system (Unicode ''dnst'' # no_key_line) demo_machine = Some (1, t)"
    using demo_no_key_status by blast
  from run_outcome [OF t] t show ?thesis
    by (simp add: demo_no_key demo_no_key_runs format_event_def log_format_of_def)
qed


definition demo_format :: log_format where
  "demo_format = log_format_of demo_system (Unicode ''dnst'') (Some LvWarn)"

lemma key2ds_confirms_keygen_witness:
  "\<exists>t. command_execute demo_system demo_format (CmdKeygen demo_keygen) demo_machine = Some (Ok (), t) \<and>
     mc_files t (CHR ''/'' # nk_base demo_new_key @ ''.ds'') = Some (''example. IN DS 7 13 2 digest'' @ [CHR 0x0A]) \<and>
     command_execute demo_system demo_format (CmdKey2ds (show_ds_args True (nk_base demo_new_key @ ''.key''))) t =
       Some (Ok (), put_world (println ''DS'' (mc_world t)) t)"
proof -
  obtain d where "keygen_execute demo_keys demo_keygen demo_desk = (Ok (), d)"
    using keygen_files_witness by blast
  then obtain t where t: "command_execute demo_system demo_format (CmdKeygen demo_keygen) demo_machine = Some (Ok (), t)"
    by (simp add: on_desk_of_def)
  have ksk: "kg_make_ksk demo_keygen" by (simp add: demo_keygen_def)
  have inj: "inj (kt_in_cwd (tl_keys (sy_tools demo_system)))" using demo_inj by simp
  from key2ds_confirms_keygen [OF t ksk inj, of 3600] t show ?thesis
    by (auto simp: demo_keys_def Tools_Demo.demo_dnskey_def demo_keygen_def demo_new_key_def ECDSAP256SHA256_def)
qed

definition created_machine :: machine where
  "created_machine = \<lparr>mc_desk = \<lparr>dk_world = demo_created, dk_links = Map.empty\<rparr>, mc_stderr = [], mc_sent = []\<rparr>"

lemma created_machine_world [simp]: "mc_world created_machine = demo_created"
  by (simp add: created_machine_def mc_world_def)


end
