(* ===== verification/Spec2Isabelle.thy ===== *)
theory Spec2Isabelle
  imports Key_Lifecycle Program_Demo
begin

text \<open>
  Verification library for \<open>dnst\<close>: the DNSSEC key manager \<open>dnst keyset\<close>
  (src/commands/keyset/: cmd.rs, kmip.rs, tsig.rs), the zone signer (signzone.rs), dynamic
  updates (update.rs), NOTIFY (notify.rs), the key tools (keygen.rs, key2ds.rs, nsec3hash.rs),
  and the program around them (lib.rs, args.rs, error.rs, log.rs, parse.rs, util.rs,
  commands/mod.rs, env/real.rs, bin/ldns.rs).

  The program. Every command is a value that runs against an environment of files, streams and
  the network. \<open>dnst\<close> takes it from a regular command line; under a name \<open>ldns-x\<close> the arguments
  have the syntax of the ldns tool of that name. \<open>dnst keyset\<close> keeps the DNSSEC keys of one zone.
  A configuration file and a state file hold everything it knows: settings, the keyset with its
  keys and rolls, the signed DNSKEY and CDS RRsets, the DS RRset for the parent, and for every
  roll a record of what is known about propagation. A command locks and loads both files into a
  workspace, does its work, computes when \<open>cron\<close> has to run next, writes back what is marked as
  changed and may run the command that updates the DS records. A roll creates keys (files or keys
  in a KMIP server), moves through the steps of the keyset crate, and each step asks for actions:
  rebuild an RRset, or make sure that one has reached all nameservers. With automation on, \<open>cron\<close>
  starts rolls, checks propagation and moves rolls on by itself. \<open>dnst signzone\<close> loads a zone,
  adds keys and signatures at the apex, lists the names for NSEC3 comments, signs, computes ZONEMD
  digests and writes the zone in one of two layouts. \<open>dnst update\<close> finds the zone and its servers,
  builds an UPDATE message and offers it to one address after the other.

  How the parts correspond to the code.

    Prelude: results with errors and panics as values, programs as functions from a state to
    a result and a new state (the state is kept on errors, as a mutable reference is),
    loops over lists, frames, invariants and freedom from panics with their rules.

    Domain\_Api, Zone\_Api, Net\_Api: the types and operations of the crates domain, domain-kmip,
    url, jiff and lexopt that the code uses, gathered in the records \<open>ext\<close>, \<open>signer\<close>, \<open>net\<close>
    (and \<open>lexer\<close> in Cli, \<open>hasher\<close> in Nsec3\_Hash, \<open>key_tools\<close> in Key2ds). Nothing is assumed of
    them except by the named hypotheses of a theorem: \<open>keyset_laws\<close> in Roll\_Records states which
    operations of a keyset add, drop and keep rolls; \<open>zone_laws\<close>, \<open>sign_law\<close>, \<open>serial_laws\<close> and
    \<open>suffix_laws\<close> what a store of records, signing, serials and names do; \<open>lexer_laws\<close> that a
    parser of arguments makes progress; \<open>empty_rdlen\<close> that empty record data has length 0.

    World: files, the outcomes of file system operations, a stream of fresh values, the log
    of commands run; Config: \<open>KeySetConfig\<close>, \<open>AutoConfig\<close>, \<open>KeyParameters\<close>, the TSIG key
    store and the parsers of option values; Kmip: servers, credentials files, pools and
    labels (kmip.rs); Workspace: \<open>KeySetState\<close>, \<open>RollStateReport\<close>, \<open>WorkSpace\<close> and its accessors,
    and the creation of keys (\<open>new_keys\<close>, \<open>public_key_from_url\<close>, \<open>remove_key\<close>); Rrsets:
    \<open>update_dnskey_rrset\<close>, \<open>create_cds_rrset\<close>, \<open>update_ds_rrset\<close>, \<open>handle_actions\<close>; Rolls:
    \<open>start_ksk_roll\<close> and its siblings, the roll subcommands, \<open>auto_start\<close>, \<open>init\<close>; Key\_Admin:
    \<open>import\<close> and \<open>remove-key\<close>; Propagation: \<open>report_*_propagated\<close>, \<open>check_zone\<close> and what they
    call; Automation: \<open>auto_report_actions\<close>, \<open>auto_wait_actions\<close>, \<open>check_auto_actions\<close>, the
    schedules of \<open>cron\<close>, \<open>sig_renew\<close>; Kmip\_Commands: the \<open>kmip\<close> subcommands; Settings: locks,
    loading, writing by renaming, \<open>create\<close>, \<open>get\<close> and \<open>set\<close>; Reporting: \<open>status\<close>, \<open>actions\<close>,
    \<open>keys\<close> and \<open>show\<close>; Commands: \<open>Keyset::run\<close> as a whole.

    Logging: the error of the program with its contexts and how it is printed, log lines, the
    clock and the binding of a socket. Cli: numbers and values from the command line
    (\<open>parse_os_with\<close>), and the loop \<open>while let Some(arg) = parser.next()?\<close> of five \<open>ldns-\<close> parsers: a
    parser is the handler of one argument and a final step (\<open>x_arg\<close>, \<open>x_finish\<close>). The locale
    \<open>ldns_command\<close> states what a handler promises and is interpreted by each of the five commands.
    Dispatch: the name of the binary and the choice of the parser. Program: \<open>Command::execute\<close>
    over one \<open>machine\<close>, whose files, standard output and network every command shares through an
    embedding of its own state (\<open>on_desk_of\<close>, \<open>on_world_of\<close>, \<open>on_console_of\<close>), \<open>run\<close> with the exit
    status, and the testing binary \<open>ldns\<close>.

    Sign\_Zone: \<open>SignZone\<close>, loading, the SOA, keys and their roles, the apex, the list of hashed
    names, signing, ZONEMD; Sign\_Output: the layouts, comments, the RRSIG and NSEC3 items, warnings,
    buffered writing and \<open>execute\<close> as a whole; Sign\_Cli: \<open>ldns-signzone\<close>; Name\_Order: canonical orders of names.

    Tsig\_Option: \<open>TSigInfo::from_str\<close>; Update: options, prerequisites and the message, also of
    \<open>ldns-update\<close>; Update\_Print: \<open>update_to_dig_fmt\<close> and \<open>answer_to_dig_fmt\<close>; Update\_Run: the queries,
    the order of the servers, sending, and \<open>run\<close> of both commands; Notify: the command notify.
    The state of these is the record \<open>console\<close>: lines on stdout, lines and events for stderr, and
    the requests sent.

    Nsec3\_Hash, Key2ds, Keygen: the commands of these names; keygen works on a \<open>desk\<close>, the files
    of World together with symlinks, and holds the functions of util.rs.

  What the lemmas show.

    Key\_Files: fresh key tags, at most ten attempts, existing files are kept. Rrsets: which
    records and signatures the rebuilt RRsets hold. Key\_Lifecycle: a refused roll leaves no
    file behind, imports are consistent, removal protects active keys. Roll\_Records: a
    started roll has its record (\<open>recorded\<close>) and only labelled panics are left.
    Propagation\_Correct: what a DNSKEY report means. Zone\_Check: the walk over the zone
    agrees with testing each name against all delegations, and what a report means.
    Automation\_Correct: the three checks behind the locale \<open>checks\<close>, interpreted on the
    functions of the code; reports, schedules and their agreement. Kmip\_Commands: no panic,
    the default server is always configured, stored credentials are the ones used.
    Files\_Correct: locks, replacing a file, a command as a transaction on the two files,
    \<open>create\<close> followed by loading. Reachable: the inductive relation \<open>reachable\<close> (create, any
    command, any change to other files) and the invariant of the saved files.

    Sign\_Keys\_Correct: every key gets a role, the new serial is newer, which records and
    signatures the apex gets, a repeated key ends the process. Zonemd\_Correct: the digests in the written zone are the digests of that zone, and
    only the last of several signatures over them is kept. Hash\_List\_Correct: the names that are
    hashed. Sign\_Output\_Correct: no record is lost or written twice. Sign\_Command\_Correct: the
    file after a run, after a failure, and on a full disk. Update\_Correct: a server that reads a
    message by RFC 2136 sees what was asked for. Update\_Send\_Correct: bounds of serials and TTLs,
    the order of servers and requests for both commands behind the locale \<open>delivery\<close>, malformed
    and missing answers. Keygen\_Correct: which files
    are kept, filled, and left empty. Nsec3\_Hash, Key2ds, Notify, Tsig\_Option, Sign\_Cli and
    Dispatch prove the properties of their commands next to the definitions.

    Program\_Correct: every run ends, what the exit status says, which files a run leaves alone,
    that \<open>key2ds\<close> confirms the DS record of \<open>keygen\<close>, that the testing binary forwards.
    Program\_Reachable: runs of the whole program refine the relation \<open>reachable\<close> of the keyset.
    Demo, Sign\_Demo, Update\_Demo, Tools\_Demo and Program\_Demo are the concrete instances of the
    parameters on which the theorems are applied.

  Bounds and conventions. Key generation tries ten key tags and locking tries ten times, as
  the constants of the code say. The loop over arguments and the search for a prefix are
  partial functions with the value None where they do not return; that the first always
  returns, and when the second does, is proved. The buffer of a file holds 8192 bytes, the
  default of \<open>BufWriter\<close>. Numbers are kept at their width where the code depends on it (serials,
  timestamps, TTLs, the counter of the search) and wrap around as in a release build. A panic is
  a value with a label, the site in brackets. Maps with a random order (\<open>HashMap\<close>, \<open>HashSet\<close>)
  are maps or lists in some order given by a parameter. The network gives one answer per
  query during a command; a request may get another answer when it is sent again. Error texts
  are kept except for quotes around names and the final newline. After an error the workspace
  in memory is dropped, as \<open>Keyset::run\<close> returns.

  Not modelled. The serde readers and writers of the two files and of the TSIG store, jiff's
  and the \<open>Debug\<close> printers, and the indenting writer are arguments (the record \<open>host\<close>), as the
  sources only call them; so are the formatter of the domain crate and the parser that clap derives
  for the regular command line (\<open>sy_clap\<close>). Left out are directories and file permissions, what
  \<open>keyset\<close> logs and the other events below WARN, the message of a panic, and a stdout that cannot be
  written, which ends the process. Only \<open>keygen\<close> sees symlinks. The test double of the environment
  and the unreachable \<open>help\<close> command are not part of the library.
\<close>

end
